(* ===== verification/Prelude.thy ===== *)
theory Prelude
  imports Main "HOL-Library.Sublist"
begin

text \<open>
  Shared vocabulary of the development: the exceptions the server code throws, programs as
  state transformers that either return or throw (the state survives a throw, as the
  effects of an \<open>async\<close> method do), their Hoare triples, JavaScript's notion of
  a truthy string, and the row-level operations (select, update, delete) that the repository
  calls of the source reduce to.
\<close>

named_theorems prog_simps "evaluation equations of programs"
named_theorems hoare_intros "structural rules of Hoare triples"
named_theorems row_simps "facts about tables as lists of rows"

section \<open>Exceptions\<close>

text \<open>
  The exceptions of \<open>@nestjs/common\<close> that the source throws, the two errors of
  TypeORM that can reach it, and a plain JavaScript \<open>Error\<close>.
\<close>

datatype exn =
    BadRequestException string
  | UnauthorizedException string
  | ForbiddenException string
  | NotFoundException string
  | ConflictException string
  | ServiceUnavailableException string
  | QueryFailedError string
  | OptimisticLockVersionMismatchError
  | ErrorE string

section \<open>Programs\<close>

type_synonym ('w, 'a) prog = "'w \<Rightarrow> (exn + 'a) \<times> 'w"

definition ret :: "'a \<Rightarrow> ('w, 'a) prog" where
  "ret x w = (Inr x, w)"

definition throw :: "exn \<Rightarrow> ('w, 'a) prog" where
  "throw e w = (Inl e, w)"

definition await :: "('w, 'a) prog \<Rightarrow> ('a \<Rightarrow> ('w, 'b) prog) \<Rightarrow> ('w, 'b) prog" where
  "await m k w = (case m w of (r, w') \<Rightarrow> (case r of Inl e \<Rightarrow> (Inl e, w') | Inr x \<Rightarrow> k x w'))"

definition try_catch :: "('w, 'a) prog \<Rightarrow> (exn \<Rightarrow> ('w, 'a) prog) \<Rightarrow> ('w, 'a) prog" where
  "try_catch m h w = (case m w of (r, w') \<Rightarrow> (case r of Inl e \<Rightarrow> h e w' | Inr x \<Rightarrow> (Inr x, w')))"

definition gets :: "('w \<Rightarrow> 'a) \<Rightarrow> ('w, 'a) prog" where
  "gets f w = (Inr (f w), w)"

definition modify :: "('w \<Rightarrow> 'w) \<Rightarrow> ('w, unit) prog" where
  "modify f w = (Inr (), f w)"

definition when_do :: "bool \<Rightarrow> ('w, unit) prog \<Rightarrow> ('w, unit) prog" where
  "when_do b m = (if b then m else ret ())"

primrec for_each :: "'x list \<Rightarrow> ('x \<Rightarrow> ('w, unit) prog) \<Rightarrow> ('w, unit) prog" where
  "for_each [] f = ret ()"
| "for_each (x # xs) f = await (f x) (\<lambda>_. for_each xs f)"

lemmas prog_defs = ret_def throw_def await_def try_catch_def gets_def modify_def

declare ret_def [prog_simps] throw_def [prog_simps] await_def [prog_simps]
  try_catch_def [prog_simps] gets_def [prog_simps] modify_def [prog_simps]
  when_do_def [prog_simps]

lemma await_ret [simp]: "await (ret x) k = k x"
  by (rule ext) (simp add: prog_defs)

lemma await_throw [simp]: "await (throw e) k = throw e"
  by (rule ext) (simp add: prog_defs)

lemma await_ret_right [simp]: "await m ret = m"
  by (rule ext) (simp add: prog_defs split: prod.split sum.split)

lemma snd_await_ret [simp]: "snd (await m (\<lambda>x. ret (f x)) w) = snd (m w)"
  by (simp add: prog_defs split: prod.split sum.split)

lemma await_assoc: "await (await m k) h = await m (\<lambda>x. await (k x) h)"
  by (rule ext) (simp add: prog_defs split: prod.split sum.split)

lemma for_each_append:
  "for_each (xs @ ys) f = await (for_each xs f) (\<lambda>_. for_each ys f)"
  by (induction xs) (simp_all add: await_assoc)

lemma await_eq_Inr:
  "await m k w = (Inr y, w'') \<longleftrightarrow> (\<exists>x w'. m w = (Inr x, w') \<and> k x w' = (Inr y, w''))"
  by (auto simp: prog_defs split: prod.split sum.split)

lemma await_eq_InrE:
  assumes "await m k w = (Inr y, w'')"
  obtains x w' where "m w = (Inr x, w')" and "k x w' = (Inr y, w'')"
  using assms by (auto simp: await_eq_Inr)

section \<open>Hoare triples\<close>

text \<open>
  Precondition, program, postcondition of a normal return, postcondition of a throw.
\<close>

definition hoare ::
  "('w \<Rightarrow> bool) \<Rightarrow> ('w, 'a) prog \<Rightarrow> ('a \<Rightarrow> 'w \<Rightarrow> bool) \<Rightarrow> (exn \<Rightarrow> 'w \<Rightarrow> bool) \<Rightarrow> bool" where
  "hoare P m Q E \<longleftrightarrow>
     (\<forall>w. P w \<longrightarrow> (case m w of (r, w') \<Rightarrow> (case r of Inl e \<Rightarrow> E e w' | Inr x \<Rightarrow> Q x w')))"

abbreviation preserves :: "('w \<Rightarrow> bool) \<Rightarrow> ('w, 'a) prog \<Rightarrow> bool" where
  "preserves I m \<equiv> hoare I m (\<lambda>_. I) (\<lambda>_. I)"

lemma hoare_ret [hoare_intros]: "(\<And>w. P w \<Longrightarrow> Q x w) \<Longrightarrow> hoare P (ret x) Q E"
  by (simp add: hoare_def ret_def)

lemma hoare_throw [hoare_intros]: "(\<And>w. P w \<Longrightarrow> E e w) \<Longrightarrow> hoare P (throw e) Q E"
  by (simp add: hoare_def throw_def)

lemma hoare_gets [hoare_intros]: "(\<And>w. P w \<Longrightarrow> Q (f w) w) \<Longrightarrow> hoare P (gets f) Q E"
  by (simp add: hoare_def gets_def)

lemma hoare_modify [hoare_intros]: "(\<And>w. P w \<Longrightarrow> Q () (f w)) \<Longrightarrow> hoare P (modify f) Q E"
  by (simp add: hoare_def modify_def)

lemma hoare_await:
  assumes "hoare P m R E" and "\<And>x. hoare (R x) (k x) Q E"
  shows "hoare P (await m k) Q E"
proof -
  have "case await m k w of (r, w') \<Rightarrow> (case r of Inl e \<Rightarrow> E e w' | Inr x \<Rightarrow> Q x w')"
    if "P w" for w
  proof (cases "m w")
    case (Pair r w')
    with assms that show ?thesis
      unfolding hoare_def await_def by (cases r) (force split: prod.splits)+
  qed
  then show ?thesis by (simp add: hoare_def)
qed

lemma hoare_try_catch:
  assumes "hoare P m Q R" and "\<And>e. hoare (R e) (h e) Q E"
  shows "hoare P (try_catch m h) Q E"
proof -
  have "case try_catch m h w of (r, w') \<Rightarrow> (case r of Inl e \<Rightarrow> E e w' | Inr x \<Rightarrow> Q x w')"
    if "P w" for w
  proof (cases "m w")
    case (Pair r w')
    with assms that show ?thesis
      unfolding hoare_def try_catch_def by (cases r) (force split: prod.splits)+
  qed
  then show ?thesis by (simp add: hoare_def)
qed

lemma hoare_conseq:
  assumes "hoare P' m Q' E'" and "\<And>w. P w \<Longrightarrow> P' w"
    and "\<And>x w. Q' x w \<Longrightarrow> Q x w" and "\<And>e w. E' e w \<Longrightarrow> E e w"
  shows "hoare P m Q E"
  using assms unfolding hoare_def by (fastforce split: prod.splits sum.splits)

lemma preserves_await [hoare_intros]:
  "preserves I m \<Longrightarrow> (\<And>x. preserves I (k x)) \<Longrightarrow> preserves I (await m k)"
  by (rule hoare_await)

lemma preserves_try_catch [hoare_intros]:
  "preserves I m \<Longrightarrow> (\<And>e. preserves I (h e)) \<Longrightarrow> preserves I (try_catch m h)"
  by (rule hoare_try_catch)

lemma preserves_if [hoare_intros]:
  "(b \<Longrightarrow> preserves I m) \<Longrightarrow> (\<not> b \<Longrightarrow> preserves I n) \<Longrightarrow> preserves I (if b then m else n)"
  by simp

lemma preserves_when_do [hoare_intros]:
  "(b \<Longrightarrow> preserves I m) \<Longrightarrow> preserves I (when_do b m)"
  by (simp add: when_do_def hoare_ret)

lemma preserves_for_each [hoare_intros]:
  "(\<And>x. x \<in> set xs \<Longrightarrow> preserves I (f x)) \<Longrightarrow> preserves I (for_each xs f)"
  by (induction xs) (auto intro: hoare_ret hoare_await)

lemma preserves_case_option [hoare_intros]:
  "(x = None \<Longrightarrow> preserves I m) \<Longrightarrow> (\<And>y. x = Some y \<Longrightarrow> preserves I (n y)) \<Longrightarrow>
   preserves I (case x of None \<Rightarrow> m | Some y \<Rightarrow> n y)"
  by (cases x) auto

lemma preservesD: "preserves I m \<Longrightarrow> I w \<Longrightarrow> I (snd (m w))"
  by (cases "m w"; cases "fst (m w)") (force simp: hoare_def)+

lemma preservesI: "(\<And>w. I w \<Longrightarrow> I (snd (m w))) \<Longrightarrow> preserves I m"
  by (force simp: hoare_def split: prod.splits sum.splits)

lemma hoareD_Inr: "hoare P m Q E \<Longrightarrow> P w \<Longrightarrow> m w = (Inr x, w') \<Longrightarrow> Q x w'"
  by (auto simp: hoare_def dest!: spec [of _ w])

lemma hoareD_Inl: "hoare P m Q E \<Longrightarrow> P w \<Longrightarrow> m w = (Inl e, w') \<Longrightarrow> E e w'"
  by (auto simp: hoare_def dest!: spec [of _ w])

section \<open>Effect frames\<close>

text \<open>
  What a program may change, as a reflexive and transitive relation between the worlds before
  and after. A program stays within such a frame when its parts do.
\<close>

definition within :: "('w \<Rightarrow> 'w \<Rightarrow> bool) \<Rightarrow> ('w, 'a) prog \<Rightarrow> bool" where
  "within R m \<longleftrightarrow> (\<forall>w. R w (snd (m w)))"

locale effect_frame =
  fixes R :: "'w \<Rightarrow> 'w \<Rightarrow> bool"
  assumes refl: "R w w"
    and trans: "R w w' \<Longrightarrow> R w' w'' \<Longrightarrow> R w w''"
begin

lemma within_ret: "within R (ret x)"
  by (simp add: within_def ret_def refl)

lemma within_throw: "within R (throw e)"
  by (simp add: within_def throw_def refl)

lemma within_gets: "within R (gets f)"
  by (simp add: within_def gets_def refl)

lemma within_await:
  assumes "within R m" and "\<And>x. within R (k x)"
  shows "within R (await m k)"
proof -
  have "R w (snd (await m k w))" for w
  proof (cases "m w")
    case (Pair r w')
    with assms(1) have first: "R w w'" by (metis within_def snd_conv)
    show ?thesis
    proof (cases r)
      case (Inl e)
      with Pair first show ?thesis by (simp add: await_def)
    next
      case (Inr x)
      have "R w' (snd (k x w'))" using assms(2) by (simp add: within_def)
      with Pair Inr trans [OF first] show ?thesis by (simp add: await_def)
    qed
  qed
  then show ?thesis by (simp add: within_def)
qed

lemma within_try_catch:
  assumes "within R m" and "\<And>e. within R (h e)"
  shows "within R (try_catch m h)"
proof -
  have "R w (snd (try_catch m h w))" for w
  proof (cases "m w")
    case (Pair r w')
    with assms(1) have first: "R w w'" by (metis within_def snd_conv)
    show ?thesis
    proof (cases r)
      case (Inl e)
      have "R w' (snd (h e w'))" using assms(2) by (simp add: within_def)
      with Pair Inl trans [OF first] show ?thesis by (simp add: try_catch_def)
    next
      case (Inr x)
      with Pair first show ?thesis by (simp add: try_catch_def)
    qed
  qed
  then show ?thesis by (simp add: within_def)
qed

lemma within_if: "(b \<Longrightarrow> within R m) \<Longrightarrow> (\<not> b \<Longrightarrow> within R n) \<Longrightarrow> within R (if b then m else n)"
  by simp

lemma within_when_do: "(b \<Longrightarrow> within R m) \<Longrightarrow> within R (when_do b m)"
  by (simp add: when_do_def within_ret)

lemma within_case_option:
  "within R m \<Longrightarrow> (\<And>y. within R (n y)) \<Longrightarrow> within R (case x of None \<Rightarrow> m | Some y \<Rightarrow> n y)"
  by (cases x) auto

lemma within_for_each:
  "(\<And>x. x \<in> set xs \<Longrightarrow> within R (f x)) \<Longrightarrow> within R (for_each xs f)"
  by (induction xs) (auto intro: within_ret within_await)

lemmas within_intros =
  within_ret within_throw within_gets within_await within_try_catch within_if within_when_do
  within_case_option within_for_each

end

lemma withinI: "(\<And>w. R w (snd (m w))) \<Longrightarrow> within R m"
  by (simp add: within_def)

lemma withinD: "within R m \<Longrightarrow> R w (snd (m w))"
  by (simp add: within_def)

lemma withinD_eq: "within R m \<Longrightarrow> m w = (r, w') \<Longrightarrow> R w w'"
  by (metis within_def snd_conv)

lemma within_mono: "within R m \<Longrightarrow> (\<And>w w'. R w w' \<Longrightarrow> S w w') \<Longrightarrow> within S m"
  by (simp add: within_def)

lemma within_preserves_rule:
  "within R m \<Longrightarrow> (\<And>w w'. I w \<Longrightarrow> R w w' \<Longrightarrow> I w') \<Longrightarrow> preserves I m"
  by (rule preservesI) (simp add: within_def)

section \<open>JavaScript values\<close>

text \<open>
  A property of a request body is absent (\<open>undefined\<close>), \<open>null\<close> or a value; the
  update handlers tell the three apart. Only the empty string and the absent string are falsy.
\<close>

datatype 'a js = Undefined | Null | Value 'a

fun nullable :: "'a js \<Rightarrow> 'a option \<Rightarrow> 'a option" where
  \<comment> \<open>\<open>if (x !== undefined) column = x\<close> for a nullable column\<close>
  "nullable Undefined old = old"
| "nullable Null old = None"
| "nullable (Value x) old = Some x"

fun set_required :: "string js \<Rightarrow> string \<Rightarrow> string option" where
  \<comment> \<open>the same for a column that cannot be null: the save refuses a null\<close>
  "set_required Undefined old = Some old"
| "set_required Null old = None"
| "set_required (Value x) old = Some x"

fun truthy :: "string option \<Rightarrow> bool" where
  "truthy None = False"
| "truthy (Some s) = (s \<noteq> [])"

fun js_truthy :: "string js \<Rightarrow> bool" where
  "js_truthy (Value s) = (s \<noteq> [])"
| "js_truthy _ = False"

fun or_str :: "string option \<Rightarrow> string \<Rightarrow> string" where
  "or_str (Some s) d = (if s \<noteq> [] then s else d)"
| "or_str None d = d"

text \<open>The chain \<open>a || b || c\<close> over optional strings, up to falsiness.\<close>

fun first_truthy :: "string option list \<Rightarrow> string option" where
  "first_truthy [] = None"
| "first_truthy (x # xs) = (if truthy x then x else first_truthy xs)"

lemma first_truthy_SomeD: "first_truthy xs = Some s \<Longrightarrow> s \<noteq> [] \<and> Some s \<in> set xs"
  by (induction xs) (auto split: if_splits)

lemma first_truthy_hd: "s \<noteq> [] \<Longrightarrow> first_truthy (Some s # xs) = Some s"
  by simp

text \<open>Ids issued so far come from the first draws; a later draw gives a new one.\<close>

lemma fresh_id:
  fixes f :: "nat \<Rightarrow> 'i"
  assumes "inj f" and "A \<subseteq> f ` {..<n}" and "n \<le> k"
  shows "f k \<notin> A"
proof
  assume "f k \<in> A"
  with assms(2) obtain m where "f k = f m" and "m < n" by auto
  with assms(1,3) show False by (auto dest: injD)
qed

text \<open>A number in a template literal.\<close>

fun show_nat :: "nat \<Rightarrow> string" where
  "show_nat n =
     (if n < 10 then [char_of (48 + n)] else show_nat (n div 10) @ [char_of (48 + n mod 10)])"

declare show_nat.simps [simp del]

definition show_int :: "int \<Rightarrow> string" where
  "show_int i = (if i < 0 then CHR ''-'' # show_nat (nat (- i)) else show_nat (nat i))"

section \<open>Tables\<close>

text \<open>
  A table is the list of its rows. A query with no \<open>ORDER BY\<close> returns its matches in
  an order the database chooses; \<open>pick n\<close> is the position of the one it delivers
  first among \<open>n\<close> matches.
\<close>

definition find_one :: "(nat \<Rightarrow> nat) \<Rightarrow> ('r \<Rightarrow> bool) \<Rightarrow> 'r list \<Rightarrow> 'r option" where
  "find_one pick p rows =
     (let ms = filter p rows
      in if ms = [] then None else Some (ms ! (pick (length ms) mod length ms)))"

definition update_rows :: "('r \<Rightarrow> bool) \<Rightarrow> ('r \<Rightarrow> 'r) \<Rightarrow> 'r list \<Rightarrow> 'r list" where
  "update_rows p f rows = map (\<lambda>r. if p r then f r else r) rows"

definition delete_rows :: "('r \<Rightarrow> bool) \<Rightarrow> 'r list \<Rightarrow> 'r list" where
  "delete_rows p rows = filter (\<lambda>r. \<not> p r) rows"

definition order_asc :: "('r \<Rightarrow> int) \<Rightarrow> 'r list \<Rightarrow> 'r list" where
  "order_asc key rows = sort_key key rows"

definition order_desc :: "('r \<Rightarrow> int) \<Rightarrow> 'r list \<Rightarrow> 'r list" where
  "order_desc key rows = sort_key (\<lambda>r. - key r) rows"

text \<open>
  The contract of a single-row lookup. Every client of a \<open>findOne\<close> uses these two
  laws only, never the choice behind them.
\<close>

locale row_lookup =
  fixes look :: "('r \<Rightarrow> bool) \<Rightarrow> 'r list \<Rightarrow> 'r option"
  assumes look_SomeD: "look p rows = Some r \<Longrightarrow> r \<in> set rows \<and> p r"
    and look_None: "look p rows = None \<longleftrightarrow> (\<forall>r \<in> set rows. \<not> p r)"
begin

lemma look_ex: "r \<in> set rows \<Longrightarrow> p r \<Longrightarrow> \<exists>r'. look p rows = Some r'"
  using look_None by (metis option.exhaust)

lemma look_unique:
  assumes "r \<in> set rows" and "p r" and "\<And>r'. r' \<in> set rows \<Longrightarrow> p r' \<Longrightarrow> r' = r"
  shows "look p rows = Some r"
proof (cases "look p rows")
  case None
  with assms(1,2) show ?thesis by (simp add: look_None)
next
  case (Some r')
  with look_SomeD [OF Some] assms(3) show ?thesis by simp
qed

lemma look_by_key:
  assumes "distinct (map key rows)" and "r \<in> set rows" and "p r"
    and "\<And>r'. p r' \<Longrightarrow> key r' = key r"
  shows "look p rows = Some r"
proof (rule look_unique)
  show "r \<in> set rows" and "p r" by (rule assms)+
  fix r'
  assume "r' \<in> set rows" and "p r'"
  with assms(2,4) assms(1) [unfolded distinct_map] show "r' = r"
    by (auto dest: inj_onD)
qed

lemma look_is_Some: "look p rows \<noteq> None \<longleftrightarrow> (\<exists>r \<in> set rows. p r)"
  by (simp add: look_None)

end

lemma find_one_SomeD: "find_one pick p rows = Some r \<Longrightarrow> r \<in> set rows \<and> p r"
proof -
  assume found: "find_one pick p rows = Some r"
  let ?ms = "filter p rows"
  from found have ne: "?ms \<noteq> []" and r: "r = ?ms ! (pick (length ?ms) mod length ?ms)"
    by (auto simp: find_one_def Let_def split: if_splits)
  from ne have "pick (length ?ms) mod length ?ms < length ?ms"
    by simp
  with r have "r \<in> set ?ms" by (simp only: nth_mem)
  then show ?thesis by simp
qed

lemma find_one_None: "find_one pick p rows = None \<longleftrightarrow> (\<forall>r \<in> set rows. \<not> p r)"
  by (auto simp: find_one_def Let_def filter_empty_conv)

interpretation fo: row_lookup "find_one pick" for pick
proof
  show "find_one pick p rows = Some r \<Longrightarrow> r \<in> set rows \<and> p r"
    for p :: "'a \<Rightarrow> bool" and rows r
    by (rule find_one_SomeD)
  show "find_one pick p rows = None \<longleftrightarrow> (\<forall>r \<in> set rows. \<not> p r)"
    for p :: "'a \<Rightarrow> bool" and rows
    by (rule find_one_None)
qed

lemma find_one_Nil [simp]: "find_one pick p [] = None"
  by (simp add: find_one_def)

lemma find_append: "find P (xs @ ys) = (case find P xs of None \<Rightarrow> find P ys | Some x \<Rightarrow> Some x)"
  by (induction xs) auto

lemma set_update_rows: "set (update_rows p f rows) = (\<lambda>r. if p r then f r else r) ` set rows"
  by (simp add: update_rows_def)

lemma update_rows_mem: "r \<in> set rows \<Longrightarrow> p r \<Longrightarrow> f r \<in> set (update_rows p f rows)"
  unfolding set_update_rows by (rule image_eqI [of _ _ r]) simp_all

lemma map_update_rows [row_simps]:
  "(\<And>r. p r \<Longrightarrow> key (f r) = key r) \<Longrightarrow> map key (update_rows p f rows) = map key rows"
  by (induction rows) (auto simp: update_rows_def)

lemma update_rows_none: "(\<And>r. r \<in> set rows \<Longrightarrow> \<not> p r) \<Longrightarrow> update_rows p f rows = rows"
  by (induction rows) (auto simp: update_rows_def)

lemma set_delete_rows [row_simps]: "set (delete_rows p rows) = {r \<in> set rows. \<not> p r}"
  by (auto simp: delete_rows_def)

lemma distinct_map_delete_rows [row_simps]:
  "distinct (map key rows) \<Longrightarrow> distinct (map key (delete_rows p rows))"
  by (simp add: delete_rows_def distinct_map_filter)

lemma length_update_rows [simp]: "length (update_rows p f rows) = length rows"
  by (simp add: update_rows_def)

lemma set_order [simp]:
  "set (order_asc key rows) = set rows" "set (order_desc key rows) = set rows"
  by (simp_all add: order_asc_def order_desc_def)

lemma order_desc_sorted: "sorted (map (\<lambda>r. - key r) (order_desc key rows))"
  by (simp add: order_desc_def)

lemma order_asc_sorted: "sorted (map key (order_asc key rows))"
  by (simp add: order_asc_def)

end
