(* ===== verification/Entities.thy ===== *)
theory Entities
  imports Prelude
begin

text \<open>
  The data model: one record per entity class of \<open>src/src/database/entities\<close>, in
  the order of their columns (relations are the foreign keys, their objects are joined on
  read), the job and message types, the world (database tables, Redis keys, queued jobs,
  sockets, clock, and which services can be reached) and the platform (everything the server calls that is not its own code).
  The referential actions of the entities' \<open>onDelete\<close> options are the cascade
  functions at the end.
\<close>

section \<open>Entities\<close>

record user =
  user_id :: string
  user_email :: string
  user_password :: "string option"
  user_name :: string
  user_avatar :: "string option"
  user_isVerified :: bool
  user_createdAt :: int
  user_updatedAt :: int

record user_session =
  session_id :: string
  session_userId :: string
  session_tokenHash :: string
  session_deviceFingerprint :: "string option"
  session_ipAddress :: "string option"
  session_expiresAt :: int
  session_isRevoked :: bool
  session_createdAt :: int
  session_updatedAt :: int

record workspace =
  workspace_id :: string
  workspace_name :: string
  workspace_slug :: string
  workspace_ownerId :: string
  workspace_createdAt :: int
  workspace_updatedAt :: int

record workspace_member =
  member_workspaceId :: string
  member_userId :: string
  member_role :: string
  member_createdAt :: int
  member_updatedAt :: int

record project =
  project_id :: string
  project_workspaceId :: string
  project_name :: string
  project_description :: "string option"
  project_status :: string
  project_createdAt :: int
  project_updatedAt :: int

record attachment =
  att_name :: string
  att_url :: string
  att_size :: int
  att_mimeType :: string

record task =
  task_id :: string
  task_workspaceId :: string
  task_projectId :: string
  task_parentTaskId :: "string option"
  task_title :: string
  task_description :: "string option"
  task_status :: string
  task_priority :: string
  task_assignedTo :: "string option"
  task_dueDate :: "int option"
  task_createdBy :: string
  task_completedAt :: "int option"
  task_labels :: "string list option"
  task_attachments :: "attachment list option"
  task_version :: nat
  task_deletedAt :: "int option"
  task_createdAt :: int
  task_updatedAt :: int

record task_comment =
  comment_id :: string
  comment_taskId :: string
  comment_userId :: string
  comment_message :: string
  comment_createdAt :: int
  comment_updatedAt :: int

record activity =
  activity_id :: string
  activity_workspaceId :: string
  activity_entityType :: string
  activity_entityId :: string
  activity_action :: string
  activity_performedBy :: string
  activity_createdAt :: int

record notification =
  notification_id :: string
  notification_userId :: string
  notification_type :: string
  notification_title :: string
  notification_message :: string
  notification_isRead :: bool
  notification_createdAt :: int

record reminder =
  reminder_id :: string
  reminder_taskId :: string
  reminder_scheduledAt :: int
  reminder_status :: string
  reminder_createdAt :: int

section \<open>JSON, jobs and socket messages\<close>

datatype json =
    JNull
  | JBool bool
  | JNum int
  | JStr string
  | JArr "json list"
  | JObj "(string \<times> json) list"

fun json_opt :: "('a \<Rightarrow> json) \<Rightarrow> 'a option \<Rightarrow> json" where
  "json_opt f None = JNull"
| "json_opt f (Some x) = f x"

record audit_log =
  audit_id :: string
  audit_action :: string
  audit_userId :: "string option"
  audit_payload :: json
  audit_createdAt :: int

text \<open>A BullMQ job: its queue, name, data and the options the source passes.\<close>

datatype job_data =
    AuditData string "string option" json
      \<comment> \<open>action, userId, payload\<close>
  | ActivityData string string string string string
      \<comment> \<open>workspaceId, entityType, entityId, action, performedBy\<close>
  | PushData string string string string string
      \<comment> \<open>notificationId, userId, type, title, message\<close>
  | EmailTextData string string string
      \<comment> \<open>userId, subject, text\<close>
  | VerificationData string string string
      \<comment> \<open>email, name, code\<close>
  | PasswordResetData string string
      \<comment> \<open>email, code\<close>
  | ReminderData string string "string option" string int
      \<comment> \<open>reminderId, taskId, userId, milestone, dueDate\<close>

record job =
  job_queue :: string
  job_name :: string
  job_data :: job_data
  job_attempts :: nat
  job_backoff :: "nat option"
    \<comment> \<open>delay of the exponential backoff in milliseconds\<close>

datatype payload =
    TaskPayload task
  | TaskDeletedPayload string string int
      \<comment> \<open>id, status, deletedAt\<close>
  | NotificationPayload notification
  | CommentPayload task_comment "user option"
  | MemberPayload string string user
      \<comment> \<open>workspaceId, role, user\<close>

record socket =
  socket_id :: string
  socket_userId :: "string option"
  socket_email :: "string option"
  socket_rooms :: "string list"
  socket_connected :: bool

text \<open>A broadcast, with the ids of the sockets that were in the room when it was made.\<close>

record emission =
  em_room :: string
  em_event :: string
  em_payload :: payload
  em_recipients :: "string list"

section \<open>Cached values\<close>

text \<open>
  A task as \<open>findOne\<close> with relations returns it (assignee and creator joined), and one
  page of a task list.
\<close>

record task_view =
  view_task :: task
  view_assignee :: "user option"
  view_creator :: "user option"

record task_page =
  page_items :: "(task \<times> user option) list"
  page_total :: nat
  page_page :: int
  page_limit :: int
  page_totalPages :: int

datatype cache_value =
    CWorkspace workspace "user option"
  | CProjects "project list"
  | CTask task_view
  | CTaskPage task_page

section \<open>Platform\<close>

record jwt_payload =
  jwt_userId :: string
  jwt_email :: string

text \<open>
  Everything outside the repository: PostgreSQL's choice among unordered matches, UUIDs
  and random bytes (the n-th draw), bcrypt, SHA-256, JSON web tokens, class-validator's
  string formats, date parsing, Redis'
  glob matching, PostgreSQL's full text search, the S3 presigner and the environment
  variables.
\<close>

record platform =
  pf_pick :: "nat \<Rightarrow> nat"
  pf_uuid :: "nat \<Rightarrow> string"
  pf_randomHex :: "nat \<Rightarrow> string"
  pf_genSalt :: "nat \<Rightarrow> string"
  pf_bcryptHash :: "string \<Rightarrow> string \<Rightarrow> string"
  pf_bcryptCompare :: "string \<Rightarrow> string \<Rightarrow> bool"
  pf_sha256 :: "string \<Rightarrow> string"
  pf_jwtSign :: "string \<Rightarrow> string \<Rightarrow> jwt_payload \<Rightarrow> int \<Rightarrow> string"
    \<comment> \<open>secret, expiresIn, claims, time of issue in seconds\<close>
  pf_jwtVerify :: "string \<Rightarrow> string \<Rightarrow> int \<Rightarrow> jwt_payload option"
    \<comment> \<open>secret, token, time in seconds\<close>
  pf_jwtExp :: "string \<Rightarrow> int"
  pf_parseDate :: "string \<Rightarrow> int"
  pf_isUUID :: "string \<Rightarrow> bool"
  pf_isDateString :: "string \<Rightarrow> bool"
  pf_isEmail :: "string \<Rightarrow> bool"
    \<comment> \<open>the validators of class-validator\<close>
  pf_toISOString :: "int \<Rightarrow> string"
  pf_glob :: "string \<Rightarrow> string \<Rightarrow> bool"
    \<comment> \<open>pattern, key\<close>
  pf_fullText :: "string \<Rightarrow> string \<Rightarrow> bool"
    \<comment> \<open>document, query\<close>
  pf_titleRank :: "string \<Rightarrow> int"
    \<comment> \<open>place of a string in the database's collation\<close>
  pf_presign :: "string \<Rightarrow> string \<Rightarrow> string \<Rightarrow> string option \<Rightarrow> nat \<Rightarrow> string"
    \<comment> \<open>command, bucket, key, content type, lifetime in seconds\<close>
  pf_pipeMessage :: "string list \<Rightarrow> string"
    \<comment> \<open>the validation pipe's message for a body with these properties\<close>
  pf_addHours :: "int \<Rightarrow> int \<Rightarrow> int"
    \<comment> \<open>\<open>Date.setHours(getHours() + h)\<close> in the server's time zone\<close>
  pf_addDays :: "int \<Rightarrow> int \<Rightarrow> int"
    \<comment> \<open>\<open>Date.setDate(getDate() + d)\<close>, likewise\<close>
  pf_env :: "string \<Rightarrow> string option"

section \<open>World\<close>

record world =
  users :: "user list"
  sessions :: "user_session list"
  workspaces :: "workspace list"
  members :: "workspace_member list"
  projects :: "project list"
  tasks :: "task list"
  comments :: "task_comment list"
  activities :: "activity list"
  notifications :: "notification list"
  reminders :: "reminder list"
  auditLogs :: "audit_log list"
  cache :: "string \<Rightarrow> (cache_value \<times> int) option"
    \<comment> \<open>value and expiry\<close>
  jobs :: "job list"
  sockets :: "socket list"
  emitted :: "emission list"
  redisUp :: bool
  queueUp :: "string \<Rightarrow> bool"
    \<comment> \<open>whether Redis and each job queue can be reached\<close>
  clock :: int
    \<comment> \<open>milliseconds since the epoch\<close>
  draws :: nat
    \<comment> \<open>number of random draws made\<close>

type_synonym 'a svc = "(world, 'a) prog"

definition empty_world :: world where
  "empty_world = \<lparr>users = [], sessions = [], workspaces = [], members = [], projects = [],
     tasks = [], comments = [], activities = [], notifications = [], reminders = [],
     auditLogs = [], cache = (\<lambda>_. None), jobs = [], sockets = [], emitted = [], redisUp = True, queueUp = (\<lambda>_. True), clock = 0,
     draws = 0\<rparr>"

definition new_date :: "int svc" where
  "new_date = gets clock"

definition draw :: "(nat \<Rightarrow> 'a) \<Rightarrow> 'a svc" where
  "draw f = (\<lambda>w. (Inr (f (draws w)), w\<lparr>draws := Suc (draws w)\<rparr>))"

definition gen_uuid :: "platform \<Rightarrow> string svc" where
  "gen_uuid pf = draw (pf_uuid pf)"

lemma new_date_eval [prog_simps]: "new_date w = (Inr (clock w), w)"
  by (simp add: new_date_def gets_def)

lemma draw_eval [prog_simps]: "draw f w = (Inr (f (draws w)), w\<lparr>draws := Suc (draws w)\<rparr>)"
  by (simp add: draw_def)

lemma gen_uuid_eval [prog_simps]:
  "gen_uuid pf w = (Inr (pf_uuid pf (draws w)), w\<lparr>draws := Suc (draws w)\<rparr>)"
  by (simp add: gen_uuid_def draw_def)

text \<open>A column with a foreign key: the referenced row has to be there.\<close>

definition user_exists :: "string \<Rightarrow> world \<Rightarrow> bool" where
  "user_exists u w \<longleftrightarrow> (\<exists>r \<in> set (users w). user_id r = u)"

definition workspace_exists :: "string \<Rightarrow> world \<Rightarrow> bool" where
  "workspace_exists i w \<longleftrightarrow> (\<exists>r \<in> set (workspaces w). workspace_id r = i)"

definition project_exists :: "string \<Rightarrow> world \<Rightarrow> bool" where
  "project_exists i w \<longleftrightarrow> (\<exists>r \<in> set (projects w). project_id r = i)"

definition task_exists :: "string \<Rightarrow> world \<Rightarrow> bool" where
  "task_exists i w \<longleftrightarrow> (\<exists>r \<in> set (tasks w). task_id r = i)"

fun fk_null :: "(string \<Rightarrow> world \<Rightarrow> bool) \<Rightarrow> string option \<Rightarrow> world \<Rightarrow> bool" where
  "fk_null ex None w = True"
| "fk_null ex (Some i) w = ex i w"

lemmas exists_defs = user_exists_def workspace_exists_def project_exists_def task_exists_def

text \<open>\<open>@Column({ select: false })\<close>: a default read leaves the password out.\<close>

definition hide_password :: "user \<Rightarrow> user" where
  "hide_password u = u\<lparr>user_password := None\<rparr>"

definition find_user :: "platform \<Rightarrow> string \<Rightarrow> world \<Rightarrow> user option" where
  "find_user pf i w = map_option hide_password (find_one (pf_pick pf) (\<lambda>u. user_id u = i) (users w))"

section \<open>Referential actions\<close>

text \<open>
  Deleting rows of \<open>tasks\<close> deletes their subtasks (\<open>parentTask\<close>, CASCADE), theirs,
  and so on: each round removes the children of the rows removed in the round before.
\<close>

function cascade_tasks :: "(task \<Rightarrow> bool) \<Rightarrow> task list \<Rightarrow> task list" where
  "cascade_tasks dead ts =
     (let gone = filter dead ts; kept = filter (\<lambda>t. \<not> dead t) ts
      in if gone = [] then kept
         else cascade_tasks
                (\<lambda>t. \<exists>g \<in> set gone. task_parentTaskId t = Some (task_id g)) kept)"
  by pat_completeness auto
termination
proof (relation "measure (\<lambda>(dead, ts). length ts)")
  fix dead :: "task \<Rightarrow> bool" and ts gone kept
  assume "gone = filter dead ts" and "kept = filter (\<lambda>t. \<not> dead t) ts" and "gone \<noteq> []"
  then obtain t where "t \<in> set ts" and "dead t"
    by (auto simp: filter_empty_conv)
  then have "length (filter (\<lambda>t. \<not> dead t) ts) < length ts"
    by (intro length_filter_less) auto
  with \<open>kept = _\<close>
  show "((\<lambda>t. \<exists>g \<in> set gone. task_parentTaskId t = Some (task_id g), kept), dead, ts)
      \<in> measure (\<lambda>(dead, ts). length ts)"
    by simp
qed simp

declare cascade_tasks.simps [simp del]

definition orphan_free :: "task list \<Rightarrow> world \<Rightarrow> world" where
  \<comment> \<open>comments and reminders of deleted tasks go with them\<close>
  "orphan_free ts w =
     w\<lparr>tasks := ts,
       comments := filter (\<lambda>c. comment_taskId c \<in> task_id ` set ts) (comments w),
       reminders := filter (\<lambda>r. reminder_taskId r \<in> task_id ` set ts) (reminders w)\<rparr>"

definition cascade_project :: "string \<Rightarrow> world \<Rightarrow> world" where
  "cascade_project pid w =
     orphan_free (cascade_tasks (\<lambda>t. task_projectId t = pid) (tasks w))
       (w\<lparr>projects := delete_rows (\<lambda>p. project_id p = pid) (projects w)\<rparr>)"

definition cascade_workspace :: "string \<Rightarrow> world \<Rightarrow> world" where
  "cascade_workspace wid w =
     (let ps = map project_id (filter (\<lambda>p. project_workspaceId p = wid) (projects w))
      in orphan_free
           (cascade_tasks (\<lambda>t. task_workspaceId t = wid \<or> task_projectId t \<in> set ps) (tasks w))
           (w\<lparr>workspaces := delete_rows (\<lambda>x. workspace_id x = wid) (workspaces w),
              members := delete_rows (\<lambda>m. member_workspaceId m = wid) (members w),
              projects := delete_rows (\<lambda>p. project_workspaceId p = wid) (projects w),
              activities := delete_rows (\<lambda>a. activity_workspaceId a = wid) (activities w)\<rparr>))"

lemma cascade_tasks_subset: "set (cascade_tasks dead ts) \<subseteq> set ts"
proof (induction dead ts rule: cascade_tasks.induct)
  case (1 dead ts)
  show ?case
  proof (cases "filter dead ts = []")
    case True
    then show ?thesis by (subst cascade_tasks.simps) (auto simp: Let_def)
  next
    case False
    with 1 show ?thesis by (subst cascade_tasks.simps) (auto simp: Let_def)
  qed
qed

lemma cascade_tasks_not_dead: "t \<in> set (cascade_tasks dead ts) \<Longrightarrow> \<not> dead t"
proof (induction dead ts rule: cascade_tasks.induct)
  case (1 dead ts)
  then show ?case
    using cascade_tasks_subset
    by (subst (asm) (2) cascade_tasks.simps) (fastforce simp: Let_def split: if_splits)
qed

lemma cascade_tasks_distinct:
  "distinct (map task_id ts) \<Longrightarrow> distinct (map task_id (cascade_tasks dead ts))"
proof (induction dead ts rule: cascade_tasks.induct)
  case (1 dead ts)
  then show ?case
    by (subst cascade_tasks.simps) (simp add: Let_def distinct_map_filter)
qed

text \<open>
  Referential integrity: a surviving task's parent survives too, when it was there before.
\<close>

lemma cascade_tasks_parent:
  assumes "distinct (map task_id ts)" and "t \<in> set (cascade_tasks dead ts)"
    and "task_parentTaskId t = Some (task_id p)" and "p \<in> set ts"
  shows "p \<in> set (cascade_tasks dead ts)"
  using assms
proof (induction dead ts rule: cascade_tasks.induct)
  case (1 dead ts)
  let ?gone = "filter dead ts" and ?kept = "filter (\<lambda>t. \<not> dead t) ts"
  let ?child = "\<lambda>t. \<exists>g \<in> set ?gone. task_parentTaskId t = Some (task_id g)"
  show ?case
  proof (cases "?gone = []")
    case True
    with "1.prems" show ?thesis
      by (subst cascade_tasks.simps) (auto simp: Let_def filter_empty_conv)
  next
    case False
    then have eq: "cascade_tasks dead ts = cascade_tasks ?child ?kept"
      by (subst cascade_tasks.simps) (simp add: Let_def)
    from "1.prems"(2) eq have t: "t \<in> set (cascade_tasks ?child ?kept)" by simp
    then have "\<not> ?child t" by (rule cascade_tasks_not_dead)
    with "1.prems"(3,4) have "\<not> dead p" by auto
    with "1.prems"(4) have "p \<in> set ?kept" by simp
    with "1.IH" [OF refl refl False] "1.prems"(1,3) t have "p \<in> set (cascade_tasks ?child ?kept)"
      by (simp add: distinct_map_filter)
    with eq show ?thesis by simp
  qed
qed

end
