(* ===== verification/CacheService.thy ===== *)
theory CacheService
  imports Entities
begin

text \<open>
  \<open>src/src/modules/cache/cache.service.ts\<close>: \<open>get\<close>, \<open>set\<close>, \<open>del\<close> and
  \<open>delPattern\<close> over the Redis key space. Every method catches its own errors, so with
  Redis down a read is a miss and a write does nothing. The contract the services rely on is
  the locale of a cache that may lose entries but never invents or confuses them; the
  cache-aside read of the services is verified once over that contract.
\<close>

section \<open>Operations\<close>

definition redis_get :: "string \<Rightarrow> world \<Rightarrow> cache_value option" where
  "redis_get k w =
     (case cache w k of
        None \<Rightarrow> None
      | Some (v, expiry) \<Rightarrow> if clock w < expiry then Some v else None)"

definition cache_get :: "string \<Rightarrow> world \<Rightarrow> cache_value option" where
  "cache_get k w = (if redisUp w then redis_get k w else None)"

definition cache_set :: "string \<Rightarrow> cache_value \<Rightarrow> int \<Rightarrow> world \<Rightarrow> world" where
  "cache_set k v ttlSeconds w =
     (if redisUp w then w\<lparr>cache := (cache w)(k \<mapsto> (v, clock w + ttlSeconds * 1000))\<rparr> else w)"

definition cache_del :: "string \<Rightarrow> world \<Rightarrow> world" where
  "cache_del k w = (if redisUp w then w\<lparr>cache := (cache w)(k := None)\<rparr> else w)"

definition cache_delPattern :: "platform \<Rightarrow> string \<Rightarrow> world \<Rightarrow> world" where
  "cache_delPattern pf pat w =
     (if redisUp w then w\<lparr>cache := (\<lambda>k. if pf_glob pf pat k then None else cache w k)\<rparr> else w)"

text \<open>The same as programs, the form in which the services call them.\<close>

definition cacheGet :: "string \<Rightarrow> cache_value option svc" where
  "cacheGet k = gets (cache_get k)"

definition cacheSet :: "string \<Rightarrow> cache_value \<Rightarrow> int \<Rightarrow> unit svc" where
  "cacheSet k v ttlSeconds = modify (cache_set k v ttlSeconds)"

definition cacheDel :: "string \<Rightarrow> unit svc" where
  "cacheDel k = modify (cache_del k)"

definition cacheDelPattern :: "platform \<Rightarrow> string \<Rightarrow> unit svc" where
  "cacheDelPattern pf pat = modify (cache_delPattern pf pat)"

lemma cache_prog_eval [prog_simps]:
  "cacheGet k w = (Inr (cache_get k w), w)"
  "cacheSet k v ttl w = (Inr (), cache_set k v ttl w)"
  "cacheDel k w = (Inr (), cache_del k w)"
  "cacheDelPattern pf pat w = (Inr (), cache_delPattern pf pat w)"
  by (simp_all add: cacheGet_def cacheSet_def cacheDel_def cacheDelPattern_def prog_defs)

text \<open>No cache operation touches anything but the keys.\<close>

lemma cache_frame [simp]:
  "users (cache_set k v ttl w) = users w" "users (cache_del k w) = users w"
  "users (cache_delPattern pf p w) = users w"
  "sessions (cache_set k v ttl w) = sessions w" "sessions (cache_del k w) = sessions w"
  "sessions (cache_delPattern pf p w) = sessions w"
  "workspaces (cache_set k v ttl w) = workspaces w" "workspaces (cache_del k w) = workspaces w"
  "workspaces (cache_delPattern pf p w) = workspaces w"
  "members (cache_set k v ttl w) = members w" "members (cache_del k w) = members w"
  "members (cache_delPattern pf p w) = members w"
  "projects (cache_set k v ttl w) = projects w" "projects (cache_del k w) = projects w"
  "projects (cache_delPattern pf p w) = projects w"
  "tasks (cache_set k v ttl w) = tasks w" "tasks (cache_del k w) = tasks w"
  "tasks (cache_delPattern pf p w) = tasks w"
  "comments (cache_set k v ttl w) = comments w" "comments (cache_del k w) = comments w"
  "comments (cache_delPattern pf p w) = comments w"
  "notifications (cache_set k v ttl w) = notifications w"
  "notifications (cache_del k w) = notifications w"
  "notifications (cache_delPattern pf p w) = notifications w"
  "reminders (cache_set k v ttl w) = reminders w" "reminders (cache_del k w) = reminders w"
  "reminders (cache_delPattern pf p w) = reminders w"
  "jobs (cache_set k v ttl w) = jobs w" "jobs (cache_del k w) = jobs w"
  "jobs (cache_delPattern pf p w) = jobs w"
  "emitted (cache_set k v ttl w) = emitted w" "emitted (cache_del k w) = emitted w"
  "emitted (cache_delPattern pf p w) = emitted w"
  "sockets (cache_set k v ttl w) = sockets w" "sockets (cache_del k w) = sockets w"
  "sockets (cache_delPattern pf p w) = sockets w"
  "clock (cache_set k v ttl w) = clock w" "clock (cache_del k w) = clock w"
  "clock (cache_delPattern pf p w) = clock w"
  "draws (cache_set k v ttl w) = draws w" "draws (cache_del k w) = draws w"
  "draws (cache_delPattern pf p w) = draws w"
  "redisUp (cache_set k v ttl w) = redisUp w" "redisUp (cache_del k w) = redisUp w"
  "redisUp (cache_delPattern pf p w) = redisUp w"
  "queueUp (cache_set k v ttl w) = queueUp w" "queueUp (cache_del k w) = queueUp w"
  "queueUp (cache_delPattern pf p w) = queueUp w"
  by (simp_all add: cache_set_def cache_del_def cache_delPattern_def)

section \<open>The contract\<close>

locale lossy_cache =
  fixes get :: "'k \<Rightarrow> 's \<Rightarrow> 'v option"
    and put :: "'k \<Rightarrow> 'v \<Rightarrow> 's \<Rightarrow> 's"
    and del :: "'k \<Rightarrow> 's \<Rightarrow> 's"
  assumes get_put: "get k (put k v s) = Some v' \<Longrightarrow> v' = v"
    and get_put_other: "k' \<noteq> k \<Longrightarrow> get k' (put k v s) = get k' s"
    and get_del: "get k (del k s) = None"
    and get_del_other: "k' \<noteq> k \<Longrightarrow> get k' (del k s) = get k' s"
begin

lemma get_putD: "get k' (put k v s) = Some v' \<Longrightarrow> (k' = k \<and> v' = v) \<or> (k' \<noteq> k \<and> get k' s = Some v')"
  using get_put get_put_other by (cases "k' = k") metis+

lemma get_delD: "get k' (del k s) = Some v' \<Longrightarrow> k' \<noteq> k \<and> get k' s = Some v'"
  using get_del get_del_other by (cases "k' = k") (metis option.distinct(1))+

end

text \<open>
  The cache-aside read: the cached value if there is one, else the stored value, which is then
  cached. A cache is coherent with a store when each hit is what the store would return.
\<close>

definition cache_aside ::
  "('k \<Rightarrow> 's \<Rightarrow> 'v option) \<Rightarrow> ('k \<Rightarrow> 'v \<Rightarrow> 's \<Rightarrow> 's) \<Rightarrow> ('k \<Rightarrow> 's \<Rightarrow> 'v option) \<Rightarrow>
   'k \<Rightarrow> 's \<Rightarrow> 'v option \<times> 's" where
  "cache_aside get put load k s =
     (case get k s of
        Some v \<Rightarrow> (Some v, s)
      | None \<Rightarrow> (case load k s of None \<Rightarrow> (None, s) | Some v \<Rightarrow> (Some v, put k v s)))"

definition coherent :: "('k \<Rightarrow> 's \<Rightarrow> 'v option) \<Rightarrow> ('k \<Rightarrow> 's \<Rightarrow> 'v option) \<Rightarrow> 's \<Rightarrow> bool" where
  "coherent get load s \<longleftrightarrow> (\<forall>k v. get k s = Some v \<longrightarrow> load k s = Some v)"

locale cached_store = lossy_cache get put del
  for get :: "'k \<Rightarrow> 's \<Rightarrow> 'v option" and put :: "'k \<Rightarrow> 'v \<Rightarrow> 's \<Rightarrow> 's" and del :: "'k \<Rightarrow> 's \<Rightarrow> 's" +
  fixes load :: "'k \<Rightarrow> 's \<Rightarrow> 'v option"
  assumes load_put: "load k' (put k v s) = load k' s"
    and load_del: "load k' (del k s) = load k' s"
begin

lemma read_is_load:
  assumes "coherent get load s"
  shows "fst (cache_aside get put load k s) = load k s"
  using assms by (auto simp: cache_aside_def coherent_def split: option.splits)

lemma read_keeps_coherent:
  assumes "coherent get load s"
  shows "coherent get load (snd (cache_aside get put load k s))"
  using assms unfolding cache_aside_def coherent_def
  by (auto simp: load_put dest!: get_putD split: option.splits)

lemma read_keeps_load: "load k' (snd (cache_aside get put load k s)) = load k' s"
  by (auto simp: cache_aside_def load_put split: option.splits)

text \<open>A write that changes the stored value of one key, followed by its invalidation.\<close>

lemma write_then_del:
  assumes "coherent get load s"
    and "\<And>k'. get k' s' = get k' s"
    and "\<And>k'. k' \<noteq> k \<Longrightarrow> load k' s' = load k' s"
  shows "coherent get load (del k s')"
  using assms unfolding coherent_def by (auto simp: load_del dest!: get_delD)

text \<open>The same when the write touches several keys and all of them are invalidated.\<close>

lemma fold_del:
  "load k (fold del ks s) = load k s"
  "get k (fold del ks s) = Some v \<Longrightarrow> k \<notin> set ks \<and> get k s = Some v"
proof -
  show "load k (fold del ks s) = load k s"
    by (induction ks arbitrary: s) (simp_all add: load_del)
  show "get k (fold del ks s) = Some v \<Longrightarrow> k \<notin> set ks \<and> get k s = Some v"
  proof (induction ks arbitrary: s)
    case (Cons k' ks)
    have step: "k \<notin> set ks \<and> get k (del k' s) = Some v"
      by (rule Cons.IH) (use Cons.prems in simp)
    then have "k \<noteq> k' \<and> get k s = Some v" by (intro get_delD) simp
    with step show ?case by simp
  qed simp
qed

lemma write_then_dels:
  assumes "coherent get load s"
    and "\<And>k. get k s' = get k s"
    and "\<And>k. k \<notin> set ks \<Longrightarrow> load k s' = load k s"
  shows "coherent get load (fold del ks s')"
  using assms unfolding coherent_def by (auto simp: fold_del(1) dest!: fold_del(2))

lemma read_after_del:
  "fst (cache_aside get put load k (del k s)) = load k s"
  by (auto simp: cache_aside_def get_del load_del split: option.splits)

end

lemma redis_get_frame:
  "cache w' = cache w \<Longrightarrow> clock w' = clock w \<Longrightarrow> redisUp w' = redisUp w \<Longrightarrow>
   cache_get k w' = cache_get k w"
  by (simp add: cache_get_def redis_get_def split: option.splits)

lemma cache_get_set: "cache_get k (cache_set k v ttl w) = Some v' \<Longrightarrow> v' = v"
  by (auto simp: cache_get_def cache_set_def redis_get_def split: if_splits)

lemma cache_get_set_fresh:
  "redisUp w \<Longrightarrow> 0 < ttl \<Longrightarrow> cache_get k (cache_set k v ttl w) = Some v"
  by (simp add: cache_get_def cache_set_def redis_get_def split: option.splits)

lemma cache_get_set_other: "k' \<noteq> k \<Longrightarrow> cache_get k' (cache_set k v ttl w) = cache_get k' w"
  by (simp add: cache_get_def cache_set_def redis_get_def split: option.splits)

lemma cache_get_del: "cache_get k (cache_del k w) = None"
  by (simp add: cache_get_def cache_del_def redis_get_def split: option.splits)

lemma cache_get_del_other: "k' \<noteq> k \<Longrightarrow> cache_get k' (cache_del k w) = cache_get k' w"
  by (simp add: cache_get_def cache_del_def redis_get_def split: option.splits)

lemma cache_get_delPattern:
  "cache_get k (cache_delPattern pf pat w) = (if pf_glob pf pat k then None else cache_get k w)"
  by (simp add: cache_get_def cache_delPattern_def redis_get_def split: option.splits)

interpretation redis: lossy_cache cache_get "\<lambda>k v. cache_set k v ttl" cache_del for ttl
proof
  fix k k' :: string and v v' :: cache_value and w :: world
  show "cache_get k (cache_set k v ttl w) = Some v' \<Longrightarrow> v' = v"
    by (rule cache_get_set)
  show "k' \<noteq> k \<Longrightarrow> cache_get k' (cache_set k v ttl w) = cache_get k' w"
    by (rule cache_get_set_other)
  show "cache_get k (cache_del k w) = None"
    by (rule cache_get_del)
  show "k' \<noteq> k \<Longrightarrow> cache_get k' (cache_del k w) = cache_get k' w"
    by (rule cache_get_del_other)
qed

text \<open>Time and evictions only lose entries.\<close>

lemma later_cache_get: "0 \<le> dt \<Longrightarrow> cache_get k (w\<lparr>clock := clock w + dt\<rparr>) = Some v \<Longrightarrow> cache_get k w = Some v"
  by (auto simp: cache_get_def redis_get_def split: option.splits if_splits)

lemma evict_cache_get: "cache_get k (w\<lparr>cache := (cache w)(k' := None)\<rparr>) = Some v \<Longrightarrow> cache_get k w = Some v"
  by (auto simp: cache_get_def redis_get_def split: option.splits if_splits)

end
