(* ===== verification/Messaging.thy ===== *)
theory Messaging
  imports Entities
begin

text \<open>
  What the services send: BullMQ jobs (\<open>audit.service.ts\<close>, \<open>activity.service.ts\<close>),
  socket broadcasts and the socket gateway (\<open>realtime.gateway.ts\<close>), and in-app
  notifications (\<open>notification.service.ts\<close>). The two log services swallow a queue
  failure; the notification service reports it. None of these operations touches the tables
  of users, workspaces, projects, tasks, comments or reminders: the frame at the end.
\<close>

section \<open>Job queues\<close>

definition queue_add ::
  "string \<Rightarrow> string \<Rightarrow> job_data \<Rightarrow> nat \<Rightarrow> nat option \<Rightarrow> unit svc" where
  "queue_add q name d attempts backoff w =
     (if queueUp w q
      then (Inr (), w\<lparr>jobs := jobs w @
        [\<lparr>job_queue = q, job_name = name, job_data = d, job_attempts = attempts,
          job_backoff = backoff\<rparr>]\<rparr>)
      else (Inl (ErrorE ''Connection is closed.''), w))"

text \<open>\<open>AuditService.log\<close>\<close>

definition auditLog :: "string \<Rightarrow> string option \<Rightarrow> json \<Rightarrow> unit svc" where
  "auditLog action userId payload =
     try_catch
       (queue_add ''audit.queue'' ''log-action'' (AuditData action userId payload) 3 (Some 1000))
       (\<lambda>_. ret ())"

text \<open>\<open>ActivityService.log\<close>\<close>

definition activityLog :: "string \<Rightarrow> string \<Rightarrow> string \<Rightarrow> string \<Rightarrow> string \<Rightarrow> unit svc" where
  "activityLog workspaceId entityType entityId action performedBy =
     try_catch
       (queue_add ''activity.queue'' ''log-activity''
          (ActivityData workspaceId entityType entityId action performedBy) 3 (Some 1000))
       (\<lambda>_. ret ())"

definition audit_job :: "string \<Rightarrow> string option \<Rightarrow> json \<Rightarrow> job" where
  "audit_job action userId payload =
     \<lparr>job_queue = ''audit.queue'', job_name = ''log-action'',
      job_data = AuditData action userId payload, job_attempts = 3, job_backoff = Some 1000\<rparr>"

definition activity_job :: "string \<Rightarrow> string \<Rightarrow> string \<Rightarrow> string \<Rightarrow> string \<Rightarrow> job" where
  "activity_job workspaceId entityType entityId action performedBy =
     \<lparr>job_queue = ''activity.queue'', job_name = ''log-activity'',
      job_data = ActivityData workspaceId entityType entityId action performedBy,
      job_attempts = 3, job_backoff = Some 1000\<rparr>"

definition enqueue_if :: "bool \<Rightarrow> job \<Rightarrow> world \<Rightarrow> world" where
  "enqueue_if up j w = (if up then w\<lparr>jobs := jobs w @ [j]\<rparr> else w)"

lemma auditLog_eval [prog_simps]:
  "auditLog a u p w = (Inr (), enqueue_if (queueUp w ''audit.queue'') (audit_job a u p) w)"
  by (simp add: auditLog_def queue_add_def prog_defs enqueue_if_def audit_job_def)

lemma activityLog_eval [prog_simps]:
  "activityLog ws ty i a u w =
     (Inr (), enqueue_if (queueUp w ''activity.queue'') (activity_job ws ty i a u) w)"
  by (simp add: activityLog_def queue_add_def prog_defs enqueue_if_def activity_job_def)

lemma enqueue_if_frame [simp]:
  "users (enqueue_if b j w) = users w" "sessions (enqueue_if b j w) = sessions w"
  "workspaces (enqueue_if b j w) = workspaces w" "members (enqueue_if b j w) = members w"
  "projects (enqueue_if b j w) = projects w" "tasks (enqueue_if b j w) = tasks w"
  "comments (enqueue_if b j w) = comments w" "reminders (enqueue_if b j w) = reminders w"
  "notifications (enqueue_if b j w) = notifications w" "cache (enqueue_if b j w) = cache w"
  "clock (enqueue_if b j w) = clock w" "draws (enqueue_if b j w) = draws w"
  "redisUp (enqueue_if b j w) = redisUp w" "queueUp (enqueue_if b j w) = queueUp w"
  "sockets (enqueue_if b j w) = sockets w" "emitted (enqueue_if b j w) = emitted w"
  "jobs (enqueue_if b j w) = jobs w @ (if b then [j] else [])"
  by (simp_all add: enqueue_if_def)

section \<open>Socket gateway\<close>

definition user_room :: "string \<Rightarrow> string" where
  "user_room u = ''user_'' @ u"

definition workspace_room :: "string \<Rightarrow> string" where
  "workspace_room i = ''workspace_'' @ i"

text \<open>What the gateway reads of a handshake: the header and the query parameter.\<close>

record handshake =
  hs_authorization :: "string option"
  hs_query_token :: "string option"

definition extractToken :: "handshake \<Rightarrow> string option" where
  "extractToken h =
     (case hs_authorization h of
        Some a \<Rightarrow>
          if a \<noteq> [] \<and> prefix ''Bearer '' a then Some (drop 7 a)
          else if truthy (hs_query_token h) then hs_query_token h else None
      | None \<Rightarrow> if truthy (hs_query_token h) then hs_query_token h else None)"

definition update_socket :: "string \<Rightarrow> (socket \<Rightarrow> socket) \<Rightarrow> unit svc" where
  "update_socket sid f =
     modify (\<lambda>w. w\<lparr>sockets := update_rows (\<lambda>s. socket_id s = sid) f (sockets w)\<rparr>)"

definition disconnect :: "string \<Rightarrow> unit svc" where
  "disconnect sid = update_socket sid (\<lambda>s. s\<lparr>socket_connected := False, socket_rooms := []\<rparr>)"

definition join_room :: "string \<Rightarrow> string \<Rightarrow> unit svc" where
  "join_room sid room =
     update_socket sid
       (\<lambda>s. if room \<in> set (socket_rooms s) then s else s\<lparr>socket_rooms := room # socket_rooms s\<rparr>)"

definition leave_room :: "string \<Rightarrow> string \<Rightarrow> unit svc" where
  "leave_room sid room =
     update_socket sid (\<lambda>s. s\<lparr>socket_rooms := removeAll room (socket_rooms s)\<rparr>)"

definition handleConnection :: "platform \<Rightarrow> string \<Rightarrow> string \<Rightarrow> handshake \<Rightarrow> unit svc" where
  "handleConnection pf accessKey sid h =
     (case extractToken h of
        None \<Rightarrow> disconnect sid
      | Some token \<Rightarrow>
          if token = [] then disconnect sid
          else
            await (gets (\<lambda>w. pf_jwtVerify pf accessKey token (clock w div 1000)))
              (\<lambda>verified.
                 case verified of
                   None \<Rightarrow> disconnect sid
                 | Some p \<Rightarrow>
                     await
                       (update_socket sid
                          (\<lambda>s. s\<lparr>socket_userId := Some (jwt_userId p),
                                 socket_email := Some (jwt_email p)\<rparr>))
                       (\<lambda>_. join_room sid (user_room (jwt_userId p)))))"

datatype ack =
    AckError string
  | AckJoined string
  | AckLeft string
  | AckNothing

definition find_socket :: "string \<Rightarrow> world \<Rightarrow> socket option" where
  "find_socket sid w = find (\<lambda>s. socket_id s = sid) (sockets w)"

definition handleJoinWorkspace :: "string \<Rightarrow> string option \<Rightarrow> ack svc" where
  "handleJoinWorkspace sid workspaceId =
     (case first_truthy [workspaceId] of
        None \<Rightarrow> ret (AckError ''workspaceId required'')
      | Some wid \<Rightarrow>
          await (gets (find_socket sid)) (\<lambda>client.
            if client = None \<or> \<not> truthy (socket_userId (the client))
            then await (disconnect sid) (\<lambda>_. ret AckNothing)
            else
              await (join_room sid (workspace_room wid)) (\<lambda>_.
              ret (AckJoined (workspace_room wid)))))"

definition handleLeaveWorkspace :: "string \<Rightarrow> string option \<Rightarrow> ack svc" where
  "handleLeaveWorkspace sid workspaceId =
     (case first_truthy [workspaceId] of
        None \<Rightarrow> ret (AckError ''workspaceId required'')
      | Some wid \<Rightarrow>
          await (leave_room sid (workspace_room wid)) (\<lambda>_.
          ret (AckLeft (workspace_room wid))))"

text \<open>\<open>server.to(room).emit(event, payload)\<close>: every socket then in the room gets it.\<close>

definition emit_to :: "string \<Rightarrow> string \<Rightarrow> payload \<Rightarrow> unit svc" where
  "emit_to room event pl =
     modify (\<lambda>w. w\<lparr>emitted := emitted w @
       [\<lparr>em_room = room, em_event = event, em_payload = pl,
         em_recipients = map socket_id (filter (\<lambda>s. room \<in> set (socket_rooms s)) (sockets w))\<rparr>]\<rparr>)"

definition sendTaskCreated :: "string \<Rightarrow> payload \<Rightarrow> unit svc" where
  "sendTaskCreated workspaceId pl = emit_to (workspace_room workspaceId) ''task.created'' pl"

definition sendTaskUpdated :: "string \<Rightarrow> payload \<Rightarrow> unit svc" where
  "sendTaskUpdated workspaceId pl = emit_to (workspace_room workspaceId) ''task.updated'' pl"

definition sendTaskAssigned :: "string \<Rightarrow> payload \<Rightarrow> unit svc" where
  "sendTaskAssigned workspaceId pl = emit_to (workspace_room workspaceId) ''task.assigned'' pl"

definition sendNotificationCreated :: "string \<Rightarrow> payload \<Rightarrow> unit svc" where
  "sendNotificationCreated userId pl = emit_to (user_room userId) ''notification.created'' pl"

definition sendCommentCreated :: "string \<Rightarrow> payload \<Rightarrow> unit svc" where
  "sendCommentCreated workspaceId pl = emit_to (workspace_room workspaceId) ''comment.created'' pl"

definition sendMemberJoined :: "string \<Rightarrow> payload \<Rightarrow> unit svc" where
  "sendMemberJoined workspaceId pl =
     emit_to (workspace_room workspaceId) ''workspace.member.joined'' pl"

lemmas send_defs =
  sendTaskCreated_def sendTaskUpdated_def sendTaskAssigned_def sendNotificationCreated_def
  sendCommentCreated_def sendMemberJoined_def

section \<open>Notifications\<close>

definition insert_notification ::
  "platform \<Rightarrow> string \<Rightarrow> string \<Rightarrow> string \<Rightarrow> string \<Rightarrow> notification svc" where
  "insert_notification pf userId ty title message =
     await (gets (user_exists userId)) (\<lambda>known.
     if \<not> known then throw (QueryFailedError ''notifications.userId'')
     else
       await (gen_uuid pf) (\<lambda>i.
       await new_date (\<lambda>now.
         let n = \<lparr>notification_id = i, notification_userId = userId, notification_type = ty,
                  notification_title = title, notification_message = message,
                  notification_isRead = False, notification_createdAt = now\<rparr>
         in await (modify (\<lambda>w. w\<lparr>notifications := notifications w @ [n]\<rparr>)) (\<lambda>_. ret n))))"

definition createAndSendNotification ::
  "platform \<Rightarrow> string \<Rightarrow> string \<Rightarrow> string \<Rightarrow> string \<Rightarrow> notification svc" where
  "createAndSendNotification pf userId ty title message =
     try_catch
       (await (insert_notification pf userId ty title message) (\<lambda>saved.
        await (sendNotificationCreated userId (NotificationPayload saved)) (\<lambda>_.
        await (queue_add ''notification.queue'' ''send-push''
                 (PushData (notification_id saved) userId ty title message) 3 (Some 1000)) (\<lambda>_.
        await (queue_add ''email.queue'' ''send-email''
                 (EmailTextData userId title message) 3 (Some 2000)) (\<lambda>_.
        ret saved)))))
       (\<lambda>error. throw error)"

definition getNotificationsForUser :: "string \<Rightarrow> bool option \<Rightarrow> notification list svc" where
  "getNotificationsForUser userId isRead =
     gets (\<lambda>w. order_desc notification_createdAt
       (filter (\<lambda>n. notification_userId n = userId \<and>
                  (case isRead of None \<Rightarrow> True | Some b \<Rightarrow> notification_isRead n = b))
          (notifications w)))"

definition markAsRead :: "platform \<Rightarrow> string \<Rightarrow> string \<Rightarrow> notification option svc" where
  "markAsRead pf i userId =
     await (gets (\<lambda>w. find_one (pf_pick pf)
                   (\<lambda>n. notification_id n = i \<and> notification_userId n = userId) (notifications w)))
       (\<lambda>found.
          case found of
            None \<Rightarrow> ret None
          | Some n \<Rightarrow>
              let n' = n\<lparr>notification_isRead := True\<rparr>
              in await (modify (\<lambda>w. w\<lparr>notifications :=
                          update_rows (\<lambda>r. notification_id r = notification_id n') (\<lambda>_. n')
                            (notifications w)\<rparr>))
                   (\<lambda>_. ret (Some n')))"

definition markAllAsRead :: "string \<Rightarrow> bool svc" where
  "markAllAsRead userId =
     await (modify (\<lambda>w. w\<lparr>notifications :=
              update_rows (\<lambda>n. notification_userId n = userId \<and> \<not> notification_isRead n)
                (\<lambda>n. n\<lparr>notification_isRead := True\<rparr>) (notifications w)\<rparr>))
       (\<lambda>_. ret True)"

section \<open>Frame\<close>

text \<open>
  Messaging appends: it never takes a job, a broadcast or a notification back, and it leaves
  everything else as it is.
\<close>

definition messaging_frame :: "world \<Rightarrow> world \<Rightarrow> bool" where
  "messaging_frame w w' \<longleftrightarrow>
     users w' = users w \<and> sessions w' = sessions w \<and> workspaces w' = workspaces w \<and>
     members w' = members w \<and> projects w' = projects w \<and> tasks w' = tasks w \<and>
     comments w' = comments w \<and> activities w' = activities w \<and> reminders w' = reminders w \<and>
     auditLogs w' = auditLogs w \<and> cache w' = cache w \<and> sockets w' = sockets w \<and>
     redisUp w' = redisUp w \<and> queueUp w' = queueUp w \<and> clock w' = clock w \<and>
     draws w \<le> draws w' \<and> prefix (notifications w) (notifications w') \<and>
     prefix (jobs w) (jobs w') \<and> prefix (emitted w) (emitted w')"

interpretation msg: effect_frame messaging_frame
  by unfold_locales (auto simp: messaging_frame_def)

lemma enqueue_if_messaging: "messaging_frame w (enqueue_if b j w)"
  by (simp add: messaging_frame_def enqueue_if_def)

lemma within_auditLog: "within messaging_frame (auditLog a u p)"
  by (rule withinI) (simp add: auditLog_eval enqueue_if_messaging)

lemma within_activityLog: "within messaging_frame (activityLog ws ty i a u)"
  by (rule withinI) (simp add: activityLog_eval enqueue_if_messaging)

lemma within_queue_add: "within messaging_frame (queue_add q n d a b)"
  by (rule withinI) (simp add: queue_add_def messaging_frame_def)

lemma within_emit_to: "within messaging_frame (emit_to room ev pl)"
  by (rule withinI) (simp add: emit_to_def modify_def messaging_frame_def)

lemma within_send:
  "within messaging_frame (sendTaskCreated i pl)" "within messaging_frame (sendTaskUpdated i pl)"
  "within messaging_frame (sendNotificationCreated i pl)"
  "within messaging_frame (sendCommentCreated i pl)" "within messaging_frame (sendMemberJoined i pl)"
  by (simp_all add: send_defs within_emit_to)

lemma within_insert_notification:
  "within messaging_frame (insert_notification pf u ty ti me)"
  by (rule withinI) (simp add: insert_notification_def prog_simps Let_def messaging_frame_def)

lemma within_createAndSendNotification:
  "within messaging_frame (createAndSendNotification pf u ty ti me)"
  unfolding createAndSendNotification_def
  by (intro msg.within_intros within_insert_notification within_send within_queue_add)

lemmas within_messaging =
  within_auditLog within_activityLog within_queue_add within_send
  within_createAndSendNotification

lemma messaging_frameD:
  assumes "messaging_frame w w'"
  shows "users w' = users w" "sessions w' = sessions w" "workspaces w' = workspaces w"
    "members w' = members w" "projects w' = projects w" "tasks w' = tasks w"
    "comments w' = comments w" "activities w' = activities w" "reminders w' = reminders w"
    "auditLogs w' = auditLogs w" "cache w' = cache w" "sockets w' = sockets w"
    "redisUp w' = redisUp w" "queueUp w' = queueUp w" "clock w' = clock w"
    "draws w \<le> draws w'"
  using assms by (simp_all add: messaging_frame_def)

end
