(* ===== verification/Tasks.thy ===== *)
theory Tasks
  imports CacheService Messaging
begin

text \<open>
  \<open>src/src/modules/task/task.service.ts\<close>: create, list, read, update and soft-delete
  a task, with the cache keys and patterns, the version check, the completion timestamp, and
  the audit, activity, socket and notification effects in the order of the source.
\<close>

section \<open>Requests\<close>

record create_task_dto =
  ct_title :: string
  ct_description :: "string option"
  ct_parentTaskId :: "string option"
  ct_priority :: "string option"
  ct_assignedTo :: "string option"
  ct_dueDate :: "string option"
  ct_labels :: "string list option"
  ct_attachments :: "attachment list option"

record update_task_dto =
  ut_title :: "string js"
  ut_description :: "string js"
  ut_status :: "string js"
  ut_priority :: "string js"
  ut_assignedTo :: "string js"
  ut_dueDate :: "string js"
  ut_labels :: "string list js"
  ut_attachments :: "attachment list js"
  ut_version :: "nat js"

record query_task_dto =
  q_page :: "int option"
  q_limit :: "int option"
  q_status :: "string option"
  q_priority :: "string option"
  q_assignedTo :: "string option"
  q_search :: "string option"
  q_sortBy :: "string option"
  q_sortOrder :: "string option"

text \<open>
  Validation of the request bodies: \<open>@IsOptional\<close> accepts an absent or null property
  without looking further.
\<close>

fun is_optional :: "('a \<Rightarrow> bool) \<Rightarrow> 'a js \<Rightarrow> bool" where
  "is_optional p (Value x) = p x"
| "is_optional p _ = True"

fun opt_valid :: "('a \<Rightarrow> bool) \<Rightarrow> 'a option \<Rightarrow> bool" where
  "opt_valid p None = True"
| "opt_valid p (Some x) = p x"

definition task_statuses :: "string list" where
  "task_statuses = [''TODO'', ''IN_PROGRESS'', ''BLOCKED'', ''DONE'']"

definition task_priorities :: "string list" where
  "task_priorities = [''LOW'', ''MEDIUM'', ''HIGH'', ''CRITICAL'']"

definition createTaskDto_valid :: "platform \<Rightarrow> create_task_dto \<Rightarrow> bool" where
  "createTaskDto_valid pf dto \<longleftrightarrow>
     ct_title dto \<noteq> [] \<and>
     opt_valid (pf_isUUID pf) (ct_parentTaskId dto) \<and>
     opt_valid (\<lambda>p. p \<in> set task_priorities) (ct_priority dto) \<and>
     opt_valid (pf_isUUID pf) (ct_assignedTo dto) \<and>
     opt_valid (pf_isDateString pf) (ct_dueDate dto)"

definition updateTaskDto_valid :: "platform \<Rightarrow> update_task_dto \<Rightarrow> bool" where
  "updateTaskDto_valid pf dto \<longleftrightarrow>
     is_optional (\<lambda>s. s \<in> set task_statuses) (ut_status dto) \<and>
     is_optional (\<lambda>p. p \<in> set task_priorities) (ut_priority dto) \<and>
     is_optional (pf_isUUID pf) (ut_assignedTo dto) \<and>
     is_optional (pf_isDateString pf) (ut_dueDate dto)"

definition queryTaskDto_valid :: "query_task_dto \<Rightarrow> bool" where
  "queryTaskDto_valid q \<longleftrightarrow>
     opt_valid (\<lambda>n. 1 \<le> n) (q_page q) \<and>
     opt_valid (\<lambda>n. 1 \<le> n \<and> n \<le> 100) (q_limit q) \<and>
     opt_valid (\<lambda>o'. o' = ''ASC'' \<or> o' = ''DESC'') (q_sortOrder q)"

section \<open>Cache keys\<close>

definition getTaskCacheKey :: "string \<Rightarrow> string" where
  "getTaskCacheKey i = ''task:id:'' @ i"

definition list_key_prefix :: "string \<Rightarrow> string \<Rightarrow> string" where
  "list_key_prefix workspaceId projectId =
     ''workspace:'' @ workspaceId @ '':project:'' @ projectId @ '':tasks:''"

definition getListCachePattern :: "string \<Rightarrow> string \<Rightarrow> string" where
  "getListCachePattern workspaceId projectId = list_key_prefix workspaceId projectId @ ''*''"

fun show_opt :: "('a \<Rightarrow> string) \<Rightarrow> 'a option \<Rightarrow> string" where
  "show_opt f None = ''undefined''"
| "show_opt f (Some x) = f x"

definition getListCacheKey :: "string \<Rightarrow> string \<Rightarrow> query_task_dto \<Rightarrow> string" where
  "getListCacheKey workspaceId projectId q =
     list_key_prefix workspaceId projectId @
     ''page:'' @ show_opt show_int (q_page q) @
     '':limit:'' @ show_opt show_int (q_limit q) @
     '':status:'' @ or_str (q_status q) ''all'' @
     '':priority:'' @ or_str (q_priority q) ''all'' @
     '':assignee:'' @ or_str (q_assignedTo q) ''all'' @
     '':search:'' @ or_str (q_search q) ''none'' @
     '':sortBy:'' @ show_opt id (q_sortBy q) @
     '':sortOrder:'' @ show_opt id (q_sortOrder q)"

section \<open>The task repository\<close>

definition task_fks :: "task \<Rightarrow> world \<Rightarrow> bool" where
  "task_fks t w \<longleftrightarrow>
     workspace_exists (task_workspaceId t) w \<and> project_exists (task_projectId t) w \<and>
     fk_null task_exists (task_parentTaskId t) w \<and> fk_null user_exists (task_assignedTo t) w \<and>
     user_exists (task_createdBy t) w"

text \<open>\<open>save\<close> of an entity with no id: the generated columns are filled in.\<close>

definition insert_task :: "platform \<Rightarrow> task \<Rightarrow> task svc" where
  "insert_task pf t =
     await (gets (task_fks t)) (\<lambda>ok.
     if \<not> ok then throw (QueryFailedError ''tasks: foreign key'')
     else
       await (gen_uuid pf) (\<lambda>i.
       await new_date (\<lambda>now.
         let t' = t\<lparr>task_id := i, task_version := 1, task_deletedAt := None,
                    task_createdAt := now, task_updatedAt := now\<rparr>
         in await (modify (\<lambda>w. w\<lparr>tasks := tasks w @ [t']\<rparr>)) (\<lambda>_. ret t'))))"

text \<open>
  \<open>save\<close> of an entity that has an id: an update of its row when a column differs
  (\<open>@VersionColumn\<close> and \<open>@UpdateDateColumn\<close> move), nothing when none does, an
  insert when the row is gone.
\<close>

definition same_columns :: "task \<Rightarrow> task \<Rightarrow> bool" where
  "same_columns row t \<longleftrightarrow>
     t\<lparr>task_version := task_version row, task_updatedAt := task_updatedAt row\<rparr> = row"

definition save_task :: "task \<Rightarrow> task svc" where
  "save_task t =
     await (gets (\<lambda>w. find (\<lambda>r. task_id r = task_id t) (tasks w))) (\<lambda>found.
     await (gets (task_fks t)) (\<lambda>ok.
     await new_date (\<lambda>now.
       case found of
         Some row \<Rightarrow>
           if same_columns row t then ret t
           else if \<not> ok then throw (QueryFailedError ''tasks: foreign key'')
           else
             let t' = t\<lparr>task_version := Suc (task_version row), task_updatedAt := now\<rparr>
             in await (modify (\<lambda>w. w\<lparr>tasks :=
                         update_rows (\<lambda>r. task_id r = task_id t) (\<lambda>_. t') (tasks w)\<rparr>))
                  (\<lambda>_. ret t')
       | None \<Rightarrow>
           if \<not> ok then throw (QueryFailedError ''tasks: foreign key'')
           else
             let t' = t\<lparr>task_version := 1, task_updatedAt := now\<rparr>
             in await (modify (\<lambda>w. w\<lparr>tasks := tasks w @ [t']\<rparr>)) (\<lambda>_. ret t'))))"

definition soft_remove_task :: "task \<Rightarrow> unit svc" where
  "soft_remove_task t =
     await new_date (\<lambda>now.
     modify (\<lambda>w. w\<lparr>tasks :=
       update_rows (\<lambda>r. task_id r = task_id t)
         (\<lambda>r. r\<lparr>task_deletedAt := Some now, task_version := Suc (task_version r),
                task_updatedAt := now\<rparr>) (tasks w)\<rparr>))"

definition view_of :: "platform \<Rightarrow> world \<Rightarrow> task \<Rightarrow> task_view" where
  "view_of pf w t =
     \<lparr>view_task = t,
      view_assignee = Option.bind (task_assignedTo t) (\<lambda>u. find_user pf u w),
      view_creator = find_user pf (task_createdBy t) w\<rparr>"

text \<open>\<open>findOne({ where: { id, workspaceId } })\<close>; soft-deleted rows are left out.\<close>

definition db_task :: "platform \<Rightarrow> string \<Rightarrow> string \<Rightarrow> world \<Rightarrow> task option" where
  "db_task pf i workspaceId w =
     find_one (pf_pick pf)
       (\<lambda>t. task_id t = i \<and> task_workspaceId t = workspaceId \<and> task_deletedAt t = None) (tasks w)"

section \<open>Operations\<close>

definition announce_create ::
  "platform \<Rightarrow> string \<Rightarrow> string \<Rightarrow> string \<Rightarrow> create_task_dto \<Rightarrow> task \<Rightarrow> task svc" where
  "announce_create pf workspaceId projectId userId dto saved =
     await (auditLog ''TASK_CREATE'' (Some userId)
              (JObj [(''taskId'', JStr (task_id saved)), (''projectId'', JStr projectId),
                     (''workspaceId'', JStr workspaceId)])) (\<lambda>_.
     await (activityLog workspaceId ''TASK'' (task_id saved) ''TASK_CREATED'' userId) (\<lambda>_.
     await (sendTaskCreated workspaceId (TaskPayload saved)) (\<lambda>_.
     await (if truthy (ct_assignedTo dto)
            then await (createAndSendNotification pf (the (ct_assignedTo dto)) ''TASK_ASSIGNED''
                   (''Assigned Task: '' @ ct_title dto)
                   (''You have been assigned to the task \"'' @ ct_title dto @ ''\" in project.''))
                   (\<lambda>_. ret ())
            else ret ()) (\<lambda>_.
     ret saved))))"

text \<open>\<open>taskRepository.create({...})\<close>: the entity \<open>createTask\<close> saves.\<close>

definition task_entity ::
  "platform \<Rightarrow> string \<Rightarrow> string \<Rightarrow> string \<Rightarrow> create_task_dto \<Rightarrow> task" where
  "task_entity pf workspaceId projectId userId dto =
     \<lparr>task_id = '''', task_workspaceId = workspaceId, task_projectId = projectId,
      task_parentTaskId = ct_parentTaskId dto, task_title = ct_title dto,
      task_description = ct_description dto, task_status = ''TODO'',
      task_priority = or_str (ct_priority dto) ''MEDIUM'',
      task_assignedTo = ct_assignedTo dto,
      task_dueDate = (if truthy (ct_dueDate dto)
                      then map_option (pf_parseDate pf) (ct_dueDate dto) else None),
      task_createdBy = userId, task_completedAt = None, task_labels = ct_labels dto,
      task_attachments = Some (case ct_attachments dto of None \<Rightarrow> [] | Some xs \<Rightarrow> xs),
      task_version = 0, task_deletedAt = None, task_createdAt = 0, task_updatedAt = 0\<rparr>"

definition createTask ::
  "platform \<Rightarrow> string \<Rightarrow> string \<Rightarrow> string \<Rightarrow> create_task_dto \<Rightarrow> task svc" where
  "createTask pf workspaceId projectId userId dto =
     await (insert_task pf (task_entity pf workspaceId projectId userId dto)) (\<lambda>saved.
     await (cacheDelPattern pf (getListCachePattern workspaceId projectId)) (\<lambda>_.
     announce_create pf workspaceId projectId userId dto saved))"

definition findById :: "platform \<Rightarrow> string \<Rightarrow> string \<Rightarrow> task_view svc" where
  "findById pf i workspaceId =
     await (cacheGet (getTaskCacheKey i)) (\<lambda>cached.
     let from_db =
       await (gets (\<lambda>w. map_option (view_of pf w) (db_task pf i workspaceId w))) (\<lambda>found.
       case found of
         None \<Rightarrow> throw (NotFoundException ''Task not found in this workspace'')
       | Some v \<Rightarrow> await (cacheSet (getTaskCacheKey i) (CTask v) 300) (\<lambda>_. ret v))
     in (case cached of
           Some (CTask v) \<Rightarrow>
             if task_workspaceId (view_task v) = workspaceId then ret v else from_db
         | _ \<Rightarrow> from_db))"

text \<open>
  The assignments of \<open>updateTask\<close> on the loaded entity, in the order of the source;
  \<open>None\<close> when a column that cannot be null is set to null, which the save refuses.
\<close>

definition completes :: "update_task_dto \<Rightarrow> task \<Rightarrow> bool" where
  "completes dto t \<longleftrightarrow> ut_status dto = Value ''DONE'' \<and> task_status t \<noteq> ''DONE''"

definition reassigns :: "update_task_dto \<Rightarrow> task \<Rightarrow> bool" where
  "reassigns dto t \<longleftrightarrow>
     (case ut_assignedTo dto of
        Undefined \<Rightarrow> False
      | Null \<Rightarrow> task_assignedTo t \<noteq> None
      | Value u \<Rightarrow> task_assignedTo t \<noteq> Some u)"

definition apply_update :: "platform \<Rightarrow> int \<Rightarrow> update_task_dto \<Rightarrow> task \<Rightarrow> task option" where
  "apply_update pf now dto t =
     (case (set_required (ut_title dto) (task_title t),
            set_required (ut_status dto) (task_status t),
            set_required (ut_priority dto) (task_priority t)) of
        (Some title, Some status, Some priority) \<Rightarrow>
          Some (t\<lparr>
            task_completedAt :=
              (if completes dto t then Some now
               else if js_truthy (ut_status dto) \<and> ut_status dto \<noteq> Value ''DONE'' then None
               else task_completedAt t),
            task_assignedTo := (if reassigns dto t then nullable (ut_assignedTo dto) (task_assignedTo t)
                                else task_assignedTo t),
            task_title := title,
            task_description := nullable (ut_description dto) (task_description t),
            task_status := status,
            task_priority := priority,
            task_dueDate :=
              (case ut_dueDate dto of
                 Undefined \<Rightarrow> task_dueDate t
               | d \<Rightarrow> if js_truthy d then map_option (pf_parseDate pf) (nullable d None) else None),
            task_labels := nullable (ut_labels dto) (task_labels t),
            task_attachments := nullable (ut_attachments dto) (task_attachments t)\<rparr>)
      | _ \<Rightarrow> None)"

definition json_js :: "string \<Rightarrow> ('a \<Rightarrow> json) \<Rightarrow> 'a js \<Rightarrow> (string \<times> json) list" where
  "json_js k f x = (case x of Undefined \<Rightarrow> [] | Null \<Rightarrow> [(k, JNull)] | Value v \<Rightarrow> [(k, f v)])"

definition json_attachment :: "attachment \<Rightarrow> json" where
  "json_attachment a = JObj [(''name'', JStr (att_name a)), (''url'', JStr (att_url a)),
     (''size'', JNum (att_size a)), (''mimeType'', JStr (att_mimeType a))]"

definition json_update :: "update_task_dto \<Rightarrow> json" where
  "json_update dto = JObj
     (json_js ''title'' JStr (ut_title dto) @ json_js ''description'' JStr (ut_description dto) @
      json_js ''status'' JStr (ut_status dto) @ json_js ''priority'' JStr (ut_priority dto) @
      json_js ''assignedTo'' JStr (ut_assignedTo dto) @ json_js ''dueDate'' JStr (ut_dueDate dto) @
      json_js ''labels'' (\<lambda>ls. JArr (map JStr ls)) (ut_labels dto) @
      json_js ''attachments'' (\<lambda>xs. JArr (map json_attachment xs)) (ut_attachments dto) @
      json_js ''version'' (\<lambda>n. JNum (int n)) (ut_version dto))"

definition json_old_task :: "task \<Rightarrow> json" where
  "json_old_task t = JObj
     [(''title'', JStr (task_title t)), (''description'', json_opt JStr (task_description t)),
      (''status'', JStr (task_status t)), (''priority'', JStr (task_priority t)),
      (''assignedTo'', json_opt JStr (task_assignedTo t)),
      (''dueDate'', json_opt JNum (task_dueDate t)), (''version'', JNum (int (task_version t)))]"

definition version_conflict :: "update_task_dto \<Rightarrow> task \<Rightarrow> bool" where
  "version_conflict dto t \<longleftrightarrow>
     (case ut_version dto of Undefined \<Rightarrow> False | Null \<Rightarrow> True | Value v \<Rightarrow> task_version t \<noteq> v)"

definition lock_violation :: string where
  "lock_violation =
     ''Optimistic locking violation: Task has been modified by another request. Please reload.''"

text \<open>
  The \<open>try\<close> block of \<open>updateTask\<close>: the save, the invalidation of both caches and
  the announcement (audit, activity, notification, socket), which is the part after the caches.
\<close>

definition announce_update ::
  "platform \<Rightarrow> string \<Rightarrow> string \<Rightarrow> string \<Rightarrow> update_task_dto \<Rightarrow> task_view \<Rightarrow> task \<Rightarrow> task \<Rightarrow>
   task_view svc" where
  "announce_update pf i workspaceId userId dto v t saved =
     await (auditLog ''TASK_UPDATE'' (Some userId)
              (JObj [(''taskId'', JStr i), (''workspaceId'', JStr workspaceId),
                     (''previous'', json_old_task (view_task v)),
                     (''new'', json_update dto)])) (\<lambda>_.
     await
       (if completes dto (view_task v) then
          await (activityLog workspaceId ''TASK'' i ''TASK_COMPLETED'' userId) (\<lambda>_.
          if task_createdBy t \<noteq> userId then
            await (createAndSendNotification pf (task_createdBy t) ''TASK_COMPLETED''
              (''Completed Task: '' @ task_title t)
              (''The task \"'' @ task_title t @ ''\" has been completed.'')) (\<lambda>_. ret ())
          else ret ())
        else if reassigns dto (view_task v) \<and> truthy (task_assignedTo t) then
          await (activityLog workspaceId ''TASK'' i ''TASK_ASSIGNED'' userId) (\<lambda>_.
          await (createAndSendNotification pf (the (task_assignedTo t)) ''TASK_ASSIGNED''
            (''Assigned Task: '' @ task_title t)
            (''You have been assigned to the task \"'' @ task_title t @ ''\".'')) (\<lambda>_. ret ()))
        else activityLog workspaceId ''TASK'' i ''TASK_UPDATED'' userId) (\<lambda>_.
     await (sendTaskUpdated workspaceId (TaskPayload saved)) (\<lambda>_.
     ret (v\<lparr>view_task := saved\<rparr>))))"

definition save_and_publish ::
  "platform \<Rightarrow> string \<Rightarrow> string \<Rightarrow> string \<Rightarrow> update_task_dto \<Rightarrow> task_view \<Rightarrow> task option \<Rightarrow>
   task_view svc" where
  "save_and_publish pf i workspaceId userId dto v entity =
     (case entity of
        None \<Rightarrow> throw (QueryFailedError ''tasks: null value in a column that is not nullable'')
      | Some t \<Rightarrow>
          await (save_task t) (\<lambda>saved.
          await (cacheDel (getTaskCacheKey i)) (\<lambda>_.
          await (cacheDelPattern pf (getListCachePattern workspaceId (task_projectId t))) (\<lambda>_.
          announce_update pf i workspaceId userId dto v t saved))))"

text \<open>
  \<open>updateTask\<close> awaits the read of the task before anything else; what it does with the
  loaded entity is a definition of its own, because other requests run in between.
\<close>

definition update_loaded ::
  "platform \<Rightarrow> string \<Rightarrow> string \<Rightarrow> string \<Rightarrow> update_task_dto \<Rightarrow> task_view \<Rightarrow> task_view svc" where
  "update_loaded pf i workspaceId userId dto v =
     (if version_conflict dto (view_task v) then throw (ConflictException lock_violation)
      else
        await new_date (\<lambda>now.
        try_catch
          (save_and_publish pf i workspaceId userId dto v (apply_update pf now dto (view_task v)))
          (\<lambda>error.
             if error = OptimisticLockVersionMismatchError
             then throw (ConflictException lock_violation)
             else throw error)))"

definition updateTask ::
  "platform \<Rightarrow> string \<Rightarrow> string \<Rightarrow> string \<Rightarrow> update_task_dto \<Rightarrow> task_view svc" where
  "updateTask pf i workspaceId userId dto =
     await (findById pf i workspaceId) (update_loaded pf i workspaceId userId dto)"

definition announce_delete :: "string \<Rightarrow> string \<Rightarrow> string \<Rightarrow> unit svc" where
  "announce_delete i workspaceId userId =
     await (auditLog ''TASK_DELETE'' (Some userId)
              (JObj [(''taskId'', JStr i), (''workspaceId'', JStr workspaceId)])) (\<lambda>_.
     await (activityLog workspaceId ''TASK'' i ''TASK_DELETED'' userId) (\<lambda>_.
     await new_date (\<lambda>now.
     sendTaskUpdated workspaceId (TaskDeletedPayload i ''DELETED'' now))))"

definition deleteTask :: "platform \<Rightarrow> string \<Rightarrow> string \<Rightarrow> string \<Rightarrow> unit svc" where
  "deleteTask pf i workspaceId userId =
     await (findById pf i workspaceId) (\<lambda>v.
     await (soft_remove_task (view_task v)) (\<lambda>_.
     await (cacheDel (getTaskCacheKey i)) (\<lambda>_.
     await (cacheDelPattern pf
              (getListCachePattern workspaceId (task_projectId (view_task v)))) (\<lambda>_.
     announce_delete i workspaceId userId))))"

section \<open>Listing\<close>

definition matches_query :: "platform \<Rightarrow> query_task_dto \<Rightarrow> task \<Rightarrow> bool" where
  "matches_query pf q t \<longleftrightarrow>
     (truthy (q_status q) \<longrightarrow> q_status q = Some (task_status t)) \<and>
     (truthy (q_priority q) \<longrightarrow> q_priority q = Some (task_priority t)) \<and>
     (truthy (q_assignedTo q) \<longrightarrow> q_assignedTo q = task_assignedTo t) \<and>
     (truthy (q_search q) \<longrightarrow>
        pf_fullText pf
          (task_title t @ '' '' @ (case task_description t of None \<Rightarrow> '''' | Some d \<Rightarrow> d))
          (the (q_search q)))"

text \<open>\<open>ORDER BY\<close>: a null is last in ascending order and first in descending order.\<close>

definition sort_tasks :: "(task \<Rightarrow> int option) \<Rightarrow> string \<Rightarrow> task list \<Rightarrow> task list" where
  "sort_tasks key order ts =
     (let nulls = filter (\<lambda>t. key t = None) ts; vals = filter (\<lambda>t. key t \<noteq> None) ts
      in if order = ''ASC'' then order_asc (\<lambda>t. the (key t)) vals @ nulls
         else nulls @ order_desc (\<lambda>t. the (key t)) vals)"

definition sort_field :: "platform \<Rightarrow> query_task_dto \<Rightarrow> task \<Rightarrow> int option" where
  "sort_field pf q t =
     (if q_sortBy q = Some ''dueDate'' then task_dueDate t
      else if q_sortBy q = Some ''title'' then Some (pf_titleRank pf (task_title t))
      else Some (task_createdAt t))"

fun or_int :: "int option \<Rightarrow> int \<Rightarrow> int" where
  "or_int (Some n) d = (if n \<noteq> 0 then n else d)"
| "or_int None d = d"

definition selected_tasks :: "platform \<Rightarrow> string \<Rightarrow> string \<Rightarrow> query_task_dto \<Rightarrow> world \<Rightarrow> task list" where
  "selected_tasks pf workspaceId projectId q w =
     sort_tasks (sort_field pf q) (or_str (q_sortOrder q) ''DESC'')
       (filter (\<lambda>t. task_workspaceId t = workspaceId \<and> task_projectId t = projectId \<and>
                    task_deletedAt t = None \<and> matches_query pf q t) (tasks w))"

definition db_page :: "platform \<Rightarrow> string \<Rightarrow> string \<Rightarrow> query_task_dto \<Rightarrow> world \<Rightarrow> task_page" where
  "db_page pf workspaceId projectId q w =
     (let page = or_int (q_page q) 1;
          limit = or_int (q_limit q) 10;
          skip = (page - 1) * limit;
          all = selected_tasks pf workspaceId projectId q w;
          items = take (nat limit) (drop (nat skip) all)
      in \<lparr>page_items = map (\<lambda>t. (t, Option.bind (task_assignedTo t) (\<lambda>u. find_user pf u w))) items,
          page_total = length all, page_page = page, page_limit = limit,
          page_totalPages = - ((- int (length all)) div limit)\<rparr>)"

definition getTasks ::
  "platform \<Rightarrow> string \<Rightarrow> string \<Rightarrow> query_task_dto \<Rightarrow> task_page svc" where
  "getTasks pf workspaceId projectId q =
     await (cacheGet (getListCacheKey workspaceId projectId q)) (\<lambda>cached.
     case cached of
       Some (CTaskPage p) \<Rightarrow> ret p
     | _ \<Rightarrow>
         await (gets (db_page pf workspaceId projectId q)) (\<lambda>result.
         await (cacheSet (getListCacheKey workspaceId projectId q) (CTaskPage result) 300) (\<lambda>_.
         ret result)))"

end
