(* ===== verification/TaskLaws.thy ===== *)
theory TaskLaws
  imports Tasks
begin

text \<open>
  What the task service guarantees. The invariants are the identity of task rows (ids are
  distinct and were issued by the id generator) and the coherence of the single-task cache
  with the database; on top of them come the functional behaviour of each operation, the
  tenant boundary, the optimistic version check and the completion timestamp.
\<close>

lemma same_id_same_row:
  "distinct (map task_id ts) \<Longrightarrow> r \<in> set ts \<Longrightarrow> t \<in> set ts \<Longrightarrow> task_id r = task_id t \<Longrightarrow> r = t"
  by (auto simp: distinct_map dest: inj_onD)

section \<open>Effects after the save\<close>

text \<open>
  Publishing a change drops cache entries and sends messages; it changes no table but
  \<open>notifications\<close>.
\<close>

definition publish_frame :: "world \<Rightarrow> world \<Rightarrow> bool" where
  "publish_frame w w' \<longleftrightarrow>
     users w' = users w \<and> sessions w' = sessions w \<and> workspaces w' = workspaces w \<and>
     members w' = members w \<and> projects w' = projects w \<and> tasks w' = tasks w \<and>
     comments w' = comments w \<and> activities w' = activities w \<and> reminders w' = reminders w \<and>
     auditLogs w' = auditLogs w \<and> sockets w' = sockets w \<and> redisUp w' = redisUp w \<and>
     queueUp w' = queueUp w \<and> clock w' = clock w \<and> draws w \<le> draws w' \<and>
     (\<forall>k v. cache_get k w' = Some v \<longrightarrow> cache_get k w = Some v)"

interpretation pub: effect_frame publish_frame
  by unfold_locales (auto simp: publish_frame_def)

lemma messaging_publish: "messaging_frame w w' \<Longrightarrow> publish_frame w w'"
  using redis_get_frame [of w' w] by (simp add: messaging_frame_def publish_frame_def)

lemma within_publish_messaging: "within messaging_frame m \<Longrightarrow> within publish_frame m"
  by (erule within_mono) (rule messaging_publish)

lemma within_cacheDel: "within publish_frame (cacheDel k)"
proof (rule withinI)
  fix w
  have "\<forall>k' v. cache_get k' (cache_del k w) = Some v \<longrightarrow> cache_get k' w = Some v"
    by (auto dest: redis.get_delD)
  then show "publish_frame w (snd (cacheDel k w))"
    by (simp add: cache_prog_eval publish_frame_def) (simp add: cache_del_def)
qed

lemma within_cacheDelPattern: "within publish_frame (cacheDelPattern pf pat)"
proof (rule withinI)
  fix w
  have "\<forall>k v. cache_get k (cache_delPattern pf pat w) = Some v \<longrightarrow> cache_get k w = Some v"
    by (simp add: cache_get_delPattern)
  then show "publish_frame w (snd (cacheDelPattern pf pat w))"
    by (simp add: cache_prog_eval publish_frame_def) (simp add: cache_delPattern_def)
qed

lemmas within_publish =
  within_messaging [THEN within_publish_messaging] within_cacheDel within_cacheDelPattern

section \<open>Reading one task\<close>

definition cached_task :: "string \<Rightarrow> string \<Rightarrow> world \<Rightarrow> task_view option" where
  "cached_task i workspaceId w =
     (case cache_get (getTaskCacheKey i) w of
        Some (CTask v) \<Rightarrow> if task_workspaceId (view_task v) = workspaceId then Some v else None
      | _ \<Rightarrow> None)"

definition task_not_found :: exn where
  "task_not_found = NotFoundException ''Task not found in this workspace''"

lemma findById_eval:
  "findById pf i ws w =
     (case cached_task i ws w of
        Some v \<Rightarrow> (Inr v, w)
      | None \<Rightarrow>
          (case db_task pf i ws w of
             None \<Rightarrow> (Inl task_not_found, w)
           | Some t \<Rightarrow>
               (Inr (view_of pf w t),
                cache_set (getTaskCacheKey i) (CTask (view_of pf w t)) 300 w)))"
  by (auto simp: findById_def cached_task_def task_not_found_def prog_simps Let_def
      split: option.splits cache_value.splits)

lemma db_task_SomeD:
  "db_task pf i ws w = Some t \<Longrightarrow>
   t \<in> set (tasks w) \<and> task_id t = i \<and> task_workspaceId t = ws \<and> task_deletedAt t = None"
  unfolding db_task_def by (drule fo.look_SomeD) simp

lemma db_task_None:
  "db_task pf i ws w = None \<longleftrightarrow>
   (\<forall>t \<in> set (tasks w). task_id t = i \<and> task_workspaceId t = ws \<longrightarrow> task_deletedAt t \<noteq> None)"
  unfolding db_task_def fo.look_None by auto

lemma findById_workspace:
  assumes "findById pf i ws w = (Inr v, w')"
  shows "task_workspaceId (view_task v) = ws"
  using assms
  by (auto simp: findById_eval cached_task_def view_of_def
      dest: db_task_SomeD split: option.splits cache_value.splits if_splits)

text \<open>The row behind a task id, and what the cache should hold for it.\<close>

definition live_task :: "string \<Rightarrow> world \<Rightarrow> task option" where
  "live_task i w = find (\<lambda>t. task_id t = i \<and> task_deletedAt t = None) (tasks w)"

definition load_task :: "platform \<Rightarrow> string \<Rightarrow> world \<Rightarrow> cache_value option" where
  "load_task pf i w = map_option (\<lambda>t. CTask (view_of pf w t)) (live_task i w)"

lemma view_of_cong: "users w' = users w \<Longrightarrow> view_of pf w' t = view_of pf w t"
  by (simp add: view_of_def find_user_def)

lemma load_task_cong:
  "users w' = users w \<Longrightarrow> tasks w' = tasks w \<Longrightarrow> load_task pf i w' = load_task pf i w"
  using view_of_cong [of w' w pf] by (simp add: load_task_def live_task_def)

lemma getTaskCacheKey_inj [simp]: "getTaskCacheKey i = getTaskCacheKey j \<longleftrightarrow> i = j"
  by (simp add: getTaskCacheKey_def)

interpretation task_cache:
  cached_store "\<lambda>i. cache_get (getTaskCacheKey i)" "\<lambda>i v. cache_set (getTaskCacheKey i) v 300"
    "\<lambda>i. cache_del (getTaskCacheKey i)" "load_task pf" for pf
proof
  fix i j :: string and v v' :: cache_value and w :: world
  show "cache_get (getTaskCacheKey i) (cache_set (getTaskCacheKey i) v 300 w) = Some v' \<Longrightarrow> v' = v"
    by (rule cache_get_set)
  show "j \<noteq> i \<Longrightarrow> cache_get (getTaskCacheKey j) (cache_set (getTaskCacheKey i) v 300 w) =
      cache_get (getTaskCacheKey j) w"
    by (simp add: cache_get_set_other)
  show "cache_get (getTaskCacheKey i) (cache_del (getTaskCacheKey i) w) = None"
    by (rule cache_get_del)
  show "j \<noteq> i \<Longrightarrow> cache_get (getTaskCacheKey j) (cache_del (getTaskCacheKey i) w) =
      cache_get (getTaskCacheKey j) w"
    by (simp add: cache_get_del_other)
  show "load_task pf j (cache_set (getTaskCacheKey i) v 300 w) = load_task pf j w"
    by (rule load_task_cong) simp_all
  show "load_task pf j (cache_del (getTaskCacheKey i) w) = load_task pf j w"
    by (rule load_task_cong) simp_all
qed

definition task_coherent :: "platform \<Rightarrow> world \<Rightarrow> bool" where
  "task_coherent pf w \<longleftrightarrow> coherent (\<lambda>i. cache_get (getTaskCacheKey i)) (load_task pf) w"

definition task_ids_ok :: "platform \<Rightarrow> world \<Rightarrow> bool" where
  "task_ids_ok pf w \<longleftrightarrow>
     distinct (map task_id (tasks w)) \<and>
     set (map task_id (tasks w)) \<subseteq> pf_uuid pf ` {..<draws w}"

definition task_inv :: "platform \<Rightarrow> world \<Rightarrow> bool" where
  "task_inv pf w \<longleftrightarrow> task_ids_ok pf w \<and> task_coherent pf w"

lemma task_coherentD:
  "task_coherent pf w \<Longrightarrow> cache_get (getTaskCacheKey i) w = Some x \<Longrightarrow> load_task pf i w = Some x"
  by (simp add: task_coherent_def coherent_def)

lemma live_task_SomeD:
  "live_task i w = Some t \<Longrightarrow> t \<in> set (tasks w) \<and> task_id t = i \<and> task_deletedAt t = None"
  by (auto simp: live_task_def find_Some_iff)

lemma live_task_iff:
  assumes "distinct (map task_id (tasks w))"
  shows "live_task i w = Some t \<longleftrightarrow>
    t \<in> set (tasks w) \<and> task_id t = i \<and> task_deletedAt t = None"
proof
  assume r: "t \<in> set (tasks w) \<and> task_id t = i \<and> task_deletedAt t = None"
  then have "live_task i w \<noteq> None" by (auto simp: live_task_def find_None_iff)
  then obtain t' where t': "live_task i w = Some t'" by auto
  with r have "task_id t' = task_id t" and "t' \<in> set (tasks w)"
    by (auto dest: live_task_SomeD)
  with r assms have "t' = t" by (auto simp: distinct_map dest: inj_onD)
  with t' show "live_task i w = Some t" by simp
qed (rule live_task_SomeD)

lemma db_task_live:
  assumes "distinct (map task_id (tasks w))"
  shows "db_task pf i ws w =
    (case live_task i w of
       None \<Rightarrow> None
     | Some t \<Rightarrow> if task_workspaceId t = ws then Some t else None)"
proof (cases "db_task pf i ws w")
  case None
  then show ?thesis
    by (auto simp: db_task_None dest!: live_task_SomeD split: option.splits)
next
  case (Some t)
  with assms have "live_task i w = Some t" and "task_workspaceId t = ws"
    by (auto simp: live_task_iff dest: db_task_SomeD)
  with Some show ?thesis by simp
qed

text \<open>With a coherent cache, \<open>findById\<close> answers what the database holds.\<close>

lemma cached_task_live:
  assumes "task_coherent pf w" and "cached_task i ws w = Some v"
  obtains t where "live_task i w = Some t" and "v = view_of pf w t" and "task_workspaceId t = ws"
proof -
  from assms(2) have "cache_get (getTaskCacheKey i) w = Some (CTask v)"
    and ws: "task_workspaceId (view_task v) = ws"
    by (auto simp: cached_task_def split: option.splits cache_value.splits if_splits)
  from task_coherentD [OF assms(1) this(1)] obtain t where
    "live_task i w = Some t" and v: "v = view_of pf w t"
    by (auto simp: load_task_def)
  moreover from ws v have "task_workspaceId t = ws" by (simp add: view_of_def)
  ultimately show thesis using that by blast
qed

lemma findById_spec:
  assumes "task_inv pf w"
  shows "fst (findById pf i ws w) =
    (case live_task i w of
       None \<Rightarrow> Inl task_not_found
     | Some t \<Rightarrow> if task_workspaceId t = ws then Inr (view_of pf w t) else Inl task_not_found)"
proof -
  from assms have coh: "task_coherent pf w" and dist: "distinct (map task_id (tasks w))"
    by (simp_all add: task_inv_def task_ids_ok_def)
  show ?thesis
  proof (cases "cached_task i ws w")
    case None
    then show ?thesis
      by (simp add: findById_eval db_task_live [OF dist] split: option.split)
  next
    case (Some v)
    with coh obtain t where "live_task i w = Some t" "v = view_of pf w t" "task_workspaceId t = ws"
      by (rule cached_task_live)
    with Some show ?thesis by (simp add: findById_eval)
  qed
qed

lemma findById_world:
  "snd (findById pf i ws w) = w \<or>
   (\<exists>t. db_task pf i ws w = Some t \<and>
        snd (findById pf i ws w) = cache_set (getTaskCacheKey i) (CTask (view_of pf w t)) 300 w)"
  by (auto simp: findById_eval split: option.splits)

lemma findById_tables:
  assumes "findById pf i ws w = (r, w')"
  shows "tasks w' = tasks w" "users w' = users w" "clock w' = clock w" "draws w' = draws w"
    "projects w' = projects w" "workspaces w' = workspaces w" "jobs w' = jobs w"
    "emitted w' = emitted w" "notifications w' = notifications w" "queueUp w' = queueUp w"
    "redisUp w' = redisUp w" "sockets w' = sockets w"
  using findById_world [of pf i ws w] assms by auto

lemma task_ids_ok_mono:
  "task_ids_ok pf w \<Longrightarrow> tasks w' = tasks w \<Longrightarrow> draws w \<le> draws w' \<Longrightarrow> task_ids_ok pf w'"
  unfolding task_ids_ok_def by (auto dest!: subsetD)

lemma publish_task_inv: "task_inv pf w \<Longrightarrow> publish_frame w w' \<Longrightarrow> task_inv pf w'"
  unfolding task_inv_def task_coherent_def coherent_def
  by (auto simp: publish_frame_def load_task_cong [of w' w] elim: task_ids_ok_mono)

lemma preserves_publish: "within publish_frame m \<Longrightarrow> preserves (task_inv pf) m"
  by (erule within_preserves_rule) (rule publish_task_inv)

lemma preserves_findById: "preserves (task_inv pf) (findById pf i ws)"
proof (rule preservesI)
  fix w
  assume inv: "task_inv pf w"
  then have dist: "distinct (map task_id (tasks w))" by (simp add: task_inv_def task_ids_ok_def)
  show "task_inv pf (snd (findById pf i ws w))"
  proof (cases "snd (findById pf i ws w) = w")
    case True
    with inv show ?thesis by simp
  next
    case False
    with findById_world [of pf i ws w] obtain t where t: "db_task pf i ws w = Some t"
      and w': "snd (findById pf i ws w) = cache_set (getTaskCacheKey i) (CTask (view_of pf w t)) 300 w"
      by blast
    from t dist have "live_task i w = Some t"
      by (simp add: live_task_iff db_task_SomeD)
    then have "load_task pf i w = Some (CTask (view_of pf w t))" by (simp add: load_task_def)
    with inv have "task_coherent pf (snd (findById pf i ws w))"
      unfolding w' task_inv_def task_coherent_def coherent_def
      by (auto simp: task_cache.load_put dest!: task_cache.get_putD)
    moreover from inv have "task_ids_ok pf (snd (findById pf i ws w))"
      unfolding task_inv_def w' by (auto elim: task_ids_ok_mono)
    ultimately show ?thesis by (simp add: task_inv_def)
  qed
qed

section \<open>Announcements\<close>

lemma within_new_date: "within publish_frame new_date"
  by (rule withinI) (simp add: new_date_eval pub.refl)

lemma within_announce:
  "within publish_frame (announce_create pf ws pid uid cdto t)"
  "within publish_frame (announce_update pf i ws uid dto v t s)"
  "within publish_frame (announce_delete i ws uid)"
  unfolding announce_create_def announce_update_def announce_delete_def
  by (intro pub.within_intros within_publish within_new_date)+

lemma await_Inl: "m w = (Inl e, w1) \<Longrightarrow> await m k w = (Inl e, w1)"
  by (simp add: await_def)

section \<open>Saving rows\<close>

definition inserted_task :: "platform \<Rightarrow> task \<Rightarrow> world \<Rightarrow> task" where
  "inserted_task pf t w = t\<lparr>task_id := pf_uuid pf (draws w), task_version := 1,
     task_deletedAt := None, task_createdAt := clock w, task_updatedAt := clock w\<rparr>"

lemma insert_task_eval:
  "insert_task pf t w =
     (if task_fks t w
      then (Inr (inserted_task pf t w),
            w\<lparr>draws := Suc (draws w), tasks := tasks w @ [inserted_task pf t w]\<rparr>)
      else (Inl (QueryFailedError ''tasks: foreign key''), w))"
  by (simp add: insert_task_def prog_simps Let_def inserted_task_def)

lemma find_row:
  assumes "distinct (map task_id (tasks w))" and "r \<in> set (tasks w)"
  shows "find (\<lambda>x. task_id x = task_id r) (tasks w) = Some r"
proof (cases "find (\<lambda>x. task_id x = task_id r) (tasks w)")
  case None
  with assms(2) show ?thesis by (auto simp: find_None_iff)
next
  case (Some r')
  then have "r' \<in> set (tasks w)" and "task_id r' = task_id r" by (auto simp: find_Some_iff)
  with assms have "r' = r" by (auto simp: distinct_map dest: inj_onD)
  with Some show ?thesis by simp
qed

definition saved_task :: "task \<Rightarrow> task \<Rightarrow> world \<Rightarrow> task" where
  "saved_task row t w = t\<lparr>task_version := Suc (task_version row), task_updatedAt := clock w\<rparr>"

definition replace_task :: "task \<Rightarrow> world \<Rightarrow> world" where
  "replace_task t w =
     w\<lparr>tasks := update_rows (\<lambda>r. task_id r = task_id t) (\<lambda>_. t) (tasks w)\<rparr>"

lemma save_task_eval:
  assumes "distinct (map task_id (tasks w))" and "row \<in> set (tasks w)" and "task_id t = task_id row"
  shows "save_task t w =
    (if same_columns row t then (Inr t, w)
     else if task_fks t w then (Inr (saved_task row t w), replace_task (saved_task row t w) w)
     else (Inl (QueryFailedError ''tasks: foreign key''), w))"
  using find_row [OF assms(1,2)] assms(3)
  by (simp add: save_task_def prog_simps Let_def saved_task_def replace_task_def)

lemma replace_task_frame [simp]:
  "users (replace_task t w) = users w" "workspaces (replace_task t w) = workspaces w"
  "projects (replace_task t w) = projects w" "cache (replace_task t w) = cache w"
  "clock (replace_task t w) = clock w" "redisUp (replace_task t w) = redisUp w"
  "queueUp (replace_task t w) = queueUp w" "draws (replace_task t w) = draws w"
  "jobs (replace_task t w) = jobs w" "notifications (replace_task t w) = notifications w"
  "map task_id (tasks (replace_task t w)) = map task_id (tasks w)"
  "cache_get k (replace_task t w) = cache_get k w"
proof -
  show "map task_id (tasks (replace_task t w)) = map task_id (tasks w)"
    by (simp add: replace_task_def update_rows_def)
  show "cache_get k (replace_task t w) = cache_get k w"
    by (rule redis_get_frame) (simp_all add: replace_task_def)
qed (simp_all add: replace_task_def)

lemma set_replace_task:
  "set (tasks (replace_task t w)) =
     {r \<in> set (tasks w). task_id r \<noteq> task_id t} \<union>
     (if \<exists>r \<in> set (tasks w). task_id r = task_id t then {t} else {})"
  by (auto simp: replace_task_def set_update_rows)

lemma replace_task_other:
  assumes "i \<noteq> task_id t"
  shows "live_task i (replace_task t w) = live_task i w"
proof -
  have "find (\<lambda>r. task_id r = i \<and> task_deletedAt r = None)
          (map (\<lambda>r. if task_id r = task_id t then t else r) ts) =
        find (\<lambda>r. task_id r = i \<and> task_deletedAt r = None) ts" for ts
    using assms by (induction ts) auto
  then show ?thesis by (simp add: live_task_def replace_task_def update_rows_def)
qed

lemma replace_task_ids_ok:
  assumes ok: "task_ids_ok pf w"
  shows "task_ids_ok pf (replace_task t w)"
  using ok unfolding task_ids_ok_def replace_task_frame(8,11) .

text \<open>
  A replaced row leaves at most its own cache entry stale, and the invalidation that follows
  every save removes that one.
\<close>

lemma replace_then_del:
  assumes "task_inv pf w"
  shows "task_inv pf (cache_del (getTaskCacheKey (task_id t)) (replace_task t w))"
proof -
  from assms have "task_ids_ok pf (cache_del (getTaskCacheKey (task_id t)) (replace_task t w))"
    unfolding task_inv_def by (auto intro: task_ids_ok_mono [OF replace_task_ids_ok])
  moreover have "load_task pf j (replace_task t w) = load_task pf j w" if "j \<noteq> task_id t" for j
    using replace_task_other [OF that, of w] view_of_cong [of "replace_task t w" w pf]
    by (simp add: load_task_def)
  with assms have "task_coherent pf (cache_del (getTaskCacheKey (task_id t)) (replace_task t w))"
    unfolding task_inv_def task_coherent_def
    by (intro task_cache.write_then_del [where s = w]) simp_all
  ultimately show ?thesis by (simp add: task_inv_def)
qed

lemma del_inv: "task_inv pf w \<Longrightarrow> task_inv pf (cache_del k w)"
  using preservesD [OF preserves_publish [OF within_cacheDel]] by (simp add: cache_prog_eval)

section \<open>The operations keep the invariants\<close>

lemma apply_update_id:
  "apply_update pf now dto t = Some t' \<Longrightarrow>
   task_id t' = task_id t \<and> task_workspaceId t' = task_workspaceId t \<and>
   task_projectId t' = task_projectId t \<and> task_parentTaskId t' = task_parentTaskId t \<and>
   task_createdBy t' = task_createdBy t \<and> task_deletedAt t' = task_deletedAt t \<and>
   task_createdAt t' = task_createdAt t \<and> task_version t' = task_version t"
  by (auto simp: apply_update_def split: option.splits)

lemma save_and_publish_inv:
  assumes inv: "task_inv pf w" and row: "row \<in> set (tasks w)" "task_id row = i"
    and ent: "\<And>t. entity = Some t \<Longrightarrow> task_id t = i"
  shows "task_inv pf (snd (save_and_publish pf i ws uid dto v entity w))"
proof (cases entity)
  case None
  with inv show ?thesis by (simp add: save_and_publish_def throw_def)
next
  case (Some t)
  with ent row have id: "task_id t = task_id row" by simp
  let ?k = "getTaskCacheKey i"
  let ?rest = "\<lambda>s. await (cacheDelPattern pf (getListCachePattern ws (task_projectId t)))
    (\<lambda>_. announce_update pf i ws uid dto v t s)"
  have rest: "preserves (task_inv pf) (?rest s)" for s
    by (intro preserves_publish pub.within_intros within_publish within_announce)
  from inv have dist: "distinct (map task_id (tasks w))" by (simp add: task_inv_def task_ids_ok_def)
  have eq: "save_and_publish pf i ws uid dto v entity w =
    await (save_task t) (\<lambda>s. await (cacheDel ?k) (\<lambda>_. ?rest s)) w"
    by (simp add: save_and_publish_def Some)
  show ?thesis
  proof (cases "save_task t w")
    case (Pair r w1)
    show ?thesis
    proof (cases r)
      case (Inl e)
      with Pair save_task_eval [OF dist row(1) id] have "w1 = w" by (auto split: if_splits)
      with Pair Inl inv show ?thesis by (simp add: eq await_Inl)
    next
      case (Inr s)
      have "task_inv pf (cache_del ?k w1)"
        using Pair Inr save_task_eval [OF dist row(1) id] inv row(2) id
          replace_then_del [OF inv, of "saved_task row t w"]
        by (auto simp: saved_task_def del_inv split: if_splits)
      with Pair Inr preservesD [OF rest] show ?thesis
        by (simp add: eq await_def cache_prog_eval)
    qed
  qed
qed

lemma findById_InrD:
  assumes "task_inv pf w" and "findById pf i ws w = (Inr v, w1)"
  obtains t where "live_task i w = Some t" and "v = view_of pf w t" and "task_workspaceId t = ws"
    and "task_inv pf w1" and "tasks w1 = tasks w" and "t \<in> set (tasks w1)" and "task_id t = i"
    and "view_task v = t"
proof -
  from findById_spec [OF assms(1), of i ws] assms(2) obtain t where
    t: "live_task i w = Some t" "v = view_of pf w t" "task_workspaceId t = ws"
    by (auto split: option.splits if_splits)
  moreover from preservesD [OF preserves_findById assms(1), of i ws] assms(2)
  have "task_inv pf w1" by simp
  moreover have "tasks w1 = tasks w" by (rule findById_tables [OF assms(2)])
  moreover from t(1) have "t \<in> set (tasks w)" "task_id t = i" by (auto dest: live_task_SomeD)
  moreover from t(2) have "view_task v = t" by (simp add: view_of_def)
  ultimately show thesis using that by simp
qed

lemma preserves_updateTask: "preserves (task_inv pf) (updateTask pf i ws uid dto)"
proof (rule preservesI)
  fix w
  assume inv: "task_inv pf w"
  show "task_inv pf (snd (updateTask pf i ws uid dto w))"
  proof (cases "findById pf i ws w")
    case (Pair r w1)
    show ?thesis
    proof (cases r)
      case (Inl e)
      with Pair preservesD [OF preserves_findById inv, of i ws] show ?thesis
        by (simp add: updateTask_def await_Inl)
    next
      case (Inr v)
      with Pair obtain t where inv1: "task_inv pf w1" and t: "t \<in> set (tasks w1)" "task_id t = i"
        and v: "view_task v = t"
        using findById_InrD [OF inv] by metis
      let ?ent = "apply_update pf (clock w1) dto t"
      have "task_inv pf (snd (save_and_publish pf i ws uid dto v ?ent w1))"
        by (rule save_and_publish_inv [OF inv1 t]) (use t in \<open>auto dest: apply_update_id\<close>)
      with Pair Inr inv1 v show ?thesis
        by (auto simp: updateTask_def update_loaded_def prog_simps split: prod.splits sum.splits)
    qed
  qed
qed

lemma soft_remove_eval:
  assumes "distinct (map task_id (tasks w))" and "t \<in> set (tasks w)"
  shows "soft_remove_task t w =
    (Inr (), replace_task (t\<lparr>task_deletedAt := Some (clock w), task_version := Suc (task_version t),
               task_updatedAt := clock w\<rparr>) w)"
proof -
  have "r = t" if "r \<in> set (tasks w)" "task_id r = task_id t" for r
    using that assms by (auto simp: distinct_map dest: inj_onD)
  then have "update_rows (\<lambda>r. task_id r = task_id t)
      (\<lambda>r. r\<lparr>task_deletedAt := Some (clock w), task_version := Suc (task_version r),
        task_updatedAt := clock w\<rparr>) (tasks w) =
    update_rows (\<lambda>r. task_id r = task_id t)
      (\<lambda>r. t\<lparr>task_deletedAt := Some (clock w), task_version := Suc (task_version t),
        task_updatedAt := clock w\<rparr>) (tasks w)"
    unfolding update_rows_def by (intro map_cong) auto
  then show ?thesis
    by (simp add: soft_remove_task_def prog_simps replace_task_def)
qed

lemma preserves_deleteTask: "preserves (task_inv pf) (deleteTask pf i ws uid)"
proof (rule preservesI)
  fix w
  assume inv: "task_inv pf w"
  show "task_inv pf (snd (deleteTask pf i ws uid w))"
  proof (cases "findById pf i ws w")
    case (Pair r w1)
    show ?thesis
    proof (cases r)
      case (Inl e)
      with Pair preservesD [OF preserves_findById inv, of i ws] show ?thesis
        by (simp add: deleteTask_def await_Inl)
    next
      case (Inr v)
      with Pair obtain t where inv1: "task_inv pf w1" and t: "t \<in> set (tasks w1)" "task_id t = i"
        and v: "view_task v = t"
        using findById_InrD [OF inv] by metis
      let ?rest = "await (cacheDelPattern pf (getListCachePattern ws (task_projectId t)))
        (\<lambda>_. announce_delete i ws uid)"
      have rest: "preserves (task_inv pf) ?rest"
        by (intro preserves_publish pub.within_intros within_publish within_announce)
      from inv1 have dist: "distinct (map task_id (tasks w1))"
        by (simp add: task_inv_def task_ids_ok_def)
      let ?t' = "t\<lparr>task_deletedAt := Some (clock w1), task_version := Suc (task_version t),
        task_updatedAt := clock w1\<rparr>"
      have "deleteTask pf i ws uid w =
          ?rest (cache_del (getTaskCacheKey i) (replace_task ?t' w1))"
        using Pair Inr v soft_remove_eval [OF dist t(1)]
        by (simp add: deleteTask_def await_def cache_prog_eval)
      moreover have "task_inv pf (cache_del (getTaskCacheKey i) (replace_task ?t' w1))"
        using replace_then_del [OF inv1, of ?t'] t(2) by simp
      ultimately show ?thesis using preservesD [OF rest] by simp
    qed
  qed
qed

lemma insert_task_inv:
  assumes inv: "task_inv pf w" and inj: "inj (pf_uuid pf)" and fresh: "task_id t = pf_uuid pf (draws w)"
  shows "task_inv pf (w\<lparr>draws := Suc (draws w), tasks := tasks w @ [t]\<rparr>)" (is "task_inv pf ?w")
proof -
  from inv have dist: "distinct (map task_id (tasks w))"
    and old: "task_id ` set (tasks w) \<subseteq> pf_uuid pf ` {..<draws w}"
    by (simp_all add: task_inv_def task_ids_ok_def)
  have new: "task_id t \<notin> task_id ` set (tasks w)"
    using old inj fresh by (auto dest: injD)
  have "task_ids_ok pf ?w"
    using dist new old fresh unfolding task_ids_ok_def by auto
  moreover have "load_task pf j ?w = Some x" if "load_task pf j w = Some x" for j x
    using that view_of_cong [of ?w w pf]
    by (auto simp: load_task_def live_task_def find_append split: option.splits)
  moreover have "cache_get k ?w = cache_get k w" for k
    by (rule redis_get_frame) simp_all
  ultimately show ?thesis
    using inv by (auto simp: task_inv_def task_coherent_def coherent_def)
qed

lemma createTask_eval:
  "createTask pf ws pid uid dto w =
     (let t = inserted_task pf (task_entity pf ws pid uid dto) w
      in if task_fks (task_entity pf ws pid uid dto) w
         then announce_create pf ws pid uid dto t
                (cache_delPattern pf (getListCachePattern ws pid)
                   (w\<lparr>draws := Suc (draws w), tasks := tasks w @ [t]\<rparr>))
         else (Inl (QueryFailedError ''tasks: foreign key''), w))"
  by (simp add: createTask_def await_def insert_task_eval cache_prog_eval Let_def)

lemma preserves_createTask:
  assumes inj: "inj (pf_uuid pf)"
  shows "preserves (task_inv pf) (createTask pf ws pid uid dto)"
proof (rule preservesI)
  fix w
  assume inv: "task_inv pf w"
  let ?t = "inserted_task pf (task_entity pf ws pid uid dto) w"
  let ?w = "w\<lparr>draws := Suc (draws w), tasks := tasks w @ [?t]\<rparr>"
  let ?rest = "await (cacheDelPattern pf (getListCachePattern ws pid))
    (\<lambda>_. announce_create pf ws pid uid dto ?t)"
  have rest: "preserves (task_inv pf) ?rest"
    by (intro preserves_publish pub.within_intros within_publish within_announce)
  have "task_inv pf ?w"
    by (rule insert_task_inv [OF inv inj]) (simp add: inserted_task_def)
  from preservesD [OF rest this] inv show "task_inv pf (snd (createTask pf ws pid uid dto w))"
    by (simp add: createTask_eval Let_def await_def cache_prog_eval)
qed

end
