(* ===== verification/TaskSpec.thy ===== *)
theory TaskSpec
  imports TaskLaws "HOL-Library.Multiset"
begin

text \<open>
  The abstract specification of the task service: what each operation does to the task table
  and what it answers, with no cache, queue or socket in sight, and the lemmas that the
  operations of \<open>task.service.ts\<close> implement it. The sequences of requests are a step
  relation over the world, with time, queue outages and cache evictions as further steps.
\<close>

section \<open>Outcomes\<close>

definition create_outcome ::
  "platform \<Rightarrow> string \<Rightarrow> string \<Rightarrow> string \<Rightarrow> create_task_dto \<Rightarrow> world \<Rightarrow> exn + task" where
  "create_outcome pf ws pid uid dto w =
     (let t = task_entity pf ws pid uid dto
      in if task_fks t w then Inr (inserted_task pf t w)
         else Inl (QueryFailedError ''tasks: foreign key''))"

definition read_outcome :: "string \<Rightarrow> string \<Rightarrow> world \<Rightarrow> exn + task" where
  "read_outcome ws i w =
     (case live_task i w of
        Some t \<Rightarrow> if task_workspaceId t = ws then Inr t else Inl task_not_found
      | None \<Rightarrow> Inl task_not_found)"

definition write_outcome ::
  "platform \<Rightarrow> update_task_dto \<Rightarrow> task \<Rightarrow> world \<Rightarrow> exn + task" where
  "write_outcome pf dto t w =
     (if version_conflict dto t then Inl (ConflictException lock_violation)
      else
        (case apply_update pf (clock w) dto t of
           None \<Rightarrow> Inl (QueryFailedError ''tasks: null value in a column that is not nullable'')
         | Some t' \<Rightarrow>
             if t' = t then Inr t
             else if task_fks t' w then Inr (saved_task t t' w)
             else Inl (QueryFailedError ''tasks: foreign key'')))"

definition update_outcome ::
  "platform \<Rightarrow> string \<Rightarrow> string \<Rightarrow> update_task_dto \<Rightarrow> world \<Rightarrow> exn + task" where
  "update_outcome pf ws i dto w =
     (case read_outcome ws i w of Inl e \<Rightarrow> Inl e | Inr t \<Rightarrow> write_outcome pf dto t w)"

definition delete_outcome :: "string \<Rightarrow> string \<Rightarrow> world \<Rightarrow> exn + task" where
  "delete_outcome ws i w =
     (case read_outcome ws i w of
        Inl e \<Rightarrow> Inl e
      | Inr t \<Rightarrow> Inr (t\<lparr>task_deletedAt := Some (clock w), task_version := Suc (task_version t),
                     task_updatedAt := clock w\<rparr>))"

text \<open>The table after an operation with that outcome: the row of the same id is replaced.\<close>

fun put_outcome :: "exn + task \<Rightarrow> task list \<Rightarrow> task list" where
  "put_outcome (Inl e) ts = ts"
| "put_outcome (Inr t) ts = map (\<lambda>r. if task_id r = task_id t then t else r) ts"

lemma tasks_replace_task: "tasks (replace_task t w) = put_outcome (Inr t) (tasks w)"
  by (simp add: replace_task_def update_rows_def)

lemma put_same:
  assumes "distinct (map task_id ts)" and "t \<in> set ts"
  shows "put_outcome (Inr t) ts = ts"
proof -
  have "r = t" if "r \<in> set ts" "task_id r = task_id t" for r
    using that assms by (auto simp: distinct_map dest: inj_onD)
  then show ?thesis unfolding put_outcome.simps by (intro map_idI) metis
qed

lemma set_put_outcome:
  "set (put_outcome out ts) \<subseteq> set ts \<union> (case out of Inl e \<Rightarrow> {} | Inr t \<Rightarrow> {t})"
  by (cases out) auto

section \<open>Results of the announcements\<close>

lemma publish_tasks: "within publish_frame m \<Longrightarrow> tasks (snd (m w)) = tasks w"
  by (drule withinD [where w = w]) (simp add: publish_frame_def)

text \<open>A program that does not throw from the worlds of a set, and stays in the set.\<close>

abbreviation safe :: "('w \<Rightarrow> bool) \<Rightarrow> ('w, 'a) prog \<Rightarrow> bool" where
  "safe P m \<equiv> hoare P m (\<lambda>_. P) (\<lambda>_ _. False)"

lemma safe_then:
  assumes "safe P m" and "\<And>x. hoare P (k x) Q E"
  shows "hoare P (await m k) Q E"
proof (rule hoare_await)
  show "hoare P m (\<lambda>_. P) E" by (rule hoare_conseq [OF assms(1)]) simp_all
qed (rule assms(2))

lemma safe_if: "(b \<Longrightarrow> hoare P m Q E) \<Longrightarrow> (\<not> b \<Longrightarrow> hoare P n Q E) \<Longrightarrow> hoare P (if b then m else n) Q E"
  by simp

lemma safeD: "hoare P m (\<lambda>x _. x = y) (\<lambda>_ _. False) \<Longrightarrow> P w \<Longrightarrow> fst (m w) = Inr y"
  by (cases "m w"; cases "fst (m w)") (auto dest: hoareD_Inr hoareD_Inl)

definition notifiable :: "world \<Rightarrow> bool" where
  \<comment> \<open>the two queues of the notification service accept jobs\<close>
  "notifiable w \<longleftrightarrow> queueUp w ''notification.queue'' \<and> queueUp w ''email.queue''"

definition reachable_users :: "user list \<Rightarrow> world \<Rightarrow> bool" where
  "reachable_users us w \<longleftrightarrow> notifiable w \<and> users w = us"

lemma safe_messaging:
  "safe (reachable_users us) (auditLog a u p)"
  "safe (reachable_users us) (activityLog ws ty i a' u')"
  "safe (reachable_users us) (sendTaskCreated ws pl)"
  "safe (reachable_users us) (sendTaskUpdated ws pl)"
  by (simp_all add: hoare_def prog_simps send_defs emit_to_def reachable_users_def notifiable_def)

lemma safe_notification:
  "\<exists>r \<in> set us. user_id r = u \<Longrightarrow>
   safe (reachable_users us) (createAndSendNotification pf u ty ti me)"
  by (auto simp: hoare_def createAndSendNotification_def insert_notification_def send_defs
      emit_to_def queue_add_def prog_simps Let_def reachable_users_def notifiable_def
      user_exists_def)

lemma safe_ret: "safe P (ret x)"
  by (simp add: hoare_ret)

lemmas safe_intros = safe_then safe_if safe_messaging safe_notification safe_ret

lemma announce_create_ok:
  assumes "notifiable w" and "truthy (ct_assignedTo dto) \<longrightarrow> user_exists (the (ct_assignedTo dto)) w"
  shows "fst (announce_create pf ws pid uid dto t w) = Inr t"
proof (rule safeD [where P = "reachable_users (users w)"])
  show "hoare (reachable_users (users w)) (announce_create pf ws pid uid dto t)
      (\<lambda>x _. x = t) (\<lambda>_ _. False)"
    unfolding announce_create_def
    by (intro safe_intros hoare_ret) (use assms(2) in \<open>auto simp: user_exists_def\<close>)
qed (use assms(1) in \<open>simp add: reachable_users_def\<close>)

lemma announce_update_ok:
  assumes "notifiable w" and "user_exists (task_createdBy t) w"
    and "fk_null user_exists (task_assignedTo t) w"
  shows "fst (announce_update pf i ws uid dto v t s w) = Inr (v\<lparr>view_task := s\<rparr>)"
proof (rule safeD [where P = "reachable_users (users w)"])
  show "hoare (reachable_users (users w)) (announce_update pf i ws uid dto v t s)
      (\<lambda>x _. x = v\<lparr>view_task := s\<rparr>) (\<lambda>_ _. False)"
    unfolding announce_update_def
    by (intro safe_intros hoare_ret)
      (use assms(2,3) in \<open>auto simp: user_exists_def elim: truthy.elims\<close>)
qed (use assms(1) in \<open>simp add: reachable_users_def\<close>)

section \<open>Refinement\<close>

lemma findById_refines:
  "task_inv pf w \<Longrightarrow> fst (findById pf i ws w) = map_sum id (view_of pf w) (read_outcome ws i w)"
  by (simp add: findById_spec read_outcome_def split: option.split)

lemma create_task_fks:
  "task_fks (task_entity pf ws pid uid dto) w \<Longrightarrow>
   truthy (ct_assignedTo dto) \<longrightarrow> user_exists (the (ct_assignedTo dto)) w"
  by (cases "ct_assignedTo dto") (auto simp: task_fks_def task_entity_def)

lemma createTask_tasks:
  "tasks (snd (createTask pf ws pid uid dto w)) =
     tasks w @ (case create_outcome pf ws pid uid dto w of Inl e \<Rightarrow> [] | Inr t \<Rightarrow> [t])"
  by (simp add: createTask_eval create_outcome_def Let_def publish_tasks [OF within_announce(1)])

lemma createTask_result:
  assumes "notifiable w"
  shows "fst (createTask pf ws pid uid dto w) = create_outcome pf ws pid uid dto w"
  using assms create_task_fks [of pf ws pid uid dto w]
  by (auto simp: createTask_eval create_outcome_def Let_def notifiable_def user_exists_def
      intro!: announce_create_ok)

lemma same_columns_iff:
  "task_version t = task_version row \<Longrightarrow> task_updatedAt t = task_updatedAt row \<Longrightarrow>
   same_columns row t \<longleftrightarrow> t = row"
  unfolding same_columns_def by (cases t; cases row) auto

lemma apply_update_updatedAt:
  "apply_update pf now dto t = Some t' \<Longrightarrow> task_updatedAt t' = task_updatedAt t"
  by (auto simp: apply_update_def split: option.splits)

lemma save_and_publish_eval:
  assumes row: "distinct (map task_id (tasks w))" "row \<in> set (tasks w)"
    and ent: "apply_update pf now dto row = Some t"
  shows "save_and_publish pf i ws uid dto v (Some t) w =
    (if t = row \<or> task_fks t w then
       let s = (if t = row then row else saved_task row t w)
       in announce_update pf i ws uid dto v t s
            (cache_delPattern pf (getListCachePattern ws (task_projectId t))
              (cache_del (getTaskCacheKey i) (if t = row then w else replace_task s w)))
     else (Inl (QueryFailedError ''tasks: foreign key''), w))"
proof -
  have "task_id t = task_id row" and same: "same_columns row t \<longleftrightarrow> t = row"
    using apply_update_id [OF ent] apply_update_updatedAt [OF ent] same_columns_iff [of t row]
    by simp_all
  then show ?thesis
    by (simp add: save_and_publish_def await_def save_task_eval [OF row] cache_prog_eval Let_def)
qed

lemma update_loaded_tasks:
  assumes row: "distinct (map task_id (tasks w))" "view_task v \<in> set (tasks w)"
  shows "tasks (snd (update_loaded pf i ws uid dto v w)) =
    put_outcome (write_outcome pf dto (view_task v) w) (tasks w)"
proof (cases "apply_update pf (clock w) dto (view_task v)")
  case None
  then show ?thesis
    by (simp add: update_loaded_def write_outcome_def prog_simps save_and_publish_def)
next
  case (Some t)
  then have id: "task_id t = task_id (view_task v)" by (simp add: apply_update_id)
  have catch: "tasks (snd (try_catch m (\<lambda>e. if e = x then throw y else throw e) w)) = tasks (snd (m w))"
    for m :: "task_view svc" and x y
    by (simp add: prog_simps split: prod.split sum.split)
  show ?thesis
    using Some id put_same [OF row]
    by (simp add: update_loaded_def write_outcome_def prog_simps(2,3,6) new_date_eval await_def
        throw_def catch save_and_publish_eval [OF row Some] Let_def
        publish_tasks [OF within_announce(2)] replace_task_def update_rows_def saved_task_def)
qed

lemma user_exists_cong: "users w' = users w \<Longrightarrow> user_exists u w' = user_exists u w"
  by (simp add: user_exists_def)

lemma fk_null_cong: "(\<And>u. ex u w' = ex u w) \<Longrightarrow> fk_null ex x w' = fk_null ex x w"
  by (cases x) simp_all

lemma update_loaded_result:
  assumes row: "distinct (map task_id (tasks w))" "view_task v \<in> set (tasks w)"
    and fks: "task_fks (view_task v) w" and up: "notifiable w"
  shows "fst (update_loaded pf i ws uid dto v w) =
    map_sum id (\<lambda>s. v\<lparr>view_task := s\<rparr>) (write_outcome pf dto (view_task v) w)"
proof (cases "apply_update pf (clock w) dto (view_task v)")
  case None
  then show ?thesis
    by (simp add: update_loaded_def write_outcome_def prog_simps save_and_publish_def)
next
  case (Some t)
  let ?row = "view_task v"
  have ann: "fst (announce_update pf i ws uid dto v t s w') = Inr (v\<lparr>view_task := s\<rparr>)"
    if "t = ?row \<or> task_fks t w" and w': "users w' = users w" "queueUp w' = queueUp w" for s w'
  proof (rule announce_update_ok)
    from that(1) fks have "task_fks t w" by auto
    then show "user_exists (task_createdBy t) w'"
      and "fk_null user_exists (task_assignedTo t) w'"
      using user_exists_cong [OF w'(1)] fk_null_cong [of user_exists w' w]
      by (simp_all add: task_fks_def)
  qed (use up w' in \<open>simp add: notifiable_def\<close>)
  have catch: "fst (try_catch m (\<lambda>e. if e = x then throw y else throw e) w) = fst (m w)"
    if "fst (m w) \<noteq> Inl x" for m :: "task_view svc" and x y
    using that by (auto simp: prog_simps split: prod.split sum.split)
  have "fst (save_and_publish pf i ws uid dto v (Some t) w) =
      (if t = ?row \<or> task_fks t w
       then Inr (v\<lparr>view_task := if t = ?row then ?row else saved_task ?row t w\<rparr>)
       else Inl (QueryFailedError ''tasks: foreign key''))"
    by (simp add: save_and_publish_eval [OF row Some] Let_def ann)
  with Some show ?thesis
    by (simp add: update_loaded_def write_outcome_def new_date_eval await_def throw_def catch)
qed

lemma findById_cases:
  assumes inv: "task_inv pf w"
  obtains (found) t w1 where "read_outcome ws i w = Inr t"
      and "findById pf i ws w = (Inr (view_of pf w t), w1)" and "task_inv pf w1"
      and "t \<in> set (tasks w1)" and "distinct (map task_id (tasks w1))" and "task_id t = i"
  | (missing) w1 where "read_outcome ws i w = Inl task_not_found"
      and "findById pf i ws w = (Inl task_not_found, w1)"
proof (cases "findById pf i ws w")
  case (Pair r w1)
  have inv1: "task_inv pf w1" using preservesD [OF preserves_findById inv, of i ws] Pair by simp
  have r: "r = map_sum id (view_of pf w) (read_outcome ws i w)"
    using findById_refines [OF inv, of i ws] Pair by simp
  show thesis
  proof (cases "read_outcome ws i w")
    case (Inl e)
    then have "e = task_not_found" by (auto simp: read_outcome_def split: option.splits if_splits)
    with missing [of w1] Inl Pair r show thesis by simp
  next
    case (Inr t)
    then have "live_task i w = Some t" by (auto simp: read_outcome_def split: option.splits if_splits)
    then have "t \<in> set (tasks w)" "task_id t = i" by (auto dest: live_task_SomeD)
    moreover from inv1 have "distinct (map task_id (tasks w1))"
      by (simp add: task_inv_def task_ids_ok_def)
    ultimately show thesis
      using found [of t w1] Inr Pair r inv1 findById_tables(1) [OF Pair] by simp
  qed
qed

lemma write_outcome_cong:
  assumes "clock w' = clock w" "users w' = users w" "workspaces w' = workspaces w"
    "projects w' = projects w" "tasks w' = tasks w"
  shows "write_outcome pf dto t w' = write_outcome pf dto t w"
proof -
  have "user_exists u w' = user_exists u w" "task_exists u w' = task_exists u w" for u
    using assms by (simp_all add: exists_defs)
  then have "task_fks x w' = task_fks x w" for x
    using fk_null_cong [of user_exists w' w] fk_null_cong [of task_exists w' w] assms
    by (simp add: task_fks_def workspace_exists_def project_exists_def)
  with assms(1) show ?thesis by (simp add: write_outcome_def saved_task_def split: option.split)
qed

lemma updateTask_tasks:
  assumes inv: "task_inv pf w"
  shows "tasks (snd (updateTask pf i ws uid dto w)) =
    put_outcome (update_outcome pf ws i dto w) (tasks w)"
proof (cases rule: findById_cases [OF inv, of ws i])
  case (1 t w1)
  note same = findById_tables [OF 1(2)]
  have "write_outcome pf dto t w1 = write_outcome pf dto t w"
    by (rule write_outcome_cong) (rule same)+
  with 1 same(1) update_loaded_tasks [of w1 "view_of pf w t" pf i ws uid dto] show ?thesis
    by (simp add: updateTask_def await_def update_outcome_def view_of_def)
next
  case (2 w1)
  with findById_tables(1) [OF 2(2)] show ?thesis
    by (simp add: updateTask_def await_def update_outcome_def)
qed

lemma updateTask_result:
  assumes inv: "task_inv pf w" and fks: "\<And>t. t \<in> set (tasks w) \<Longrightarrow> task_fks t w"
    and up: "notifiable w"
  shows "map_sum id view_task (fst (updateTask pf i ws uid dto w)) = update_outcome pf ws i dto w"
proof (cases rule: findById_cases [OF inv, of ws i])
  case (1 t w1)
  note same = findById_tables [OF 1(2)]
  have eq: "write_outcome pf dto t w1 = write_outcome pf dto t w"
    by (rule write_outcome_cong) (rule same)+
  have "user_exists u w1 = user_exists u w" "task_exists u w1 = task_exists u w" for u
    using same by (simp_all add: exists_defs)
  then have "task_fks t w1 = task_fks t w"
    using fk_null_cong [of user_exists w1 w] fk_null_cong [of task_exists w1 w] same
    by (simp add: task_fks_def workspace_exists_def project_exists_def)
  with 1 same fks up have "fst (update_loaded pf i ws uid dto (view_of pf w t) w1) =
      map_sum id (\<lambda>s. (view_of pf w t)\<lparr>view_task := s\<rparr>) (write_outcome pf dto t w)"
    using update_loaded_result [of w1 "view_of pf w t" pf i ws uid dto] eq
    by (simp add: view_of_def notifiable_def)
  with 1 show ?thesis
    by (simp add: updateTask_def await_def update_outcome_def sum.map_comp comp_def map_sum.identity)
next
  case (2 w1)
  then show ?thesis by (simp add: updateTask_def await_def update_outcome_def)
qed

lemma deleteTask_eval:
  assumes row: "distinct (map task_id (tasks w))" "t \<in> set (tasks w)"
    and found: "findById pf i ws w0 = (Inr v, w)" "view_task v = t"
  shows "deleteTask pf i ws uid w0 =
    announce_delete i ws uid
      (cache_delPattern pf (getListCachePattern ws (task_projectId t))
        (cache_del (getTaskCacheKey i)
          (replace_task (t\<lparr>task_deletedAt := Some (clock w), task_version := Suc (task_version t),
             task_updatedAt := clock w\<rparr>) w)))"
  using found by (simp add: deleteTask_def await_def soft_remove_eval [OF row] cache_prog_eval)

lemma announce_delete_ok: "fst (announce_delete i ws uid w) = Inr ()"
  by (simp add: announce_delete_def prog_simps send_defs emit_to_def)

lemma deleteTask_refines:
  assumes inv: "task_inv pf w"
  shows "tasks (snd (deleteTask pf i ws uid w)) = put_outcome (delete_outcome ws i w) (tasks w)"
    and "fst (deleteTask pf i ws uid w) = map_sum id (\<lambda>_. ()) (delete_outcome ws i w)"
proof (atomize(full), cases rule: findById_cases [OF inv, of ws i])
  case (1 t w1)
  note same = findById_tables [OF 1(2)]
  have v: "view_task (view_of pf w t) = t" by (simp add: view_of_def)
  show "tasks (snd (deleteTask pf i ws uid w)) = put_outcome (delete_outcome ws i w) (tasks w) \<and>
    fst (deleteTask pf i ws uid w) = map_sum id (\<lambda>_. ()) (delete_outcome ws i w)"
    unfolding deleteTask_eval [OF 1(5,4,2) v]
    using 1 same
    by (simp add: publish_tasks [OF within_announce(3)] announce_delete_ok delete_outcome_def
        replace_task_def update_rows_def)
next
  case (2 w1)
  with findById_tables(1) [OF 2(2)]
  show "tasks (snd (deleteTask pf i ws uid w)) = put_outcome (delete_outcome ws i w) (tasks w) \<and>
    fst (deleteTask pf i ws uid w) = map_sum id (\<lambda>_. ()) (delete_outcome ws i w)"
    by (simp add: deleteTask_def await_def delete_outcome_def)
qed

lemma getTasks_eval:
  "getTasks pf ws pid q w =
     (case cache_get (getListCacheKey ws pid q) w of
        Some (CTaskPage p) \<Rightarrow> (Inr p, w)
      | _ \<Rightarrow> (Inr (db_page pf ws pid q w),
              cache_set (getListCacheKey ws pid q) (CTaskPage (db_page pf ws pid q w)) 300 w))"
  by (auto simp: getTasks_def prog_simps split: option.splits cache_value.splits)

lemma getTasks_tasks [simp]: "tasks (snd (getTasks pf ws pid q w)) = tasks w"
  by (auto simp: getTasks_eval split: option.splits cache_value.splits)

lemma findById_tasks [simp]: "tasks (snd (findById pf i ws w)) = tasks w"
  using findById_world [of pf i ws w] by auto

section \<open>Requests in sequence\<close>

text \<open>
  The operations of the service as data, with the workspace the guards bound the request to,
  and what the validation pipe lets through.
\<close>

datatype task_op =
    TaskCreate string string string create_task_dto
  | TaskList string string query_task_dto
  | TaskFind string string
  | TaskUpdate string string string update_task_dto
  | TaskDelete string string string

fun op_workspace :: "task_op \<Rightarrow> string" where
  "op_workspace (TaskCreate ws pid uid dto) = ws"
| "op_workspace (TaskList ws pid q) = ws"
| "op_workspace (TaskFind ws i) = ws"
| "op_workspace (TaskUpdate ws i uid dto) = ws"
| "op_workspace (TaskDelete ws i uid) = ws"

fun op_valid :: "platform \<Rightarrow> task_op \<Rightarrow> bool" where
  "op_valid pf (TaskCreate ws pid uid dto) = createTaskDto_valid pf dto"
| "op_valid pf (TaskList ws pid q) = queryTaskDto_valid q"
| "op_valid pf (TaskFind ws i) = True"
| "op_valid pf (TaskUpdate ws i uid dto) = updateTaskDto_valid pf dto"
| "op_valid pf (TaskDelete ws i uid) = True"

fun run_op :: "platform \<Rightarrow> task_op \<Rightarrow> world \<Rightarrow> world" where
  "run_op pf (TaskCreate ws pid uid dto) w = snd (createTask pf ws pid uid dto w)"
| "run_op pf (TaskList ws pid q) w = snd (getTasks pf ws pid q w)"
| "run_op pf (TaskFind ws i) w = snd (findById pf i ws w)"
| "run_op pf (TaskUpdate ws i uid dto) w = snd (updateTask pf i ws uid dto w)"
| "run_op pf (TaskDelete ws i uid) w = snd (deleteTask pf i ws uid w)"

inductive task_step :: "platform \<Rightarrow> world \<Rightarrow> world \<Rightarrow> bool" for pf where
  request: "op_valid pf op \<Longrightarrow> task_step pf w (run_op pf op w)"
| time: "0 \<le> dt \<Longrightarrow> task_step pf w (w\<lparr>clock := clock w + dt\<rparr>)"
| outage: "task_step pf w (w\<lparr>queueUp := qs\<rparr>)"
| evict: "task_step pf w (w\<lparr>cache := (cache w)(k := None)\<rparr>)"

inductive_cases task_stepE: "task_step pf w w'"

inductive task_reachable :: "platform \<Rightarrow> world \<Rightarrow> world \<Rightarrow> bool" for pf where
  start: "task_reachable pf w w"
| then_step: "task_reachable pf w w' \<Longrightarrow> task_step pf w' w'' \<Longrightarrow> task_reachable pf w w''"

lemma reachable_invariant:
  assumes "task_reachable pf w w'" and "I w" and "\<And>u u'. I u \<Longrightarrow> task_step pf u u' \<Longrightarrow> I u'"
  shows "I w'"
  using assms by (induction) auto

text \<open>The table after one request, whatever the request.\<close>

fun op_tasks :: "platform \<Rightarrow> task_op \<Rightarrow> world \<Rightarrow> task list" where
  "op_tasks pf (TaskCreate ws pid uid dto) w =
     tasks w @ (case create_outcome pf ws pid uid dto w of Inl e \<Rightarrow> [] | Inr t \<Rightarrow> [t])"
| "op_tasks pf (TaskUpdate ws i uid dto) w = put_outcome (update_outcome pf ws i dto w) (tasks w)"
| "op_tasks pf (TaskDelete ws i uid) w = put_outcome (delete_outcome ws i w) (tasks w)"
| "op_tasks pf (TaskList ws pid q) w = tasks w"
| "op_tasks pf (TaskFind ws i) w = tasks w"

lemma run_op_tasks: "task_inv pf w \<Longrightarrow> tasks (run_op pf op w) = op_tasks pf op w"
  by (cases op) (simp_all add: createTask_tasks updateTask_tasks deleteTask_refines(1))

text \<open>A row that is not the one an operation writes keeps its place and value.\<close>

lemma put_outcome_filter:
  assumes "\<And>t. out = Inr t \<Longrightarrow> \<not> p t \<and> (\<forall>r \<in> set ts. task_id r = task_id t \<longrightarrow> \<not> p r)"
  shows "filter p (put_outcome out ts) = filter p ts"
proof (cases out)
  case (Inr t)
  with assms have "\<not> p t" and old: "\<forall>r \<in> set ts. task_id r = task_id t \<longrightarrow> \<not> p r" by simp_all
  then have "filter p (map (\<lambda>r. if task_id r = task_id t then t else r) ts) = filter p ts"
    by (induction ts) auto
  with Inr show ?thesis by simp
qed simp

lemma read_outcomeD:
  "read_outcome ws i w = Inr t \<Longrightarrow>
   t \<in> set (tasks w) \<and> task_id t = i \<and> task_workspaceId t = ws \<and> task_deletedAt t = None"
  by (auto simp: read_outcome_def dest: live_task_SomeD split: option.splits if_splits)

lemma write_outcomeD:
  assumes "write_outcome pf dto t w = Inr s"
  shows "task_id s = task_id t \<and> task_workspaceId s = task_workspaceId t \<and>
    task_projectId s = task_projectId t \<and> task_createdBy s = task_createdBy t \<and>
    task_deletedAt s = task_deletedAt t \<and> task_createdAt s = task_createdAt t \<and>
    task_version t \<le> task_version s"
  using assms
  by (auto simp: write_outcome_def saved_task_def split: if_splits option.splits dest: apply_update_id)

lemma update_outcomeD:
  assumes "update_outcome pf ws i dto w = Inr s"
  obtains t where "t \<in> set (tasks w)" and "task_id t = i" and "task_workspaceId t = ws"
    and "task_deletedAt t = None" and "write_outcome pf dto t w = Inr s"
    and "task_id s = i" and "task_workspaceId s = ws"
  using assms write_outcomeD
  by (auto simp: update_outcome_def split: sum.splits dest!: read_outcomeD)

lemma delete_outcomeD:
  assumes "delete_outcome ws i w = Inr s"
  obtains t where "t \<in> set (tasks w)" and "task_id t = i" and "task_workspaceId t = ws"
    and "task_deletedAt t = None"
    and "s = t\<lparr>task_deletedAt := Some (clock w), task_version := Suc (task_version t),
      task_updatedAt := clock w\<rparr>"
  using assms by (auto simp: delete_outcome_def split: sum.splits dest!: read_outcomeD)

lemma create_outcomeD:
  "create_outcome pf ws pid uid dto w = Inr t \<Longrightarrow>
   task_workspaceId t = ws \<and> task_projectId t = pid \<and> task_id t = pf_uuid pf (draws w) \<and>
   task_deletedAt t = None \<and> task_version t = 1"
  by (auto simp: create_outcome_def Let_def inserted_task_def task_entity_def split: if_splits)

section \<open>Invariants of every sequence\<close>

text \<open>What a task request may touch.\<close>

definition task_frame :: "world \<Rightarrow> world \<Rightarrow> bool" where
  "task_frame w w' \<longleftrightarrow>
     users w' = users w \<and> sessions w' = sessions w \<and> workspaces w' = workspaces w \<and>
     members w' = members w \<and> projects w' = projects w \<and> comments w' = comments w \<and>
     reminders w' = reminders w \<and> activities w' = activities w \<and> auditLogs w' = auditLogs w \<and>
     sockets w' = sockets w \<and> clock w' = clock w \<and> draws w \<le> draws w'"

interpretation tf: effect_frame task_frame
  by unfold_locales (auto simp: task_frame_def)

lemma within_publish_task: "within publish_frame m \<Longrightarrow> within task_frame m"
  by (erule within_mono) (simp add: publish_frame_def task_frame_def)

lemma within_task_store:
  "within task_frame (insert_task pf t)" "within task_frame (save_task t)"
  "within task_frame (soft_remove_task t)" "within task_frame (cacheGet k)"
  "within task_frame (cacheSet k v ttl)" "within task_frame new_date"
  unfolding insert_task_def save_task_def soft_remove_task_def
  by (rule withinI, simp add: prog_simps Let_def task_frame_def cache_set_def split: option.split)+

lemmas within_task =
  within_task_store within_publish [THEN within_publish_task] within_announce [THEN within_publish_task]

lemma within_findById: "within task_frame (findById pf i ws)"
  unfolding findById_def Let_def
  by (intro tf.within_intros within_task)
    (auto intro!: tf.within_intros within_task split: option.split cache_value.split)

lemma within_update_loaded: "within task_frame (update_loaded pf i ws uid dto v)"
  unfolding update_loaded_def save_and_publish_def by (intro tf.within_intros within_task)

lemma run_op_frame: "task_frame w (run_op pf op w)"
proof (cases op)
  case (TaskList ws pid q)
  have "task_frame w (snd (getTasks pf ws pid q w))"
    by (auto simp: getTasks_eval task_frame_def cache_set_def split: option.split cache_value.split)
  with TaskList show ?thesis by simp
next
  case (TaskCreate ws pid uid dto)
  have "within task_frame (createTask pf ws pid uid dto)"
    unfolding createTask_def by (intro tf.within_intros within_task)
  with TaskCreate show ?thesis by (simp add: withinD)
next
  case (TaskUpdate ws i uid dto)
  have "within task_frame (updateTask pf i ws uid dto)"
    unfolding updateTask_def by (intro tf.within_intros within_findById within_update_loaded)
  with TaskUpdate show ?thesis by (simp add: withinD)
next
  case (TaskDelete ws i uid)
  have "within task_frame (deleteTask pf i ws uid)"
    unfolding deleteTask_def by (intro tf.within_intros within_findById within_task)
  with TaskDelete show ?thesis by (simp add: withinD)
next
  case (TaskFind ws i)
  then show ?thesis by (simp add: withinD within_findById)
qed

lemma shrink_inv:
  assumes "task_inv pf w" and "users w' = users w" and "tasks w' = tasks w" and "draws w' = draws w"
    and "\<And>i v. cache_get (getTaskCacheKey i) w' = Some v \<Longrightarrow> cache_get (getTaskCacheKey i) w = Some v"
  shows "task_inv pf w'"
  using assms load_task_cong [of w' w pf]
  by (auto simp: task_inv_def task_ids_ok_def task_coherent_def coherent_def)

lemma list_key_not_task_key: "getTaskCacheKey i \<noteq> getListCacheKey ws pid q"
  by (simp add: getTaskCacheKey_def getListCacheKey_def list_key_prefix_def)

lemma preserves_getTasks: "preserves (task_inv pf) (getTasks pf ws pid q)"
proof (rule preservesI)
  fix w
  assume inv: "task_inv pf w"
  have "task_inv pf (cache_set (getListCacheKey ws pid q) v 300 w)" for v
    by (rule shrink_inv [OF inv]) (simp_all add: cache_get_set_other list_key_not_task_key)
  with inv show "task_inv pf (snd (getTasks pf ws pid q w))"
    by (auto simp: getTasks_eval split: option.split cache_value.split)
qed

lemma run_op_inv:
  assumes "inj (pf_uuid pf)" and "task_inv pf w"
  shows "task_inv pf (run_op pf op w)"
  by (cases op)
    (use assms in \<open>auto intro: preservesD [OF preserves_createTask] preservesD [OF preserves_getTasks]
      preservesD [OF preserves_findById] preservesD [OF preserves_updateTask]
      preservesD [OF preserves_deleteTask]\<close>)

text \<open>What every row satisfies, and the referential integrity the database enforces.\<close>

definition row_ok :: "task \<Rightarrow> bool" where
  "row_ok t \<longleftrightarrow>
     task_status t \<in> set task_statuses \<and> task_priority t \<in> set task_priorities \<and>
     (task_completedAt t \<noteq> None \<longleftrightarrow> task_status t = ''DONE'') \<and> 1 \<le> task_version t"

definition tasks_ok :: "platform \<Rightarrow> world \<Rightarrow> bool" where
  "tasks_ok pf w \<longleftrightarrow> task_inv pf w \<and> (\<forall>t \<in> set (tasks w). row_ok t \<and> task_fks t w)"

lemma create_row_ok:
  assumes "createTaskDto_valid pf dto" and "create_outcome pf ws pid uid dto w = Inr t"
  shows "row_ok t"
  using assms
  by (cases "ct_priority dto")
    (auto simp: create_outcome_def Let_def inserted_task_def task_entity_def row_ok_def
      createTaskDto_valid_def task_statuses_def task_priorities_def split: if_splits)

lemma apply_update_fields:
  assumes "apply_update pf now dto t = Some t'"
  shows "set_required (ut_title dto) (task_title t) = Some (task_title t')"
    and "set_required (ut_status dto) (task_status t) = Some (task_status t')"
    and "set_required (ut_priority dto) (task_priority t) = Some (task_priority t')"
    and "task_completedAt t' =
      (if completes dto t then Some now
       else if js_truthy (ut_status dto) \<and> ut_status dto \<noteq> Value ''DONE'' then None
       else task_completedAt t)"
  using assms by (auto simp: apply_update_def simp del: js_truthy.simps split: option.splits)

lemma apply_update_ok:
  assumes valid: "updateTaskDto_valid pf dto" and row: "row_ok t"
    and upd: "apply_update pf now dto t = Some t'"
  shows "task_status t' \<in> set task_statuses" "task_priority t' \<in> set task_priorities"
    and "task_completedAt t' \<noteq> None \<longleftrightarrow> task_status t' = ''DONE''"
proof -
  note fields = apply_update_fields [OF upd]
  show "task_priority t' \<in> set task_priorities"
    using valid row fields(3)
    by (cases "ut_priority dto") (auto simp: row_ok_def updateTaskDto_valid_def)
  show status: "task_status t' \<in> set task_statuses"
    using valid row fields(2)
    by (cases "ut_status dto") (auto simp: row_ok_def updateTaskDto_valid_def)
  from row have old: "task_completedAt t \<noteq> None \<longleftrightarrow> task_status t = ''DONE''"
    by (simp add: row_ok_def)
  show "task_completedAt t' \<noteq> None \<longleftrightarrow> task_status t' = ''DONE''"
  proof (cases "ut_status dto")
    case (Value s)
    then have "task_status t' = s" using fields(2) by simp
    moreover from this status have "s \<noteq> []" by (auto simp: task_statuses_def)
    ultimately show ?thesis
      using Value fields(4) old by (simp add: completes_def)
  qed (use fields(2,4) old in \<open>simp_all add: completes_def\<close>)
qed

lemma write_row_ok:
  assumes valid: "updateTaskDto_valid pf dto" and row: "row_ok t"
    and out: "write_outcome pf dto t w = Inr s"
  shows "row_ok s"
proof -
  from out obtain t' where t': "apply_update pf (clock w) dto t = Some t'"
    and s: "s = t \<or> s = saved_task t t' w"
    by (auto simp: write_outcome_def split: if_splits option.splits)
  show ?thesis
    using s row apply_update_ok [OF valid row t'] by (auto simp: saved_task_def row_ok_def)
qed

lemma put_outcome_all:
  assumes "\<forall>t \<in> set ts. P t" and "\<And>s. out = Inr s \<Longrightarrow> P s"
  shows "\<forall>t \<in> set (put_outcome out ts). P t"
  using assms by (cases out) auto

lemma op_rows_ok:
  assumes "op_valid pf op" and "\<forall>t \<in> set (tasks w). row_ok t"
  shows "\<forall>t \<in> set (op_tasks pf op w). row_ok t"
proof (cases op)
  case (TaskCreate ws pid uid dto)
  with assms create_row_ok [of pf dto ws pid uid w] show ?thesis by (auto split: sum.splits)
next
  case (TaskUpdate ws i uid dto)
  have "row_ok s" if "update_outcome pf ws i dto w = Inr s" for s
  proof (rule update_outcomeD [OF that])
    fix t
    assume "t \<in> set (tasks w)" and "write_outcome pf dto t w = Inr s"
    with write_row_ok [of pf dto t w s] assms TaskUpdate show "row_ok s" by simp
  qed
  with assms(2) show ?thesis unfolding TaskUpdate op_tasks.simps by (rule put_outcome_all)
next
  case (TaskDelete ws i uid)
  have "row_ok s" if "delete_outcome ws i w = Inr s" for s
    by (rule delete_outcomeD [OF that]) (use assms(2) in \<open>auto simp: row_ok_def\<close>)
  with assms(2) show ?thesis unfolding TaskDelete op_tasks.simps by (rule put_outcome_all)
qed (use assms in simp_all)

lemma task_fks_mono:
  assumes "task_fks t w" and "users w' = users w" "workspaces w' = workspaces w"
    "projects w' = projects w" and "task_id ` set (tasks w) \<subseteq> task_id ` set (tasks w')"
  shows "task_fks t w'"
proof -
  have "task_exists i u \<longleftrightarrow> i \<in> task_id ` set (tasks u)" for i u
    by (auto simp: task_exists_def)
  with assms(5) have ex: "task_exists i w \<Longrightarrow> task_exists i w'" for i by auto
  have same: "user_exists u w' = user_exists u w" for u
    using assms(2) by (rule user_exists_cong)
  have "fk_null task_exists (task_parentTaskId t) w'"
    using assms(1) ex unfolding task_fks_def by (cases "task_parentTaskId t") simp_all
  with assms(1) show ?thesis
    using fk_null_cong [of user_exists w' w, OF same] same assms(3,4)
    by (simp add: task_fks_def workspace_exists_def project_exists_def)
qed

lemma op_tasks_ids: "task_id ` set (tasks w) \<subseteq> task_id ` set (op_tasks pf op w)"
proof -
  have "task_id ` set ts \<subseteq> task_id ` set (put_outcome out ts)" for out ts
    by (cases out) (auto simp: image_iff intro: rev_bexI)
  then show ?thesis by (cases op) auto
qed

lemma outcome_fks:
  assumes "\<forall>t \<in> set (tasks w). task_fks t w"
  shows "create_outcome pf ws pid uid dto w = Inr s \<Longrightarrow> task_fks s w"
    and "update_outcome pf ws i udto w = Inr s \<Longrightarrow> task_fks s w"
    and "delete_outcome ws i w = Inr s \<Longrightarrow> task_fks s w"
proof -
  show "create_outcome pf ws pid uid dto w = Inr s \<Longrightarrow> task_fks s w"
    by (auto simp: create_outcome_def Let_def inserted_task_def task_fks_def split: if_splits)
  show "task_fks s w" if out: "update_outcome pf ws i udto w = Inr s"
    by (rule update_outcomeD [OF out])
      (use assms in \<open>auto simp: write_outcome_def saved_task_def task_fks_def split: if_splits option.splits\<close>)
  show "task_fks s w" if out: "delete_outcome ws i w = Inr s"
    by (rule delete_outcomeD [OF out]) (use assms in \<open>auto simp: task_fks_def\<close>)
qed

lemma op_fks:
  assumes "\<forall>t \<in> set (tasks w). task_fks t w"
  shows "\<forall>t \<in> set (op_tasks pf op w). task_fks t w"
proof (cases op)
  case (TaskCreate ws pid uid dto)
  with assms outcome_fks(1) [OF assms, of pf ws pid uid dto] show ?thesis by (auto split: sum.split)
next
  case (TaskUpdate ws i uid dto)
  show ?thesis unfolding TaskUpdate op_tasks.simps
    by (rule put_outcome_all [OF assms]) (rule outcome_fks(2) [OF assms])
next
  case (TaskDelete ws i uid)
  show ?thesis unfolding TaskDelete op_tasks.simps
    by (rule put_outcome_all [OF assms]) (rule outcome_fks(3) [OF assms])
qed (use assms in simp_all)

lemma run_op_ok:
  assumes "inj (pf_uuid pf)" and "op_valid pf op" and ok: "tasks_ok pf w"
  shows "tasks_ok pf (run_op pf op w)"
proof -
  from ok have inv: "task_inv pf w" by (simp add: tasks_ok_def)
  have tasks: "tasks (run_op pf op w) = op_tasks pf op w" by (rule run_op_tasks [OF inv])
  have "\<forall>t \<in> set (op_tasks pf op w). row_ok t"
    by (rule op_rows_ok [OF assms(2)]) (use ok in \<open>simp add: tasks_ok_def\<close>)
  moreover have "\<forall>t \<in> set (op_tasks pf op w). task_fks t (run_op pf op w)"
  proof
    fix t
    assume "t \<in> set (op_tasks pf op w)"
    moreover have "\<forall>t \<in> set (op_tasks pf op w). task_fks t w"
      by (rule op_fks) (use ok in \<open>simp add: tasks_ok_def\<close>)
    ultimately have "task_fks t w" by simp
    then show "task_fks t (run_op pf op w)"
      using run_op_frame [of w pf op] op_tasks_ids [of w pf op] tasks
      by (elim task_fks_mono) (simp_all add: task_frame_def)
  qed
  ultimately show ?thesis
    using run_op_inv [OF assms(1) inv] by (simp add: tasks_ok_def tasks)
qed

text \<open>Time, outages of a queue and evictions only lose cache entries.\<close>

lemma quiet_ok:
  assumes "tasks_ok pf w" and "users w' = users w" "workspaces w' = workspaces w"
    "projects w' = projects w" "tasks w' = tasks w" "draws w' = draws w"
    and "\<And>k v. cache_get k w' = Some v \<Longrightarrow> cache_get k w = Some v"
  shows "tasks_ok pf w'"
proof -
  have "task_inv pf w'"
    by (rule shrink_inv [of pf w]) (use assms in \<open>simp_all add: tasks_ok_def\<close>)
  moreover have "task_fks t w'" if "t \<in> set (tasks w)" for t
    by (rule task_fks_mono [of t w]) (use assms that in \<open>simp_all add: tasks_ok_def\<close>)
  ultimately show ?thesis using assms(1,5) by (simp add: tasks_ok_def)
qed

lemma step_ok:
  assumes "inj (pf_uuid pf)" and "tasks_ok pf w" and "task_step pf w w'"
  shows "tasks_ok pf w'"
  using assms(3)
proof cases
  case (request op)
  with run_op_ok [OF assms(1) _ assms(2)] show ?thesis by simp
next
  case (time dt)
  have "cache_get k w' = Some v \<Longrightarrow> cache_get k w = Some v" for k v
    unfolding time(1) by (rule later_cache_get [OF time(2)])
  then show ?thesis by (rule quiet_ok [OF assms(2), rotated 5]) (simp_all add: time(1))
next
  case (outage qs)
  have "cache_get k w' = Some v \<Longrightarrow> cache_get k w = Some v" for k v
    unfolding outage using redis_get_frame [of "w\<lparr>queueUp := qs\<rparr>" w k] by simp
  then show ?thesis by (rule quiet_ok [OF assms(2), rotated 5]) (simp_all add: outage)
next
  case (evict k)
  have "cache_get k' w' = Some v \<Longrightarrow> cache_get k' w = Some v" for k' v
    unfolding evict by (rule evict_cache_get)
  then show ?thesis by (rule quiet_ok [OF assms(2), rotated 5]) (simp_all add: evict)
qed

lemma reachable_ok:
  assumes "inj (pf_uuid pf)" and "task_reachable pf w w'" and "tasks_ok pf w"
  shows "tasks_ok pf w'"
  by (rule reachable_invariant [OF assms(2), where I = "tasks_ok pf"]) (use assms step_ok in auto)

section \<open>Listing after a write\<close>

definition glob_law :: "platform \<Rightarrow> bool" where
  \<comment> \<open>Redis: a trailing star matches every rest\<close>
  "glob_law pf \<longleftrightarrow> (\<forall>p k. prefix p k \<longrightarrow> pf_glob pf (p @ ''*'') k)"

definition listed_rows :: "string \<Rightarrow> string \<Rightarrow> task list \<Rightarrow> task list" where
  "listed_rows ws pid = filter (\<lambda>t. task_workspaceId t = ws \<and> task_projectId t = pid \<and> task_deletedAt t = None)"

lemma list_key_gone:
  assumes "glob_law pf"
  shows "cache_get (getListCacheKey ws pid q) (cache_delPattern pf (getListCachePattern ws pid) w) = None"
proof -
  have "prefix (list_key_prefix ws pid) (getListCacheKey ws pid q)"
    by (simp add: getListCacheKey_def)
  with assms have "pf_glob pf (getListCachePattern ws pid) (getListCacheKey ws pid q)"
    by (simp only: glob_law_def getListCachePattern_def)
  then show ?thesis by (simp add: cache_get_delPattern)
qed

lemma publish_keeps_gone:
  "within publish_frame m \<Longrightarrow> cache_get k w = None \<Longrightarrow> cache_get k (snd (m w)) = None"
  by (drule withinD [where w = w], cases "cache_get k (snd (m w))") (auto simp: publish_frame_def)

lemmas gone_after_write = list_key_gone [THEN publish_keeps_gone [rotated]]

lemma getTasks_gone:
  "cache_get (getListCacheKey ws pid q) w = None \<Longrightarrow>
   fst (getTasks pf ws pid q w) = Inr (db_page pf ws pid q w)"
  by (simp add: getTasks_eval)

lemma listed_rows_put:
  assumes "t \<in> set ts" and "distinct (map task_id ts)"
    and "task_id s = task_id t" "task_workspaceId s = task_workspaceId t"
      "task_projectId s = task_projectId t"
    and "(task_workspaceId t, task_projectId t) \<noteq> (ws, pid)"
  shows "listed_rows ws pid (put_outcome (Inr s) ts) = listed_rows ws pid ts"
proof -
  have "r = t" if "r \<in> set ts" "task_id r = task_id t" for r
    using that assms(1,2) by (auto simp: distinct_map dest: inj_onD)
  with assms(3-6) show ?thesis
    unfolding listed_rows_def by (intro put_outcome_filter) auto
qed

lemma update_list_gone:
  assumes inv: "task_inv pf w" and glob: "glob_law pf"
    and found: "findById pf i ws w0 = (Inr v, w)" "view_task v \<in> set (tasks w)"
    and out: "write_outcome pf dto (view_task v) w = Inr s"
  shows "cache_get (getListCacheKey ws (task_projectId (view_task v)) q)
    (snd (updateTask pf i ws uid dto w0)) = None"
proof -
  from inv have dist: "distinct (map task_id (tasks w))" by (simp add: task_inv_def task_ids_ok_def)
  from out obtain t where t: "apply_update pf (clock w) dto (view_task v) = Some t"
    and ok: "t = view_task v \<or> task_fks t w" and nc: "\<not> version_conflict dto (view_task v)"
    by (auto simp: write_outcome_def split: if_splits option.splits)
  have pid: "task_projectId t = task_projectId (view_task v)" using apply_update_id [OF t] by simp
  have catch: "snd (try_catch m (\<lambda>e. if e = x then throw y else throw e) w) = snd (m w)"
    for m :: "task_view svc" and x y
    by (simp add: prog_simps split: prod.split sum.split)
  show ?thesis
    using gone_after_write [OF glob within_announce(2)] ok
    by (simp add: updateTask_def await_def found(1) update_loaded_def nc t new_date_eval catch
        save_and_publish_eval [OF dist found(2) t] Let_def pid)
qed

lemma list_fresh:
  assumes inv: "task_inv pf w" and glob: "glob_law pf"
    and changed: "listed_rows ws pid (tasks (run_op pf op w)) \<noteq> listed_rows ws pid (tasks w)"
  shows "cache_get (getListCacheKey ws pid q) (run_op pf op w) = None"
proof -
  from inv have dist: "distinct (map task_id (tasks w))" by (simp add: task_inv_def task_ids_ok_def)
  note changed' = changed [unfolded run_op_tasks [OF inv]]
  show ?thesis
  proof (cases op)
    case (TaskCreate ws' pid' uid dto)
    with changed' obtain t where out: "create_outcome pf ws' pid' uid dto w = Inr t"
      by (cases "create_outcome pf ws' pid' uid dto w") auto
    with changed' TaskCreate create_outcomeD [OF out] have "ws' = ws" "pid' = pid"
      by (auto simp: listed_rows_def split: if_splits)
    with TaskCreate out gone_after_write [OF glob within_announce(1)] show ?thesis
      by (auto simp: createTask_eval create_outcome_def Let_def split: if_splits)
  next
    case (TaskUpdate ws' i uid dto)
    with changed' obtain s where out: "update_outcome pf ws' i dto w = Inr s"
      by (cases "update_outcome pf ws' i dto w") auto
    show ?thesis
    proof (cases rule: findById_cases [OF inv, of ws' i])
      case (1 t w1)
      note same = findById_tables [OF 1(2)]
      from 1 out have wo: "write_outcome pf dto t w = Inr s" by (simp add: update_outcome_def)
      from 1 same have t: "t \<in> set (tasks w)" "task_workspaceId t = ws'"
        by (auto dest: read_outcomeD)
      have "(ws', task_projectId t) = (ws, pid)"
        using changed' listed_rows_put [OF t(1) dist, of s ws pid] write_outcomeD [OF wo] out t(2)
        unfolding TaskUpdate by auto
      moreover have "write_outcome pf dto t w1 = Inr s"
        using wo write_outcome_cong [of w1 w] same by simp
      ultimately show ?thesis
        using update_list_gone [OF 1(3) glob 1(2), of dto s q uid] 1(4) TaskUpdate
        by (simp add: view_of_def)
    next
      case (2 w1)
      with out show ?thesis by (simp add: update_outcome_def)
    qed
  next
    case (TaskDelete ws' i uid)
    with changed' obtain s where out: "delete_outcome ws' i w = Inr s"
      by (cases "delete_outcome ws' i w") auto
    show ?thesis
    proof (cases rule: findById_cases [OF inv, of ws' i])
      case (1 t w1)
      note same = findById_tables [OF 1(2)]
      have v: "view_task (view_of pf w t) = t" by (simp add: view_of_def)
      from 1 same have t: "t \<in> set (tasks w)" "task_workspaceId t = ws'"
        by (auto dest: read_outcomeD)
      from 1 out have "s = t\<lparr>task_deletedAt := Some (clock w), task_version := Suc (task_version t),
          task_updatedAt := clock w\<rparr>"
        by (simp add: delete_outcome_def)
      with changed' listed_rows_put [OF t(1) dist, of s ws pid] out t(2)
      have "ws' = ws" "task_projectId t = pid"
        unfolding TaskDelete by auto
      then show ?thesis
        unfolding TaskDelete run_op.simps deleteTask_eval [OF 1(5,4,2) v]
        using gone_after_write [OF glob within_announce(3)] by simp
    next
      case (2 w1)
      with out show ?thesis by (simp add: delete_outcome_def)
    qed
  qed (use changed' in simp_all)
qed

section \<open>Deletion is final\<close>

definition buried :: "platform \<Rightarrow> string \<Rightarrow> world \<Rightarrow> bool" where
  "buried pf i w \<longleftrightarrow>
     tasks_ok pf w \<and> i \<in> pf_uuid pf ` {..<draws w} \<and>
     (\<forall>t \<in> set (tasks w). task_id t = i \<longrightarrow> task_deletedAt t \<noteq> None)"

lemma op_buried:
  assumes inj: "inj (pf_uuid pf)" and i: "i \<in> pf_uuid pf ` {..<draws w}"
    and dead: "\<forall>t \<in> set (tasks w). task_id t = i \<longrightarrow> task_deletedAt t \<noteq> None"
  shows "\<forall>t \<in> set (op_tasks pf op w). task_id t = i \<longrightarrow> task_deletedAt t \<noteq> None"
proof (cases op)
  case (TaskCreate ws pid uid dto)
  have "task_id t \<noteq> i" if "create_outcome pf ws pid uid dto w = Inr t" for t
    using create_outcomeD [OF that] i inj by (auto dest: injD)
  with TaskCreate dead show ?thesis
    by (cases "create_outcome pf ws pid uid dto w") simp_all
next
  case (TaskUpdate ws j uid dto)
  have "task_id s \<noteq> i" if out: "update_outcome pf ws j dto w = Inr s" for s
    by (rule update_outcomeD [OF out]) (use dead in auto)
  then show ?thesis unfolding TaskUpdate op_tasks.simps
    by (intro put_outcome_all [OF dead]) simp
next
  case (TaskDelete ws j uid)
  have "task_id s = i \<longrightarrow> task_deletedAt s \<noteq> None" if out: "delete_outcome ws j w = Inr s" for s
    by (rule delete_outcomeD [OF out]) simp
  then show ?thesis unfolding TaskDelete op_tasks.simps
    by (intro put_outcome_all [OF dead]) simp
qed (use dead in simp_all)

lemma step_buried:
  assumes inj: "inj (pf_uuid pf)" and buried: "buried pf i w" and step: "task_step pf w w'"
  shows "buried pf i w'"
proof -
  from buried have ok: "tasks_ok pf w" and inv: "task_inv pf w" and i: "i \<in> pf_uuid pf ` {..<draws w}"
    and dead: "\<forall>t \<in> set (tasks w). task_id t = i \<longrightarrow> task_deletedAt t \<noteq> None"
    by (auto simp: buried_def tasks_ok_def)
  have ok': "tasks_ok pf w'" by (rule step_ok [OF inj ok step])
  from step show ?thesis
  proof cases
    case (request op)
    have "draws w \<le> draws w'" using run_op_frame [of w pf op] request by (simp add: task_frame_def)
    with i have "i \<in> pf_uuid pf ` {..<draws w'}" by auto
    with ok' op_buried [OF inj i dead, of op] run_op_tasks [OF inv, of op] request show ?thesis
      by (simp add: buried_def)
  qed (use buried ok' in \<open>simp_all add: buried_def\<close>)
qed

lemma delete_buries:
  assumes inj: "inj (pf_uuid pf)" and ok: "tasks_ok pf w"
    and del: "fst (deleteTask pf i ws uid w) = Inr ()"
  shows "buried pf i (snd (deleteTask pf i ws uid w))"
proof -
  from ok have inv: "task_inv pf w" by (simp add: tasks_ok_def)
  from del deleteTask_refines(2) [OF inv, of i ws uid]
  obtain s where out: "delete_outcome ws i w = Inr s"
    by (cases "delete_outcome ws i w") auto
  let ?w = "run_op pf (TaskDelete ws i uid) w"
  have "tasks_ok pf ?w" by (rule run_op_ok [OF inj _ ok]) simp
  moreover have "i \<in> pf_uuid pf ` {..<draws ?w}"
  proof (rule delete_outcomeD [OF out])
    fix t
    assume "t \<in> set (tasks w)" and "task_id t = i"
    with inv have "i \<in> pf_uuid pf ` {..<draws w}" by (auto simp: task_inv_def task_ids_ok_def)
    moreover have "draws w \<le> draws ?w"
      using run_op_frame [of w pf "TaskDelete ws i uid"] by (simp add: task_frame_def)
    ultimately show ?thesis by auto
  qed
  moreover have "task_id s = i \<and> task_deletedAt s \<noteq> None"
    by (rule delete_outcomeD [OF out]) auto
  then have "\<forall>t \<in> set (tasks ?w). task_id t = i \<longrightarrow> task_deletedAt t \<noteq> None"
    using deleteTask_refines(1) [OF inv, of i ws uid] out by auto
  ultimately show ?thesis by (simp add: buried_def)
qed

section \<open>Concurrent updates\<close>

text \<open>A version conflict ends the request before it did anything.\<close>

lemma conflict_result:
  assumes inv: "task_inv pf w" and row: "read_outcome ws i w = Inr t" "version_conflict dto t"
  obtains w1 where "updateTask pf i ws uid dto w = (Inl (ConflictException lock_violation), w1)"
    and "findById pf i ws w = (Inr (view_of pf w t), w1)"
proof (cases rule: findById_cases [OF inv, of ws i])
  case (1 t' w1)
  with row have "version_conflict dto (view_task (view_of pf w t'))" by (simp add: view_of_def)
  with 1 row(1) that [of w1] show thesis
    by (simp add: updateTask_def await_def update_loaded_def throw_def)
qed (use row(1) in simp)

text \<open>
  Saving an entity that was loaded before another request changed its row: every column of the
  entity is written, the row's newer values are gone.
\<close>

lemma save_and_publish_over:
  assumes dist: "distinct (map task_id (tasks w))" and row: "row \<in> set (tasks w)"
    and t: "task_id t = task_id row" "\<not> same_columns row t" "task_fks t w"
  shows "save_and_publish pf i ws uid dto v (Some t) w =
    announce_update pf i ws uid dto v t (saved_task row t w)
      (cache_delPattern pf (getListCachePattern ws (task_projectId t))
        (cache_del (getTaskCacheKey i) (replace_task (saved_task row t w) w)))"
  using t by (simp add: save_and_publish_def await_def save_task_eval [OF dist row] cache_prog_eval Let_def)

section \<open>Pages\<close>

lemma concat_chunks:
  "concat (map (\<lambda>k. take n (drop (k * n) xs)) [0..<m]) = take (m * n) xs"
proof (induction m)
  case (Suc m)
  have "take (n + m * n) xs = take (m * n) xs @ take n (drop (m * n) xs)"
    using take_add [of "m * n" n xs] by (simp add: add.commute)
  with Suc show ?case by simp
qed simp

lemma upto_int: "[1..int m] = map (\<lambda>k. int k + 1) [0..<m]"
proof (induction m)
  case (Suc m)
  have "[1..int (Suc m)] = [1..int m] @ [int m + 1]"
    using upto_rec2 [of 1 "int (Suc m)"] by simp
  with Suc show ?case by simp
qed simp

lemma page_count:
  assumes "1 \<le> (l::int)"
  shows "0 \<le> - ((- int n) div l)" and "n \<le> nat (- ((- int n) div l)) * nat l"
proof -
  have le: "int n \<le> - ((- int n) div l) * l"
  proof -
    have "(- int n) div l * l + (- int n) mod l = - int n" by (rule div_mult_mod_eq)
    moreover have "0 \<le> (- int n) mod l" using assms by simp
    ultimately show ?thesis by (simp only: mult_minus_left)
  qed
  have "(- int n) div l \<le> 0 div l"
    using assms by (intro zdiv_mono1) simp_all
  then show nonneg: "0 \<le> - ((- int n) div l)" by simp
  have "int (nat (- ((- int n) div l)) * nat l) = - ((- int n) div l) * l"
    using assms nonneg by simp
  with le show "n \<le> nat (- ((- int n) div l)) * nat l" by linarith
qed

lemma mset_sort_tasks: "mset (sort_tasks key ord ts) = mset ts"
proof -
  have "mset (filter (\<lambda>t. key t = None) ts) + mset (filter (\<lambda>t. \<not> key t = None) ts) = mset ts"
    by (metis mset_filter multiset_partition)
  then show ?thesis
    by (simp add: sort_tasks_def Let_def order_asc_def order_desc_def add.commute)
qed

lemma op_tasks_other:
  assumes dist: "distinct (map task_id (tasks w))"
  shows "filter (\<lambda>t. task_workspaceId t \<noteq> op_workspace op) (op_tasks pf op w) =
    filter (\<lambda>t. task_workspaceId t \<noteq> op_workspace op) (tasks w)"
proof -
  have put: "filter (\<lambda>t. task_workspaceId t \<noteq> ws) (put_outcome out (tasks w)) =
      filter (\<lambda>t. task_workspaceId t \<noteq> ws) (tasks w)"
    if "\<And>s. out = Inr s \<Longrightarrow> \<exists>t \<in> set (tasks w). task_id t = task_id s \<and>
          task_workspaceId t = ws \<and> task_workspaceId s = ws" for out ws
  proof (rule put_outcome_filter)
    fix s
    assume "out = Inr s"
    with that obtain t where t: "t \<in> set (tasks w)" "task_id t = task_id s"
        "task_workspaceId t = ws" "task_workspaceId s = ws"
      by blast
    have "r = t" if "r \<in> set (tasks w)" "task_id r = task_id s" for r
      using same_id_same_row [OF dist that(1) t(1)] that(2) t(2) by simp
    with t show "\<not> task_workspaceId s \<noteq> ws \<and>
        (\<forall>r \<in> set (tasks w). task_id r = task_id s \<longrightarrow> \<not> task_workspaceId r \<noteq> ws)"
      by metis
  qed
  show ?thesis
  proof (cases op)
    case (TaskCreate ws pid uid dto)
    then show ?thesis
      by (cases "create_outcome pf ws pid uid dto w") (simp_all add: create_outcomeD)
  next
    case (TaskUpdate ws i uid dto)
    show ?thesis unfolding TaskUpdate op_tasks.simps op_workspace.simps
    proof (rule put)
      fix s
      assume out: "update_outcome pf ws i dto w = Inr s"
      show "\<exists>t \<in> set (tasks w). task_id t = task_id s \<and> task_workspaceId t = ws \<and> task_workspaceId s = ws"
        by (rule update_outcomeD [OF out]) auto
    qed
  next
    case (TaskDelete ws i uid)
    show ?thesis unfolding TaskDelete op_tasks.simps op_workspace.simps
    proof (rule put)
      fix s
      assume out: "delete_outcome ws i w = Inr s"
      show "\<exists>t \<in> set (tasks w). task_id t = task_id s \<and> task_workspaceId t = ws \<and> task_workspaceId s = ws"
        by (rule delete_outcomeD [OF out]) auto
    qed
  qed simp_all
qed

lemma update_loaded_over:
  assumes dist: "distinct (map task_id (tasks w))" and row: "row \<in> set (tasks w)"
    and nc: "\<not> version_conflict dto (view_task v)"
    and ent: "apply_update pf (clock w) dto (view_task v) = Some t"
    and t: "task_id t = task_id row" "\<not> same_columns row t" "task_fks t w" and up: "notifiable w"
  obtains w' where
    "update_loaded pf i ws uid dto v w = (Inr (v\<lparr>view_task := saved_task row t w\<rparr>), w')"
    and "tasks w' = put_outcome (Inr (saved_task row t w)) (tasks w)"
    and "users w' = users w" and "workspaces w' = workspaces w" and "projects w' = projects w"
    and "queueUp w' = queueUp w" and "clock w' = clock w"
proof -
  let ?s = "saved_task row t w"
  let ?u = "cache_delPattern pf (getListCachePattern ws (task_projectId t))
    (cache_del (getTaskCacheKey i) (replace_task ?s w))"
  have "fst (announce_update pf i ws uid dto v t ?s ?u) = Inr (v\<lparr>view_task := ?s\<rparr>)"
    by (rule announce_update_ok)
      (use up t(3) fk_null_cong [of user_exists ?u w] user_exists_cong [of ?u w]
        in \<open>simp_all add: notifiable_def task_fks_def\<close>)
  then obtain w' where eq: "announce_update pf i ws uid dto v t ?s ?u = (Inr (v\<lparr>view_task := ?s\<rparr>), w')"
    by (cases "announce_update pf i ws uid dto v t ?s ?u") simp
  have "publish_frame ?u w'" using withinD_eq [OF within_announce(2) eq] .
  moreover have "update_loaded pf i ws uid dto v w = (Inr (v\<lparr>view_task := ?s\<rparr>), w')"
    by (simp add: update_loaded_def nc await_def new_date_eval ent try_catch_def
        save_and_publish_over [OF dist row t] eq)
  ultimately show thesis
    using that by (simp add: publish_frame_def tasks_replace_task)
qed

lemma put_in:
  "ts' = put_outcome (Inr s) ts \<Longrightarrow> row \<in> set ts \<Longrightarrow> task_id s = task_id row \<Longrightarrow> s \<in> set ts'"
  by (auto simp: image_iff intro: bexI [of _ row])

lemma same_columns_saved:
  "task_version b = task_version a \<Longrightarrow> task_updatedAt b = task_updatedAt a \<Longrightarrow>
   same_columns (saved_task row a w) b \<longleftrightarrow> b = a"
  unfolding same_columns_def saved_task_def by (cases a; cases b) auto

text \<open>Both requests hold the same loaded task when the first one saves.\<close>

lemma two_updates_loaded:
  assumes dist: "distinct (map task_id (tasks w))" and t: "t \<in> set (tasks w)" "task_deletedAt t = None"
    and v: "view_task v = t" and up: "notifiable w"
    and ver: "\<not> version_conflict dtoA t" "\<not> version_conflict dtoB t"
    and ents: "apply_update pf (clock w) dtoA t = Some a" "apply_update pf (clock w) dtoB t = Some b"
    and diff: "a \<noteq> t" "b \<noteq> a" and fks: "task_fks a w" "task_fks b w"
  obtains w3 w4 where
    "update_loaded pf (task_id t) ws uA dtoA v w = (Inr (v\<lparr>view_task := saved_task t a w\<rparr>), w3)"
    and "fst (update_loaded pf (task_id t) ws uB dtoB v w3) = Inr (v\<lparr>view_task := w4\<rparr>)"
    and "w4 = b\<lparr>task_version := task_version t + 2, task_updatedAt := clock w\<rparr>"
    and "live_task (task_id t) (snd (update_loaded pf (task_id t) ws uB dtoB v w3)) = Some w4"
proof -
  note a = apply_update_id [OF ents(1)] apply_update_updatedAt [OF ents(1)]
  note b = apply_update_id [OF ents(2)] apply_update_updatedAt [OF ents(2)]
  let ?i = "task_id t" and ?a = "saved_task t a w"
  obtain w3 where A: "update_loaded pf ?i ws uA dtoA v w = (Inr (v\<lparr>view_task := ?a\<rparr>), w3)"
    and w3: "tasks w3 = put_outcome (Inr ?a) (tasks w)" "users w3 = users w"
      "workspaces w3 = workspaces w" "projects w3 = projects w" "queueUp w3 = queueUp w"
      "clock w3 = clock w"
    by (rule update_loaded_over [OF dist t(1), of dtoA v pf a ?i ws uA])
      (use v up ver ents diff fks a same_columns_iff [of a t] in auto)
  have ids: "map task_id (tasks w3) = map task_id (tasks w)"
    using a by (auto simp: w3(1) saved_task_def)
  have dist3: "distinct (map task_id (tasks w3))" by (simp only: ids dist)
  have row3: "?a \<in> set (tasks w3)"
    by (rule put_in) (use t(1) a in \<open>simp_all add: w3(1) saved_task_def\<close>)
  have nsame: "\<not> same_columns ?a b"
    using diff(2) a b by (subst same_columns_saved) simp_all
  have "task_id ` set (tasks w3) = task_id ` set (tasks w)" by (metis ids list.set_map)
  then have fks3: "task_fks b w3"
    by (intro task_fks_mono [OF fks(2)]) (simp_all add: w3(2-4))
  obtain w4 where B: "update_loaded pf ?i ws uB dtoB v w3 = (Inr (v\<lparr>view_task := saved_task ?a b w3\<rparr>), w4)"
    and w4: "tasks w4 = put_outcome (Inr (saved_task ?a b w3)) (tasks w3)"
    by (rule update_loaded_over [OF dist3 row3, of dtoB v pf b ?i ws uB])
      (use v up ver ents a b nsame fks3 w3 in \<open>auto simp: notifiable_def saved_task_def\<close>)
  let ?b = "saved_task ?a b w3"
  have eq: "?b = b\<lparr>task_version := task_version t + 2, task_updatedAt := clock w\<rparr>"
    by (simp add: saved_task_def w3(6))
  have "?b \<in> set (tasks w4)"
    by (rule put_in [OF w4 row3]) (use a b in \<open>simp add: saved_task_def\<close>)
  moreover have "map task_id (tasks w4) = map task_id (tasks w3)"
    using b by (auto simp: w4 eq)
  ultimately have "live_task ?i w4 = Some ?b"
    using dist3 b t(2) by (subst live_task_iff) (simp_all add: eq)
  with that [OF A, of ?b] B eq show thesis by simp
qed

text \<open>PostgreSQL's order on a nullable sort key: nulls are larger than every value.\<close>

fun key_before :: "string \<Rightarrow> int option \<Rightarrow> int option \<Rightarrow> bool" where
  "key_before ord None None = True"
| "key_before ord None (Some y) = (ord \<noteq> ''ASC'')"
| "key_before ord (Some x) None = (ord = ''ASC'')"
| "key_before ord (Some x) (Some y) = (if ord = ''ASC'' then x \<le> y else y \<le> x)"

lemma sort_tasks_sorted:
  "sorted_wrt (\<lambda>a b. key_before ord (key a) (key b)) (sort_tasks key ord ts)"
proof -
  let ?nulls = "filter (\<lambda>t. key t = None) ts" and ?vals = "filter (\<lambda>t. key t \<noteq> None) ts"
  let ?R = "\<lambda>a b. key_before ord (key a) (key b)"
  have nulls: "sorted_wrt ?R ?nulls" by (induction ts) auto
  have up: "sorted_wrt ?R (order_asc (\<lambda>t. the (key t)) ?vals)" if "ord = ''ASC''"
  proof (rule sorted_wrt_mono_rel)
    show "sorted_wrt (\<lambda>a b. the (key a) \<le> the (key b)) (order_asc (\<lambda>t. the (key t)) ?vals)"
      using order_asc_sorted [of "\<lambda>t. the (key t)" ?vals] by (simp add: sorted_map)
  qed (use that in auto)
  have down: "sorted_wrt ?R (order_desc (\<lambda>t. the (key t)) ?vals)" if "ord \<noteq> ''ASC''"
  proof (rule sorted_wrt_mono_rel)
    show "sorted_wrt (\<lambda>a b. the (key b) \<le> the (key a)) (order_desc (\<lambda>t. the (key t)) ?vals)"
      using order_desc_sorted [of "\<lambda>t. the (key t)" ?vals] by (simp add: sorted_map)
  qed (use that in auto)
  have mixed: "ord = ''ASC'' \<Longrightarrow> ?R a b" "ord \<noteq> ''ASC'' \<Longrightarrow> ?R b a"
    if "a \<in> set ?vals" "b \<in> set ?nulls" for a b
    using that by auto
  show ?thesis
  proof (cases "ord = ''ASC''")
    case True
    with nulls up mixed(1) show ?thesis by (simp add: sort_tasks_def Let_def sorted_wrt_append)
  next
    case False
    with nulls down mixed(2) show ?thesis by (simp add: sort_tasks_def Let_def sorted_wrt_append)
  qed
qed

end
