(* ===== verification/Guards.thy ===== *)
theory Guards
  imports Entities
begin

text \<open>
  Access control: the roles and permissions of \<open>src/src/common/constants\<close>, the
  guards of \<open>src/src/common/guards\<close> (\<open>JwtAuthGuard\<close>, \<open>RoleGuard\<close>,
  \<open>PermissionGuard\<close>) and the request they annotate. A guard reads the world and either
  throws or lets the request through with the metadata it attached; returning the request
  stands for returning \<open>true\<close>, the only value \<open>canActivate\<close> returns.
\<close>

section \<open>Configuration\<close>

definition env_or :: "platform \<Rightarrow> string \<Rightarrow> string \<Rightarrow> string" where
  "env_or pf name dflt =
     (case pf_env pf name of Some s \<Rightarrow> if s \<noteq> [] then s else dflt | None \<Rightarrow> dflt)"

record jwt_config =
  accessSecret :: string
  refreshSecret :: string
  accessExpiration :: string
  refreshExpiration :: string

definition jwt_configuration :: "platform \<Rightarrow> jwt_config" where
  "jwt_configuration pf =
     \<lparr>accessSecret = env_or pf ''JWT_ACCESS_SECRET'' ''super_secret_access_key_123!'',
      refreshSecret = env_or pf ''JWT_REFRESH_SECRET'' ''super_secret_refresh_key_456!'',
      accessExpiration = env_or pf ''JWT_ACCESS_EXPIRATION'' ''15m'',
      refreshExpiration = env_or pf ''JWT_REFRESH_EXPIRATION'' ''7d''\<rparr>"

section \<open>Roles and permissions\<close>

datatype role = ADMIN | MEMBER

datatype permission =
    WORKSPACE_CREATE | WORKSPACE_UPDATE | WORKSPACE_DELETE | WORKSPACE_INVITE
  | PROJECT_CREATE | PROJECT_UPDATE | PROJECT_DELETE
  | TASK_CREATE | TASK_ASSIGN | TASK_UPDATE | TASK_DELETE

fun role_value :: "role \<Rightarrow> string" where
  "role_value ADMIN = ''ADMIN''"
| "role_value MEMBER = ''MEMBER''"

fun permission_value :: "permission \<Rightarrow> string" where
  "permission_value WORKSPACE_CREATE = ''workspace:create''"
| "permission_value WORKSPACE_UPDATE = ''workspace:update''"
| "permission_value WORKSPACE_DELETE = ''workspace:delete''"
| "permission_value WORKSPACE_INVITE = ''workspace:invite''"
| "permission_value PROJECT_CREATE = ''project:create''"
| "permission_value PROJECT_UPDATE = ''project:update''"
| "permission_value PROJECT_DELETE = ''project:delete''"
| "permission_value TASK_CREATE = ''task:create''"
| "permission_value TASK_ASSIGN = ''task:assign''"
| "permission_value TASK_UPDATE = ''task:update''"
| "permission_value TASK_DELETE = ''task:delete''"

definition permission_values :: "permission list" where
  "permission_values =
     [WORKSPACE_CREATE, WORKSPACE_UPDATE, WORKSPACE_DELETE, WORKSPACE_INVITE,
      PROJECT_CREATE, PROJECT_UPDATE, PROJECT_DELETE,
      TASK_CREATE, TASK_ASSIGN, TASK_UPDATE, TASK_DELETE]"

fun ROLE_PERMISSIONS :: "role \<Rightarrow> permission list" where
  "ROLE_PERMISSIONS ADMIN = permission_values"
| "ROLE_PERMISSIONS MEMBER =
     [PROJECT_CREATE, PROJECT_UPDATE, TASK_CREATE, TASK_ASSIGN, TASK_UPDATE]"

text \<open>
  A membership stores its role as a string; \<open>ROLE_PERMISSIONS[role] || []\<close> gives a
  string that is no role no permission.
\<close>

definition role_permissions :: "string \<Rightarrow> permission list" where
  "role_permissions s =
     (if s = role_value ADMIN then ROLE_PERMISSIONS ADMIN
      else if s = role_value MEMBER then ROLE_PERMISSIONS MEMBER else [])"

fun join :: "string \<Rightarrow> string list \<Rightarrow> string" where
  "join sep [] = ''''"
| "join sep [x] = x"
| "join sep (x # xs) = x @ sep @ join sep xs"

section \<open>Requests\<close>

record http_request =
  rq_params :: "(string \<times> string) list"
  rq_query :: "(string \<times> string) list"
  rq_headers :: "(string \<times> string) list"
  rq_body :: "(string \<times> string) list"
  rq_user :: "jwt_payload option"
  rq_workspaceId :: "string option"
  rq_workspaceMember :: "workspace_member option"

text \<open>The workspace a request names: route parameter, query, header, body, in that order.\<close>

definition requested_workspaceId :: "http_request \<Rightarrow> string option" where
  "requested_workspaceId r =
     first_truthy [map_of (rq_params r) ''workspaceId'', map_of (rq_query r) ''workspaceId'',
       map_of (rq_headers r) ''x-workspace-id'', map_of (rq_body r) ''workspaceId'']"

definition requested_slug :: "http_request \<Rightarrow> string option" where
  "requested_slug r =
     first_truthy [map_of (rq_params r) ''slug'', map_of (rq_query r) ''slug'',
       map_of (rq_headers r) ''x-workspace-slug'', map_of (rq_body r) ''slug'']"

definition resolve_workspaceId :: "platform \<Rightarrow> world \<Rightarrow> http_request \<Rightarrow> string option" where
  "resolve_workspaceId pf w r =
     (case requested_workspaceId r of
        Some i \<Rightarrow> Some i
      | None \<Rightarrow>
          (case requested_slug r of
             None \<Rightarrow> None
           | Some slug \<Rightarrow>
               map_option workspace_id
                 (find_one (pf_pick pf) (\<lambda>x. workspace_slug x = slug) (workspaces w))))"

definition find_member :: "platform \<Rightarrow> world \<Rightarrow> string \<Rightarrow> string \<Rightarrow> workspace_member option" where
  "find_member pf w wid uid =
     find_one (pf_pick pf) (\<lambda>m. member_workspaceId m = wid \<and> member_userId m = uid) (members w)"

section \<open>Guards\<close>

type_synonym guard = "platform \<Rightarrow> world \<Rightarrow> http_request \<Rightarrow> exn + http_request"

text \<open>\<open>String.split\<close> on one character.\<close>

fun split_on :: "char \<Rightarrow> string \<Rightarrow> string list" where
  "split_on c [] = [[]]"
| "split_on c (x # xs) =
     (if x = c then [] # split_on c xs
      else (case split_on c xs of [] \<Rightarrow> [[x]] | y # ys \<Rightarrow> (x # y) # ys))"

definition extractTokenFromHeader :: "http_request \<Rightarrow> string option" where
  "extractTokenFromHeader r =
     (case map_of (rq_headers r) ''authorization'' of
        None \<Rightarrow> None
      | Some h \<Rightarrow>
          (case split_on (CHR '' '') h of
             ty # tok # _ \<Rightarrow> if ty = ''Bearer'' then Some tok else None
           | _ \<Rightarrow> None))"

definition now_seconds :: "world \<Rightarrow> int" where
  "now_seconds w = clock w div 1000"

definition jwtAuthGuard :: guard where
  "jwtAuthGuard pf w r =
     (case extractTokenFromHeader r of
        None \<Rightarrow> Inl (UnauthorizedException ''Access token is missing'')
      | Some token \<Rightarrow>
          if token = [] then Inl (UnauthorizedException ''Access token is missing'')
          else
            (case pf_jwtVerify pf (accessSecret (jwt_configuration pf)) token (now_seconds w) of
               None \<Rightarrow> Inl (UnauthorizedException ''Invalid or expired access token'')
             | Some payload \<Rightarrow> Inr (r\<lparr>rq_user := Some payload\<rparr>)))"

definition roleGuard :: "role list option \<Rightarrow> guard" where
  "roleGuard requiredRoles pf w r =
     (case rq_user r of
        None \<Rightarrow> Inl (ForbiddenException ''User context not found in request'')
      | Some u \<Rightarrow>
          (case resolve_workspaceId pf w r of
             None \<Rightarrow>
               if requiredRoles = None then Inr r
               else Inl (BadRequestException
                 ''Workspace context (workspaceId or slug) is required for this route'')
           | Some wid \<Rightarrow>
               (case find_member pf w wid (jwt_userId u) of
                  None \<Rightarrow>
                    Inl (ForbiddenException ''You are not a member of this workspace'')
                | Some m \<Rightarrow>
                    let r' = r\<lparr>rq_workspaceId := Some wid, rq_workspaceMember := Some m\<rparr>
                    in (case requiredRoles of
                          None \<Rightarrow> Inr r'
                        | Some roles \<Rightarrow>
                            if roles = [] \<or> member_role m \<in> set (map role_value roles) then Inr r'
                            else Inl (ForbiddenException
                              (''Access denied. Required role(s): '' @
                               join '', '' (map role_value roles)))))))"

definition check_permissions ::
  "permission list \<Rightarrow> workspace_member \<Rightarrow> http_request \<Rightarrow> exn + http_request" where
  "check_permissions required m r =
     (if list_all (\<lambda>p. p \<in> set (role_permissions (member_role m))) required then Inr r
      else Inl (ForbiddenException
        (''Access denied. Required permission(s): '' @ join '', '' (map permission_value required))))"

definition permissionGuard :: "permission list \<Rightarrow> guard" where
  "permissionGuard required pf w r =
     (if required = [] then Inr r
      else
        (case rq_user r of
           None \<Rightarrow> Inl (ForbiddenException ''User context not found in request'')
         | Some u \<Rightarrow>
             (case rq_workspaceMember r of
                Some m \<Rightarrow> check_permissions required m r
              | None \<Rightarrow>
                  (case resolve_workspaceId pf w r of
                     None \<Rightarrow>
                       Inl (BadRequestException
                         ''Workspace context is required for permission check'')
                   | Some wid \<Rightarrow>
                       (case find_member pf w wid (jwt_userId u) of
                          None \<Rightarrow>
                            Inl (ForbiddenException ''You are not a member of this workspace'')
                        | Some m \<Rightarrow>
                            check_permissions required m
                              (r\<lparr>rq_workspaceId := Some wid, rq_workspaceMember := Some m\<rparr>))))))"

text \<open>Guards run in the order of \<open>@UseGuards\<close>, the controller's before the method's.\<close>

fun run_guards :: "guard list \<Rightarrow> guard" where
  "run_guards [] pf w r = Inr r"
| "run_guards (g # gs) pf w r =
     (case g pf w r of Inl e \<Rightarrow> Inl e | Inr r' \<Rightarrow> run_guards gs pf w r')"

section \<open>What every guard keeps\<close>

definition same_wire :: "http_request \<Rightarrow> http_request \<Rightarrow> bool" where
  "same_wire r r' \<longleftrightarrow>
     rq_params r' = rq_params r \<and> rq_query r' = rq_query r \<and>
     rq_headers r' = rq_headers r \<and> rq_body r' = rq_body r"

lemma same_wire_refl [simp]: "same_wire r r"
  by (simp add: same_wire_def)

lemma same_wire_trans: "same_wire r r' \<Longrightarrow> same_wire r' r'' \<Longrightarrow> same_wire r r''"
  by (simp add: same_wire_def)

lemma same_wire_resolve:
  assumes "same_wire r r'"
  shows "resolve_workspaceId pf w r' = resolve_workspaceId pf w r"
proof -
  have "requested_workspaceId r' = requested_workspaceId r"
    using assms unfolding same_wire_def requested_workspaceId_def by presburger
  moreover have "requested_slug r' = requested_slug r"
    using assms unfolding same_wire_def requested_slug_def by presburger
  ultimately show ?thesis by (simp only: resolve_workspaceId_def)
qed

text \<open>
  A guard annotates the request and leaves what came over the wire alone; a chain of such
  guards does too.
\<close>

locale request_guard =
  fixes check :: guard
  assumes wire: "check pf w r = Inr r' \<Longrightarrow> same_wire r r'"
begin

lemma keeps_workspace: "check pf w r = Inr r' \<Longrightarrow> resolve_workspaceId pf w r' = resolve_workspaceId pf w r"
  by (rule same_wire_resolve [OF wire])

lemma run_Cons:
  assumes "run_guards (check # gs) pf w r = Inr r''"
  obtains r' where "check pf w r = Inr r'" and "same_wire r r'" and "run_guards gs pf w r' = Inr r''"
  using assms wire by (auto split: sum.splits)

end

lemma jwtAuthGuard_wire: "jwtAuthGuard pf w r = Inr r' \<Longrightarrow> same_wire r r'"
  by (auto simp: jwtAuthGuard_def same_wire_def split: option.splits if_splits)

lemma roleGuard_wire: "roleGuard roles pf w r = Inr r' \<Longrightarrow> same_wire r r'"
  by (auto simp: roleGuard_def same_wire_def Let_def split: option.splits if_splits)

lemma permissionGuard_wire: "permissionGuard perms pf w r = Inr r' \<Longrightarrow> same_wire r r'"
  by (auto simp: permissionGuard_def check_permissions_def same_wire_def
      split: option.splits if_splits)

interpretation jwt_guard: request_guard jwtAuthGuard
  by unfold_locales (rule jwtAuthGuard_wire)

interpretation role_guard: request_guard "roleGuard roles" for roles
  by unfold_locales (rule roleGuard_wire)

interpretation permission_guard: request_guard "permissionGuard perms" for perms
  by unfold_locales (rule permissionGuard_wire)

section \<open>Authentication\<close>

lemma split_on_free: "c \<notin> set s \<Longrightarrow> split_on c s = [s]"
  by (induction s) auto

lemma split_on_append: "c \<notin> set a \<Longrightarrow> split_on c (a @ c # b) = a # split_on c b"
  by (induction a) auto

lemma extract_bearer:
  assumes "map_of (rq_headers r) ''authorization'' = Some (''Bearer '' @ tok)"
    and "CHR '' '' \<notin> set tok"
  shows "extractTokenFromHeader r = Some tok"
  using assms split_on_append [of "CHR '' ''" "''Bearer''" tok]
  by (simp add: extractTokenFromHeader_def split_on_free)

lemma jwtAuthGuard_Inr_iff:
  "jwtAuthGuard pf w r = Inr r' \<longleftrightarrow>
     (\<exists>tok p. extractTokenFromHeader r = Some tok \<and> tok \<noteq> [] \<and>
        pf_jwtVerify pf (accessSecret (jwt_configuration pf)) tok (now_seconds w) = Some p \<and>
        r' = r\<lparr>rq_user := Some p\<rparr>)"
  by (auto simp: jwtAuthGuard_def split: option.splits)

section \<open>Workspace membership\<close>

lemma find_member_SomeD:
  "find_member pf w wid uid = Some m \<Longrightarrow>
   m \<in> set (members w) \<and> member_workspaceId m = wid \<and> member_userId m = uid"
  unfolding find_member_def by (drule fo.look_SomeD) simp

lemma find_member_None:
  "find_member pf w wid uid = None \<longleftrightarrow>
   (\<forall>m \<in> set (members w). member_workspaceId m = wid \<longrightarrow> member_userId m \<noteq> uid)"
  unfolding find_member_def fo.look_None by auto

lemma route_workspace:
  assumes "map_of (rq_params r) ''workspaceId'' = Some wid" and "wid \<noteq> []"
  shows "resolve_workspaceId pf w r = Some wid"
  using assms by (simp add: resolve_workspaceId_def requested_workspaceId_def)

lemma roleGuard_None_Inr_iff:
  "roleGuard None pf w r = Inr r' \<longleftrightarrow>
     (\<exists>u. rq_user r = Some u \<and>
        (case resolve_workspaceId pf w r of
           None \<Rightarrow> r' = r
         | Some wid \<Rightarrow>
             (\<exists>m. find_member pf w wid (jwt_userId u) = Some m \<and>
                  r' = r\<lparr>rq_workspaceId := Some wid, rq_workspaceMember := Some m\<rparr>)))"
  by (auto simp: roleGuard_def Let_def split: option.splits)

lemma permissionGuard_member:
  assumes "rq_workspaceMember r = Some m" and "rq_user r = Some u"
  shows "permissionGuard perms pf w r = Inr r' \<longleftrightarrow>
     r' = r \<and> set perms \<subseteq> set (role_permissions (member_role m))"
  using assms
  by (cases "perms = []")
    (auto simp: permissionGuard_def check_permissions_def list_all_iff)

text \<open>The guard chain of the workspace-scoped controllers.\<close>

definition workspace_route :: "permission list \<Rightarrow> guard" where
  "workspace_route perms = run_guards [jwtAuthGuard, roleGuard None, permissionGuard perms]"

lemma workspace_route_Inr:
  assumes route: "map_of (rq_params r) ''workspaceId'' = Some wid" "wid \<noteq> []"
    and ok: "workspace_route perms pf w r = Inr r'"
  obtains tok u m where "extractTokenFromHeader r = Some tok"
    and "pf_jwtVerify pf (accessSecret (jwt_configuration pf)) tok (now_seconds w) = Some u"
    and "m \<in> set (members w)" and "member_workspaceId m = wid" and "member_userId m = jwt_userId u"
    and "set perms \<subseteq> set (role_permissions (member_role m))"
    and "r' = r\<lparr>rq_user := Some u, rq_workspaceId := Some wid, rq_workspaceMember := Some m\<rparr>"
proof -
  from ok obtain r1 r2 where g1: "jwtAuthGuard pf w r = Inr r1"
    and g2: "roleGuard None pf w r1 = Inr r2" and g3: "permissionGuard perms pf w r2 = Inr r'"
    by (auto simp: workspace_route_def split: sum.splits)
  from g1 obtain tok u where tok: "extractTokenFromHeader r = Some tok"
    and ver: "pf_jwtVerify pf (accessSecret (jwt_configuration pf)) tok (now_seconds w) = Some u"
    and r1: "r1 = r\<lparr>rq_user := Some u\<rparr>"
    by (auto simp: jwtAuthGuard_Inr_iff)
  have "resolve_workspaceId pf w r1 = Some wid"
    using jwt_guard.keeps_workspace [OF g1] route_workspace [OF route] by simp
  with g2 r1 obtain m where mem: "find_member pf w wid (jwt_userId u) = Some m"
    and r2: "r2 = r\<lparr>rq_user := Some u, rq_workspaceId := Some wid, rq_workspaceMember := Some m\<rparr>"
    by (auto simp: roleGuard_None_Inr_iff)
  from r2 have "rq_workspaceMember r2 = Some m" "rq_user r2 = Some u" by simp_all
  from permissionGuard_member [OF this] g3 have "r' = r2"
    and "set perms \<subseteq> set (role_permissions (member_role m))"
    by auto
  with that tok ver r2 find_member_SomeD [OF mem] show thesis by blast
qed

lemma workspace_route_allows:
  assumes route: "map_of (rq_params r) ''workspaceId'' = Some wid" "wid \<noteq> []"
    and tok: "extractTokenFromHeader r = Some tok" "tok \<noteq> []"
      "pf_jwtVerify pf (accessSecret (jwt_configuration pf)) tok (now_seconds w) = Some u"
    and mem: "find_member pf w wid (jwt_userId u) = Some m"
    and perms: "set perms \<subseteq> set (role_permissions (member_role m))"
  shows "workspace_route perms pf w r =
     Inr (r\<lparr>rq_user := Some u, rq_workspaceId := Some wid, rq_workspaceMember := Some m\<rparr>)"
proof -
  let ?r1 = "r\<lparr>rq_user := Some u\<rparr>"
  let ?r2 = "?r1\<lparr>rq_workspaceId := Some wid, rq_workspaceMember := Some m\<rparr>"
  have g1: "jwtAuthGuard pf w r = Inr ?r1" using tok by (simp add: jwtAuthGuard_def)
  have "resolve_workspaceId pf w ?r1 = Some wid"
    by (rule route_workspace) (use route in simp_all)
  with mem have g2: "roleGuard None pf w ?r1 = Inr ?r2"
    by (simp add: roleGuard_def)
  have "permissionGuard perms pf w ?r2 = Inr ?r2"
    using perms by (simp add: permissionGuard_member)
  with g1 g2 show ?thesis by (simp add: workspace_route_def)
qed

lemma member_permissions [simp]:
  "role_permissions ''MEMBER'' = [PROJECT_CREATE, PROJECT_UPDATE, TASK_CREATE, TASK_ASSIGN, TASK_UPDATE]"
  "role_permissions ''ADMIN'' = permission_values"
  by (simp_all add: role_permissions_def)

lemma permission_values_all: "p \<in> set permission_values"
  by (cases p) (simp_all add: permission_values_def)

lemma role_permissions_unknown:
  "s \<noteq> ''ADMIN'' \<Longrightarrow> s \<noteq> ''MEMBER'' \<Longrightarrow> role_permissions s = []"
  by (simp add: role_permissions_def)

end
