(* ===== verification/Demo.thy ===== *)
theory Demo
  imports Tasks Guards
begin

text \<open>
  One concrete platform and one small world, at which the witnesses of the properties are
  evaluated. The platform's functions are toy ones that satisfy the documented laws the
  properties assume (a token carries its claims and expiry, a hash is checked by recomputing
  it, a trailing star of a Redis pattern matches any rest, ids never repeat).
\<close>

definition demo_uuid :: "nat \<Rightarrow> string" where
  "demo_uuid n = ''id'' @ replicate n (CHR ''x'')"

definition demo_glob :: "string \<Rightarrow> string \<Rightarrow> bool" where
  "demo_glob pat k =
     (if pat \<noteq> [] \<and> last pat = CHR ''*'' then take (length pat - 1) k = butlast pat else pat = k)"

text \<open>
  A token packs the secret, the lifetime, the claims and the time of issue, each field behind its
  length in unary; it is accepted for 15 minutes.
\<close>

primrec demo_pack :: "string list \<Rightarrow> string" where
  "demo_pack [] = []"
| "demo_pack (s # ss) = replicate (length s) (CHR ''n'') @ CHR ''.'' # s @ demo_pack ss"

primrec demo_unpack :: "nat \<Rightarrow> string \<Rightarrow> string list" where
  "demo_unpack 0 xs = []"
| "demo_unpack (Suc k) xs =
     (let n = length (takeWhile (\<lambda>c. c = CHR ''n'') xs); rest = drop (Suc n) xs
      in take n rest # demo_unpack k (drop n rest))"

lemma demo_unpack_pack: "demo_unpack (length ss) (demo_pack ss) = ss"
proof (induction ss)
  case (Cons s ss)
  have "takeWhile (\<lambda>c. c = CHR ''n'') (replicate n (CHR ''n'') @ CHR ''.'' # r) =
      replicate n (CHR ''n'')" for n r
    by (induction n) auto
  with Cons show ?case by (simp add: Let_def)
qed simp

definition demo_int :: "int \<Rightarrow> string" where
  "demo_int i = (if i < 0 then CHR ''-'' else CHR ''s'') # replicate (nat \<bar>i\<bar>) (CHR ''s'')"

definition demo_int_of :: "string \<Rightarrow> int" where
  "demo_int_of s = (if hd s = CHR ''-'' then - int (length (tl s)) else int (length (tl s)))"

lemma demo_int_of_int: "demo_int_of (demo_int i) = i"
  by (simp add: demo_int_of_def demo_int_def)

definition demo_sign :: "string \<Rightarrow> string \<Rightarrow> jwt_payload \<Rightarrow> int \<Rightarrow> string" where
  "demo_sign secret ttl p iat = demo_pack [secret, ttl, jwt_userId p, jwt_email p, demo_int iat]"

definition demo_verify :: "string \<Rightarrow> string \<Rightarrow> int \<Rightarrow> jwt_payload option" where
  "demo_verify secret token now =
     (case demo_unpack 5 token of
        [s, ttl, u, m, iat] \<Rightarrow>
          if s = secret \<and> now < demo_int_of iat + 900
          then Some \<lparr>jwt_userId = u, jwt_email = m\<rparr> else None
      | _ \<Rightarrow> None)"

lemma demo_verify_sign: "0 \<le> d \<Longrightarrow> d < 900 \<Longrightarrow> demo_verify secret (demo_sign secret ttl p iat) (iat + d) = Some p"
proof -
  assume "0 \<le> d" and "d < 900"
  moreover have "length [a, b, c, d, e] = 5" for a b c d e :: string by simp
  then have "demo_unpack 5 (demo_pack [a, b, c, d, e]) = [a, b, c, d, e]" for a b c d e
    using demo_unpack_pack [of "[a, b, c, d, e]"] by metis
  ultimately show ?thesis
    by (simp add: demo_verify_def demo_sign_def demo_int_of_int del: demo_pack.simps demo_unpack.simps)
qed

lemma demo_sign_claims: "demo_verify secret' (demo_sign secret ttl p iat) t = Some q \<Longrightarrow> q = p"
proof -
  have "length [a, b, c, d, e] = 5" for a b c d e :: string by simp
  then have "demo_unpack 5 (demo_pack [a, b, c, d, e]) = [a, b, c, d, e]" for a b c d e
    using demo_unpack_pack [of "[a, b, c, d, e]"] by metis
  then show "demo_verify secret' (demo_sign secret ttl p iat) t = Some q \<Longrightarrow> q = p"
    by (auto simp: demo_verify_def demo_sign_def simp del: demo_pack.simps demo_unpack.simps split: if_splits)
qed

definition demo_pf :: platform where
  "demo_pf = \<lparr>
     pf_pick = (\<lambda>_. 0),
     pf_uuid = demo_uuid,
     pf_randomHex = (\<lambda>n. replicate 32 (CHR ''a'')),
     pf_genSalt = (\<lambda>n. ''salt''),
     pf_bcryptHash = (\<lambda>pw salt. ''salt'' @ pw),
     pf_bcryptCompare = (\<lambda>pw h. ''salt'' @ pw = h),
     pf_sha256 = (\<lambda>s. s),
     pf_jwtSign = demo_sign,
     pf_jwtVerify = demo_verify,
     pf_jwtExp = (\<lambda>tok. int (length tok)),
     pf_parseDate = (\<lambda>s. int (length s)),
     pf_isUUID = (\<lambda>s. True),
     pf_isDateString = (\<lambda>s. True),
     pf_isEmail = (\<lambda>s. True),
     pf_toISOString = (\<lambda>t. ''1970-01-01T00:00:00.000Z''),
     pf_glob = demo_glob,
     pf_fullText = (\<lambda>doc q. take (length q) doc = q),
     pf_titleRank = (\<lambda>s. int (length s)),
     pf_presign = (\<lambda>c b k t n. c @ b @ k),
     pf_pipeMessage = (\<lambda>ks. ''Bad Request Exception''),
     pf_addHours = (\<lambda>t h. t + h * 3600000),
     pf_addDays = (\<lambda>t d. t + d * 86400000),
     pf_env = (\<lambda>_. None)\<rparr>"

definition demo_user :: "string \<Rightarrow> string \<Rightarrow> user" where
  "demo_user i mail = \<lparr>user_id = i, user_email = mail, user_password = Some ''saltpw'',
     user_name = i, user_avatar = None, user_isVerified = True, user_createdAt = 0,
     user_updatedAt = 0\<rparr>"

definition demo_task :: "nat \<Rightarrow> string \<Rightarrow> task" where
  "demo_task n title = \<lparr>task_id = demo_uuid n, task_workspaceId = ''w1'', task_projectId = ''p1'',
     task_parentTaskId = None, task_title = title, task_description = None,
     task_status = ''TODO'', task_priority = ''MEDIUM'', task_assignedTo = Some ''bob'',
     task_dueDate = None, task_createdBy = ''ann'', task_completedAt = None,
     task_labels = None, task_attachments = Some [], task_version = 1, task_deletedAt = None,
     task_createdAt = int n, task_updatedAt = 0\<rparr>"

definition demo_workspace :: "string \<Rightarrow> string \<Rightarrow> workspace" where
  "demo_workspace i slug = \<lparr>workspace_id = i, workspace_name = slug, workspace_slug = slug,
     workspace_ownerId = ''ann'', workspace_createdAt = 0, workspace_updatedAt = 0\<rparr>"

definition demo_project :: "string \<Rightarrow> string \<Rightarrow> project" where
  "demo_project i ws = \<lparr>project_id = i, project_workspaceId = ws, project_name = i,
     project_description = None, project_status = ''ACTIVE'', project_createdAt = 0,
     project_updatedAt = 0\<rparr>"

definition demo_member :: "string \<Rightarrow> string \<Rightarrow> string \<Rightarrow> workspace_member" where
  "demo_member ws u r = \<lparr>member_workspaceId = ws, member_userId = u, member_role = r,
     member_createdAt = 0, member_updatedAt = 0\<rparr>"

text \<open>
  Ann administers workspace w1 (slug one), where Bob is a member; Eve owns workspace w2 (slug
  two) alone. Project p1 of w1 has two tasks.
\<close>

definition demo_world :: world where
  "demo_world = empty_world\<lparr>
     users := [demo_user ''ann'' ''ann@x'', demo_user ''bob'' ''bob@x'', demo_user ''eve'' ''eve@x''],
     workspaces := [demo_workspace ''w1'' ''one'', demo_workspace ''w2'' ''two''],
     members := [demo_member ''w1'' ''ann'' ''ADMIN'', demo_member ''w1'' ''bob'' ''MEMBER'',
                 demo_member ''w2'' ''eve'' ''ADMIN''],
     projects := [demo_project ''p1'' ''w1'', demo_project ''p2'' ''w2''],
     tasks := [demo_task 0 ''first'', demo_task 1 ''second''],
     draws := 2\<rparr>"

definition no_update :: update_task_dto where
  "no_update = \<lparr>ut_title = Undefined, ut_description = Undefined, ut_status = Undefined,
     ut_priority = Undefined, ut_assignedTo = Undefined, ut_dueDate = Undefined,
     ut_labels = Undefined, ut_attachments = Undefined, ut_version = Undefined\<rparr>"

definition demo_create :: create_task_dto where
  "demo_create = \<lparr>ct_title = ''third'', ct_description = None, ct_parentTaskId = None,
     ct_priority = None, ct_assignedTo = Some ''bob'', ct_dueDate = None, ct_labels = None,
     ct_attachments = None\<rparr>"

definition demo_query :: query_task_dto where
  "demo_query = \<lparr>q_page = Some 1, q_limit = Some 10, q_status = None, q_priority = None,
     q_assignedTo = None, q_search = None, q_sortBy = Some ''createdAt'',
     q_sortOrder = Some ''DESC''\<rparr>"

lemma demo_pf_verify: "pf_jwtVerify demo_pf = demo_verify"
  by (simp add: demo_pf_def)

lemma demo_uuid_inj: "inj (pf_uuid demo_pf)"
proof (rule injI)
  fix m n
  assume "pf_uuid demo_pf m = pf_uuid demo_pf n"
  then have "length (demo_uuid m) = length (demo_uuid n)" by (simp add: demo_pf_def)
  then show "m = n" by (simp add: demo_uuid_def)
qed

lemma demo_glob_star: "prefix p k \<Longrightarrow> pf_glob demo_pf (p @ ''*'') k"
  by (auto simp: demo_pf_def demo_glob_def prefix_def)

lemmas demo_defs =
  demo_world_def demo_pf_def empty_world_def demo_user_def demo_task_def demo_workspace_def
  demo_project_def demo_member_def no_update_def demo_create_def demo_query_def

end
