(* ===== verification/TaskTheorems.thy ===== *)
theory TaskTheorems
  imports TaskSpec Demo
begin

text \<open>
  The properties of the task service, each with a witness at the world of theory Demo.
\<close>

section \<open>The world of the witnesses\<close>

lemma demo_glob_law: "glob_law demo_pf"
  by (simp add: glob_law_def demo_glob_star)

lemma demo_tasks_ok: "tasks_ok demo_pf demo_world"
proof -
  have "task_inv demo_pf demo_world"
    by (auto simp: task_inv_def task_ids_ok_def task_coherent_def coherent_def demo_defs
        demo_uuid_def cache_get_def redis_get_def image_iff intro: bexI [of _ 0] bexI [of _ 1])
  moreover have "\<forall>t \<in> set (tasks demo_world). row_ok t \<and> task_fks t demo_world"
    by (simp add: demo_defs row_ok_def task_fks_def exists_defs task_statuses_def
        task_priorities_def)
  ultimately show ?thesis by (simp add: tasks_ok_def)
qed

definition demo_done :: update_task_dto where
  "demo_done = no_update\<lparr>ut_status := Value ''DONE''\<rparr>"

definition demo_op :: task_op where
  "demo_op = TaskUpdate ''w1'' ''id'' ''ann'' demo_done"

lemma demo_op_reachable: "task_reachable demo_pf demo_world (run_op demo_pf demo_op demo_world)"
proof (rule task_reachable.then_step [OF task_reachable.start task_step.request])
  show "op_valid demo_pf demo_op"
    by (simp add: demo_op_def demo_done_def no_update_def updateTaskDto_valid_def task_statuses_def)
qed

section \<open>Reads and invariants\<close>

text \<open>
  C1: whatever sequence of requests ran before, with time passing, queues failing and cache entries
  being evicted in between, \<open>findById\<close> answers exactly what the task table holds: the
  cache is never stale and never leaks a task of another workspace.
\<close>

theorem findById_answers_the_table:
  assumes "inj (pf_uuid pf)" and "tasks_ok pf w" and "task_reachable pf w w'"
  shows "fst (findById pf i ws w') =
    (case find (\<lambda>t. task_id t = i \<and> task_deletedAt t = None) (tasks w') of
       None \<Rightarrow> Inl (NotFoundException ''Task not found in this workspace'')
     | Some t \<Rightarrow>
         if task_workspaceId t = ws then Inr (view_of pf w' t)
         else Inl (NotFoundException ''Task not found in this workspace''))"
  unfolding task_not_found_def [symmetric]
  using findById_spec [of pf w' i ws] reachable_ok [OF assms(1,3,2)]
  by (simp add: tasks_ok_def live_task_def)

theorem findById_answers_the_table_witness:
  "fst (findById demo_pf ''id'' ''w2'' (run_op demo_pf demo_op demo_world)) =
     Inl (NotFoundException ''Task not found in this workspace'')"
proof -
  have "tasks (run_op demo_pf demo_op demo_world) = op_tasks demo_pf demo_op demo_world"
    using demo_tasks_ok by (simp add: run_op_tasks tasks_ok_def)
  moreover have "\<forall>t \<in> set (op_tasks demo_pf demo_op demo_world). task_workspaceId t = ''w1''"
    by code_simp
  ultimately show ?thesis
    unfolding findById_answers_the_table [OF demo_uuid_inj demo_tasks_ok demo_op_reachable]
    by (auto simp: find_Some_iff split: option.split)
qed

text \<open>
  C14: in every reachable world a task carries a completion time exactly when its status is DONE, its
  status and priority are values the API documents, and its version is positive.
\<close>

theorem completion_time_iff_done:
  assumes "inj (pf_uuid pf)" and "tasks_ok pf w" and "task_reachable pf w w'"
    and "t \<in> set (tasks w')"
  shows "(task_completedAt t \<noteq> None \<longleftrightarrow> task_status t = ''DONE'') \<and>
    task_status t \<in> {''TODO'', ''IN_PROGRESS'', ''BLOCKED'', ''DONE''} \<and>
    task_priority t \<in> {''LOW'', ''MEDIUM'', ''HIGH'', ''CRITICAL''} \<and> 1 \<le> task_version t"
  using reachable_ok [OF assms(1,3,2)] assms(4)
  by (simp add: tasks_ok_def row_ok_def task_statuses_def task_priorities_def)

theorem completion_time_iff_done_witness:
  "\<exists>t. t \<in> set (tasks (run_op demo_pf demo_op demo_world)) \<and> task_status t = ''DONE'' \<and>
     task_completedAt t \<noteq> None"
proof -
  have eq: "tasks (run_op demo_pf demo_op demo_world) = op_tasks demo_pf demo_op demo_world"
    using demo_tasks_ok by (simp add: run_op_tasks tasks_ok_def)
  have status: "task_status (hd (op_tasks demo_pf demo_op demo_world)) = ''DONE''"
    and ne: "op_tasks demo_pf demo_op demo_world \<noteq> []"
    by code_simp+
  then have "hd (op_tasks demo_pf demo_op demo_world) \<in> set (tasks (run_op demo_pf demo_op demo_world))"
    by (simp add: eq)
  from completion_time_iff_done [OF demo_uuid_inj demo_tasks_ok demo_op_reachable this] status this
  show ?thesis by blast
qed

section \<open>Refinement of the specification\<close>




lemma demo_notifiable: "notifiable demo_world"
  by (simp add: notifiable_def demo_defs)

lemma Inr_witness: "(case x of Inl e \<Rightarrow> False | Inr t \<Rightarrow> P t) \<Longrightarrow> \<exists>t. x = Inr t \<and> P t"
  by (cases x) simp_all


section \<open>Tenants\<close>



section \<open>Versions\<close>

text \<open>
  An update that names another version than the stored one is refused as a conflict and has no
  effect at all: no table, job, broadcast or notification changes.
\<close>

theorem stale_version_is_refused:
  assumes "tasks_ok pf w" and "read_outcome ws i w = Inr t"
    and "ut_version dto = Value n" and "n \<noteq> task_version t"
  shows "fst (updateTask pf i ws uid dto w) = Inl (ConflictException lock_violation) \<and>
    tasks (snd (updateTask pf i ws uid dto w)) = tasks w \<and>
    jobs (snd (updateTask pf i ws uid dto w)) = jobs w \<and>
    emitted (snd (updateTask pf i ws uid dto w)) = emitted w \<and>
    notifications (snd (updateTask pf i ws uid dto w)) = notifications w"
proof -
  from assms(1) have inv: "task_inv pf w" by (simp add: tasks_ok_def)
  from assms(3,4) have "version_conflict dto t" by (simp add: version_conflict_def)
  from conflict_result [OF inv assms(2) this, of uid] show ?thesis
    by (metis findById_tables(1,7,8,9) fst_conv snd_conv)
qed

theorem stale_version_is_refused_witness:
  "fst (updateTask demo_pf ''id'' ''w1'' ''bob'' (demo_done\<lparr>ut_version := Value 7\<rparr>) demo_world) =
     Inl (ConflictException lock_violation)"
proof -
  have "read_outcome ''w1'' ''id'' demo_world = Inr (demo_task 0 ''first'')" by code_simp
  from stale_version_is_refused [OF demo_tasks_ok this, of "demo_done\<lparr>ut_version := Value 7\<rparr>" 7]
  show ?thesis by (simp add: demo_task_def)
qed

lemma row_after_update:
  assumes inj: "inj (pf_uuid pf)" and ok: "tasks_ok pf w" and valid: "updateTaskDto_valid pf dto"
    and out: "update_outcome pf ws i dto w = Inr t1" and w1: "w1 = snd (updateTask pf i ws uid dto w)"
  shows "tasks_ok pf w1" and "read_outcome ws i w1 = Inr t1"
proof -
  let ?op = "TaskUpdate ws i uid dto"
  from ok have inv: "task_inv pf w" by (simp add: tasks_ok_def)
  have run: "w1 = run_op pf ?op w" by (simp add: w1)
  show ok1: "tasks_ok pf w1" unfolding run by (rule run_op_ok [OF inj _ ok]) (simp add: valid)
  obtain t where t: "t \<in> set (tasks w)" "task_id t = i" "task_workspaceId t = ws"
      "task_deletedAt t = None" "write_outcome pf dto t w = Inr t1"
    by (rule update_outcomeD [OF out]) blast
  have t1: "task_id t1 = i" "task_workspaceId t1 = ws" "task_deletedAt t1 = None"
    using write_outcomeD [OF t(5)] t by simp_all
  have "t1 \<in> put t1 (tasks w)" if "put = (\<lambda>s ts. set (put_outcome (Inr s) ts))" for put
    using t(1,2) t1(1) that by (auto simp: image_iff intro: bexI [of _ t])
  then have "t1 \<in> set (tasks w1)"
    by (simp add: run run_op_tasks [OF inv] out del: run_op.simps)
  then have "live_task i w1 = Some t1"
    using ok1 t1 by (subst live_task_iff) (simp_all add: tasks_ok_def task_inv_def task_ids_ok_def)
  then show "read_outcome ws i w1 = Inr t1" by (simp add: read_outcome_def t1)
qed

text \<open>
  Of two updates that name the same version, the one that runs to its end first, if it changed
  the task, makes the other one fail with a conflict.
\<close>

theorem second_writer_gets_a_conflict:
  assumes "inj (pf_uuid pf)" and "tasks_ok pf w" and "updateTaskDto_valid pf dto1"
    and "ut_version dto1 = Value n" and "ut_version dto2 = Value n"
    and "update_outcome pf ws i dto1 w = Inr t1" and "t1 \<notin> set (tasks w)"
  shows "fst (updateTask pf i ws u2 dto2 (snd (updateTask pf i ws u1 dto1 w))) =
    Inl (ConflictException lock_violation)"
proof -
  note after = row_after_update [OF assms(1-3,6) refl, of u1]
  obtain t where "t \<in> set (tasks w)" "write_outcome pf dto1 t w = Inr t1"
    by (rule update_outcomeD [OF assms(6)]) blast
  with assms(4,7) have "task_version t1 \<noteq> n"
    by (auto simp: write_outcome_def saved_task_def version_conflict_def
        split: if_splits option.splits dest: apply_update_id)
  then have "version_conflict dto2 t1" by (simp add: assms(5) version_conflict_def)
  moreover have "task_inv pf (snd (updateTask pf i ws u1 dto1 w))" using after(1) by (simp add: tasks_ok_def)
  ultimately show ?thesis using conflict_result [OF _ after(2)] by (metis fst_conv)
qed

theorem second_writer_gets_a_conflict_witness:
  "fst (updateTask demo_pf ''id'' ''w1'' ''bob'' (no_update\<lparr>ut_title := Value ''x'', ut_version := Value 1\<rparr>)
     (snd (updateTask demo_pf ''id'' ''w1'' ''ann'' (demo_done\<lparr>ut_version := Value 1\<rparr>) demo_world))) =
   Inl (ConflictException lock_violation)"
proof -
  have "\<exists>t. update_outcome demo_pf ''w1'' ''id'' (demo_done\<lparr>ut_version := Value 1\<rparr>) demo_world = Inr t \<and>
      t \<notin> set (tasks demo_world)"
    by (rule Inr_witness) code_simp
  then obtain t where "update_outcome demo_pf ''w1'' ''id'' (demo_done\<lparr>ut_version := Value 1\<rparr>) demo_world = Inr t"
    and "t \<notin> set (tasks demo_world)"
    by blast
  moreover have "updateTaskDto_valid demo_pf (demo_done\<lparr>ut_version := Value 1\<rparr>)"
    by (simp add: updateTaskDto_valid_def demo_done_def no_update_def task_statuses_def)
  ultimately show ?thesis
    by (intro second_writer_gets_a_conflict [OF demo_uuid_inj demo_tasks_ok, where n = 1]) simp_all
qed





section \<open>Deletion\<close>

text \<open>
  C21: deletion is final: once \<open>deleteTask\<close> succeeded, no sequence of requests and
  environment steps makes the task readable again, from any workspace.
\<close>

theorem deleted_task_stays_deleted:
  assumes "inj (pf_uuid pf)" and "tasks_ok pf w"
    and "fst (deleteTask pf i ws uid w) = Inr ()"
    and "task_reachable pf (snd (deleteTask pf i ws uid w)) w'"
  shows "fst (findById pf i ws' w') = Inl (NotFoundException ''Task not found in this workspace'')"
proof -
  have "buried pf i w'"
    by (rule reachable_invariant [OF assms(4), where I = "buried pf i"])
      (use delete_buries [OF assms(1-3)] step_buried [OF assms(1)] in auto)
  then have "task_inv pf w'" and "live_task i w' = None"
    by (auto simp: buried_def tasks_ok_def live_task_def find_None_iff)
  then show ?thesis by (simp add: findById_spec task_not_found_def)
qed

theorem deleted_task_stays_deleted_witness:
  "fst (findById demo_pf ''id'' ''w1''
     (run_op demo_pf demo_op (snd (deleteTask demo_pf ''id'' ''w1'' ''ann'' demo_world)))) =
   Inl (NotFoundException ''Task not found in this workspace'')"
proof (rule deleted_task_stays_deleted [OF demo_uuid_inj demo_tasks_ok])
  have "delete_outcome ''w1'' ''id'' demo_world = Inr (projr (delete_outcome ''w1'' ''id'' demo_world))"
    by code_simp
  then show "fst (deleteTask demo_pf ''id'' ''w1'' ''ann'' demo_world) = Inr ()"
    using demo_tasks_ok deleteTask_refines(2) [of demo_pf demo_world "''id''" "''w1''" "''ann''"]
    by (metis tasks_ok_def map_sum.simps(2))
  show "task_reachable demo_pf (snd (deleteTask demo_pf ''id'' ''w1'' ''ann'' demo_world))
      (run_op demo_pf demo_op (snd (deleteTask demo_pf ''id'' ''w1'' ''ann'' demo_world)))"
    by (rule task_reachable.then_step [OF task_reachable.start task_step.request])
      (simp add: demo_op_def demo_done_def no_update_def updateTaskDto_valid_def task_statuses_def)
qed

section \<open>Lists\<close>

text \<open>
  Whenever a request changes the live tasks of a project, the next list of that project, with
  any filter, page and order, is computed from the table: no page cached before survives.
\<close>

theorem list_after_a_change_is_fresh:
  assumes "tasks_ok pf w" and "glob_law pf"
    and "listed_rows ws pid (tasks (run_op pf op w)) \<noteq> listed_rows ws pid (tasks w)"
  shows "fst (getTasks pf ws pid q (run_op pf op w)) = Inr (db_page pf ws pid q (run_op pf op w))"
  using assms by (intro getTasks_gone list_fresh) (simp_all add: tasks_ok_def)

theorem list_after_a_change_is_fresh_witness:
  "fst (getTasks demo_pf ''w1'' ''p1'' demo_query (run_op demo_pf demo_op demo_world)) =
   Inr (db_page demo_pf ''w1'' ''p1'' demo_query (run_op demo_pf demo_op demo_world))"
proof (rule list_after_a_change_is_fresh [OF demo_tasks_ok demo_glob_law])
  have "listed_rows ''w1'' ''p1'' (op_tasks demo_pf demo_op demo_world) \<noteq>
      listed_rows ''w1'' ''p1'' (tasks demo_world)"
    by code_simp
  then show "listed_rows ''w1'' ''p1'' (tasks (run_op demo_pf demo_op demo_world)) \<noteq>
      listed_rows ''w1'' ''p1'' (tasks demo_world)"
    using demo_tasks_ok by (simp add: run_op_tasks tasks_ok_def)
qed

text \<open>
  The pages of a list, from the first to the last, put together are the whole selection: no task
  is skipped and none is shown twice.
\<close>

theorem pages_cover_the_selection:
  assumes "1 \<le> l"
  shows "concat (map (\<lambda>p. map fst (page_items (db_page pf ws pid (q\<lparr>q_page := Some p, q_limit := Some l\<rparr>) w)))
      [1..page_totalPages (db_page pf ws pid (q\<lparr>q_limit := Some l\<rparr>) w)]) =
    selected_tasks pf ws pid q w"
proof -
  let ?all = "selected_tasks pf ws pid q w"
  have q: "selected_tasks pf ws pid (q\<lparr>q_page := a, q_limit := b\<rparr>) w = ?all"
    "selected_tasks pf ws pid (q\<lparr>q_limit := b\<rparr>) w = ?all" for a b
    unfolding selected_tasks_def matches_query_def sort_field_def by (simp_all cong: if_cong)
  define m where "m = nat (- ((- int (length ?all)) div l))"
  have total: "page_totalPages (db_page pf ws pid (q\<lparr>q_limit := Some l\<rparr>) w) = int m"
    using assms page_count(1) [OF assms, of "length ?all"] by (simp add: db_page_def Let_def q m_def)
  have page: "map fst (page_items (db_page pf ws pid (q\<lparr>q_page := Some (int k + 1), q_limit := Some l\<rparr>) w)) =
      take (nat l) (drop (k * nat l) ?all)" for k
    using assms by (simp add: db_page_def Let_def q comp_def nat_mult_distrib)
  have "length ?all \<le> m * nat l" using page_count(2) [OF assms] by (simp add: m_def)
  then show ?thesis
    by (simp add: total upto_int comp_def page concat_chunks)
qed

theorem pages_cover_the_selection_witness:
  "concat (map (\<lambda>p. map fst (page_items (db_page demo_pf ''w1'' ''p1''
      (demo_query\<lparr>q_page := Some p, q_limit := Some 1\<rparr>) demo_world))) [1, 2]) =
   selected_tasks demo_pf ''w1'' ''p1'' demo_query demo_world"
proof -
  have "page_totalPages (db_page demo_pf ''w1'' ''p1'' (demo_query\<lparr>q_limit := Some 1\<rparr>) demo_world) = 2"
    by code_simp
  moreover have "[1..2] = [1, 2::int]" by (simp add: upto.simps)
  ultimately show ?thesis
    using pages_cover_the_selection [of 1 demo_pf "''w1''" "''p1''" demo_query demo_world] by simp
qed

text \<open>
  A list selects exactly the live tasks of the workspace's project that match every filter, each
  once, in the requested order of the sort key, with tasks that have no due date last in
  ascending and first in descending order.
\<close>

theorem selection_is_the_matching_live_rows:
  "mset (selected_tasks pf ws pid q w) =
     mset (filter (\<lambda>t. task_workspaceId t = ws \<and> task_projectId t = pid \<and> task_deletedAt t = None \<and>
                       matches_query pf q t) (tasks w)) \<and>
   sorted_wrt (\<lambda>a b. key_before (or_str (q_sortOrder q) ''DESC'') (sort_field pf q a) (sort_field pf q b))
     (selected_tasks pf ws pid q w)"
  unfolding selected_tasks_def using sort_tasks_sorted by (simp add: mset_sort_tasks)

section \<open>Errors and missing checks\<close>

text \<open>
  C34: when the notification queue cannot be reached, \<open>createTask\<close> for an assigned task throws
  after the row is stored: the caller is told the request failed, and the task exists.
\<close>

theorem createTask_fails_after_commit:
  assumes "\<not> queueUp w ''notification.queue''" and "truthy (ct_assignedTo dto)"
    and "create_outcome pf ws pid uid dto w = Inr t"
  shows "fst (createTask pf ws pid uid dto w) = Inl (ErrorE ''Connection is closed.'') \<and>
    tasks (snd (createTask pf ws pid uid dto w)) = tasks w @ [t]"
proof -
  from assms(3) have fks: "task_fks (task_entity pf ws pid uid dto) w"
    by (simp add: create_outcome_def Let_def split: if_splits)
  have "fst (createTask pf ws pid uid dto w) = Inl (ErrorE ''Connection is closed.'')"
    using assms(1,2) create_task_fks [OF fks]
    by (simp add: createTask_eval Let_def fks announce_create_def createAndSendNotification_def
        insert_notification_def queue_add_def send_defs emit_to_def prog_simps user_exists_def)
  with assms(3) show ?thesis by (simp add: createTask_tasks)
qed

theorem createTask_fails_after_commit_witness:
  "length (tasks (snd (createTask demo_pf ''w1'' ''p1'' ''ann'' demo_create
     (demo_world\<lparr>queueUp := (\<lambda>q. q = ''audit.queue'')\<rparr>)))) = 3"
proof -
  let ?w = "demo_world\<lparr>queueUp := (\<lambda>q. q = ''audit.queue'')\<rparr>"
  have "create_outcome demo_pf ''w1'' ''p1'' ''ann'' demo_create ?w =
      Inr (projr (create_outcome demo_pf ''w1'' ''p1'' ''ann'' demo_create ?w))"
    by code_simp
  from createTask_fails_after_commit [OF _ _ this]
  show ?thesis by (simp add: demo_create_def) (simp add: demo_world_def)
qed

text \<open>
  \<open>createTask\<close> only needs its project to exist: a project of another workspace is accepted,
  and the task it makes has the caller's workspace and the other tenant's project.
\<close>

theorem createTask_ignores_the_projects_workspace:
  assumes "notifiable w" and "workspace_exists ws w" and "user_exists uid w"
    and "p \<in> set (projects w)" and "project_workspaceId p \<noteq> ws"
    and "ct_parentTaskId dto = None" and "ct_assignedTo dto = None"
  shows "\<exists>t. fst (createTask pf ws (project_id p) uid dto w) = Inr t \<and>
    task_workspaceId t = ws \<and> task_projectId t = project_id p \<and>
    t \<in> set (tasks (snd (createTask pf ws (project_id p) uid dto w)))"
proof -
  have "task_fks (task_entity pf ws (project_id p) uid dto) w"
    using assms by (auto simp: task_fks_def task_entity_def project_exists_def)
  then have out: "create_outcome pf ws (project_id p) uid dto w =
      Inr (inserted_task pf (task_entity pf ws (project_id p) uid dto) w)"
    by (simp add: create_outcome_def Let_def)
  then show ?thesis
    using create_outcomeD [OF out] by (simp add: createTask_result [OF assms(1)] createTask_tasks)
qed

theorem createTask_ignores_the_projects_workspace_witness:
  "\<exists>t. fst (createTask demo_pf ''w1'' ''p2'' ''ann'' (demo_create\<lparr>ct_assignedTo := None\<rparr>) demo_world) = Inr t \<and>
     task_workspaceId t = ''w1'' \<and> task_projectId t = ''p2''"
proof -
  have "demo_project ''p2'' ''w2'' \<in> set (projects demo_world)" by (simp add: demo_world_def)
  from createTask_ignores_the_projects_workspace [OF demo_notifiable _ _ this,
      of "''w1''" "''ann''" "demo_create\<lparr>ct_assignedTo := None\<rparr>" demo_pf]
  show ?thesis
    by (auto simp: exists_defs demo_world_def demo_user_def demo_workspace_def demo_project_def
        demo_create_def)
qed

text \<open>
  The list cache confuses an absent search with a search for the word none: after the unfiltered
  page was cached, the search answers that page.
\<close>

theorem search_for_none_hits_the_unfiltered_page:
  assumes "redisUp w" and "cache_get (getListCacheKey ws pid q) w = None" and "q_search q = None"
  shows "fst (getTasks pf ws pid (q\<lparr>q_search := Some ''none''\<rparr>) (snd (getTasks pf ws pid q w))) =
    Inr (db_page pf ws pid q w)"
proof -
  have "getListCacheKey ws pid (q\<lparr>q_search := Some ''none''\<rparr>) = getListCacheKey ws pid q"
    using assms(3) by (simp add: getListCacheKey_def)
  with assms(1,2) show ?thesis by (simp add: getTasks_eval cache_get_set_fresh)
qed

theorem search_for_none_hits_the_unfiltered_page_witness:
  "\<exists>p. fst (getTasks demo_pf ''w1'' ''p1'' (demo_query\<lparr>q_search := Some ''none''\<rparr>)
         (snd (getTasks demo_pf ''w1'' ''p1'' demo_query demo_world))) = Inr p \<and>
     page_total p = 2 \<and>
     page_total (db_page demo_pf ''w1'' ''p1'' (demo_query\<lparr>q_search := Some ''none''\<rparr>) demo_world) = 0"
proof -
  have "page_total (db_page demo_pf ''w1'' ''p1'' demo_query demo_world) = 2"
    and "page_total (db_page demo_pf ''w1'' ''p1'' (demo_query\<lparr>q_search := Some ''none''\<rparr>) demo_world) = 0"
    by code_simp+
  moreover have "redisUp demo_world"
    "cache_get (getListCacheKey ''w1'' ''p1'' demo_query) demo_world = None" "q_search demo_query = None"
    by (simp_all add: demo_world_def empty_world_def demo_query_def cache_get_def redis_get_def)
  ultimately show ?thesis by (simp add: search_for_none_hits_the_unfiltered_page)
qed

end
