(* ===== verification/Users.thy ===== *)
theory Users
  imports Entities
begin

text \<open>
  \<open>src/src/modules/users/users.service.ts\<close>: accounts. The password column holds a bcrypt
  hash and is left out of every default read; a save of an entity read that way leaves the
  column alone.
\<close>

section \<open>The user repository\<close>

definition insert_user :: "platform \<Rightarrow> user \<Rightarrow> user svc" where
  "insert_user pf u =
     await (gets (\<lambda>w. \<exists>r \<in> set (users w). user_email r = user_email u)) (\<lambda>taken.
     if taken then throw (QueryFailedError ''users.email'')
     else
       await (gen_uuid pf) (\<lambda>i.
       await new_date (\<lambda>now.
         let u' = u\<lparr>user_id := i, user_createdAt := now, user_updatedAt := now\<rparr>
         in await (modify (\<lambda>w. w\<lparr>users := users w @ [u']\<rparr>)) (\<lambda>_. ret u'))))"

text \<open>The columns of the row a save writes: an absent password keeps the stored one.\<close>

definition merge_user :: "user \<Rightarrow> user \<Rightarrow> user" where
  "merge_user u row =
     u\<lparr>user_password := (case user_password u of None \<Rightarrow> user_password row | Some p \<Rightarrow> Some p),
       user_updatedAt := user_updatedAt row\<rparr>"

definition save_user :: "user \<Rightarrow> user svc" where
  "save_user u =
     await (gets (\<lambda>w. find (\<lambda>r. user_id r = user_id u) (users w))) (\<lambda>found.
     await new_date (\<lambda>now.
       case found of
         None \<Rightarrow> throw (QueryFailedError ''users.password'')
       | Some row \<Rightarrow>
           if merge_user u row = row then ret u
           else
             await (modify (\<lambda>w. w\<lparr>users := update_rows (\<lambda>r. user_id r = user_id u)
                      (\<lambda>_. (merge_user u row)\<lparr>user_updatedAt := now\<rparr>) (users w)\<rparr>)) (\<lambda>_.
             ret (u\<lparr>user_updatedAt := now\<rparr>))))"

section \<open>Operations\<close>

definition user_by_email :: "platform \<Rightarrow> string \<Rightarrow> world \<Rightarrow> user option" where
  "user_by_email pf email w = find_one (pf_pick pf) (\<lambda>u. user_email u = email) (users w)"

definition createUser :: "platform \<Rightarrow> string \<Rightarrow> string \<Rightarrow> string \<Rightarrow> user svc" where
  "createUser pf email passwordPlain name =
     await (gets (user_by_email pf email)) (\<lambda>existing.
     if existing \<noteq> None
     then throw (ConflictException ''A user with this email address already exists'')
     else
       await (draw (pf_genSalt pf)) (\<lambda>salt.
       insert_user pf
         \<lparr>user_id = '''', user_email = email,
          user_password = Some (pf_bcryptHash pf passwordPlain salt), user_name = name,
          user_avatar = None, user_isVerified = False, user_createdAt = 0, user_updatedAt = 0\<rparr>))"

definition findByEmail :: "platform \<Rightarrow> string \<Rightarrow> user option svc" where
  "findByEmail pf email = gets (\<lambda>w. map_option hide_password (user_by_email pf email w))"

definition findByEmailWithPassword :: "platform \<Rightarrow> string \<Rightarrow> user option svc" where
  "findByEmailWithPassword pf email = gets (user_by_email pf email)"

definition findUserById :: "platform \<Rightarrow> string \<Rightarrow> user svc" where
  "findUserById pf i =
     await (gets (find_user pf i)) (\<lambda>found.
     case found of None \<Rightarrow> throw (NotFoundException ''User not found'') | Some u \<Rightarrow> ret u)"

definition updateProfile :: "platform \<Rightarrow> string \<Rightarrow> string js \<Rightarrow> string js \<Rightarrow> user svc" where
  "updateProfile pf i name avatar =
     await (findUserById pf i) (\<lambda>u.
     case set_required name (user_name u) of
       None \<Rightarrow> throw (QueryFailedError ''users.name'')
     | Some n \<Rightarrow>
         save_user (u\<lparr>user_name := n, user_avatar := nullable avatar (user_avatar u)\<rparr>))"

definition setVerified :: "platform \<Rightarrow> string \<Rightarrow> unit svc" where
  "setVerified pf email =
     await (findByEmail pf email) (\<lambda>found.
     case found of
       None \<Rightarrow> throw (NotFoundException ''User not found'')
     | Some u \<Rightarrow> await (save_user (u\<lparr>user_isVerified := True\<rparr>)) (\<lambda>_. ret ()))"

section \<open>Accounts stay well formed\<close>

text \<open>
  Ids and addresses identify accounts, every id was issued, every account has a password hash.
\<close>

definition users_ok :: "platform \<Rightarrow> world \<Rightarrow> bool" where
  "users_ok pf w \<longleftrightarrow>
     distinct (map user_id (users w)) \<and> distinct (map user_email (users w)) \<and>
     set (map user_id (users w)) \<subseteq> pf_uuid pf ` {..<draws w} \<and>
     (\<forall>u \<in> set (users w). user_password u \<noteq> None)"

lemma user_by_email_SomeD:
  "user_by_email pf email w = Some u \<Longrightarrow> u \<in> set (users w) \<and> user_email u = email"
  unfolding user_by_email_def by (rule fo.look_SomeD)

lemma user_by_email_None:
  "user_by_email pf email w = None \<longleftrightarrow> email \<notin> user_email ` set (users w)"
  unfolding user_by_email_def fo.look_None by auto

lemma user_by_email_eq:
  assumes "distinct (map user_email (users w))" and "u \<in> set (users w)"
  shows "user_by_email pf (user_email u) w = Some u"
  unfolding user_by_email_def by (rule fo.look_by_key [OF assms(1,2)]) simp_all

lemma find_user_SomeD:
  "find_user pf i w = Some u \<Longrightarrow> \<exists>r \<in> set (users w). user_id r = i \<and> u = hide_password r"
  unfolding find_user_def by (auto dest: fo.look_SomeD)

lemma find_user_eq:
  assumes "distinct (map user_id (users w))" and "u \<in> set (users w)"
  shows "find_user pf (user_id u) w = Some (hide_password u)"
  unfolding find_user_def by (simp add: fo.look_by_key [OF assms])

lemma same_id_same_user:
  "distinct (map user_id us) \<Longrightarrow> r \<in> set us \<Longrightarrow> u \<in> set us \<Longrightarrow> user_id r = user_id u \<Longrightarrow> r = u"
  by (auto simp: distinct_map dest: inj_onD)

lemma find_user_row:
  assumes "distinct (map user_id (users w))" and "r \<in> set (users w)" and "user_id r = i"
  shows "find (\<lambda>x. user_id x = i) (users w) = Some r"
proof (cases "find (\<lambda>x. user_id x = i) (users w)")
  case None
  with assms(2,3) show ?thesis by (auto simp: find_None_iff)
next
  case (Some r')
  then have "r' \<in> set (users w)" and "user_id r' = i" by (auto simp: find_Some_iff)
  with assms(3) same_id_same_user [OF assms(1) _ assms(2)] Some show ?thesis by simp
qed

text \<open>A save that keeps id, address and password of its row keeps the accounts well formed.\<close>

definition replace_user :: "user \<Rightarrow> world \<Rightarrow> world" where
  "replace_user u w = w\<lparr>users := update_rows (\<lambda>r. user_id r = user_id u) (\<lambda>_. u) (users w)\<rparr>"

lemma save_user_eval:
  assumes "distinct (map user_id (users w))" and "row \<in> set (users w)" and "user_id u = user_id row"
  shows "save_user u w =
    (if merge_user u row = row then (Inr u, w)
     else (Inr (u\<lparr>user_updatedAt := clock w\<rparr>),
           replace_user ((merge_user u row)\<lparr>user_updatedAt := clock w\<rparr>) w))"
  using find_user_row [OF assms(1,2) refl] assms(3)
  by (simp add: save_user_def prog_simps replace_user_def merge_user_def)

lemma replace_user_ok:
  assumes ok: "users_ok pf w" and row: "row \<in> set (users w)"
    and u: "user_id u = user_id row" "user_email u = user_email row" "user_password u \<noteq> None"
  shows "users_ok pf (replace_user u w)"
proof -
  from ok have dist: "distinct (map user_id (users w))" by (simp add: users_ok_def)
  have same: "r = row" if "r \<in> set (users w)" "user_id r = user_id u" for r
    using same_id_same_user [OF dist that(1) row] that(2) u(1) by simp
  have "map user_id (users (replace_user u w)) = map user_id (users w)"
    by (simp add: replace_user_def update_rows_def)
  moreover have "map user_email (users (replace_user u w)) = map user_email (users w)"
    using same u(2) by (auto simp: replace_user_def update_rows_def)
  moreover have "\<forall>r \<in> set (users (replace_user u w)). user_password r \<noteq> None"
    using ok u(3) by (auto simp: replace_user_def update_rows_def users_ok_def)
  moreover have "draws (replace_user u w) = draws w" by (simp add: replace_user_def)
  ultimately show ?thesis using ok unfolding users_ok_def by presburger
qed

lemma save_user_ok:
  assumes ok: "users_ok pf w" and row: "row \<in> set (users w)"
    and u: "user_id u = user_id row" "user_email u = user_email row"
  shows "users_ok pf (snd (save_user u w))"
proof -
  from ok have dist: "distinct (map user_id (users w))" by (simp add: users_ok_def)
  have "user_password ((merge_user u row)\<lparr>user_updatedAt := clock w\<rparr>) \<noteq> None"
    using ok row by (auto simp: merge_user_def users_ok_def split: option.split)
  then have "users_ok pf (replace_user ((merge_user u row)\<lparr>user_updatedAt := clock w\<rparr>) w)"
    using u by (intro replace_user_ok [OF ok row]) (simp_all add: merge_user_def)
  with ok show ?thesis by (simp add: save_user_eval [OF dist row u(1)])
qed

lemma createUser_eval:
  "createUser pf email pw name w =
     (if email \<in> user_email ` set (users w)
      then (Inl (ConflictException ''A user with this email address already exists''), w)
      else
        let u = \<lparr>user_id = pf_uuid pf (Suc (draws w)), user_email = email,
                 user_password = Some (pf_bcryptHash pf pw (pf_genSalt pf (draws w))),
                 user_name = name, user_avatar = None, user_isVerified = False,
                 user_createdAt = clock w, user_updatedAt = clock w\<rparr>
        in (Inr u, w\<lparr>draws := draws w + 2, users := users w @ [u]\<rparr>))"
  using user_by_email_None [of pf email w]
  by (auto simp: createUser_def insert_user_def prog_simps Let_def image_iff split: option.split)

lemma preserves_createUser:
  assumes inj: "inj (pf_uuid pf)"
  shows "preserves (users_ok pf) (createUser pf email pw name)"
proof (rule preservesI)
  fix w
  assume ok: "users_ok pf w"
  then have ids: "set (map user_id (users w)) \<subseteq> pf_uuid pf ` {..<draws w}"
    by (simp add: users_ok_def)
  have "pf_uuid pf (Suc (draws w)) \<notin> set (map user_id (users w))"
    by (rule fresh_id [OF inj ids]) simp
  with ok show "users_ok pf (snd (createUser pf email pw name w))"
    by (auto simp: createUser_eval Let_def users_ok_def)
qed

lemma hide_password_sel [simp]:
  "user_id (hide_password u) = user_id u" "user_email (hide_password u) = user_email u"
  "user_name (hide_password u) = user_name u" "user_avatar (hide_password u) = user_avatar u"
  "user_isVerified (hide_password u) = user_isVerified u"
  "user_password (hide_password u) = None"
  by (simp_all add: hide_password_def)

lemma preserves_updateProfile: "preserves (users_ok pf) (updateProfile pf i name avatar)"
proof (rule preservesI)
  fix w
  assume ok: "users_ok pf w"
  show "users_ok pf (snd (updateProfile pf i name avatar w))"
  proof (cases "find_user pf i w")
    case None
    with ok show ?thesis by (simp add: updateProfile_def findUserById_def prog_simps)
  next
    case (Some u)
    from find_user_SomeD [OF Some] obtain row where row: "row \<in> set (users w)" and u: "u = hide_password row"
      by blast
    show ?thesis
      using save_user_ok [OF ok row] ok Some u
      by (simp add: updateProfile_def findUserById_def prog_simps split: option.split)
  qed
qed

lemma preserves_setVerified: "preserves (users_ok pf) (setVerified pf email)"
proof (rule preservesI)
  fix w
  assume ok: "users_ok pf w"
  show "users_ok pf (snd (setVerified pf email w))"
  proof (cases "user_by_email pf email w")
    case None
    with ok show ?thesis by (simp add: setVerified_def findByEmail_def prog_simps)
  next
    case (Some row)
    from user_by_email_SomeD [OF this] have row: "row \<in> set (users w)" by simp
    show ?thesis
      using save_user_ok [OF ok row, of "(hide_password row)\<lparr>user_isVerified := True\<rparr>"] Some
      by (simp add: setVerified_def findByEmail_def await_def [where m = "gets f" for f] gets_def)
  qed
qed

end
