(* ===== verification/Auth.thy ===== *)
theory Auth
  imports Users Guards Messaging
begin

text \<open>
  \<open>src/src/modules/auth/auth.service.ts\<close>: signup, login, logout, refresh with rotation and
  reuse detection, session list and revocation, e-mail verification and password reset. A
  session row holds the SHA-256 hash of the one refresh token it accepts.
\<close>

section \<open>Tokens and sessions\<close>

definition hashToken :: "platform \<Rightarrow> string \<Rightarrow> string" where
  "hashToken pf token = pf_sha256 pf token"

definition generateAccessToken :: "platform \<Rightarrow> string \<Rightarrow> string \<Rightarrow> string svc" where
  "generateAccessToken pf userId email =
     gets (\<lambda>w. pf_jwtSign pf (accessSecret (jwt_configuration pf))
       (accessExpiration (jwt_configuration pf)) \<lparr>jwt_userId = userId, jwt_email = email\<rparr>
       (now_seconds w))"

definition generateRefreshToken :: "platform \<Rightarrow> string \<Rightarrow> string \<Rightarrow> string svc" where
  "generateRefreshToken pf userId email =
     gets (\<lambda>w. pf_jwtSign pf (refreshSecret (jwt_configuration pf))
       (refreshExpiration (jwt_configuration pf)) \<lparr>jwt_userId = userId, jwt_email = email\<rparr>
       (now_seconds w))"

definition insert_session :: "platform \<Rightarrow> user_session \<Rightarrow> user_session svc" where
  "insert_session pf s =
     await (gets (user_exists (session_userId s))) (\<lambda>known.
     if \<not> known then throw (QueryFailedError ''user_sessions.userId'')
     else
       await (gen_uuid pf) (\<lambda>i.
       await new_date (\<lambda>now.
         let s' = s\<lparr>session_id := i, session_createdAt := now, session_updatedAt := now\<rparr>
         in await (modify (\<lambda>w. w\<lparr>sessions := sessions w @ [s']\<rparr>)) (\<lambda>_. ret s'))))"

text \<open>\<open>save\<close> of a loaded session; its row cannot have gone, no code deletes sessions.\<close>

definition save_session :: "user_session \<Rightarrow> unit svc" where
  "save_session s =
     await new_date (\<lambda>now.
     modify (\<lambda>w. w\<lparr>sessions :=
       update_rows (\<lambda>r. session_id r = session_id s)
         (\<lambda>r. if s\<lparr>session_updatedAt := session_updatedAt r\<rparr> = r then r
              else s\<lparr>session_updatedAt := now\<rparr>) (sessions w)\<rparr>))"

definition revoke_all_sessions :: "string \<Rightarrow> unit svc" where
  "revoke_all_sessions userId =
     await new_date (\<lambda>now.
     modify (\<lambda>w. w\<lparr>sessions :=
       update_rows (\<lambda>s. session_userId s = userId)
         (\<lambda>s. s\<lparr>session_isRevoked := True, session_updatedAt := now\<rparr>) (sessions w)\<rparr>))"

definition find_session :: "platform \<Rightarrow> (user_session \<Rightarrow> bool) \<Rightarrow> world \<Rightarrow> user_session option" where
  "find_session pf p w = find_one (pf_pick pf) p (sessions w)"

section \<open>Operations\<close>

record signup_result =
  su_userId :: string
  su_email :: string
  su_name :: string
  su_isVerified :: bool

record token_pair =
  accessToken :: string
  refreshToken :: string

record login_result = token_pair +
  login_id :: string
  login_email :: string
  login_name :: string
  login_avatar :: "string option"
  login_isVerified :: bool

definition signup :: "platform \<Rightarrow> string \<Rightarrow> string \<Rightarrow> string \<Rightarrow> signup_result svc" where
  "signup pf email passwordPlain name =
     await (createUser pf email passwordPlain name) (\<lambda>user.
     await (draw (pf_randomHex pf)) (\<lambda>verificationCode.
     await (queue_add ''email.queue'' ''send-verification''
              (VerificationData email name verificationCode) 1 None) (\<lambda>_.
     await (auditLog ''SIGNUP'' (Some (user_id user)) (JObj [(''email'', JStr email)])) (\<lambda>_.
     ret \<lparr>su_userId = user_id user, su_email = user_email user, su_name = user_name user,
          su_isVerified = user_isVerified user\<rparr>))))"

definition login ::
  "platform \<Rightarrow> string \<Rightarrow> string \<Rightarrow> string option \<Rightarrow> string option \<Rightarrow> login_result svc" where
  "login pf email passwordPlain deviceFingerprint ipAddress =
     await (findByEmailWithPassword pf email) (\<lambda>found.
     case found of
       None \<Rightarrow> throw (UnauthorizedException ''Invalid credentials'')
     | Some user \<Rightarrow>
         if \<not> pf_bcryptCompare pf passwordPlain (or_str (user_password user) '''')
         then throw (UnauthorizedException ''Invalid credentials'')
         else
           await (generateAccessToken pf (user_id user) (user_email user)) (\<lambda>access.
           await (generateRefreshToken pf (user_id user) (user_email user)) (\<lambda>refresh.
           await (insert_session pf
                    \<lparr>session_id = '''', session_userId = user_id user,
                     session_tokenHash = hashToken pf refresh,
                     session_deviceFingerprint = deviceFingerprint, session_ipAddress = ipAddress,
                     session_expiresAt = pf_jwtExp pf refresh * 1000, session_isRevoked = False,
                     session_createdAt = 0, session_updatedAt = 0\<rparr>) (\<lambda>saved.
           await (auditLog ''LOGIN'' (Some (user_id user))
                    (JObj [(''deviceFingerprint'', json_opt JStr deviceFingerprint),
                           (''ipAddress'', json_opt JStr ipAddress),
                           (''sessionId'', JStr (session_id saved))])) (\<lambda>_.
           ret \<lparr>accessToken = access, refreshToken = refresh, login_id = user_id user,
                login_email = user_email user, login_name = user_name user,
                login_avatar = user_avatar user, login_isVerified = user_isVerified user\<rparr>)))))"

definition logout :: "platform \<Rightarrow> string \<Rightarrow> string \<Rightarrow> unit svc" where
  "logout pf token userId =
     (let tokenHash = hashToken pf token
      in await (gets (find_session pf
                   (\<lambda>s. session_tokenHash s = tokenHash \<and> session_userId s = userId))) (\<lambda>found.
         await (case found of
                  None \<Rightarrow> ret ()
                | Some session \<Rightarrow> save_session (session\<lparr>session_isRevoked := True\<rparr>)) (\<lambda>_.
         auditLog ''LOGOUT'' (Some userId) (JObj [(''tokenHash'', JStr tokenHash)]))))"

definition refresh :: "platform \<Rightarrow> string \<Rightarrow> token_pair svc" where
  "refresh pf token =
     await (gets (\<lambda>w. pf_jwtVerify pf (refreshSecret (jwt_configuration pf)) token (now_seconds w)))
       (\<lambda>verified.
     case verified of
       None \<Rightarrow> throw (UnauthorizedException ''Invalid refresh token signature'')
     | Some payload \<Rightarrow>
         let tokenHash = hashToken pf token
         in await (gets (find_session pf
                     (\<lambda>s. session_userId s = jwt_userId payload \<and> \<not> session_isRevoked s))) (\<lambda>found.
            case found of
              None \<Rightarrow> throw (UnauthorizedException ''Session not found or revoked'')
            | Some session \<Rightarrow>
                if session_tokenHash session \<noteq> tokenHash then
                  await (revoke_all_sessions (jwt_userId payload)) (\<lambda>_.
                  await (auditLog ''SECURITY_ALERT'' (Some (jwt_userId payload))
                           (JObj [(''message'',
                                    JStr ''Refresh token reuse detected. Revoked all user sessions.''),
                                  (''tokenHash'', JStr tokenHash)])) (\<lambda>_.
                  throw (ForbiddenException
                    ''Security alert: session compromised. Please login again.'')))
                else
                  await (generateAccessToken pf (jwt_userId payload) (jwt_email payload)) (\<lambda>newAccess.
                  await (generateRefreshToken pf (jwt_userId payload) (jwt_email payload))
                    (\<lambda>newRefresh.
                  await (save_session (session\<lparr>session_tokenHash := hashToken pf newRefresh,
                           session_expiresAt := pf_jwtExp pf newRefresh * 1000\<rparr>)) (\<lambda>_.
                  ret \<lparr>accessToken = newAccess, refreshToken = newRefresh\<rparr>)))))"

definition revokeSession :: "platform \<Rightarrow> string \<Rightarrow> string \<Rightarrow> unit svc" where
  "revokeSession pf sessionId userId =
     await (gets (find_session pf (\<lambda>s. session_id s = sessionId \<and> session_userId s = userId)))
       (\<lambda>found.
     case found of
       None \<Rightarrow> throw (BadRequestException ''Session not found'')
     | Some session \<Rightarrow>
         await (save_session (session\<lparr>session_isRevoked := True\<rparr>)) (\<lambda>_.
         auditLog ''SESSION_REVOKED'' (Some userId) (JObj [(''sessionId'', JStr sessionId)])))"

definition getSessions :: "string \<Rightarrow> user_session list svc" where
  "getSessions userId =
     gets (\<lambda>w. order_desc session_updatedAt
       (filter (\<lambda>s. session_userId s = userId \<and> \<not> session_isRevoked s) (sessions w)))"

definition verifyEmail :: "platform \<Rightarrow> string \<Rightarrow> string \<Rightarrow> unit svc" where
  "verifyEmail pf email code =
     (if length code < 8 then throw (BadRequestException ''Invalid email verification code'')
      else
        await (setVerified pf email) (\<lambda>_.
        await (findByEmail pf email) (\<lambda>found.
        case found of
          None \<Rightarrow> ret ()
        | Some user \<Rightarrow>
            auditLog ''EMAIL_VERIFIED'' (Some (user_id user)) (JObj [(''email'', JStr email)]))))"

definition requestPasswordReset :: "platform \<Rightarrow> string \<Rightarrow> unit svc" where
  "requestPasswordReset pf email =
     await (findByEmail pf email) (\<lambda>found.
     case found of
       None \<Rightarrow> ret ()
     | Some user \<Rightarrow>
         await (draw (pf_randomHex pf)) (\<lambda>resetCode.
         queue_add ''email.queue'' ''send-password-reset'' (PasswordResetData email resetCode) 1 None))"

definition update_password :: "string \<Rightarrow> string \<Rightarrow> unit svc" where
  "update_password userId passwordHash =
     await new_date (\<lambda>now.
     modify (\<lambda>w. w\<lparr>users := update_rows (\<lambda>u. user_id u = userId)
       (\<lambda>u. u\<lparr>user_password := Some passwordHash, user_updatedAt := now\<rparr>) (users w)\<rparr>))"

definition resetPassword :: "platform \<Rightarrow> string \<Rightarrow> string \<Rightarrow> string \<Rightarrow> unit svc" where
  "resetPassword pf email code passwordPlain =
     (if length code < 8 then throw (BadRequestException ''Invalid or expired reset code'')
      else
        await (findByEmail pf email) (\<lambda>found.
        case found of
          None \<Rightarrow> throw (UnauthorizedException ''User not found'')
        | Some user \<Rightarrow>
            await (draw (pf_genSalt pf)) (\<lambda>salt.
            await (updateProfile pf (user_id user) Undefined Undefined) (\<lambda>_.
            await (update_password (user_id user) (pf_bcryptHash pf passwordPlain salt)) (\<lambda>_.
            auditLog ''PASSWORD_RESET'' (Some (user_id user)) (JObj [(''email'', JStr email)]))))))"

end
