(* ===== verification/AuthLaws.thy ===== *)
theory AuthLaws
  imports Auth
begin

text \<open>
  Evaluation of the authentication operations and their invariant: accounts are well formed,
  session rows have distinct issued ids and belong to existing accounts.
\<close>

section \<open>Sessions as a table\<close>

definition put_session :: "user_session \<Rightarrow> world \<Rightarrow> world" where
  "put_session s w = w\<lparr>sessions :=
     update_rows (\<lambda>r. session_id r = session_id s)
       (\<lambda>r. if s\<lparr>session_updatedAt := session_updatedAt r\<rparr> = r then r
            else s\<lparr>session_updatedAt := clock w\<rparr>) (sessions w)\<rparr>"

lemma save_session_eval [prog_simps]: "save_session s w = (Inr (), put_session s w)"
  by (simp add: save_session_def prog_simps put_session_def)

lemma put_session_frame [simp]:
  "users (put_session s w) = users w" "draws (put_session s w) = draws w"
  "clock (put_session s w) = clock w" "queueUp (put_session s w) = queueUp w"
  by (simp_all add: put_session_def)

definition revoked_all :: "string \<Rightarrow> world \<Rightarrow> world" where
  "revoked_all u w = w\<lparr>sessions := update_rows (\<lambda>s. session_userId s = u)
     (\<lambda>s. s\<lparr>session_isRevoked := True, session_updatedAt := clock w\<rparr>) (sessions w)\<rparr>"

lemma revoke_all_eval [prog_simps]: "revoke_all_sessions u w = (Inr (), revoked_all u w)"
  by (simp add: revoke_all_sessions_def prog_simps revoked_all_def)

lemma revoked_all_frame [simp]:
  "users (revoked_all u w) = users w" "draws (revoked_all u w) = draws w"
  "clock (revoked_all u w) = clock w" "queueUp (revoked_all u w) = queueUp w"
  by (simp_all add: revoked_all_def)

lemma revoked_all_revokes:
  assumes "s \<in> set (sessions (revoked_all u w))" and "session_userId s = u"
  shows "session_isRevoked s"
proof -
  from assms have "\<exists>x. s = x\<lparr>session_isRevoked := True, session_updatedAt := clock w\<rparr>"
    by (simp add: revoked_all_def set_update_rows image_iff) blast
  then obtain x where "s = x\<lparr>session_isRevoked := True, session_updatedAt := clock w\<rparr>" ..
  then show ?thesis by simp
qed

lemma find_session_SomeD: "find_session pf p w = Some s \<Longrightarrow> s \<in> set (sessions w) \<and> p s"
  unfolding find_session_def by (rule fo.look_SomeD [where p = p])

lemma find_session_None: "find_session pf p w = None \<longleftrightarrow> (\<forall>s \<in> set (sessions w). \<not> p s)"
  unfolding find_session_def by (rule fo.look_None [where p = p])

lemma find_session_unique:
  assumes "s \<in> set (sessions w)" and "p s" and "\<And>r. r \<in> set (sessions w) \<Longrightarrow> p r \<Longrightarrow> r = s"
  shows "find_session pf p w = Some s"
  unfolding find_session_def by (rule fo.look_unique [where p = p, OF assms])

text \<open>The rows after a save: the saved one under its id, the others as they were.\<close>

lemma put_session_rows:
  assumes "r \<in> set (sessions (put_session s w))"
  shows "(session_id r \<noteq> session_id s \<and> r \<in> set (sessions w)) \<or>
    (\<exists>old \<in> set (sessions w). session_id old = session_id s \<and>
       r = s\<lparr>session_updatedAt := session_updatedAt r\<rparr>)"
proof -
  from assms obtain old where old: "old \<in> set (sessions w)"
    and r: "r = (if session_id old = session_id s
      then if s\<lparr>session_updatedAt := session_updatedAt old\<rparr> = old then old
           else s\<lparr>session_updatedAt := clock w\<rparr>
      else old)"
    by (auto simp: put_session_def set_update_rows)
  show ?thesis
  proof (cases "session_id old = session_id s")
    case False
    with r old show ?thesis by simp
  next
    case True
    have "r = s\<lparr>session_updatedAt := session_updatedAt r\<rparr>"
      using r True by (cases "s\<lparr>session_updatedAt := session_updatedAt old\<rparr> = old") simp_all
    with True old show ?thesis by blast
  qed
qed

section \<open>Evaluation\<close>

lemma login_eval:
  "login pf email pw dev ip w =
     (case user_by_email pf email w of
        None \<Rightarrow> (Inl (UnauthorizedException ''Invalid credentials''), w)
      | Some u \<Rightarrow>
          if \<not> pf_bcryptCompare pf pw (or_str (user_password u) '''')
          then (Inl (UnauthorizedException ''Invalid credentials''), w)
          else
            let c = jwt_configuration pf;
                p = \<lparr>jwt_userId = user_id u, jwt_email = user_email u\<rparr>;
                access = pf_jwtSign pf (accessSecret c) (accessExpiration c) p (now_seconds w);
                refresh = pf_jwtSign pf (refreshSecret c) (refreshExpiration c) p (now_seconds w);
                s = \<lparr>session_id = pf_uuid pf (draws w), session_userId = user_id u,
                     session_tokenHash = hashToken pf refresh, session_deviceFingerprint = dev,
                     session_ipAddress = ip, session_expiresAt = pf_jwtExp pf refresh * 1000,
                     session_isRevoked = False, session_createdAt = clock w,
                     session_updatedAt = clock w\<rparr>
            in if \<not> user_exists (user_id u) w then (Inl (QueryFailedError ''user_sessions.userId''), w)
               else (Inr \<lparr>accessToken = access, refreshToken = refresh, login_id = user_id u,
                        login_email = user_email u, login_name = user_name u,
                        login_avatar = user_avatar u, login_isVerified = user_isVerified u\<rparr>,
                     enqueue_if (queueUp w ''audit.queue'')
                       (audit_job ''LOGIN'' (Some (user_id u))
                         (JObj [(''deviceFingerprint'', json_opt JStr dev),
                                (''ipAddress'', json_opt JStr ip),
                                (''sessionId'', JStr (pf_uuid pf (draws w)))]))
                       (w\<lparr>draws := Suc (draws w), sessions := sessions w @ [s]\<rparr>)))"
  by (simp add: login_def findByEmailWithPassword_def generateAccessToken_def
      generateRefreshToken_def insert_session_def prog_simps Let_def split: option.split)

lemma refresh_eval:
  "refresh pf token w =
     (case pf_jwtVerify pf (refreshSecret (jwt_configuration pf)) token (now_seconds w) of
        None \<Rightarrow> (Inl (UnauthorizedException ''Invalid refresh token signature''), w)
      | Some p \<Rightarrow>
          (case find_session pf (\<lambda>s. session_userId s = jwt_userId p \<and> \<not> session_isRevoked s) w of
             None \<Rightarrow> (Inl (UnauthorizedException ''Session not found or revoked''), w)
           | Some s \<Rightarrow>
               if session_tokenHash s \<noteq> hashToken pf token then
                 (Inl (ForbiddenException ''Security alert: session compromised. Please login again.''),
                  enqueue_if (queueUp w ''audit.queue'')
                    (audit_job ''SECURITY_ALERT'' (Some (jwt_userId p))
                      (JObj [(''message'',
                               JStr ''Refresh token reuse detected. Revoked all user sessions.''),
                             (''tokenHash'', JStr (hashToken pf token))]))
                    (revoked_all (jwt_userId p) w))
               else
                 let c = jwt_configuration pf;
                     q = \<lparr>jwt_userId = jwt_userId p, jwt_email = jwt_email p\<rparr>;
                     access = pf_jwtSign pf (accessSecret c) (accessExpiration c) q (now_seconds w);
                     new = pf_jwtSign pf (refreshSecret c) (refreshExpiration c) q (now_seconds w)
                 in (Inr \<lparr>accessToken = access, refreshToken = new\<rparr>,
                     put_session (s\<lparr>session_tokenHash := hashToken pf new,
                       session_expiresAt := pf_jwtExp pf new * 1000\<rparr>) w)))"
  by (simp add: refresh_def generateAccessToken_def generateRefreshToken_def prog_simps Let_def
      split: option.split)

lemma logout_eval:
  "logout pf token u w =
     (let h = hashToken pf token;
          w' = (case find_session pf (\<lambda>s. session_tokenHash s = h \<and> session_userId s = u) w of
                  None \<Rightarrow> w | Some s \<Rightarrow> put_session (s\<lparr>session_isRevoked := True\<rparr>) w)
      in (Inr (), enqueue_if (queueUp w' ''audit.queue'')
            (audit_job ''LOGOUT'' (Some u) (JObj [(''tokenHash'', JStr h)])) w'))"
  by (simp add: logout_def prog_simps Let_def split: option.split)

section \<open>The invariant\<close>

definition accounts_ok :: "platform \<Rightarrow> world \<Rightarrow> bool" where
  "accounts_ok pf w \<longleftrightarrow>
     users_ok pf w \<and> distinct (map session_id (sessions w)) \<and>
     set (map session_id (sessions w)) \<subseteq> pf_uuid pf ` {..<draws w} \<and>
     (\<forall>s \<in> set (sessions w). user_exists (session_userId s) w)"

lemma accounts_cong:
  assumes "accounts_ok pf w" and "users w' = users w" "sessions w' = sessions w" "draws w \<le> draws w'"
  shows "accounts_ok pf w'"
proof -
  have "pf_uuid pf ` {..<draws w} \<subseteq> pf_uuid pf ` {..<draws w'}" using assms(4) by auto
  with assms show ?thesis
    by (simp add: accounts_ok_def users_ok_def user_exists_def) blast
qed

lemma accounts_enqueue [simp]: "accounts_ok pf (enqueue_if b j w) = accounts_ok pf w"
  by (auto elim!: accounts_cong)

lemma preserves_accounts_messaging:
  "within messaging_frame m \<Longrightarrow> preserves (accounts_ok pf) m"
  by (erule within_preserves_rule) (auto elim!: accounts_cong simp: messaging_frame_def)

lemma put_session_ok:
  assumes ok: "accounts_ok pf w" and old: "old \<in> set (sessions w)"
    and s: "session_id s = session_id old" "session_userId s = session_userId old"
  shows "accounts_ok pf (put_session s w)"
proof -
  have "map session_id (sessions (put_session s w)) = map session_id (sessions w)"
    by (simp add: put_session_def update_rows_def)
  moreover have "user_exists (session_userId r) (put_session s w)"
    if "r \<in> set (sessions (put_session s w))" for r
  proof -
    from put_session_rows [OF that] have "r \<in> set (sessions w) \<or> session_userId r = session_userId s"
      by (metis user_session.select_convs(2) user_session.surjective user_session.update_convs(9))
    with ok old s(2) show ?thesis by (auto simp: accounts_ok_def user_exists_def)
  qed
  ultimately show ?thesis
    using ok unfolding accounts_ok_def users_ok_def by (metis put_session_frame(1,2))
qed

lemma revoked_all_ok: "accounts_ok pf w \<Longrightarrow> accounts_ok pf (revoked_all u w)"
proof -
  assume ok: "accounts_ok pf w"
  have "map session_id (sessions (revoked_all u w)) = map session_id (sessions w)"
    "map session_userId (sessions (revoked_all u w)) = map session_userId (sessions w)"
    by (simp_all add: revoked_all_def update_rows_def)
  moreover from this(2) have "session_userId ` set (sessions (revoked_all u w)) = session_userId ` set (sessions w)"
    by (metis list.set_map)
  ultimately show ?thesis
    using ok unfolding accounts_ok_def users_ok_def user_exists_def
    by (metis (no_types, lifting) imageE imageI revoked_all_frame(1,2))
qed

section \<open>The operations keep the invariant\<close>

text \<open>What account operations do to the other tables: nothing but new accounts and draws.\<close>

definition user_frame :: "world \<Rightarrow> world \<Rightarrow> bool" where
  "user_frame w w' \<longleftrightarrow>
     sessions w' = sessions w \<and> draws w \<le> draws w' \<and>
     user_id ` set (users w) \<subseteq> user_id ` set (users w')"

interpretation uf: effect_frame user_frame
  by unfold_locales (auto simp: user_frame_def)

lemma preserves_accounts_users:
  assumes "preserves (users_ok pf) m" and "within user_frame m"
  shows "preserves (accounts_ok pf) m"
proof (rule preservesI)
  fix w
  assume ok: "accounts_ok pf w"
  let ?w = "snd (m w)"
  have users: "users_ok pf ?w"
    using preservesD [OF assms(1)] ok by (simp add: accounts_ok_def)
  have frame: "sessions ?w = sessions w" "draws w \<le> draws ?w"
    "user_id ` set (users w) \<subseteq> user_id ` set (users ?w)"
    using withinD [OF assms(2), of w] by (simp_all add: user_frame_def)
  have "user_exists u x \<longleftrightarrow> u \<in> user_id ` set (users x)" for u x
    by (auto simp: user_exists_def)
  with frame(3) have "user_exists u w \<Longrightarrow> user_exists u ?w" for u by auto
  moreover have "pf_uuid pf ` {..<draws w} \<subseteq> pf_uuid pf ` {..<draws ?w}"
    using frame(2) by auto
  ultimately show "accounts_ok pf ?w"
    using users ok unfolding accounts_ok_def frame(1) by blast
qed

lemma update_rows_ids:
  "(\<And>r. p r \<Longrightarrow> key (f r) = key r) \<Longrightarrow> key ` set (update_rows p f rows) = key ` set rows"
  by (metis list.set_map map_update_rows)

lemma within_save_user: "within user_frame (save_user u)"
  by (rule withinI) (simp add: save_user_def prog_simps user_frame_def update_rows_ids merge_user_def
      split: option.split)

lemma within_draw: "within user_frame (draw f)"
  by (rule withinI) (simp add: draw_eval user_frame_def)

lemma within_createUser: "within user_frame (createUser pf email pw name)"
  by (rule withinI) (auto simp: createUser_eval Let_def user_frame_def)

lemma within_updateProfile: "within user_frame (updateProfile pf i name avatar)"
  unfolding updateProfile_def findUserById_def
  by (intro uf.within_intros within_save_user)

lemma within_setVerified: "within user_frame (setVerified pf email)"
  unfolding setVerified_def findByEmail_def
  by (intro uf.within_intros within_save_user)

lemma within_update_password: "within user_frame (update_password i h)"
  by (rule withinI) (simp add: update_password_def prog_simps user_frame_def update_rows_ids)

lemma preserves_update_password: "preserves (users_ok pf) (update_password i h)"
proof (rule preservesI)
  fix w
  assume "users_ok pf w"
  moreover have "map key (update_rows (\<lambda>u. user_id u = i)
      (\<lambda>u. u\<lparr>user_password := Some h, user_updatedAt := clock w\<rparr>) us) = map key us"
    if "\<And>u. key (u\<lparr>user_password := Some h, user_updatedAt := clock w\<rparr>) = key u"
    for key :: "user \<Rightarrow> string" and us
    using that by (rule map_update_rows)
  ultimately show "users_ok pf (snd (update_password i h w))"
    unfolding users_ok_def
    by (auto simp: update_password_def prog_simps set_update_rows)
qed

lemma preserves_draw: "preserves (accounts_ok pf) (draw f)"
  by (rule preservesI) (auto simp: draw_eval elim!: accounts_cong)

lemma preserves_gets: "preserves I (gets f)"
  by (simp add: hoare_gets)

lemmas preserves_account_ops =
  preserves_accounts_messaging [OF within_auditLog] preserves_accounts_messaging [OF within_queue_add]
  preserves_accounts_users [OF preserves_updateProfile within_updateProfile]
  preserves_accounts_users [OF preserves_setVerified within_setVerified]
  preserves_accounts_users [OF preserves_update_password within_update_password]
  preserves_draw preserves_gets

lemma preserves_signup:
  assumes "inj (pf_uuid pf)"
  shows "preserves (accounts_ok pf) (signup pf email pw name)"
  unfolding signup_def
  by (intro hoare_intros preserves_account_ops
      preserves_accounts_users [OF preserves_createUser [OF assms] within_createUser])

lemma preserves_verifyEmail: "preserves (accounts_ok pf) (verifyEmail pf email code)"
  unfolding verifyEmail_def findByEmail_def
  by (intro hoare_intros preserves_account_ops)

lemma preserves_requestPasswordReset: "preserves (accounts_ok pf) (requestPasswordReset pf email)"
  unfolding requestPasswordReset_def findByEmail_def
  by (intro hoare_intros preserves_account_ops)

lemma preserves_resetPassword: "preserves (accounts_ok pf) (resetPassword pf email code pw)"
  unfolding resetPassword_def findByEmail_def
  by (intro hoare_intros preserves_account_ops)

lemma preserves_login:
  assumes inj: "inj (pf_uuid pf)"
  shows "preserves (accounts_ok pf) (login pf email pw dev ip)"
proof (rule preservesI)
  fix w
  assume ok: "accounts_ok pf w"
  then have ids: "set (map session_id (sessions w)) \<subseteq> pf_uuid pf ` {..<draws w}"
    by (simp add: accounts_ok_def)
  have "pf_uuid pf (draws w) \<notin> set (map session_id (sessions w))"
    by (rule fresh_id [OF inj ids]) simp
  moreover have "pf_uuid pf ` {..<draws w} \<subseteq> pf_uuid pf ` {..<Suc (draws w)}" by auto
  ultimately have "accounts_ok pf (w\<lparr>draws := Suc (draws w), sessions := sessions w @ [s]\<rparr>)"
    if "session_id s = pf_uuid pf (draws w)" "user_exists (session_userId s) w" for s
    using ok that by (auto simp: accounts_ok_def users_ok_def user_exists_def)
  with ok show "accounts_ok pf (snd (login pf email pw dev ip w))"
    by (simp add: login_eval Let_def split: option.split)
qed

lemma find_put_session_ok:
  assumes "accounts_ok pf w" and "find_session pf p w = Some s"
    and "session_id s' = session_id s" and "session_userId s' = session_userId s"
  shows "accounts_ok pf (put_session s' w)"
proof -
  from find_session_SomeD [OF assms(2)] have "s \<in> set (sessions w)" by simp
  from put_session_ok [OF assms(1) this assms(3,4)] show ?thesis .
qed

lemma preserves_refresh: "preserves (accounts_ok pf) (refresh pf token)"
  by (rule preservesI)
    (auto simp: refresh_eval Let_def intro: revoked_all_ok find_put_session_ok split: option.split)

lemma preserves_logout: "preserves (accounts_ok pf) (logout pf token u)"
  by (rule preservesI)
    (auto simp: logout_eval Let_def intro: find_put_session_ok split: option.split)

lemma preserves_revokeSession: "preserves (accounts_ok pf) (revokeSession pf sid u)"
  by (rule preservesI)
    (auto simp: revokeSession_def prog_simps intro: find_put_session_ok split: option.split)

section \<open>Outcomes of a refresh\<close>

definition live_session :: "string \<Rightarrow> user_session \<Rightarrow> bool" where
  "live_session u s \<longleftrightarrow> session_userId s = u \<and> \<not> session_isRevoked s"

lemma refresh_InrD:
  assumes "fst (refresh pf tok w) = Inr pair"
  obtains p s x where "pf_jwtVerify pf (refreshSecret (jwt_configuration pf)) tok (now_seconds w) = Some p"
    and "find_session pf (live_session (jwt_userId p)) w = Some s" and "session_tokenHash s = hashToken pf tok"
    and "snd (refresh pf tok w) = put_session (s\<lparr>session_tokenHash := hashToken pf (refreshToken pair),
      session_expiresAt := x\<rparr>) w"
proof -
  from assms obtain p where
    p: "pf_jwtVerify pf (refreshSecret (jwt_configuration pf)) tok (now_seconds w) = Some p"
    by (simp add: refresh_eval split: option.splits)
  from assms p obtain s where
    s: "find_session pf (\<lambda>s. session_userId s = jwt_userId p \<and> \<not> session_isRevoked s) w = Some s"
    by (simp add: refresh_eval split: option.splits)
  from assms p s have h: "session_tokenHash s = hashToken pf tok"
    by (simp add: refresh_eval split: if_splits)
  let ?new = "pf_jwtSign pf (refreshSecret (jwt_configuration pf)) (refreshExpiration (jwt_configuration pf))
    \<lparr>jwt_userId = jwt_userId p, jwt_email = jwt_email p\<rparr> (now_seconds w)"
  have "refreshToken (projr (fst (refresh pf tok w))) = ?new"
    by (simp add: refresh_eval p s h Let_def)
  then have "refreshToken pair = ?new" by (simp add: assms)
  then have "snd (refresh pf tok w) = put_session (s\<lparr>session_tokenHash := hashToken pf (refreshToken pair),
      session_expiresAt := pf_jwtExp pf ?new * 1000\<rparr>) w"
    by (simp add: refresh_eval p s h Let_def)
  with that [OF p] s h show thesis unfolding live_session_def [abs_def] by blast
qed

lemma refresh_reuse:
  assumes ver: "pf_jwtVerify pf (refreshSecret (jwt_configuration pf)) tok (now_seconds w) = Some p"
    and live: "r \<in> set (sessions w)" "live_session (jwt_userId p) r"
    and other: "\<And>s. find_session pf (live_session (jwt_userId p)) w = Some s \<Longrightarrow>
      session_tokenHash s \<noteq> hashToken pf tok"
  shows "fst (refresh pf tok w) =
      Inl (ForbiddenException ''Security alert: session compromised. Please login again.'')"
    and "\<forall>s \<in> set (sessions (snd (refresh pf tok w))). session_userId s = jwt_userId p \<longrightarrow> session_isRevoked s"
proof -
  have "find_session pf (live_session (jwt_userId p)) w \<noteq> None"
    using live unfolding find_session_None by blast
  then obtain s where s: "find_session pf (live_session (jwt_userId p)) w = Some s" by auto
  note found = s [unfolded live_session_def [abs_def]] and hash = other [OF s]
  show "fst (refresh pf tok w) =
      Inl (ForbiddenException ''Security alert: session compromised. Please login again.'')"
    by (simp add: refresh_eval ver found hash)
  have "sessions (snd (refresh pf tok w)) = sessions (revoked_all (jwt_userId p) w)"
    by (simp add: refresh_eval ver found hash)
  then show "\<forall>s \<in> set (sessions (snd (refresh pf tok w))).
      session_userId s = jwt_userId p \<longrightarrow> session_isRevoked s"
    using revoked_all_revokes [of _ "jwt_userId p" w] by (simp only:) blast
qed

lemma put_session_mem:
  assumes "old \<in> set (sessions w)" and "session_id old = session_id s"
  obtains x where "s\<lparr>session_updatedAt := x\<rparr> \<in> set (sessions (put_session s w))"
proof -
  let ?f = "\<lambda>r. if s\<lparr>session_updatedAt := session_updatedAt r\<rparr> = r then r
    else s\<lparr>session_updatedAt := clock w\<rparr>"
  have "sessions (put_session s w) = update_rows (\<lambda>r. session_id r = session_id s) ?f (sessions w)"
    by (simp add: put_session_def)
  with update_rows_mem [OF assms(1), of "\<lambda>r. session_id r = session_id s" ?f] assms(2)
  have mem: "?f old \<in> set (sessions (put_session s w))" by (simp only:)
  show thesis
  proof (cases "s\<lparr>session_updatedAt := session_updatedAt old\<rparr> = old")
    case True
    with mem that [of "session_updatedAt old"] show thesis by (simp only: True if_True)
  next
    case False
    with mem that [of "clock w"] show thesis by (simp only: False if_False)
  qed
qed

text \<open>The row a session has after a save, its update time aside.\<close>

lemma put_session_cases:
  assumes "r \<in> set (sessions (put_session s w))"
  obtains (kept) "session_id r \<noteq> session_id s" and "r \<in> set (sessions w)"
  | (saved) "session_id r = session_id s" and "session_userId r = session_userId s"
      and "session_tokenHash r = session_tokenHash s" and "session_isRevoked r = session_isRevoked s"
  using put_session_rows [OF assms]
proof
  assume "session_id r \<noteq> session_id s \<and> r \<in> set (sessions w)"
  then show thesis using kept by blast
next
  assume "\<exists>old \<in> set (sessions w). session_id old = session_id s \<and> r = s\<lparr>session_updatedAt := session_updatedAt r\<rparr>"
  then have r: "r = s\<lparr>session_updatedAt := session_updatedAt r\<rparr>" by blast
  have "session_id r = session_id s" "session_userId r = session_userId s"
    "session_tokenHash r = session_tokenHash s" "session_isRevoked r = session_isRevoked s"
    by (subst r, simp)+
  then show thesis by (rule saved)
qed

section \<open>Password reset\<close>

text \<open>An update of a profile with no property present writes nothing.\<close>

lemma updateProfile_nothing:
  assumes "users_ok pf w" and "u \<in> set (users w)"
  shows "\<exists>v. updateProfile pf (user_id u) Undefined Undefined w = (Inr v, w)"
proof -
  from assms have dist: "distinct (map user_id (users w))" by (simp add: users_ok_def)
  have "merge_user (hide_password u) u = u"
    by (simp add: merge_user_def hide_password_def)
  then show ?thesis
    by (simp add: updateProfile_def findUserById_def prog_simps find_user_eq [OF dist assms(2)]
        save_user_eval [OF dist assms(2)])
qed

definition with_password :: "string \<Rightarrow> string \<Rightarrow> world \<Rightarrow> world" where
  "with_password i h w = w\<lparr>users := update_rows (\<lambda>u. user_id u = i)
     (\<lambda>u. u\<lparr>user_password := Some h, user_updatedAt := clock w\<rparr>) (users w)\<rparr>"

lemma resetPassword_eval:
  assumes "users_ok pf w" and "u \<in> set (users w)" and "8 \<le> length code"
  shows "\<exists>j b. resetPassword pf (user_email u) code pw w =
    (Inr (), enqueue_if b j (with_password (user_id u) (pf_bcryptHash pf pw (pf_genSalt pf (draws w)))
       (w\<lparr>draws := Suc (draws w)\<rparr>)))"
proof -
  let ?w = "w\<lparr>draws := Suc (draws w)\<rparr>"
  have ok: "users_ok pf ?w"
    using assms(1) by (auto simp: users_ok_def)
  then obtain v where prof: "updateProfile pf (user_id u) Undefined Undefined ?w = (Inr v, ?w)"
    using updateProfile_nothing [OF ok, of u] assms(2) by auto
  have "user_by_email pf (user_email u) w = Some u"
    by (rule user_by_email_eq) (use assms(1,2) in \<open>simp_all add: users_ok_def\<close>)
  then show ?thesis
    using assms(3) prof
    by (auto simp: resetPassword_def findByEmail_def update_password_def with_password_def
        await_def gets_def draw_eval new_date_eval modify_def auditLog_eval)
qed

end
