(* ===== verification/AuthTheorems.thy ===== *)
theory AuthTheorems
  imports AuthLaws Demo
begin

text \<open>
  The properties of accounts, sessions and access tokens, each with a witness at the world of
  theory Demo.
\<close>

section \<open>The world of the witnesses\<close>

definition demo_session :: "string \<Rightarrow> string \<Rightarrow> string \<Rightarrow> user_session" where
  "demo_session i u h = \<lparr>session_id = i, session_userId = u, session_tokenHash = h,
     session_deviceFingerprint = None, session_ipAddress = None, session_expiresAt = 0,
     session_isRevoked = False, session_createdAt = 0, session_updatedAt = 0\<rparr>"

definition demo_accounts :: world where
  "demo_accounts = demo_world\<lparr>
     users := [(demo_user ''ann'' ''ann@x'')\<lparr>user_id := demo_uuid 0\<rparr>,
               (demo_user ''bob'' ''bob@x'')\<lparr>user_id := demo_uuid 1\<rparr>]\<rparr>"

lemma demo_accounts_ok: "accounts_ok demo_pf demo_accounts"
  by (auto simp: accounts_ok_def users_ok_def demo_accounts_def demo_defs demo_uuid_def
      image_iff intro: bexI [of _ 0] bexI [of _ 1])

section \<open>Accounts\<close>

datatype auth_op =
    AuthSignup string string string
  | AuthLogin string string "string option" "string option"
  | AuthLogout string string
  | AuthRefresh string
  | AuthRevoke string string
  | AuthVerifyEmail string string
  | AuthForgotPassword string
  | AuthResetPassword string string string
  | AuthUpdateProfile string "string js" "string js"

fun run_auth :: "platform \<Rightarrow> auth_op \<Rightarrow> world \<Rightarrow> world" where
  "run_auth pf (AuthSignup email pw name) w = snd (signup pf email pw name w)"
| "run_auth pf (AuthLogin email pw dev ip) w = snd (login pf email pw dev ip w)"
| "run_auth pf (AuthLogout token u) w = snd (logout pf token u w)"
| "run_auth pf (AuthRefresh token) w = snd (refresh pf token w)"
| "run_auth pf (AuthRevoke sid u) w = snd (revokeSession pf sid u w)"
| "run_auth pf (AuthVerifyEmail email code) w = snd (verifyEmail pf email code w)"
| "run_auth pf (AuthForgotPassword email) w = snd (requestPasswordReset pf email w)"
| "run_auth pf (AuthResetPassword email code pw) w = snd (resetPassword pf email code pw w)"
| "run_auth pf (AuthUpdateProfile i name avatar) w = snd (updateProfile pf i name avatar w)"

lemma run_auth_ok:
  assumes "inj (pf_uuid pf)" and "accounts_ok pf w"
  shows "accounts_ok pf (run_auth pf op w)"
  using assms
  by (cases op)
    (simp_all add: preservesD [OF preserves_signup] preservesD [OF preserves_login]
      preservesD [OF preserves_logout] preservesD [OF preserves_refresh]
      preservesD [OF preserves_revokeSession] preservesD [OF preserves_verifyEmail]
      preservesD [OF preserves_requestPasswordReset] preservesD [OF preserves_resetPassword]
      preservesD [OF preserves_accounts_users [OF preserves_updateProfile within_updateProfile]])

text \<open>
  Any sequence of authentication requests keeps the accounts well formed: ids and e-mail
  addresses identify users, every user has a password hash, session ids are distinct, and every
  session belongs to an existing user.
\<close>

theorem auth_requests_keep_accounts:
  assumes "inj (pf_uuid pf)" and "accounts_ok pf w"
  shows "accounts_ok pf (fold (run_auth pf) ops w)"
  using assms(2) by (induction ops arbitrary: w) (simp_all add: run_auth_ok [OF assms(1)])

theorem auth_requests_keep_accounts_witness:
  "accounts_ok demo_pf (fold (run_auth demo_pf)
     [AuthSignup ''eve@x'' ''pw'' ''eve'', AuthLogin ''eve@x'' ''pw'' None None] demo_accounts)"
  by (rule auth_requests_keep_accounts [OF demo_uuid_inj demo_accounts_ok])

section \<open>Login\<close>

text \<open>
  C17: \<open>login\<close> hands out tokens exactly when an account has that address and bcrypt accepts the
  password against its hash, and then for that account; every other attempt gets the same error
  and changes nothing.
\<close>

theorem login_iff_credentials:
  assumes "accounts_ok pf w"
  shows "(case fst (login pf email pw dev ip w) of
      Inr res \<Rightarrow> \<exists>u \<in> set (users w). user_email u = email \<and> login_id res = user_id u \<and>
        (\<exists>h. user_password u = Some h \<and> pf_bcryptCompare pf pw h)
    | Inl e \<Rightarrow> e = UnauthorizedException ''Invalid credentials'' \<and> snd (login pf email pw dev ip w) = w \<and>
        (\<forall>u \<in> set (users w). \<forall>h. user_email u = email \<and> user_password u = Some h \<longrightarrow>
           \<not> pf_bcryptCompare pf pw (or_str (Some h) '''')))"
proof (cases "user_by_email pf email w")
  case None
  then show ?thesis by (simp add: login_eval) (auto simp: user_by_email_None)
next
  case (Some u)
  from user_by_email_SomeD [OF this] have u: "u \<in> set (users w)" "user_email u = email" by simp_all
  with assms obtain h where h: "user_password u = Some h"
    by (auto simp: accounts_ok_def users_ok_def)
  from assms have "distinct (map user_email (users w))" by (simp add: accounts_ok_def users_ok_def)
  then have "r = u" if "r \<in> set (users w)" "user_email r = email" for r
    using that u by (auto simp: distinct_map dest: inj_onD)
  then have only: "\<forall>r \<in> set (users w). \<forall>h'. user_email r = email \<and> user_password r = Some h' \<longrightarrow> h' = h"
    using h by fastforce
  from u have ex: "user_exists (user_id u) w" by (auto simp: user_exists_def)
  have pw: "or_str (Some h) '''' = h" by (cases h) simp_all
  show ?thesis
  proof (cases "pf_bcryptCompare pf pw h")
    case True
    with Some u h ex pw show ?thesis by (auto simp: login_eval Let_def)
  next
    case False
    then have "login pf email pw dev ip w = (Inl (UnauthorizedException ''Invalid credentials''), w)"
      using Some h pw by (simp add: login_eval)
    with only False pw show ?thesis by auto
  qed
qed

theorem login_iff_credentials_witness:
  "isl (fst (login demo_pf ''ann@x'' ''wrong'' None None demo_accounts))"
proof -
  have "user_by_email demo_pf ''ann@x'' demo_accounts =
      Some ((demo_user ''ann'' ''ann@x'')\<lparr>user_id := demo_uuid 0\<rparr>)"
    by code_simp
  then have "fst (login demo_pf ''ann@x'' ''wrong'' None None demo_accounts) \<noteq> Inr res" for res
    using login_iff_credentials [OF demo_accounts_ok, of "''ann@x''" "''wrong''" None None]
    by (auto simp: demo_accounts_def demo_user_def demo_pf_def)
  then show ?thesis by (metis sum.collapse(2))
qed

text \<open>
  C18: the access token of a login, sent as a bearer token in the same second, passes
  \<open>JwtAuthGuard\<close> and gives the request exactly the identity of the account.
\<close>

theorem login_token_opens_the_guard:
  assumes "\<And>secret ttl p iat. pf_jwtVerify pf secret (pf_jwtSign pf secret ttl p iat) iat = Some p"
    and "fst (login pf email pw dev ip w) = Inr res"
    and "CHR '' '' \<notin> set (accessToken res)" and "accessToken res \<noteq> []"
    and "map_of (rq_headers r) ''authorization'' = Some (''Bearer '' @ accessToken res)"
  shows "jwtAuthGuard pf (snd (login pf email pw dev ip w)) r =
    Inr (r\<lparr>rq_user := Some \<lparr>jwt_userId = login_id res, jwt_email = login_email res\<rparr>\<rparr>)"
proof -
  have "clock (snd (login pf email pw dev ip w)) = clock w"
    by (simp add: login_eval Let_def split: option.split)
  moreover have "accessToken res = pf_jwtSign pf (accessSecret (jwt_configuration pf))
      (accessExpiration (jwt_configuration pf)) \<lparr>jwt_userId = login_id res, jwt_email = login_email res\<rparr>
      (now_seconds w)"
    using assms(2) by (auto simp: login_eval Let_def split: option.splits if_splits)
  ultimately show ?thesis
    using extract_bearer [OF assms(5,3)] assms(1,4) unfolding jwtAuthGuard_Inr_iff
    by (auto simp: now_seconds_def)
qed

theorem login_token_opens_the_guard_witness:
  "\<exists>res r. fst (login demo_pf ''ann@x'' ''pw'' None None demo_accounts) = Inr res \<and>
     jwtAuthGuard demo_pf (snd (login demo_pf ''ann@x'' ''pw'' None None demo_accounts)) r =
       Inr (r\<lparr>rq_user := Some \<lparr>jwt_userId = ''id'', jwt_email = ''ann@x''\<rparr>\<rparr>)"
proof -
  let ?tok = "demo_sign ''super_secret_access_key_123!'' ''15m'' \<lparr>jwt_userId = ''id'', jwt_email = ''ann@x''\<rparr> 0"
  let ?r = "\<lparr>rq_params = [], rq_query = [], rq_headers = [(''authorization'', ''Bearer '' @ ?tok)],
    rq_body = [], rq_user = None, rq_workspaceId = None, rq_workspaceMember = None\<rparr>"
  let ?res = "projr (fst (login demo_pf ''ann@x'' ''pw'' None None demo_accounts))"
  have res: "fst (login demo_pf ''ann@x'' ''pw'' None None demo_accounts) = Inr ?res"
    "accessToken ?res = ?tok" "login_id ?res = ''id''" "login_email ?res = ''ann@x''"
    by code_simp+
  have law: "pf_jwtVerify demo_pf secret (pf_jwtSign demo_pf secret ttl p iat) iat = Some p"
    for secret ttl p iat
    using demo_verify_sign [of 0] by (simp add: demo_pf_def)
  have "CHR '' '' \<notin> set ?tok" "?tok \<noteq> []" by code_simp+
  then have "jwtAuthGuard demo_pf (snd (login demo_pf ''ann@x'' ''pw'' None None demo_accounts)) ?r =
      Inr (?r\<lparr>rq_user := Some \<lparr>jwt_userId = login_id ?res, jwt_email = login_email ?res\<rparr>\<rparr>)"
    by (intro login_token_opens_the_guard [OF law res(1)]) (simp_all add: res(2))
  with res show ?thesis unfolding res(3,4) by blast
qed


section \<open>Refresh\<close>

text \<open>
  C19: with one live session, \<open>refresh\<close> exchanges its token for a new pair and the session then
  accepts only the new token: presenting the old one again, at any later time it still verifies,
  is taken as reuse: it is refused and every session of the user is revoked.
\<close>

theorem refresh_rotates_and_detects_reuse:
  assumes "pf_jwtVerify pf (refreshSecret (jwt_configuration pf)) tok (now_seconds w) = Some p"
    and "s \<in> set (sessions w)" and "session_userId s = jwt_userId p"
    and "\<And>r. r \<in> set (sessions w) \<Longrightarrow> session_userId r = jwt_userId p \<Longrightarrow> \<not> session_isRevoked r \<Longrightarrow> r = s"
    and "\<not> session_isRevoked s" and "session_tokenHash s = hashToken pf tok"
    and "fst (refresh pf tok w) = Inr pair"
    and "hashToken pf (refreshToken pair) \<noteq> hashToken pf tok"
    and "w' = (snd (refresh pf tok w))\<lparr>clock := later\<rparr>"
    and "pf_jwtVerify pf (refreshSecret (jwt_configuration pf)) tok (now_seconds w') = Some p"
  shows "fst (refresh pf tok w') =
      Inl (ForbiddenException ''Security alert: session compromised. Please login again.'') \<and>
    (\<forall>r \<in> set (sessions (snd (refresh pf tok w'))). session_userId r = jwt_userId p \<longrightarrow> session_isRevoked r)"
proof -
  let ?u = "jwt_userId p"
  have only: "r = s" if "r \<in> set (sessions w)" "live_session ?u r" for r
    using that assms(4) by (simp add: live_session_def)
  have "find_session pf (live_session ?u) w = Some s"
    by (rule find_session_unique [OF assms(2) _ only]) (use assms(3,5) in \<open>simp_all add: live_session_def\<close>)
  then obtain x where eq: "snd (refresh pf tok w) = put_session (s\<lparr>session_tokenHash :=
      hashToken pf (refreshToken pair), session_expiresAt := x\<rparr>) w" (is "_ = put_session ?s w")
    using refresh_InrD [OF assms(7)] assms(1) by (metis option.inject)
  have sess: "sessions w' = sessions (put_session ?s w)" using assms(9) eq by simp
  obtain y where new: "?s\<lparr>session_updatedAt := y\<rparr> \<in> set (sessions w')"
    using put_session_mem [OF assms(2), of ?s] sess by auto
  have live: "live_session ?u (?s\<lparr>session_updatedAt := y\<rparr>)"
    using assms(3,5) by (simp add: live_session_def)
  have "session_tokenHash r \<noteq> hashToken pf tok" if "find_session pf (live_session ?u) w' = Some r" for r
  proof -
    from find_session_SomeD [OF that] sess
    have "r \<in> set (sessions (put_session ?s w))" and r: "live_session ?u r" by simp_all
    then show ?thesis
      by (cases rule: put_session_cases) (use only r assms(8) in auto)
  qed
  from refresh_reuse [OF assms(10) new live this] show ?thesis by blast
qed

definition demo_token :: "string \<Rightarrow> int \<Rightarrow> string" where
  "demo_token u iat = demo_sign ''super_secret_refresh_key_456!'' ''7d''
     \<lparr>jwt_userId = u, jwt_email = ''ann@x''\<rparr> iat"

lemma demo_token_verifies:
  "0 \<le> d \<Longrightarrow> d < 900 \<Longrightarrow>
   pf_jwtVerify demo_pf (refreshSecret (jwt_configuration demo_pf)) (demo_token u iat) (iat + d) =
     Some \<lparr>jwt_userId = u, jwt_email = ''ann@x''\<rparr>"
  using demo_verify_sign [of d "''super_secret_refresh_key_456!''"]
  by (simp add: demo_token_def demo_pf_def jwt_configuration_def env_or_def)

text \<open>Ann logged in at second 0; it is second 1 now.\<close>

definition demo_logged_in :: world where
  "demo_logged_in = demo_accounts\<lparr>clock := 1000,
     sessions := [demo_session ''s1'' ''id'' (demo_token ''id'' 0)]\<rparr>"

theorem refresh_rotates_and_detects_reuse_witness:
  "fst (refresh demo_pf (demo_token ''id'' 0) (snd (refresh demo_pf (demo_token ''id'' 0) demo_logged_in))) =
     Inl (ForbiddenException ''Security alert: session compromised. Please login again.'')"
proof -
  let ?tok = "demo_token ''id'' 0" and ?w = "demo_logged_in"
  let ?pair = "projr (fst (refresh demo_pf ?tok ?w))"
  have sec: "now_seconds ?w = 1" "clock (snd (refresh demo_pf ?tok ?w)) = 1000" by code_simp+
  have ver: "pf_jwtVerify demo_pf (refreshSecret (jwt_configuration demo_pf)) ?tok 1 =
      Some \<lparr>jwt_userId = ''id'', jwt_email = ''ann@x''\<rparr>"
    using demo_token_verifies [of 1 "''id''" 0] by simp
  have pair: "fst (refresh demo_pf ?tok ?w) = Inr ?pair" by code_simp
  have fresh: "hashToken demo_pf (refreshToken ?pair) \<noteq> hashToken demo_pf ?tok" by code_simp
  have hash: "session_tokenHash (demo_session ''s1'' ''id'' ?tok) = hashToken demo_pf ?tok"
    by (simp add: demo_session_def hashToken_def demo_pf_def)
  have "fst (refresh demo_pf ?tok ((snd (refresh demo_pf ?tok ?w))\<lparr>clock := 1000\<rparr>)) =
      Inl (ForbiddenException ''Security alert: session compromised. Please login again.'')"
    by (rule conjunct1 [OF refresh_rotates_and_detects_reuse [where s = "demo_session ''s1'' ''id'' ?tok" and
          p = "\<lparr>jwt_userId = ''id'', jwt_email = ''ann@x''\<rparr>" and pair = ?pair and w = ?w]])
      (use pair fresh hash ver in \<open>simp_all add: sec(1) now_seconds_def demo_logged_in_def demo_session_def\<close>)
  moreover have "(snd (refresh demo_pf ?tok ?w))\<lparr>clock := 1000\<rparr> = snd (refresh demo_pf ?tok ?w)"
    using sec(2) by simp
  ultimately show ?thesis by simp
qed

text \<open>
  A user with two live sessions on two devices is locked out by one of the two honest refreshes:
  the lookup takes any live session of the user, so the token of the other device counts as
  reused and all sessions are revoked.
\<close>

theorem second_device_counts_as_reuse:
  assumes "s1 \<in> set (sessions w)" and "s2 \<in> set (sessions w)"
    and "live_session u s1" and "live_session u s2"
    and "session_tokenHash s1 = hashToken pf t1" and "session_tokenHash s2 = hashToken pf t2"
    and "hashToken pf t1 \<noteq> hashToken pf t2"
    and "pf_jwtVerify pf (refreshSecret (jwt_configuration pf)) t1 (now_seconds w) = Some p1"
    and "pf_jwtVerify pf (refreshSecret (jwt_configuration pf)) t2 (now_seconds w) = Some p2"
    and "jwt_userId p1 = u" and "jwt_userId p2 = u"
  shows "\<exists>tok \<in> {t1, t2}.
    fst (refresh pf tok w) =
      Inl (ForbiddenException ''Security alert: session compromised. Please login again.'') \<and>
    (\<forall>s \<in> set (sessions (snd (refresh pf tok w))). session_userId s = u \<longrightarrow> session_isRevoked s)"
proof (cases "find_session pf (live_session u) w")
  case None
  with assms(1,3) show ?thesis by (auto simp: find_session_None)
next
  case (Some s)
  show ?thesis
  proof (cases "session_tokenHash s = hashToken pf t1")
    case True
    with Some assms(7,11) have "session_tokenHash r \<noteq> hashToken pf t2"
      if "find_session pf (live_session (jwt_userId p2)) w = Some r" for r using that by auto
    from refresh_reuse [OF assms(9,1) _ this] assms(3,11) show ?thesis by auto
  next
    case False
    with Some assms(10) have "session_tokenHash r \<noteq> hashToken pf t1"
      if "find_session pf (live_session (jwt_userId p1)) w = Some r" for r using that by auto
    from refresh_reuse [OF assms(8,1) _ this] assms(3,10) show ?thesis by auto
  qed
qed

theorem second_device_counts_as_reuse_witness:
  "\<exists>tok \<in> {demo_token ''id'' 0, demo_token ''id'' 1}.
    fst (refresh demo_pf tok (demo_logged_in\<lparr>sessions := [demo_session ''s1'' ''id'' (demo_token ''id'' 0),
       demo_session ''s2'' ''id'' (demo_token ''id'' 1)]\<rparr>)) =
      Inl (ForbiddenException ''Security alert: session compromised. Please login again.'')"
proof -
  let ?w = "demo_logged_in\<lparr>sessions := [demo_session ''s1'' ''id'' (demo_token ''id'' 0),
       demo_session ''s2'' ''id'' (demo_token ''id'' 1)]\<rparr>"
  let ?p = "\<lparr>jwt_userId = ''id'', jwt_email = ''ann@x''\<rparr>"
  have ver: "pf_jwtVerify demo_pf (refreshSecret (jwt_configuration demo_pf)) (demo_token ''id'' 0)
      (now_seconds ?w) = Some ?p"
    "pf_jwtVerify demo_pf (refreshSecret (jwt_configuration demo_pf)) (demo_token ''id'' 1)
      (now_seconds ?w) = Some ?p"
    using demo_token_verifies [of 1 "''id''" 0] demo_token_verifies [of 0 "''id''" 1]
    by (simp_all add: now_seconds_def demo_logged_in_def)
  have neq: "hashToken demo_pf (demo_token ''id'' 0) \<noteq> hashToken demo_pf (demo_token ''id'' 1)"
    by code_simp
  have "demo_session ''s1'' ''id'' (demo_token ''id'' 0) \<in> set (sessions ?w)"
    "demo_session ''s2'' ''id'' (demo_token ''id'' 1) \<in> set (sessions ?w)" by simp_all
  from second_device_counts_as_reuse [OF this _ _ _ _ neq ver] show ?thesis
    by (auto simp: live_session_def demo_session_def hashToken_def demo_pf_def)
qed

section \<open>Logout and password reset\<close>

text \<open>
  C20: after \<open>logout\<close> its refresh token buys nothing any more, at any later time: the session of
  the token is revoked, and no other session of the user has its hash.
\<close>

theorem logged_out_token_is_dead:
  assumes "\<And>t p. pf_jwtVerify pf (refreshSecret (jwt_configuration pf)) tok t = Some p \<Longrightarrow> jwt_userId p = u"
    and "\<And>r s. r \<in> set (sessions w) \<Longrightarrow> s \<in> set (sessions w) \<Longrightarrow>
      session_tokenHash r = hashToken pf tok \<Longrightarrow> session_tokenHash s = hashToken pf tok \<Longrightarrow>
      session_userId r = u \<Longrightarrow> session_userId s = u \<Longrightarrow> r = s"
    and "w' = (snd (logout pf tok u w))\<lparr>clock := later\<rparr>"
  shows "isl (fst (refresh pf tok w'))"
proof (rule ccontr)
  assume "\<not> isl (fst (refresh pf tok w'))"
  then obtain pair where "fst (refresh pf tok w') = Inr pair" by (metis sum.collapse(2))
  then obtain p s where ver: "pf_jwtVerify pf (refreshSecret (jwt_configuration pf)) tok (now_seconds w') = Some p"
    and found: "find_session pf (live_session (jwt_userId p)) w' = Some s"
    and hash: "session_tokenHash s = hashToken pf tok"
    by (rule refresh_InrD) blast
  from assms(1) [OF ver] find_session_SomeD [OF found]
  have s: "s \<in> set (sessions w')" and live: "session_userId s = u" "\<not> session_isRevoked s"
    by (simp_all add: live_session_def)
  show False
  proof (cases "find_session pf (\<lambda>s. session_tokenHash s = hashToken pf tok \<and> session_userId s = u) w")
    case None
    then have "s \<in> set (sessions w)" using s assms(3) by (simp add: logout_eval Let_def)
    with None live hash show False by (simp add: find_session_None)
  next
    case (Some s0)
    from find_session_SomeD [OF this]
    have s0: "s0 \<in> set (sessions w)" "session_tokenHash s0 = hashToken pf tok" "session_userId s0 = u"
      by simp_all
    have "s \<in> set (sessions (put_session (s0\<lparr>session_isRevoked := True\<rparr>) w))"
      using s Some assms(3) by (simp add: logout_eval Let_def)
    then show False
      by (cases rule: put_session_cases) (use s0 live hash assms(2) [of s s0] in auto)
  qed
qed

theorem logged_out_token_is_dead_witness:
  "isl (fst (refresh demo_pf (demo_token ''id'' 0)
     ((snd (logout demo_pf (demo_token ''id'' 0) ''id'' demo_logged_in))\<lparr>clock := 2000\<rparr>)))"
proof (rule logged_out_token_is_dead [OF _ _ refl])
  show "jwt_userId p = ''id''"
    if "pf_jwtVerify demo_pf (refreshSecret (jwt_configuration demo_pf)) (demo_token ''id'' 0) t = Some p" for t p
    using that by (auto simp: demo_token_def demo_pf_verify dest: demo_sign_claims)
  show "r = s" if "r \<in> set (sessions demo_logged_in)" "s \<in> set (sessions demo_logged_in)" for r s
    using that by (simp add: demo_logged_in_def)
qed

text \<open>
  \<open>resetPassword\<close> accepts any code of eight characters: it sets the password of the account
  with the given address, which then logs in with it, and revokes no session.
\<close>

theorem any_code_resets_the_password:
  assumes "accounts_ok pf w" and "u \<in> set (users w)" and "8 \<le> length code"
    and "\<And>pw salt. pf_bcryptCompare pf pw (pf_bcryptHash pf pw salt)"
  shows "fst (resetPassword pf (user_email u) code pw w) = Inr () \<and>
    sessions (snd (resetPassword pf (user_email u) code pw w)) = sessions w \<and>
    (\<exists>res. fst (login pf (user_email u) pw dev ip (snd (resetPassword pf (user_email u) code pw w))) = Inr res \<and>
       login_id res = user_id u)"
proof -
  from assms(1) have users: "users_ok pf w" by (simp add: accounts_ok_def)
  from resetPassword_eval [OF this assms(2,3), of pw] obtain j b where
    eq: "resetPassword pf (user_email u) code pw w = (Inr (), enqueue_if b j
      (with_password (user_id u) (pf_bcryptHash pf pw (pf_genSalt pf (draws w))) (w\<lparr>draws := Suc (draws w)\<rparr>)))"
    by blast
  let ?w = "snd (resetPassword pf (user_email u) code pw w)"
  have ok: "accounts_ok pf ?w" by (rule preservesD [OF preserves_resetPassword assms(1)])
  let ?u = "u\<lparr>user_password := Some (pf_bcryptHash pf pw (pf_genSalt pf (draws w))), user_updatedAt := clock w\<rparr>"
  have "?u \<in> set (users ?w)"
    using update_rows_mem [OF assms(2), of "\<lambda>r. user_id r = user_id u"
      "\<lambda>r. r\<lparr>user_password := Some (pf_bcryptHash pf pw (pf_genSalt pf (draws w))), user_updatedAt := clock w\<rparr>"]
    by (simp add: eq with_password_def)
  moreover from ok have "distinct (map user_email (users ?w))" by (simp add: accounts_ok_def users_ok_def)
  ultimately have "user_by_email pf (user_email u) ?w = Some ?u"
    using user_by_email_eq [of ?w ?u pf] by simp
  moreover have "user_exists (user_id u) ?w"
    using \<open>?u \<in> set (users ?w)\<close> unfolding user_exists_def by (intro bexI [of _ ?u]) simp_all
  moreover have "or_str (Some h) '''' = h" for h by (cases h) simp_all
  ultimately have "\<exists>res. fst (login pf (user_email u) pw dev ip ?w) = Inr res \<and> login_id res = user_id u"
    using assms(4) by (simp add: login_eval Let_def)
  then show ?thesis by (simp add: eq with_password_def)
qed

theorem any_code_resets_the_password_witness:
  "\<exists>res. fst (login demo_pf ''bob@x'' ''hacked'' None None
      (snd (resetPassword demo_pf ''bob@x'' ''00000000'' ''hacked'' demo_accounts))) = Inr res \<and>
    login_id res = ''idx''"
proof -
  let ?u = "(demo_user ''bob'' ''bob@x'')\<lparr>user_id := demo_uuid 1\<rparr>"
  have "?u \<in> set (users demo_accounts)" by (simp add: demo_accounts_def)
  moreover have "pf_bcryptCompare demo_pf pw (pf_bcryptHash demo_pf pw salt)" for pw salt
    by (simp add: demo_pf_def)
  ultimately show ?thesis
    using any_code_resets_the_password [OF demo_accounts_ok, of ?u "''00000000''" "''hacked''" None None]
    by (simp add: demo_user_def demo_uuid_def)
qed

end
