(* ===== verification/Workspaces.thy ===== *)
theory Workspaces
  imports Users CacheService Messaging Guards
begin

text \<open>
  \<open>src/src/modules/workspace/workspace.service.ts\<close>: tenants, their slugs and members,
  and \<open>dashboard.controller.ts\<close>, their summary. Reads by id and by slug go through the cache
  under two key families; a create runs in a transaction.
\<close>

section \<open>Slugs\<close>

definition is_slug_char :: "char \<Rightarrow> bool" where
  "is_slug_char c \<longleftrightarrow>
     (of_char (CHR ''a'') \<le> (of_char c :: nat) \<and> (of_char c :: nat) \<le> of_char (CHR ''z'')) \<or>
     (of_char (CHR ''0'') \<le> (of_char c :: nat) \<and> (of_char c :: nat) \<le> of_char (CHR ''9''))"

definition to_lower :: "char \<Rightarrow> char" where
  "to_lower c =
     (if of_char (CHR ''A'') \<le> (of_char c :: nat) \<and> (of_char c :: nat) \<le> of_char (CHR ''Z'')
      then char_of ((of_char c :: nat) + 32) else c)"

text \<open>\<open>replace(/[^a-z0-9]+/g, '-')\<close>\<close>

fun dash_runs :: "string \<Rightarrow> string" where
  "dash_runs [] = []"
| "dash_runs (c # cs) =
     (if is_slug_char c then c # dash_runs cs
      else
        (let r = dash_runs cs
         in if r \<noteq> [] \<and> hd r = CHR ''-'' then r else CHR ''-'' # r))"

text \<open>\<open>replace(/(^-|-$)+/g, '')\<close> on a string without two dashes in a row.\<close>

definition trim_dashes :: "string \<Rightarrow> string" where
  "trim_dashes s =
     (let a = (if s \<noteq> [] \<and> hd s = CHR ''-'' then tl s else s)
      in if a \<noteq> [] \<and> last a = CHR ''-'' then butlast a else a)"

definition generate_slug :: "string \<Rightarrow> string" where
  "generate_slug name = trim_dashes (dash_runs (map to_lower name))"

section \<open>Cache keys and the repositories\<close>

definition getCacheKey :: "string \<Rightarrow> bool \<Rightarrow> string" where
  "getCacheKey idOrSlug isSlug =
     (if isSlug then ''workspace:slug:'' @ idOrSlug else ''workspace:id:'' @ idOrSlug)"

definition slug_taken :: "string \<Rightarrow> world \<Rightarrow> bool" where
  "slug_taken slug w \<longleftrightarrow> (\<exists>x \<in> set (workspaces w). workspace_slug x = slug)"

definition insert_workspace :: "platform \<Rightarrow> workspace \<Rightarrow> workspace svc" where
  "insert_workspace pf x =
     await (gets (\<lambda>w. slug_taken (workspace_slug x) w \<or> \<not> user_exists (workspace_ownerId x) w)) (\<lambda>bad.
     if bad then throw (QueryFailedError ''workspaces'')
     else
       await (gen_uuid pf) (\<lambda>i.
       await new_date (\<lambda>now.
         let x' = x\<lparr>workspace_id := i, workspace_createdAt := now, workspace_updatedAt := now\<rparr>
         in await (modify (\<lambda>w. w\<lparr>workspaces := workspaces w @ [x']\<rparr>)) (\<lambda>_. ret x'))))"

definition insert_member :: "string \<Rightarrow> string \<Rightarrow> string \<Rightarrow> workspace_member svc" where
  "insert_member wid uid r =
     await (gets (\<lambda>w. workspace_exists wid w \<and> user_exists uid w)) (\<lambda>ok.
     if \<not> ok then throw (QueryFailedError ''workspace_members: foreign key'')
     else
       await new_date (\<lambda>now.
         let m = \<lparr>member_workspaceId = wid, member_userId = uid, member_role = r,
                  member_createdAt = now, member_updatedAt = now\<rparr>
         in await (modify (\<lambda>w. w\<lparr>members := members w @ [m]\<rparr>)) (\<lambda>_. ret m)))"

text \<open>
  A transaction: when the body throws, the two tables it wrote are as they were before.
\<close>

definition in_transaction :: "'a svc \<Rightarrow> 'a svc" where
  "in_transaction m w =
     (case m w of (r, w') \<Rightarrow>
        (case r of
           Inr x \<Rightarrow> (Inr x, w')
         | Inl e \<Rightarrow> (Inl e, w'\<lparr>workspaces := workspaces w, members := members w\<rparr>)))"

definition save_workspace :: "workspace \<Rightarrow> workspace svc" where
  "save_workspace x =
     await (gets (\<lambda>w. find (\<lambda>r. workspace_id r = workspace_id x) (workspaces w))) (\<lambda>found.
     await new_date (\<lambda>now.
       case found of
         Some row \<Rightarrow>
           if x\<lparr>workspace_updatedAt := workspace_updatedAt row\<rparr> = row then ret x
           else
             let x' = x\<lparr>workspace_updatedAt := now\<rparr>
             in await (modify (\<lambda>w. w\<lparr>workspaces :=
                         update_rows (\<lambda>r. workspace_id r = workspace_id x) (\<lambda>_. x') (workspaces w)\<rparr>))
                  (\<lambda>_. ret x')
       | None \<Rightarrow>
           await (gets (\<lambda>w. slug_taken (workspace_slug x) w \<or> \<not> user_exists (workspace_ownerId x) w))
             (\<lambda>bad.
                if bad then throw (QueryFailedError ''workspaces'')
                else
                  let x' = x\<lparr>workspace_updatedAt := now\<rparr>
                  in await (modify (\<lambda>w. w\<lparr>workspaces := workspaces w @ [x']\<rparr>)) (\<lambda>_. ret x'))))"

section \<open>Operations\<close>

definition createWorkspace ::
  "platform \<Rightarrow> string \<Rightarrow> string \<Rightarrow> string option \<Rightarrow> workspace svc" where
  "createWorkspace pf ownerId name slug =
     (let workspaceSlug = or_str slug (generate_slug name)
      in await (gets (\<lambda>w. find_one (pf_pick pf) (\<lambda>x. workspace_slug x = workspaceSlug) (workspaces w)))
           (\<lambda>existing.
              if existing \<noteq> None then
                throw (ConflictException ''A workspace with this slug already exists. Please choose a different slug or name.'')
              else
                await
                  (in_transaction
                    (await (insert_workspace pf
                       \<lparr>workspace_id = '''', workspace_name = name, workspace_slug = workspaceSlug,
                        workspace_ownerId = ownerId, workspace_createdAt = 0, workspace_updatedAt = 0\<rparr>)
                     (\<lambda>saved.
                     await (insert_member (workspace_id saved) ownerId ''ADMIN'') (\<lambda>_.
                     ret saved))))
                (\<lambda>saved.
                await (auditLog ''WORKSPACE_CREATE'' (Some ownerId)
                         (JObj [(''workspaceId'', JStr (workspace_id saved)),
                                (''slug'', JStr workspaceSlug)])) (\<lambda>_.
                ret saved))))"

type_synonym workspace_view = "workspace \<times> user option"

definition view_workspace :: "platform \<Rightarrow> world \<Rightarrow> workspace \<Rightarrow> workspace_view" where
  "view_workspace pf w x = (x, find_user pf (workspace_ownerId x) w)"

definition read_workspace :: "platform \<Rightarrow> string \<Rightarrow> (workspace \<Rightarrow> bool) \<Rightarrow> workspace_view svc" where
  "read_workspace pf key p =
     await (cacheGet key) (\<lambda>cached.
     case cached of
       Some (CWorkspace x ow) \<Rightarrow> ret (x, ow)
     | _ \<Rightarrow>
         await (gets (\<lambda>w. map_option (view_workspace pf w) (find_one (pf_pick pf) p (workspaces w))))
           (\<lambda>found.
              case found of
                None \<Rightarrow> throw (NotFoundException ''Workspace not found'')
              | Some (x, ow) \<Rightarrow> await (cacheSet key (CWorkspace x ow) 3600) (\<lambda>_. ret (x, ow))))"

definition findWorkspaceById :: "platform \<Rightarrow> string \<Rightarrow> workspace_view svc" where
  "findWorkspaceById pf i = read_workspace pf (getCacheKey i False) (\<lambda>x. workspace_id x = i)"

definition findWorkspaceBySlug :: "platform \<Rightarrow> string \<Rightarrow> workspace_view svc" where
  "findWorkspaceBySlug pf slug =
     read_workspace pf (getCacheKey slug True) (\<lambda>x. workspace_slug x = slug)"

definition invalidate_workspace :: "string \<Rightarrow> string \<Rightarrow> unit svc" where
  "invalidate_workspace i slug =
     await (cacheDel (getCacheKey i False)) (\<lambda>_. cacheDel (getCacheKey slug True))"

definition updateWorkspace :: "platform \<Rightarrow> string \<Rightarrow> string \<Rightarrow> string \<Rightarrow> workspace svc" where
  "updateWorkspace pf i userId name =
     await (findWorkspaceById pf i) (\<lambda>(x, ow).
     await (save_workspace (x\<lparr>workspace_name := name\<rparr>)) (\<lambda>saved.
     await (invalidate_workspace i (workspace_slug x)) (\<lambda>_.
     await (auditLog ''WORKSPACE_UPDATE'' (Some userId)
              (JObj [(''workspaceId'', JStr i),
                     (''previous'', JObj [(''name'', JStr (workspace_name x))]),
                     (''new'', JObj [(''name'', JStr name)])])) (\<lambda>_.
     ret saved))))"

definition deleteWorkspace :: "platform \<Rightarrow> string \<Rightarrow> string \<Rightarrow> unit svc" where
  "deleteWorkspace pf i userId =
     await (findWorkspaceById pf i) (\<lambda>(x, ow).
     await (modify (cascade_workspace (workspace_id x))) (\<lambda>_.
     await (invalidate_workspace i (workspace_slug x)) (\<lambda>_.
     auditLog ''WORKSPACE_DELETE'' (Some userId)
       (JObj [(''workspaceId'', JStr i), (''slug'', JStr (workspace_slug x))]))))"

text \<open>What an invitation announces once the membership is stored.\<close>

definition announce_invite ::
  "platform \<Rightarrow> string \<Rightarrow> string \<Rightarrow> string \<Rightarrow> string \<Rightarrow> user \<Rightarrow> workspace \<Rightarrow> workspace_member \<Rightarrow>
     workspace_member svc" where
  "announce_invite pf workspaceId performerId email r user x saved =
     await (findUserById pf (user_id user)) (\<lambda>invited.
     await (sendMemberJoined workspaceId (MemberPayload workspaceId r invited)) (\<lambda>_.
     await (createAndSendNotification pf (user_id user) ''WORKSPACE_MEMBER_JOINED''
              (''Joined Workspace: '' @ workspace_name x)
              (''You have been added to the workspace \"'' @ workspace_name x @ ''\" as a '' @ r @ ''.''))
       (\<lambda>_.
     await (auditLog ''WORKSPACE_INVITE'' (Some performerId)
              (JObj [(''workspaceId'', JStr workspaceId), (''invitedUserId'', JStr (user_id user)),
                     (''invitedUserEmail'', JStr email), (''role'', JStr r)])) (\<lambda>_.
     ret saved))))"

definition inviteMember ::
  "platform \<Rightarrow> string \<Rightarrow> string \<Rightarrow> string \<Rightarrow> string \<Rightarrow> workspace_member svc" where
  "inviteMember pf workspaceId performerId email r =
     await (findWorkspaceById pf workspaceId) (\<lambda>(x, ow).
     await (findByEmail pf email) (\<lambda>found.
     case found of
       None \<Rightarrow>
         throw (NotFoundException ''User with this email not found. They must register first.'')
     | Some user \<Rightarrow>
         await (gets (\<lambda>w. find_member pf w workspaceId (user_id user))) (\<lambda>existing.
         if existing \<noteq> None
         then throw (ConflictException ''User is already a member of this workspace'')
         else
           await (insert_member workspaceId (user_id user) r)
             (announce_invite pf workspaceId performerId email r user x))))"

definition getMembers :: "platform \<Rightarrow> string \<Rightarrow> (workspace_member \<times> user option) list svc" where
  "getMembers pf workspaceId =
     gets (\<lambda>w. map (\<lambda>m. (m, find_user pf (member_userId m) w))
       (filter (\<lambda>m. member_workspaceId m = workspaceId) (members w)))"

definition getUserWorkspaces :: "platform \<Rightarrow> string \<Rightarrow> workspace option list svc" where
  "getUserWorkspaces pf userId =
     gets (\<lambda>w. map (\<lambda>m. find (\<lambda>x. workspace_id x = member_workspaceId m) (workspaces w))
       (filter (\<lambda>m. member_userId m = userId) (members w)))"

section \<open>Dashboard\<close>

record summary =
  sm_totalTasks :: nat
  sm_completedTasks :: nat
  sm_overdueTasks :: nat
  sm_upcomingTasks :: nat
  sm_totalProjects :: nat
  sm_completionRate :: int
    \<comment> \<open>in hundredths of a percent\<close>
  sm_statusDistribution :: "(string \<times> nat) list"
  sm_priorityDistribution :: "(string \<times> nat) list"
  sm_memberProductivity :: "(string \<times> string \<times> string option \<times> nat) list"

text \<open>\<open>SELECT k, COUNT(*) ... GROUP BY k\<close>\<close>

definition group_count :: "'k list \<Rightarrow> ('k \<times> nat) list" where
  "group_count ks = map (\<lambda>k. (k, length (filter (\<lambda>x. x = k) ks))) (remdups ks)"

definition live_tasks :: "string \<Rightarrow> world \<Rightarrow> task list" where
  "live_tasks wid w = filter (\<lambda>t. task_workspaceId t = wid \<and> task_deletedAt t = None) (tasks w)"

definition due_in :: "(int \<Rightarrow> bool) \<Rightarrow> task \<Rightarrow> bool" where
  "due_in p t \<longleftrightarrow> task_status t \<noteq> ''DONE'' \<and> (case task_dueDate t of None \<Rightarrow> False | Some d \<Rightarrow> p d)"

text \<open>\<open>toFixed(2)\<close> of a percentage, as hundredths rounded half up.\<close>

definition percent_hundredths :: "nat \<Rightarrow> nat \<Rightarrow> int" where
  "percent_hundredths a b = (int a * 20000 + int b) div (2 * int b)"

definition getSummary :: "string \<Rightarrow> summary svc" where
  "getSummary wid =
     gets (\<lambda>w.
       let live = live_tasks wid w;
           statuses = group_count (map task_status live);
           total = sum_list (map snd statuses);
           completed = (case map_of statuses ''DONE'' of None \<Rightarrow> 0 | Some n \<Rightarrow> n);
           assignees = List.map_filter (\<lambda>t. task_assignedTo t)
             (filter (\<lambda>t. task_status t = ''DONE'') live);
           rows = List.map_filter
             (\<lambda>(u, n). map_option (\<lambda>r. (u, user_name r, user_avatar r, n))
                        (find (\<lambda>r. user_id r = u) (users w)))
             (group_count assignees)
       in \<lparr>sm_totalTasks = total, sm_completedTasks = completed,
           sm_overdueTasks = length (filter (due_in (\<lambda>d. d < clock w)) live),
           sm_upcomingTasks =
             length (filter (due_in (\<lambda>d. clock w \<le> d \<and> d \<le> clock w + 7 * 24 * 3600 * 1000)) live),
           sm_totalProjects = length (filter (\<lambda>p. project_workspaceId p = wid) (projects w)),
           sm_completionRate = (if total > 0 then percent_hundredths completed total else 0),
           sm_statusDistribution = statuses,
           sm_priorityDistribution = group_count (map task_priority live),
           sm_memberProductivity = sort_key (\<lambda>(u, nm, av, n). - int n) rows\<rparr>)"

end
