(* ===== verification/WorkspaceLaws.thy ===== *)
theory WorkspaceLaws
  imports Workspaces
begin

text \<open>
  Slugs are well formed; workspace ids and slugs identify rows; every workspace is administered
  by its owner; the cache of workspaces agrees with the table.
\<close>

section \<open>Slugs\<close>

definition no_double_dash :: "string \<Rightarrow> bool" where
  "no_double_dash s \<longleftrightarrow> successively (\<lambda>a b. \<not> (a = CHR ''-'' \<and> b = CHR ''-'')) s"

definition slug_word :: "string \<Rightarrow> bool" where
  \<comment> \<open>lower-case letters and digits in groups joined by single dashes\<close>
  "slug_word s \<longleftrightarrow>
     (\<forall>c \<in> set s. is_slug_char c \<or> c = CHR ''-'') \<and> no_double_dash s \<and>
     (s \<noteq> [] \<longrightarrow> hd s \<noteq> CHR ''-'' \<and> last s \<noteq> CHR ''-'')"

lemma no_double_dash_Nil [simp]: "no_double_dash []"
  by (simp add: no_double_dash_def)

lemma no_double_dash_Cons:
  "no_double_dash (c # s) \<longleftrightarrow> (s \<noteq> [] \<and> c = CHR ''-'' \<longrightarrow> hd s \<noteq> CHR ''-'') \<and> no_double_dash s"
  by (cases s) (auto simp: no_double_dash_def)

lemma no_double_dash_snoc:
  "no_double_dash (s @ [c]) \<longleftrightarrow> (s \<noteq> [] \<and> c = CHR ''-'' \<longrightarrow> last s \<noteq> CHR ''-'') \<and> no_double_dash s"
  by (auto simp: no_double_dash_def successively_append_iff)

lemma dash_is_no_slug_char [simp]: "\<not> is_slug_char (CHR ''-'')"
  by (simp add: is_slug_char_def)

lemma dash_runs_chars: "c \<in> set (dash_runs s) \<Longrightarrow> is_slug_char c \<or> c = CHR ''-''"
  by (induction s) (auto simp: Let_def split: if_splits)

lemma dash_runs_single: "no_double_dash (dash_runs s)"
  by (induction s) (auto simp: no_double_dash_Cons Let_def)

lemma dash_runs_keeps: "filter is_slug_char (dash_runs s) = filter is_slug_char s"
  by (induction s) (auto simp: Let_def)

lemma trim_dashes_word:
  assumes "\<forall>c \<in> set s. is_slug_char c \<or> c = CHR ''-''" and "no_double_dash s"
  shows "slug_word (trim_dashes s)" and "filter is_slug_char (trim_dashes s) = filter is_slug_char s"
proof -
  define a where "a = (if s \<noteq> [] \<and> hd s = CHR ''-'' then tl s else s)"
  have a: "\<forall>c \<in> set a. is_slug_char c \<or> c = CHR ''-''" "no_double_dash a"
    "a \<noteq> [] \<longrightarrow> hd a \<noteq> CHR ''-''" "filter is_slug_char a = filter is_slug_char s"
    using assms by (cases s; auto simp: a_def no_double_dash_Cons)+
  have t: "trim_dashes s = (if a \<noteq> [] \<and> last a = CHR ''-'' then butlast a else a)"
    by (simp add: trim_dashes_def a_def Let_def)
  show "slug_word (trim_dashes s)" and "filter is_slug_char (trim_dashes s) = filter is_slug_char s"
  proof (atomize(full), cases a rule: rev_cases)
    case (snoc b c)
    have "b \<noteq> [] \<longrightarrow> hd b = hd a" by (simp add: snoc hd_append)
    with a snoc t show "slug_word (trim_dashes s) \<and>
        filter is_slug_char (trim_dashes s) = filter is_slug_char s"
      by (auto simp: slug_word_def no_double_dash_snoc)
  qed (use a t in \<open>simp add: slug_word_def no_double_dash_def\<close>)
qed

lemma generate_slug_word: "slug_word (generate_slug name)"
  unfolding generate_slug_def
  by (rule trim_dashes_word) (use dash_runs_chars dash_runs_single in auto)

lemma generate_slug_keeps:
  "filter is_slug_char (generate_slug name) = filter is_slug_char (map to_lower name)"
  unfolding generate_slug_def
  using trim_dashes_word(2) [of "dash_runs (map to_lower name)"] dash_runs_chars dash_runs_single
  by (auto simp: dash_runs_keeps)

text \<open>A slug word is left alone, so generating twice is generating once.\<close>

lemma slug_char_lower: "is_slug_char c \<or> c = CHR ''-'' \<Longrightarrow> to_lower c = c"
  by (auto simp: to_lower_def is_slug_char_def)

lemma dash_runs_word:
  "no_double_dash s \<Longrightarrow> \<forall>c \<in> set s. is_slug_char c \<or> c = CHR ''-'' \<Longrightarrow> dash_runs s = s"
  by (induction s) (auto simp: no_double_dash_Cons Let_def)

lemma generate_slug_id:
  assumes "slug_word s"
  shows "generate_slug s = s"
proof -
  have "map to_lower s = s"
    using assms slug_char_lower by (simp add: slug_word_def map_idI)
  moreover have "dash_runs s = s" using assms by (intro dash_runs_word) (simp_all add: slug_word_def)
  ultimately show ?thesis
    using assms by (auto simp: generate_slug_def trim_dashes_def Let_def slug_word_def)
qed

lemma slug_word_empty:
  assumes "slug_word s"
  shows "s = [] \<longleftrightarrow> filter is_slug_char s = []"
  using assms by (cases s) (auto simp: slug_word_def)

section \<open>The cache of workspaces\<close>

text \<open>A key of the cache: whether it is a slug, and the id or slug.\<close>

fun ws_key :: "bool \<times> string \<Rightarrow> string" where
  "ws_key (isSlug, k) = getCacheKey k isSlug"

fun ws_field :: "bool \<Rightarrow> workspace \<Rightarrow> string" where
  "ws_field isSlug x = (if isSlug then workspace_slug x else workspace_id x)"

fun find_ws :: "bool \<times> string \<Rightarrow> world \<Rightarrow> workspace option" where
  "find_ws (isSlug, k) w = find (\<lambda>x. ws_field isSlug x = k) (workspaces w)"

declare ws_key.simps [simp del] ws_field.simps [simp del] find_ws.simps [simp del]

lemma ws_field_eval: "ws_field True = workspace_slug" "ws_field False = workspace_id"
  by (simp_all add: fun_eq_iff ws_field.simps)

definition load_ws :: "platform \<Rightarrow> bool \<times> string \<Rightarrow> world \<Rightarrow> cache_value option" where
  "load_ws pf k w = map_option (\<lambda>x. CWorkspace x (find_user pf (workspace_ownerId x) w)) (find_ws k w)"

lemma ws_key_inj [simp]: "ws_key k = ws_key k' \<longleftrightarrow> k = k'"
  by (cases k; cases k') (simp add: getCacheKey_def ws_key.simps)

lemma load_ws_cong:
  assumes "users w' = users w" and "workspaces w' = workspaces w"
  shows "load_ws pf k w' = load_ws pf k w"
  using assms by (cases k) (simp add: load_ws_def find_user_def find_ws.simps)

interpretation ws_cache:
  cached_store "\<lambda>k. cache_get (ws_key k)" "\<lambda>k v. cache_set (ws_key k) v 3600"
    "\<lambda>k. cache_del (ws_key k)" "load_ws pf" for pf
proof
  fix k j :: "bool \<times> string" and v v' :: cache_value and w :: world
  show "cache_get (ws_key k) (cache_set (ws_key k) v 3600 w) = Some v' \<Longrightarrow> v' = v"
    by (rule cache_get_set)
  show "j \<noteq> k \<Longrightarrow> cache_get (ws_key j) (cache_set (ws_key k) v 3600 w) = cache_get (ws_key j) w"
    by (simp add: cache_get_set_other)
  show "cache_get (ws_key k) (cache_del (ws_key k) w) = None"
    by (rule cache_get_del)
  show "j \<noteq> k \<Longrightarrow> cache_get (ws_key j) (cache_del (ws_key k) w) = cache_get (ws_key j) w"
    by (simp add: cache_get_del_other)
  show "load_ws pf j (cache_set (ws_key k) v 3600 w) = load_ws pf j w"
    by (rule load_ws_cong) simp_all
  show "load_ws pf j (cache_del (ws_key k) w) = load_ws pf j w"
    by (rule load_ws_cong) simp_all
qed

definition ws_rows_ok :: "platform \<Rightarrow> world \<Rightarrow> bool" where
  "ws_rows_ok pf w \<longleftrightarrow>
     distinct (map workspace_id (workspaces w)) \<and> distinct (map workspace_slug (workspaces w)) \<and>
     set (map workspace_id (workspaces w)) \<subseteq> pf_uuid pf ` {..<draws w}"

definition ws_inv :: "platform \<Rightarrow> world \<Rightarrow> bool" where
  "ws_inv pf w \<longleftrightarrow> ws_rows_ok pf w \<and> coherent (\<lambda>k. cache_get (ws_key k)) (load_ws pf) w"

lemma ws_field_distinct: "ws_rows_ok pf w \<Longrightarrow> distinct (map (ws_field b) (workspaces w))"
  by (cases b) (simp_all add: ws_rows_ok_def ws_field_eval)

lemma find_ws_SomeD: "find_ws (b, k) w = Some x \<Longrightarrow> x \<in> set (workspaces w) \<and> ws_field b x = k"
  by (auto simp: find_ws.simps find_Some_iff)

lemma same_field_same_ws:
  assumes "ws_rows_ok pf w" and "x \<in> set (workspaces w)" "y \<in> set (workspaces w)"
    and "ws_field b x = ws_field b y"
  shows "x = y"
  using ws_field_distinct [OF assms(1), of b] assms(2-4) unfolding distinct_map
  by (metis inj_onD)

lemma find_ws_iff:
  assumes "ws_rows_ok pf w"
  shows "find_ws (b, k) w = Some x \<longleftrightarrow> x \<in> set (workspaces w) \<and> ws_field b x = k"
proof
  assume r: "x \<in> set (workspaces w) \<and> ws_field b x = k"
  then obtain y where y: "find_ws (b, k) w = Some y"
    by (cases "find_ws (b, k) w") (auto simp: find_ws.simps find_None_iff)
  with find_ws_SomeD [OF y] same_field_same_ws [OF assms, of y x b] r show "find_ws (b, k) w = Some x"
    by simp
qed (rule find_ws_SomeD)

lemma find_one_ws:
  assumes "ws_rows_ok pf w"
  shows "find_one pick (\<lambda>x. ws_field b x = k) (workspaces w) = find_ws (b, k) w"
proof (cases "find_ws (b, k) w")
  case None
  then have "find_one pick (\<lambda>x. ws_field b x = k) (workspaces w) = None"
    by (simp add: find_ws.simps find_one_None find_None_iff)
  with None show ?thesis by simp
next
  case (Some x)
  with find_ws_iff [OF assms] have "x \<in> set (workspaces w)" "ws_field b x = k" by simp_all
  with Some fo.look_by_key [OF ws_field_distinct [OF assms, of b], of x "\<lambda>x. ws_field b x = k" pick]
  show ?thesis by simp
qed

section \<open>Reading a workspace\<close>

abbreviation read_ws :: "platform \<Rightarrow> bool \<Rightarrow> string \<Rightarrow> workspace_view svc" where
  "read_ws pf b k \<equiv> read_workspace pf (ws_key (b, k)) (\<lambda>x. ws_field b x = k)"

lemma find_is_read_ws:
  "findWorkspaceById pf i = read_ws pf False i"
  "findWorkspaceBySlug pf slug = read_ws pf True slug"
  by (simp_all add: findWorkspaceById_def findWorkspaceBySlug_def ws_key.simps ws_field_eval)

lemma ws_inv_cache:
  assumes "ws_inv pf w" and "cache_get (ws_key k) w = Some c"
  obtains x where "find_ws k w = Some x" and "c = CWorkspace x (find_user pf (workspace_ownerId x) w)"
  using assms unfolding ws_inv_def coherent_def load_ws_def by blast

lemma read_ws_cases [consumes 1, case_names found missing]:
  assumes inv: "ws_inv pf w"
  obtains (found) x w1 where "find_ws (b, k) w = Some x"
      and "read_ws pf b k w = (Inr (view_workspace pf w x), w1)"
      and "w1 = w \<or> w1 = cache_set (ws_key (b, k)) (CWorkspace x (find_user pf (workspace_ownerId x) w)) 3600 w"
  | (missing) "find_ws (b, k) w = None"
      and "read_ws pf b k w = (Inl (NotFoundException ''Workspace not found''), w)"
proof (cases "cache_get (ws_key (b, k)) w")
  case None
  from inv have rows: "ws_rows_ok pf w" by (simp add: ws_inv_def)
  show thesis
  proof (cases "find_ws (b, k) w")
    case (Some x)
    then show thesis
      using None found [of x] by (simp add: read_workspace_def prog_simps find_one_ws [OF rows]
          view_workspace_def)
  next
    case missing': None
    then show thesis
      using None missing by (simp add: read_workspace_def prog_simps find_one_ws [OF rows])
  qed
next
  case (Some c)
  from ws_inv_cache [OF inv Some] obtain x where x: "find_ws (b, k) w = Some x"
    and "c = CWorkspace x (find_user pf (workspace_ownerId x) w)" by blast
  with Some show thesis
    using found [OF x, of w] by (simp add: read_workspace_def prog_simps view_workspace_def)
qed

section \<open>The operations keep the tenants\<close>

definition member_key :: "workspace_member \<Rightarrow> string \<times> string" where
  "member_key m = (member_workspaceId m, member_userId m)"

definition members_ok :: "world \<Rightarrow> bool" where
  "members_ok w \<longleftrightarrow>
     distinct (map member_key (members w)) \<and>
     (\<forall>m \<in> set (members w). workspace_exists (member_workspaceId m) w \<and> user_exists (member_userId m) w) \<and>
     (\<forall>x \<in> set (workspaces w). \<exists>m \<in> set (members w).
        member_key m = (workspace_id x, workspace_ownerId x) \<and> member_role m = ''ADMIN'')"

definition tenants_ok :: "platform \<Rightarrow> world \<Rightarrow> bool" where
  "tenants_ok pf w \<longleftrightarrow> ws_inv pf w \<and> members_ok w"

lemma ws_inv_cong:
  assumes "ws_inv pf w" and "users w' = users w" "workspaces w' = workspaces w" "draws w \<le> draws w'"
    and "\<And>k v. cache_get (ws_key k) w' = Some v \<Longrightarrow> cache_get (ws_key k) w = Some v"
  shows "ws_inv pf w'"
proof -
  have "pf_uuid pf ` {..<draws w} \<subseteq> pf_uuid pf ` {..<draws w'}" using assms(4) by auto
  with assms(1,3) have "ws_rows_ok pf w'"
    unfolding ws_inv_def ws_rows_ok_def by (simp only:) (metis order_trans)
  moreover have "load_ws pf k w' = Some v" if "cache_get (ws_key k) w' = Some v" for k v
  proof -
    from assms(1) have "coherent (\<lambda>k. cache_get (ws_key k)) (load_ws pf) w" by (simp add: ws_inv_def)
    with assms(5) [OF that] have "load_ws pf k w = Some v" unfolding coherent_def by blast
    then show ?thesis by (simp add: load_ws_cong [OF assms(2,3)])
  qed
  ultimately show ?thesis by (simp add: ws_inv_def coherent_def)
qed

lemma members_ok_cong:
  "members_ok w \<Longrightarrow> users w' = users w \<Longrightarrow> workspaces w' = workspaces w \<Longrightarrow>
   members w' = members w \<Longrightarrow> members_ok w'"
  by (simp add: members_ok_def workspace_exists_def user_exists_def)

lemma tenants_messaging:
  assumes "tenants_ok pf w" and "messaging_frame w w'"
  shows "tenants_ok pf w'"
proof -
  have "cache_get k w' = cache_get k w" for k
    by (rule redis_get_frame) (use messaging_frameD [OF assms(2)] in simp_all)
  with assms show ?thesis
    using messaging_frameD [OF assms(2)]
    by (auto simp: tenants_ok_def intro: ws_inv_cong members_ok_cong)
qed

lemma preserves_tenants_messaging:
  "within messaging_frame m \<Longrightarrow> preserves (tenants_ok pf) m"
  by (erule within_preserves_rule) (rule tenants_messaging)

lemma tenants_enqueue: "tenants_ok pf w \<Longrightarrow> tenants_ok pf (enqueue_if b j w)"
  by (erule tenants_messaging) (rule enqueue_if_messaging)

text \<open>A read keeps the tables and a coherent cache.\<close>

lemma read_ws_keeps:
  assumes inv: "ws_inv pf w" and read: "read_ws pf b k w = (r, w1)"
  shows "ws_inv pf w1" and "users w1 = users w" "workspaces w1 = workspaces w" "members w1 = members w"
    "clock w1 = clock w" "draws w1 = draws w" "queueUp w1 = queueUp w" "projects w1 = projects w"
    "tasks w1 = tasks w" "jobs w1 = jobs w"
proof -
  have w1: "w1 = w \<or> (\<exists>x. find_ws (b, k) w = Some x \<and>
      w1 = cache_set (ws_key (b, k)) (CWorkspace x (find_user pf (workspace_ownerId x) w)) 3600 w)"
    by (cases rule: read_ws_cases [OF inv, of b k]) (use read in auto)
  then show "users w1 = users w" "workspaces w1 = workspaces w" "members w1 = members w"
    "clock w1 = clock w" "draws w1 = draws w" "queueUp w1 = queueUp w" "projects w1 = projects w"
    "tasks w1 = tasks w" "jobs w1 = jobs w"
    by auto
  from w1 show "ws_inv pf w1"
  proof (elim disjE exE conjE)
    fix x
    let ?v = "CWorkspace x (find_user pf (workspace_ownerId x) w)"
    assume x: "find_ws (b, k) w = Some x" and w1: "w1 = cache_set (ws_key (b, k)) ?v 3600 w"
    from x have load: "load_ws pf (b, k) w = Some ?v" by (simp add: load_ws_def)
    have "coherent (\<lambda>k. cache_get (ws_key k)) (load_ws pf) w1"
      unfolding coherent_def w1
    proof (intro allI impI)
      fix j v
      assume "cache_get (ws_key j) (cache_set (ws_key (b, k)) ?v 3600 w) = Some v"
      then have "j = (b, k) \<and> v = ?v \<or> j \<noteq> (b, k) \<and> cache_get (ws_key j) w = Some v"
        by (rule ws_cache.get_putD)
      then show "load_ws pf j (cache_set (ws_key (b, k)) ?v 3600 w) = Some v"
        using load inv unfolding ws_cache.load_put ws_inv_def coherent_def by blast
    qed
    with inv show "ws_inv pf w1" by (simp add: ws_inv_def ws_rows_ok_def w1)
  qed (use inv in simp)
qed

lemma preserves_read_ws: "preserves (tenants_ok pf) (read_ws pf b k)"
proof (rule preservesI)
  fix w
  assume ok: "tenants_ok pf w"
  then have inv: "ws_inv pf w" by (simp add: tenants_ok_def)
  show "tenants_ok pf (snd (read_ws pf b k w))"
    using ok read_ws_keeps [OF inv, of b k "fst (read_ws pf b k w)" "snd (read_ws pf b k w)"]
    by (auto simp: tenants_ok_def intro: members_ok_cong)
qed

lemma find_ws_eqI:
  assumes "ws_rows_ok pf w" and "ws_rows_ok pf w'"
    and "\<And>x. ws_field b x = k \<Longrightarrow> x \<in> set (workspaces w') \<longleftrightarrow> x \<in> set (workspaces w)"
  shows "find_ws (b, k) w' = find_ws (b, k) w"
proof (rule option.expand)
  have some: "find_ws (b, k) w' = Some x \<longleftrightarrow> find_ws (b, k) w = Some x" for x
    using find_ws_iff [OF assms(1)] find_ws_iff [OF assms(2)] assms(3) by metis
  then show "(find_ws (b, k) w' = None) = (find_ws (b, k) w = None)"
    by (metis not_Some_eq)
  from some show "the (find_ws (b, k) w') = the (find_ws (b, k) w)"
    if "find_ws (b, k) w' \<noteq> None" "find_ws (b, k) w \<noteq> None"
    using that by (metis option.collapse)
qed

lemma load_ws_eqI:
  "find_ws k w' = find_ws k w \<Longrightarrow> users w' = users w \<Longrightarrow> load_ws pf k w' = load_ws pf k w"
  by (simp add: load_ws_def find_user_def)

subsection \<open>Create\<close>

definition created_workspace :: "platform \<Rightarrow> string \<Rightarrow> string \<Rightarrow> string \<Rightarrow> world \<Rightarrow> workspace" where
  "created_workspace pf o' name slug w =
     \<lparr>workspace_id = pf_uuid pf (draws w), workspace_name = name, workspace_slug = slug,
      workspace_ownerId = o', workspace_createdAt = clock w, workspace_updatedAt = clock w\<rparr>"

definition owner_member :: "workspace \<Rightarrow> world \<Rightarrow> workspace_member" where
  "owner_member x w = \<lparr>member_workspaceId = workspace_id x, member_userId = workspace_ownerId x,
     member_role = ''ADMIN'', member_createdAt = clock w, member_updatedAt = clock w\<rparr>"

definition add_workspace :: "workspace \<Rightarrow> world \<Rightarrow> world" where
  "add_workspace x w = w\<lparr>draws := Suc (draws w), workspaces := workspaces w @ [x],
     members := members w @ [owner_member x w]\<rparr>"

lemma createWorkspace_eval:
  "createWorkspace pf o' name slug w =
     (let s = or_str slug (generate_slug name); x = created_workspace pf o' name s w
      in if slug_taken s w then
           (Inl (ConflictException ''A workspace with this slug already exists. Please choose a different slug or name.''), w)
         else if \<not> user_exists o' w then (Inl (QueryFailedError ''workspaces''), w)
         else (Inr x, enqueue_if (queueUp w ''audit.queue'')
                (audit_job ''WORKSPACE_CREATE'' (Some o')
                  (JObj [(''workspaceId'', JStr (workspace_id x)), (''slug'', JStr s)]))
                (add_workspace x w)))"
proof -
  let ?s = "or_str slug (generate_slug name)"
  have taken: "find_one (pf_pick pf) (\<lambda>x. workspace_slug x = ?s) (workspaces w) = None \<longleftrightarrow> \<not> slug_taken ?s w"
    by (auto simp: find_one_None slug_taken_def)
  show ?thesis
  proof (cases "find_one (pf_pick pf) (\<lambda>x. workspace_slug x = ?s) (workspaces w)")
    case None
    with taken have free: "\<not> slug_taken ?s w" by simp
    from free show ?thesis
      by (simp add: createWorkspace_def prog_simps Let_def None in_transaction_def insert_workspace_def
          insert_member_def created_workspace_def add_workspace_def owner_member_def
          workspace_exists_def user_exists_def)
  next
    case (Some x)
    with taken have "slug_taken ?s w" by simp
    with Some show ?thesis by (simp add: createWorkspace_def prog_simps Let_def)
  qed
qed

lemma add_workspace_inv:
  assumes inj: "inj (pf_uuid pf)" and ok: "tenants_ok pf w" and free: "\<not> slug_taken (workspace_slug x) w"
    and id: "workspace_id x = pf_uuid pf (draws w)" and own: "user_exists (workspace_ownerId x) w"
  shows "tenants_ok pf (add_workspace x w)"
proof -
  let ?w = "add_workspace x w"
  from ok have rows: "ws_rows_ok pf w" and mem: "members_ok w"
    and coh: "coherent (\<lambda>k. cache_get (ws_key k)) (load_ws pf) w"
    by (simp_all add: tenants_ok_def ws_inv_def)
  then have ids: "set (map workspace_id (workspaces w)) \<subseteq> pf_uuid pf ` {..<draws w}"
    by (simp add: ws_rows_ok_def)
  have new: "workspace_id x \<notin> set (map workspace_id (workspaces w))"
    unfolding id by (rule fresh_id [OF inj ids]) simp
  have rows': "ws_rows_ok pf ?w"
    using rows new free id by (auto simp: ws_rows_ok_def add_workspace_def slug_taken_def)
  have load: "load_ws pf k ?w = Some v" if "load_ws pf k w = Some v" for k v
    using that by (cases k) (auto simp: load_ws_def add_workspace_def find_ws.simps find_append
        find_user_def split: option.splits)
  have "cache_get j ?w = cache_get j w" for j
    by (rule redis_get_frame) (simp_all add: add_workspace_def)
  with coh load have "ws_inv pf ?w"
    using rows' unfolding ws_inv_def coherent_def by metis
  moreover have "member_key (owner_member x w) \<notin> member_key ` set (members w)"
  proof
    assume "member_key (owner_member x w) \<in> member_key ` set (members w)"
    then obtain m where "m \<in> set (members w)" and "member_workspaceId m = workspace_id x"
      by (auto simp: member_key_def owner_member_def)
    with mem have "workspace_exists (workspace_id x) w" by (auto simp: members_ok_def)
    with new show False unfolding workspace_exists_def by (metis imageI set_map)
  qed
  with mem own have "members_ok ?w"
    unfolding members_ok_def add_workspace_def
    by (auto simp: member_key_def owner_member_def workspace_exists_def user_exists_def)
  ultimately show ?thesis by (simp add: tenants_ok_def)
qed

lemma preserves_createWorkspace:
  assumes "inj (pf_uuid pf)"
  shows "preserves (tenants_ok pf) (createWorkspace pf o' name slug)"
proof (rule preservesI)
  fix w
  assume ok: "tenants_ok pf w"
  let ?s = "or_str slug (generate_slug name)"
  have "tenants_ok pf (add_workspace (created_workspace pf o' name ?s w) w)"
    if "\<not> slug_taken ?s w" "user_exists o' w"
    by (rule add_workspace_inv [OF assms ok]) (use that in \<open>simp_all add: created_workspace_def\<close>)
  with ok show "tenants_ok pf (snd (createWorkspace pf o' name slug w))"
    by (simp add: createWorkspace_eval Let_def tenants_enqueue)
qed

subsection \<open>Update\<close>

definition renamed :: "string \<Rightarrow> workspace \<Rightarrow> world \<Rightarrow> workspace" where
  "renamed n x w =
     (if workspace_name x = n then x else x\<lparr>workspace_name := n, workspace_updatedAt := clock w\<rparr>)"

lemma renamed_simps [simp]:
  "workspace_id (renamed n x w) = workspace_id x" "workspace_slug (renamed n x w) = workspace_slug x"
  "workspace_ownerId (renamed n x w) = workspace_ownerId x" "workspace_name (renamed n x w) = n"
  by (simp_all add: renamed_def)

definition put_ws :: "workspace \<Rightarrow> world \<Rightarrow> world" where
  "put_ws x w = w\<lparr>workspaces := update_rows (\<lambda>r. workspace_id r = workspace_id x) (\<lambda>_. x) (workspaces w)\<rparr>"

lemma update_rows_same: "(\<And>r. r \<in> set rows \<Longrightarrow> p r \<Longrightarrow> f r = r) \<Longrightarrow> update_rows p f rows = rows"
  by (induction rows) (auto simp: update_rows_def)

lemma save_workspace_eval:
  assumes rows: "ws_rows_ok pf w" and x: "find_ws (False, i) w = Some x"
  shows "save_workspace (x\<lparr>workspace_name := n\<rparr>) w = (Inr (renamed n x w), put_ws (renamed n x w) w)"
proof -
  from x find_ws_iff [OF rows] have mem: "x \<in> set (workspaces w)" and id: "workspace_id x = i"
    by (auto simp: ws_field_eval)
  have found: "find (\<lambda>r. workspace_id r = workspace_id x) (workspaces w) = Some x"
    using x unfolding find_ws.simps ws_field_eval id .
  show ?thesis
  proof (cases "workspace_name x = n")
    case True
    then have same: "x\<lparr>workspace_name := n\<rparr> = x" by auto
    have "update_rows (\<lambda>r. workspace_id r = workspace_id x) (\<lambda>_. x) (workspaces w) = workspaces w"
      by (rule update_rows_same)
        (use same_field_same_ws [OF rows, of _ x False] mem in \<open>auto simp: ws_field_eval\<close>)
    then have "put_ws x w = w" by (simp add: put_ws_def)
    with True found show ?thesis
      unfolding same by (simp add: save_workspace_def prog_simps renamed_def)
  next
    case False
    then have "x\<lparr>workspace_name := n\<rparr> \<noteq> x" by (metis workspace.select_convs(2) workspace.surjective workspace.update_convs(2))
    moreover have "x\<lparr>workspace_name := n, workspace_updatedAt := workspace_updatedAt x\<rparr> = x\<lparr>workspace_name := n\<rparr>"
      by simp
    ultimately show ?thesis
      using False found by (simp add: save_workspace_def prog_simps renamed_def put_ws_def Let_def)
  qed
qed

definition forget_ws :: "workspace \<Rightarrow> world \<Rightarrow> world" where
  "forget_ws x w = fold (\<lambda>k. cache_del (ws_key k)) [(False, workspace_id x), (True, workspace_slug x)] w"

lemma forget_ws_frame [simp]:
  "users (forget_ws x w) = users w" "workspaces (forget_ws x w) = workspaces w"
  "members (forget_ws x w) = members w" "projects (forget_ws x w) = projects w"
  "tasks (forget_ws x w) = tasks w" "comments (forget_ws x w) = comments w"
  "reminders (forget_ws x w) = reminders w" "clock (forget_ws x w) = clock w"
  "draws (forget_ws x w) = draws w" "queueUp (forget_ws x w) = queueUp w" "jobs (forget_ws x w) = jobs w"
  by (simp_all add: forget_ws_def)

lemma invalidate_is_forget:
  "workspace_id x = i \<Longrightarrow> invalidate_workspace i (workspace_slug x) w = (Inr (), forget_ws x w)"
  by (simp add: invalidate_workspace_def prog_simps forget_ws_def ws_key.simps)

definition rename_job :: "string \<Rightarrow> string \<Rightarrow> workspace \<Rightarrow> string \<Rightarrow> job" where
  "rename_job i u x n = audit_job ''WORKSPACE_UPDATE'' (Some u)
     (JObj [(''workspaceId'', JStr i), (''previous'', JObj [(''name'', JStr (workspace_name x))]),
            (''new'', JObj [(''name'', JStr n)])])"

lemma updateWorkspace_cases [consumes 1, case_names missing renamed]:
  assumes inv: "ws_inv pf w"
  obtains (missing) "find_ws (False, i) w = None"
      and "updateWorkspace pf i u n w = (Inl (NotFoundException ''Workspace not found''), w)"
  | (renamed) x w1 where "find_ws (False, i) w = Some x"
      and "read_ws pf False i w = (Inr (view_workspace pf w x), w1)"
      and "updateWorkspace pf i u n w = (Inr (renamed n x w),
             enqueue_if (queueUp w ''audit.queue'') (rename_job i u x n)
               (forget_ws x (put_ws (renamed n x w) w1)))"
using inv
proof (cases rule: read_ws_cases [where b = False and k = i])
  case (found x w1)
  note keeps = read_ws_keeps [OF inv found(2)]
  then have rows: "ws_rows_ok pf w1" by (simp add: ws_inv_def)
  have x1: "find_ws (False, i) w1 = Some x"
    using found(1) keeps by (simp add: find_ws.simps)
  from found(1) have id: "workspace_id x = i" by (auto dest: find_ws_SomeD simp: ws_field_eval)
  have ren: "renamed n x w1 = renamed n x w" using keeps by (simp add: renamed_def)
  show thesis
  proof (rule that(2) [OF found(1,2)])
    show "updateWorkspace pf i u n w = (Inr (renamed n x w),
        enqueue_if (queueUp w ''audit.queue'') (rename_job i u x n)
          (forget_ws x (put_ws (renamed n x w) w1)))"
      using found(2) keeps id
      by (simp add: updateWorkspace_def find_is_read_ws prog_simps view_workspace_def
          save_workspace_eval [OF rows x1] ren invalidate_is_forget rename_job_def put_ws_def)
  qed
next
  case missing
  then show thesis
    by (intro that(1)) (simp_all add: updateWorkspace_def find_is_read_ws prog_simps)
qed

text \<open>
  A write of the rows of one workspace followed by the invalidation of its two keys keeps the
  cache coherent.
\<close>

lemma forget_ws_coherent:
  assumes rows: "ws_rows_ok pf w" "ws_rows_ok pf w'" and coh: "coherent (\<lambda>k. cache_get (ws_key k)) (load_ws pf) w"
    and x: "x \<in> set (workspaces w)"
    and same: "users w' = users w" "cache w' = cache w" "clock w' = clock w" "redisUp w' = redisUp w"
    and others: "\<And>y. workspace_id y \<noteq> workspace_id x \<Longrightarrow> y \<in> set (workspaces w') \<longleftrightarrow> y \<in> set (workspaces w)"
    and slug: "\<And>y. y \<in> set (workspaces w') \<Longrightarrow> workspace_id y = workspace_id x \<Longrightarrow> workspace_slug y = workspace_slug x"
  shows "ws_inv pf (forget_ws x w')"
proof -
  have "load_ws pf k w' = load_ws pf k w" if k: "k \<notin> set [(False, workspace_id x), (True, workspace_slug x)]" for k
  proof (cases k)
    case (Pair b i)
    have "y \<in> set (workspaces w') \<longleftrightarrow> y \<in> set (workspaces w)" if y: "ws_field b y = i" for y
    proof (cases "workspace_id y = workspace_id x")
      case True
      with k Pair y have b: "b" by (cases b) (auto simp: ws_field_eval)
      with k Pair y have "workspace_slug y \<noteq> workspace_slug x" by (auto simp: ws_field_eval)
      moreover have "workspace_slug y = workspace_slug x" if "y \<in> set (workspaces w)"
        using same_field_same_ws [OF rows(1) that x, of False] True by (simp add: ws_field_eval)
      ultimately show ?thesis using slug [OF _ True] by blast
    qed (rule others)
    with Pair show ?thesis
      using load_ws_eqI [OF find_ws_eqI [OF rows] same(1)] by blast
  qed
  moreover have "cache_get (ws_key k) w' = cache_get (ws_key k) w" for k
    by (rule redis_get_frame) (rule same)+
  ultimately have "coherent (\<lambda>k. cache_get (ws_key k)) (load_ws pf) (forget_ws x w')"
    unfolding forget_ws_def by (intro ws_cache.write_then_dels [OF coh])
  with rows(2) show ?thesis by (simp add: ws_inv_def ws_rows_ok_def)
qed

lemma put_ws_set:
  assumes "ws_rows_ok pf w" and "x \<in> set (workspaces w)" and "workspace_id x' = workspace_id x"
  shows "y \<in> set (workspaces (put_ws x' w)) \<longleftrightarrow>
    y = x' \<or> (y \<in> set (workspaces w) \<and> workspace_id y \<noteq> workspace_id x)"
  using assms(2,3) by (auto simp: put_ws_def set_update_rows intro!: image_eqI [of _ _ x])

lemma put_ws_rows_ok:
  assumes rows: "ws_rows_ok pf w" and x: "x \<in> set (workspaces w)"
    and x': "workspace_id x' = workspace_id x" "workspace_slug x' = workspace_slug x"
  shows "ws_rows_ok pf (put_ws x' w)"
proof -
  let ?up = "\<lambda>r. if workspace_id r = workspace_id x' then x' else r"
  have ids: "map workspace_id (workspaces (put_ws x' w)) = map workspace_id (workspaces w)"
    by (simp add: put_ws_def update_rows_def)
  have slugs: "map workspace_slug (workspaces (put_ws x' w)) = map workspace_slug (workspaces w)"
    using same_field_same_ws [OF rows x, of _ False, unfolded ws_field_eval] x'
    by (auto simp: put_ws_def update_rows_def dest: sym)
  have "draws (put_ws x' w) = draws w" by (simp add: put_ws_def)
  with rows ids slugs show ?thesis unfolding ws_rows_ok_def by argo
qed

lemma put_ws_members_ok:
  assumes rows: "ws_rows_ok pf w" and x: "x \<in> set (workspaces w)" and ok: "members_ok w"
    and x': "workspace_id x' = workspace_id x" "workspace_ownerId x' = workspace_ownerId x"
  shows "members_ok (forget_ws y (put_ws x' w))"
proof -
  have set: "z \<in> set (workspaces (put_ws x' w)) \<longleftrightarrow>
      z = x' \<or> (z \<in> set (workspaces w) \<and> workspace_id z \<noteq> workspace_id x)" for z
    by (rule put_ws_set [OF rows x x'(1)])
  have frame: "members (put_ws x' w) = members w" "users (put_ws x' w) = users w"
    by (simp_all add: put_ws_def)
  have ex: "workspace_exists i (put_ws x' w) \<longleftrightarrow> workspace_exists i w" for i
    unfolding workspace_exists_def Bex_def set using x x'(1) by metis
  have own: "\<exists>m \<in> set (members w). member_key m = (workspace_id z, workspace_ownerId z) \<and> member_role m = ''ADMIN''"
    if "z \<in> set (workspaces (put_ws x' w))" for z
  proof -
    from that set obtain z' where "z' \<in> set (workspaces w)" and "workspace_id z = workspace_id z'"
      and "workspace_ownerId z = workspace_ownerId z'" using x x' by metis
    with ok show ?thesis unfolding members_ok_def by metis
  qed
  have ue: "user_exists i (put_ws x' w) \<longleftrightarrow> user_exists i w" for i
    by (simp add: user_exists_def frame)
  from ok have "distinct (map member_key (members w))"
    and "\<forall>m \<in> set (members w). workspace_exists (member_workspaceId m) w \<and> user_exists (member_userId m) w"
    by (simp_all add: members_ok_def)
  then have "members_ok (put_ws x' w)"
    using own unfolding members_ok_def frame ex ue by blast
  then show ?thesis by (rule members_ok_cong) simp_all
qed

lemma preserves_updateWorkspace: "preserves (tenants_ok pf) (updateWorkspace pf i u n)"
proof (rule preservesI)
  fix w
  assume ok: "tenants_ok pf w"
  then have inv: "ws_inv pf w" by (simp add: tenants_ok_def)
  then show "tenants_ok pf (snd (updateWorkspace pf i u n w))"
  proof (cases rule: updateWorkspace_cases [where i = i and u = u and n = n])
    case missing
    with ok show ?thesis by simp
  next
    case (renamed x w1)
    let ?x = "renamed n x w" and ?w = "put_ws (renamed n x w) w1"
    note keeps = read_ws_keeps [OF inv renamed(2)]
    have rows: "ws_rows_ok pf w" and x: "x \<in> set (workspaces w1)"
      using inv renamed(1) keeps by (auto simp: ws_inv_def dest: find_ws_SomeD)
    have rows1: "ws_rows_ok pf w1" and coh1: "coherent (\<lambda>k. cache_get (ws_key k)) (load_ws pf) w1"
      using keeps(1) by (simp_all add: ws_inv_def)
    have set: "y \<in> set (workspaces ?w) \<longleftrightarrow> y = ?x \<or> (y \<in> set (workspaces w1) \<and> workspace_id y \<noteq> workspace_id x)" for y
      by (rule put_ws_set [OF rows1 x]) simp
    have "ws_inv pf (forget_ws x ?w)"
    proof (rule forget_ws_coherent [OF rows1 _ coh1 x])
      show "ws_rows_ok pf ?w" by (rule put_ws_rows_ok [OF rows1 x]) simp_all
    qed (use set in \<open>auto simp: put_ws_def\<close>)
    moreover have "members_ok w1" using ok keeps by (auto simp: tenants_ok_def intro: members_ok_cong)
    then have "members_ok (forget_ws x ?w)"
      by (rule put_ws_members_ok [OF rows1 x]) simp_all
    ultimately have "tenants_ok pf (forget_ws x ?w)" by (simp add: tenants_ok_def)
    then show ?thesis by (simp add: renamed(3) tenants_enqueue)
  qed
qed

subsection \<open>Delete\<close>

definition delete_job :: "string \<Rightarrow> string \<Rightarrow> workspace \<Rightarrow> job" where
  "delete_job i u x = audit_job ''WORKSPACE_DELETE'' (Some u)
     (JObj [(''workspaceId'', JStr i), (''slug'', JStr (workspace_slug x))])"

lemma cascade_workspace_frame [simp]:
  "users (cascade_workspace i w) = users w" "draws (cascade_workspace i w) = draws w"
  "cache (cascade_workspace i w) = cache w" "clock (cascade_workspace i w) = clock w"
  "redisUp (cascade_workspace i w) = redisUp w" "queueUp (cascade_workspace i w) = queueUp w"
  "jobs (cascade_workspace i w) = jobs w"
  "workspaces (cascade_workspace i w) = delete_rows (\<lambda>x. workspace_id x = i) (workspaces w)"
  "members (cascade_workspace i w) = delete_rows (\<lambda>m. member_workspaceId m = i) (members w)"
  "projects (cascade_workspace i w) = delete_rows (\<lambda>p. project_workspaceId p = i) (projects w)"
  by (simp_all add: cascade_workspace_def orphan_free_def Let_def)

lemma deleteWorkspace_cases [consumes 1, case_names missing deleted]:
  assumes inv: "ws_inv pf w"
  obtains (missing) "find_ws (False, i) w = None"
      and "deleteWorkspace pf i u w = (Inl (NotFoundException ''Workspace not found''), w)"
  | (deleted) x w1 where "find_ws (False, i) w = Some x"
      and "read_ws pf False i w = (Inr (view_workspace pf w x), w1)"
      and "deleteWorkspace pf i u w = (Inr (),
             enqueue_if (queueUp w ''audit.queue'') (delete_job i u x)
               (forget_ws x (cascade_workspace i w1)))"
  using inv
proof (cases rule: read_ws_cases [where b = False and k = i])
  case (found x w1)
  from found(1) have id: "workspace_id x = i" by (auto dest: find_ws_SomeD simp: ws_field_eval)
  show thesis
    by (rule that(2) [OF found(1,2)])
      (use found(2) read_ws_keeps [OF inv found(2)] id in
        \<open>simp add: deleteWorkspace_def find_is_read_ws prog_simps view_workspace_def
          invalidate_is_forget delete_job_def\<close>)
next
  case missing
  then show thesis
    by (intro that(1)) (simp_all add: deleteWorkspace_def find_is_read_ws prog_simps)
qed

lemma delete_rows_ok: "ws_rows_ok pf w \<Longrightarrow> ws_rows_ok pf (cascade_workspace i w)"
  by (auto simp: ws_rows_ok_def row_simps simp del: set_map simp add: set_map)

lemma delete_members_ok:
  assumes "members_ok w"
  shows "members_ok (cascade_workspace i w)"
proof -
  have "\<exists>m \<in> set (members (cascade_workspace i w)). member_key m = (workspace_id x, workspace_ownerId x) \<and>
      member_role m = ''ADMIN''" if x: "x \<in> set (workspaces (cascade_workspace i w))" for x
  proof -
    from x assms obtain m where "m \<in> set (members w)" and m: "member_key m = (workspace_id x, workspace_ownerId x)"
      "member_role m = ''ADMIN''"
      by (auto simp: members_ok_def row_simps)
    moreover from x m have "member_workspaceId m \<noteq> i" by (simp add: member_key_def row_simps)
    ultimately show ?thesis by (auto simp: row_simps)
  qed
  moreover have "workspace_exists (member_workspaceId m) (cascade_workspace i w)"
    if "m \<in> set (members (cascade_workspace i w))" for m
    using that assms by (auto simp: members_ok_def row_simps workspace_exists_def; metis)
  ultimately show ?thesis
    using assms by (simp add: members_ok_def row_simps user_exists_def)
qed

lemma preserves_deleteWorkspace: "preserves (tenants_ok pf) (deleteWorkspace pf i u)"
proof (rule preservesI)
  fix w
  assume ok: "tenants_ok pf w"
  then have inv: "ws_inv pf w" by (simp add: tenants_ok_def)
  then show "tenants_ok pf (snd (deleteWorkspace pf i u w))"
  proof (cases rule: deleteWorkspace_cases [where i = i and u = u])
    case missing
    with ok show ?thesis by simp
  next
    case (deleted x w1)
    let ?w = "cascade_workspace i w1"
    note keeps = read_ws_keeps [OF inv deleted(2)]
    have x: "x \<in> set (workspaces w1)" and id: "workspace_id x = i"
      using find_ws_SomeD [OF deleted(1)] keeps by (auto simp: ws_field_eval)
    have rows1: "ws_rows_ok pf w1" and coh1: "coherent (\<lambda>k. cache_get (ws_key k)) (load_ws pf) w1"
      using keeps(1) by (simp_all add: ws_inv_def)
    have "ws_inv pf (forget_ws x ?w)"
      by (rule forget_ws_coherent [OF rows1 delete_rows_ok [OF rows1] coh1 x]) (simp_all add: row_simps id)
    moreover have mem: "members_ok w1" using ok keeps by (auto simp: tenants_ok_def intro: members_ok_cong)
    have "members_ok (forget_ws x ?w)"
      by (rule members_ok_cong [OF delete_members_ok [OF mem]]) simp_all
    ultimately have "tenants_ok pf (forget_ws x ?w)" by (simp add: tenants_ok_def)
    then show ?thesis by (simp add: deleted(3) tenants_enqueue)
  qed
qed

subsection \<open>Invite\<close>

lemma preserves_insert_member:
  assumes inv: "tenants_ok pf w" and new: "find_member pf w i u = None"
    and "insert_member i u r w = (res, w')"
  shows "tenants_ok pf w'"
proof (cases "workspace_exists i w \<and> user_exists u w")
  case False
  with assms show ?thesis by (simp add: insert_member_def prog_simps split: if_splits)
next
  case True
  let ?m = "\<lparr>member_workspaceId = i, member_userId = u, member_role = r,
      member_createdAt = clock w, member_updatedAt = clock w\<rparr>"
  from True assms(3) have w': "w' = w\<lparr>members := members w @ [?m]\<rparr>"
    by (simp add: insert_member_def prog_simps Let_def)
  have get: "cache_get k w' = cache_get k w" for k
    by (rule redis_get_frame) (simp_all add: w')
  have "ws_inv pf w'"
  proof (rule ws_inv_cong [of pf w])
    show "ws_inv pf w" using inv by (simp add: tenants_ok_def)
    show "cache_get (ws_key k) w = Some v" if "cache_get (ws_key k) w' = Some v" for k v
      using that by (simp only: get)
  qed (simp_all add: w')
  moreover have "members_ok w'"
    using inv new True unfolding tenants_ok_def members_ok_def find_member_None
    by (auto simp: w' member_key_def workspace_exists_def user_exists_def)
  ultimately show ?thesis by (simp add: tenants_ok_def)
qed

lemma preserves_new_member:
  assumes rest: "\<And>m. preserves (tenants_ok pf) (k m)"
  shows "preserves (tenants_ok pf)
    (await (gets (\<lambda>w. find_member pf w i u)) (\<lambda>existing.
     if existing \<noteq> None then throw e else await (insert_member i u r) k))"
proof (rule preservesI)
  fix w
  assume ok: "tenants_ok pf w"
  obtain res w' where ins: "insert_member i u r w = (res, w')" by fastforce
  show "tenants_ok pf (snd (await (gets (\<lambda>w. find_member pf w i u)) (\<lambda>existing.
      if existing \<noteq> None then throw e else await (insert_member i u r) k) w))"
  proof (cases "find_member pf w i u")
    case None
    then have "tenants_ok pf w'" by (rule preserves_insert_member [OF ok _ ins])
    with None ins show ?thesis
      by (cases res) (simp_all add: prog_simps preservesD [OF rest])
  qed (use ok in \<open>simp add: prog_simps\<close>)
qed

lemma within_findUserById: "within messaging_frame (findUserById pf i)"
  unfolding findUserById_def by (intro msg.within_intros)

lemma within_findByEmail: "within messaging_frame (findByEmail pf i)"
  unfolding findByEmail_def by (intro msg.within_intros)

lemma within_announce_invite: "within messaging_frame (announce_invite pf i performer email r user x m)"
  unfolding announce_invite_def
  by (intro msg.within_intros within_findUserById within_messaging)

lemma preserves_inviteMember: "preserves (tenants_ok pf) (inviteMember pf i performer email r)"
  unfolding inviteMember_def find_is_read_ws split_def
  by (intro preserves_await preserves_read_ws preserves_case_option preserves_new_member
      preserves_tenants_messaging within_findByEmail within_announce_invite msg.within_throw)

lemma preserves_workspace_reads:
  "preserves (tenants_ok pf) (getMembers pf i)" "preserves (tenants_ok pf) (getUserWorkspaces pf u)"
  by (auto simp: getMembers_def getUserWorkspaces_def intro: hoare_gets)

section \<open>Deleting a workspace whose references stay inside it\<close>

definition tasks_local :: "world \<Rightarrow> bool" where
  "tasks_local w \<longleftrightarrow>
     (\<forall>t \<in> set (tasks w). \<forall>p \<in> set (projects w).
        task_projectId t = project_id p \<longrightarrow> task_workspaceId t = project_workspaceId p) \<and>
     (\<forall>t \<in> set (tasks w). \<forall>p \<in> set (tasks w).
        task_parentTaskId t = Some (task_id p) \<longrightarrow> task_workspaceId t = task_workspaceId p)"

lemma cascade_tasks_closed:
  assumes "\<And>t g. t \<in> set ts \<Longrightarrow> g \<in> set ts \<Longrightarrow> dead g \<Longrightarrow> task_parentTaskId t = Some (task_id g) \<Longrightarrow> dead t"
  shows "cascade_tasks dead ts = filter (\<lambda>t. \<not> dead t) ts"
proof (cases "filter dead ts = []")
  case True
  then show ?thesis by (subst cascade_tasks.simps) (simp add: Let_def)
next
  case False
  let ?kept = "filter (\<lambda>t. \<not> dead t) ts"
  let ?child = "\<lambda>t. \<exists>g \<in> set (filter dead ts). task_parentTaskId t = Some (task_id g)"
  have none: "filter ?child ?kept = []" using assms by (auto simp: filter_empty_conv)
  then have "cascade_tasks ?child ?kept = filter (\<lambda>t. \<not> ?child t) ?kept"
    by (subst cascade_tasks.simps) (simp only: Let_def refl if_True)
  also have "\<dots> = ?kept" by (rule filter_True) (use none in \<open>simp only: filter_empty_conv; blast\<close>)
  finally show ?thesis using False by (subst cascade_tasks.simps) (simp add: Let_def)
qed

lemma cascade_workspace_tasks:
  assumes "tasks_local w"
  shows "tasks (cascade_workspace i w) = filter (\<lambda>t. task_workspaceId t \<noteq> i) (tasks w)"
proof -
  let ?dead = "\<lambda>t. task_workspaceId t = i \<or>
      task_projectId t \<in> set (map project_id (filter (\<lambda>p. project_workspaceId p = i) (projects w)))"
  have dead: "?dead t \<longleftrightarrow> task_workspaceId t = i" if "t \<in> set (tasks w)" for t
    using that assms by (auto simp: tasks_local_def)
  have "cascade_tasks ?dead (tasks w) = filter (\<lambda>t. \<not> ?dead t) (tasks w)"
  proof (rule cascade_tasks_closed)
    fix t g
    assume t: "t \<in> set (tasks w)" and g: "g \<in> set (tasks w)" "?dead g"
      and par: "task_parentTaskId t = Some (task_id g)"
    from assms t g(1) par have "task_workspaceId t = task_workspaceId g" unfolding tasks_local_def by blast
    with dead g t show "?dead t" by blast
  qed
  also have "\<dots> = filter (\<lambda>t. task_workspaceId t \<noteq> i) (tasks w)"
    by (rule filter_cong) (simp_all only: dead)
  finally show ?thesis by (simp add: cascade_workspace_def orphan_free_def Let_def)
qed

end
