(* ===== verification/WorkspaceTheorems.thy ===== *)
theory WorkspaceTheorems
  imports WorkspaceLaws Demo
begin

text \<open>
  The properties of tenants: their slugs, the operations on them over any sequence of requests,
  their deletion and the dashboard's numbers.
\<close>

section \<open>The world of the witnesses\<close>

definition demo_tenants :: world where
  "demo_tenants = demo_world\<lparr>
     workspaces := [(demo_workspace (demo_uuid 0) ''one''), (demo_workspace (demo_uuid 1) ''two'')],
     members := [demo_member (demo_uuid 0) ''ann'' ''ADMIN'', demo_member (demo_uuid 0) ''bob'' ''MEMBER'',
                 demo_member (demo_uuid 1) ''ann'' ''ADMIN''],
     projects := [demo_project ''p1'' (demo_uuid 0), demo_project ''p2'' (demo_uuid 1)],
     tasks := [(demo_task 0 ''first'')\<lparr>task_workspaceId := demo_uuid 0\<rparr>,
               (demo_task 1 ''second'')\<lparr>task_workspaceId := demo_uuid 1, task_projectId := ''p2''\<rparr>]\<rparr>"

lemma demo_tenants_ok: "tenants_ok demo_pf demo_tenants"
proof -
  have "ws_rows_ok demo_pf demo_tenants"
    by (auto simp: ws_rows_ok_def demo_tenants_def demo_defs demo_uuid_def image_iff
        intro: bexI [of _ 0] bexI [of _ 1])
  then have "ws_inv demo_pf demo_tenants"
    by (simp add: ws_inv_def coherent_def cache_get_def redis_get_def demo_tenants_def demo_defs)
  moreover have "members_ok demo_tenants"
    by (simp add: members_ok_def member_key_def workspace_exists_def user_exists_def demo_tenants_def
        demo_defs demo_uuid_def)
  ultimately show ?thesis by (simp add: tenants_ok_def)
qed

section \<open>Slugs\<close>

text \<open>
  The slug generated from a workspace name consists of lower-case letters and digits in groups
  joined by single dashes; it keeps the letters and digits of the name in order (lower-cased), is
  left alone when generated again, and is empty exactly when the name has no letter or digit.
\<close>

theorem generated_slug_is_wellformed:
  "slug_word (generate_slug name) \<and> generate_slug (generate_slug name) = generate_slug name \<and>
   filter is_slug_char (generate_slug name) = filter is_slug_char (map to_lower name) \<and>
   (generate_slug name = [] \<longleftrightarrow> filter is_slug_char (map to_lower name) = [])"
  using generate_slug_word [of name] generate_slug_keeps [of name]
  by (simp add: generate_slug_id slug_word_empty)

section \<open>Tenants over time\<close>

datatype ws_op =
    WsCreate string string "string option"
  | WsFind string
  | WsFindSlug string
  | WsUpdate string string string
  | WsDelete string string
  | WsInvite string string string string

fun run_ws :: "platform \<Rightarrow> ws_op \<Rightarrow> world \<Rightarrow> world" where
  "run_ws pf (WsCreate u name slug) w = snd (createWorkspace pf u name slug w)"
| "run_ws pf (WsFind i) w = snd (findWorkspaceById pf i w)"
| "run_ws pf (WsFindSlug slug) w = snd (findWorkspaceBySlug pf slug w)"
| "run_ws pf (WsUpdate i u name) w = snd (updateWorkspace pf i u name w)"
| "run_ws pf (WsDelete i u) w = snd (deleteWorkspace pf i u w)"
| "run_ws pf (WsInvite i u email r) w = snd (inviteMember pf i u email r w)"

inductive ws_step :: "platform \<Rightarrow> world \<Rightarrow> world \<Rightarrow> bool" for pf where
  request: "ws_step pf w (run_ws pf op w)"
| time: "0 \<le> dt \<Longrightarrow> ws_step pf w (w\<lparr>clock := clock w + dt\<rparr>)"
| evict: "ws_step pf w (w\<lparr>cache := (cache w)(k := None)\<rparr>)"

inductive ws_reachable :: "platform \<Rightarrow> world \<Rightarrow> world \<Rightarrow> bool" for pf where
  start: "ws_reachable pf w w"
| then_step: "ws_reachable pf w w' \<Longrightarrow> ws_step pf w' w'' \<Longrightarrow> ws_reachable pf w w''"

lemma run_ws_ok:
  assumes "inj (pf_uuid pf)" and "tenants_ok pf w"
  shows "tenants_ok pf (run_ws pf op w)"
  using assms
  by (cases op) (simp_all add: find_is_read_ws preservesD [OF preserves_createWorkspace]
      preservesD [OF preserves_read_ws] preservesD [OF preserves_updateWorkspace]
      preservesD [OF preserves_deleteWorkspace] preservesD [OF preserves_inviteMember])

lemma tenants_cong:
  assumes "tenants_ok pf w" and "users w' = users w" "workspaces w' = workspaces w"
    and "members w' = members w" "draws w' = draws w"
    and "\<And>k v. cache_get k w' = Some v \<Longrightarrow> cache_get k w = Some v"
  shows "tenants_ok pf w'"
  unfolding tenants_ok_def
proof
  show "ws_inv pf w'"
    by (rule ws_inv_cong [OF _ assms(2,3)])
      (use assms(1) in \<open>simp add: tenants_ok_def\<close>, simp add: assms(5), rule assms(6))
  show "members_ok w'"
    by (rule members_ok_cong [OF _ assms(2-4)]) (use assms(1) in \<open>simp add: tenants_ok_def\<close>)
qed

lemma ws_step_ok:
  assumes inj: "inj (pf_uuid pf)" and ok: "tenants_ok pf w" and step: "ws_step pf w w'"
  shows "tenants_ok pf w'"
  using step
proof (cases rule: ws_step.cases)
  case (request op)
  with inj ok show ?thesis by (simp add: run_ws_ok)
next
  case (time dt)
  show ?thesis unfolding time(1)
    by (rule tenants_cong [OF ok]) (simp, simp, simp, simp, rule later_cache_get [OF time(2)])
next
  case (evict k)
  show ?thesis unfolding evict
    by (rule tenants_cong [OF ok]) (simp, simp, simp, simp, rule evict_cache_get)
qed

lemma ws_reachable_ok:
  assumes "ws_reachable pf w w'" and "inj (pf_uuid pf)" and "tenants_ok pf w"
  shows "tenants_ok pf w'"
  using assms by (induction) (auto intro: ws_step_ok)

text \<open>
  C16: whatever sequence of workspace requests runs, in whatever order, ids and slugs stay unique,
  nobody is a member of a workspace twice, every membership joins an existing workspace and an
  existing user, and every workspace keeps its owner as an administrator.
\<close>

theorem tenants_stay_wellformed:
  assumes "ws_reachable pf w w'" and "inj (pf_uuid pf)" and "tenants_ok pf w"
  shows "distinct (map workspace_id (workspaces w')) \<and> distinct (map workspace_slug (workspaces w')) \<and>
    distinct (map member_key (members w')) \<and>
    (\<forall>m \<in> set (members w'). workspace_exists (member_workspaceId m) w' \<and> user_exists (member_userId m) w') \<and>
    (\<forall>x \<in> set (workspaces w'). \<exists>m \<in> set (members w').
       member_workspaceId m = workspace_id x \<and> member_userId m = workspace_ownerId x \<and>
       member_role m = ''ADMIN'')"
proof -
  from ws_reachable_ok [OF assms] have "ws_rows_ok pf w'" and "members_ok w'"
    by (simp_all add: tenants_ok_def ws_inv_def)
  then show ?thesis by (auto simp: ws_rows_ok_def members_ok_def member_key_def)
qed

theorem tenants_stay_wellformed_witness:
  "distinct (map workspace_slug (workspaces (run_ws demo_pf (WsCreate ''bob'' ''Three'' None) demo_tenants)))"
  using tenants_stay_wellformed [OF ws_reachable.then_step [OF ws_reachable.start ws_step.request]
      demo_uuid_inj demo_tenants_ok]
  by blast

text \<open>
  C24: after any sequence of workspace requests, passing time and evictions, reading a workspace by
  id or by slug answers what the tables hold, the owner joined, whether the answer comes from the
  cache or not.
\<close>

theorem workspace_reads_answer_the_table:
  assumes "ws_reachable pf w w'" and "inj (pf_uuid pf)" and "tenants_ok pf w"
  shows "fst (findWorkspaceById pf i w') =
      (case find (\<lambda>x. workspace_id x = i) (workspaces w') of
         None \<Rightarrow> Inl (NotFoundException ''Workspace not found'')
       | Some x \<Rightarrow> Inr (x, find_user pf (workspace_ownerId x) w')) \<and>
    fst (findWorkspaceBySlug pf slug w') =
      (case find (\<lambda>x. workspace_slug x = slug) (workspaces w') of
         None \<Rightarrow> Inl (NotFoundException ''Workspace not found'')
       | Some x \<Rightarrow> Inr (x, find_user pf (workspace_ownerId x) w'))"
proof -
  have inv: "ws_inv pf w'" using ws_reachable_ok [OF assms] by (simp add: tenants_ok_def)
  have "fst (read_ws pf b k w') =
      (case find_ws (b, k) w' of
         None \<Rightarrow> Inl (NotFoundException ''Workspace not found'')
       | Some x \<Rightarrow> Inr (x, find_user pf (workspace_ownerId x) w'))" for b k
    using inv by (cases rule: read_ws_cases [where b = b and k = k]) (simp_all add: view_workspace_def)
  from this [of False i] this [of True slug] show ?thesis
    by (simp only: find_is_read_ws find_ws.simps ws_field_eval)
qed

theorem workspace_reads_answer_the_table_witness:
  "fst (findWorkspaceBySlug demo_pf ''two'' demo_tenants) =
     Inr (demo_workspace (demo_uuid 1) ''two'', Some (hide_password (demo_user ''ann'' ''ann@x'')))"
  using workspace_reads_answer_the_table [OF ws_reachable.start demo_uuid_inj demo_tenants_ok,
      of "''x''" "''two''"]
  by (simp add: demo_tenants_def demo_defs find_user_def find_one_def Let_def)

section \<open>Creation and deletion\<close>





section \<open>Dashboard\<close>







end
