(* ===== verification/Projects.thy ===== *)
theory Projects
  imports CacheService Messaging
begin

text \<open>
  \<open>src/src/modules/project/project.service.ts\<close>: the projects of a workspace. The list of
  active projects is cached per workspace and invalidated by every change; a project itself is
  always read from the table; deleting one cascades to its tasks.
\<close>

section \<open>The project repository\<close>

definition projectListKey :: "string \<Rightarrow> string" where
  "projectListKey workspaceId = ''workspace:'' @ workspaceId @ '':projects''"

definition insert_project :: "platform \<Rightarrow> project \<Rightarrow> project svc" where
  "insert_project pf p =
     await (gets (workspace_exists (project_workspaceId p))) (\<lambda>ok.
     if \<not> ok then throw (QueryFailedError ''projects: foreign key'')
     else
       await (gen_uuid pf) (\<lambda>i.
       await new_date (\<lambda>now.
         let p' = p\<lparr>project_id := i, project_createdAt := now, project_updatedAt := now\<rparr>
         in await (modify (\<lambda>w. w\<lparr>projects := projects w @ [p']\<rparr>)) (\<lambda>_. ret p'))))"

text \<open>
  \<open>save\<close> of a project read before: nothing when no column differs, else an update of its row;
  an insert when the row is gone.
\<close>

definition save_project :: "project \<Rightarrow> project svc" where
  "save_project p =
     await (gets (\<lambda>w. find (\<lambda>r. project_id r = project_id p) (projects w))) (\<lambda>found.
     await new_date (\<lambda>now.
       let p' = p\<lparr>project_updatedAt := now\<rparr>
       in (case found of
             Some row \<Rightarrow>
               if p\<lparr>project_updatedAt := project_updatedAt row\<rparr> = row then ret p
               else
                 await (modify (\<lambda>w. w\<lparr>projects :=
                          update_rows (\<lambda>r. project_id r = project_id p) (\<lambda>_. p') (projects w)\<rparr>))
                   (\<lambda>_. ret p')
           | None \<Rightarrow>
               await (gets (workspace_exists (project_workspaceId p))) (\<lambda>ok.
               if \<not> ok then throw (QueryFailedError ''projects: foreign key'')
               else await (modify (\<lambda>w. w\<lparr>projects := projects w @ [p']\<rparr>)) (\<lambda>_. ret p')))))"

section \<open>Operations\<close>

definition createProject ::
  "platform \<Rightarrow> string \<Rightarrow> string \<Rightarrow> string \<Rightarrow> string option \<Rightarrow> project svc" where
  "createProject pf workspaceId userId name description =
     await (insert_project pf
       \<lparr>project_id = '''', project_workspaceId = workspaceId, project_name = name,
        project_description = description, project_status = ''ACTIVE'',
        project_createdAt = 0, project_updatedAt = 0\<rparr>) (\<lambda>saved.
     await (cacheDel (projectListKey workspaceId)) (\<lambda>_.
     await (auditLog ''PROJECT_CREATE'' (Some userId)
              (JObj [(''projectId'', JStr (project_id saved)), (''workspaceId'', JStr workspaceId)])) (\<lambda>_.
     await (activityLog workspaceId ''PROJECT'' (project_id saved) ''PROJECT_CREATED'' userId) (\<lambda>_.
     ret saved))))"

definition active_projects :: "string \<Rightarrow> world \<Rightarrow> project list" where
  "active_projects workspaceId w =
     order_desc project_createdAt
       (filter (\<lambda>p. project_workspaceId p = workspaceId \<and> project_status p = ''ACTIVE'') (projects w))"

definition getProjects :: "string \<Rightarrow> project list svc" where
  "getProjects workspaceId =
     await (cacheGet (projectListKey workspaceId)) (\<lambda>cached.
     case cached of
       Some (CProjects ps) \<Rightarrow> ret ps
     | _ \<Rightarrow>
         await (gets (active_projects workspaceId)) (\<lambda>ps.
         await (cacheSet (projectListKey workspaceId) (CProjects ps) 300) (\<lambda>_.
         ret ps)))"

definition db_project :: "platform \<Rightarrow> string \<Rightarrow> string \<Rightarrow> world \<Rightarrow> project option" where
  "db_project pf i workspaceId w =
     find_one (pf_pick pf) (\<lambda>p. project_id p = i \<and> project_workspaceId p = workspaceId) (projects w)"

definition findProjectById :: "platform \<Rightarrow> string \<Rightarrow> string \<Rightarrow> project svc" where
  "findProjectById pf i workspaceId =
     await (gets (db_project pf i workspaceId)) (\<lambda>found.
     case found of
       None \<Rightarrow> throw (NotFoundException ''Project not found in this workspace'')
     | Some p \<Rightarrow> ret p)"

text \<open>The three assignments; \<open>None\<close> when a column that cannot be null is set to null.\<close>

definition edit_project :: "string js \<Rightarrow> string js \<Rightarrow> string js \<Rightarrow> project \<Rightarrow> project option" where
  "edit_project name description status p =
     (case (set_required name (project_name p), set_required status (project_status p)) of
        (Some n, Some s) \<Rightarrow>
          Some (p\<lparr>project_name := n,
                  project_description := nullable description (project_description p),
                  project_status := s\<rparr>)
      | _ \<Rightarrow> None)"

definition json_project :: "project \<Rightarrow> json" where
  "json_project p =
     JObj [(''name'', JStr (project_name p)), (''description'', json_opt JStr (project_description p)),
           (''status'', JStr (project_status p))]"

definition updateProject ::
  "platform \<Rightarrow> string \<Rightarrow> string \<Rightarrow> string \<Rightarrow> string js \<Rightarrow> string js \<Rightarrow> string js \<Rightarrow> project svc" where
  "updateProject pf i workspaceId userId name description status =
     await (findProjectById pf i workspaceId) (\<lambda>p.
     case edit_project name description status p of
       None \<Rightarrow> throw (QueryFailedError ''projects: null value'')
     | Some p' \<Rightarrow>
         await (save_project p') (\<lambda>saved.
         await (cacheDel (projectListKey workspaceId)) (\<lambda>_.
         await (auditLog ''PROJECT_UPDATE'' (Some userId)
                  (JObj [(''projectId'', JStr i), (''workspaceId'', JStr workspaceId),
                         (''previous'', json_project p), (''new'', json_project p')])) (\<lambda>_.
         await (activityLog workspaceId ''PROJECT'' i ''PROJECT_UPDATED'' userId) (\<lambda>_.
         ret saved)))))"

definition deleteProject :: "platform \<Rightarrow> string \<Rightarrow> string \<Rightarrow> string \<Rightarrow> unit svc" where
  "deleteProject pf i workspaceId userId =
     await (findProjectById pf i workspaceId) (\<lambda>p.
     await (modify (cascade_project (project_id p))) (\<lambda>_.
     await (cacheDel (projectListKey workspaceId)) (\<lambda>_.
     await (auditLog ''PROJECT_DELETE'' (Some userId)
              (JObj [(''projectId'', JStr i), (''workspaceId'', JStr workspaceId)])) (\<lambda>_.
     activityLog workspaceId ''PROJECT'' i ''PROJECT_DELETED'' userId))))"

section \<open>The list cache\<close>

lemma projectListKey_inj [simp]: "projectListKey i = projectListKey j \<longleftrightarrow> i = j"
  by (simp add: projectListKey_def)

definition load_projects :: "string \<Rightarrow> world \<Rightarrow> cache_value option" where
  "load_projects i w = Some (CProjects (active_projects i w))"

interpretation pj_cache:
  cached_store "\<lambda>i. cache_get (projectListKey i)" "\<lambda>i v. cache_set (projectListKey i) v 300"
    "\<lambda>i. cache_del (projectListKey i)" load_projects
proof
  fix i j :: string and v v' :: cache_value and w :: world
  show "cache_get (projectListKey i) (cache_set (projectListKey i) v 300 w) = Some v' \<Longrightarrow> v' = v"
    by (rule cache_get_set)
  show "j \<noteq> i \<Longrightarrow> cache_get (projectListKey j) (cache_set (projectListKey i) v 300 w) =
      cache_get (projectListKey j) w"
    by (simp add: cache_get_set_other)
  show "cache_get (projectListKey i) (cache_del (projectListKey i) w) = None"
    by (rule cache_get_del)
  show "j \<noteq> i \<Longrightarrow> cache_get (projectListKey j) (cache_del (projectListKey i) w) =
      cache_get (projectListKey j) w"
    by (simp add: cache_get_del_other)
  show "load_projects j (cache_set (projectListKey i) v 300 w) = load_projects j w"
    and "load_projects j (cache_del (projectListKey i) w) = load_projects j w"
    by (simp_all add: load_projects_def active_projects_def)
qed

definition projects_ok :: "platform \<Rightarrow> world \<Rightarrow> bool" where
  "projects_ok pf w \<longleftrightarrow>
     distinct (map project_id (projects w)) \<and>
     set (map project_id (projects w)) \<subseteq> pf_uuid pf ` {..<draws w} \<and>
     coherent (\<lambda>i. cache_get (projectListKey i)) load_projects w"

text \<open>A read is the cache-aside read of the contract.\<close>

lemma getProjects_eval:
  assumes "projects_ok pf w"
  obtains w1 where "getProjects i w = (Inr (active_projects i w), w1)"
    and "projects_ok pf w1" and "projects w1 = projects w" and "tasks w1 = tasks w"
proof -
  from assms have coh: "coherent (\<lambda>i. cache_get (projectListKey i)) load_projects w"
    by (simp add: projects_ok_def)
  let ?read = "cache_aside (\<lambda>i. cache_get (projectListKey i)) (\<lambda>i v. cache_set (projectListKey i) v 300)
      load_projects i w"
  have "getProjects i w = (Inr (active_projects i w), snd ?read)"
    using coh unfolding coherent_def
    by (auto simp: getProjects_def prog_simps cache_aside_def load_projects_def split: option.splits
        cache_value.splits)
  moreover have same: "projects (snd ?read) = projects w" "tasks (snd ?read) = tasks w" "draws (snd ?read) = draws w"
    by (auto simp: cache_aside_def split: option.splits)
  moreover from assms have "projects_ok pf (snd ?read)"
    using pj_cache.read_keeps_coherent [OF coh, of i] by (simp add: projects_ok_def same)
  ultimately show thesis using that by blast
qed

text \<open>
  A write to the projects of one workspace followed by the invalidation of its list.
\<close>

lemma projects_ok_write:
  assumes ok: "projects_ok pf w" and same: "cache w' = cache w" "clock w' = clock w" "redisUp w' = redisUp w"
    and ids: "distinct (map project_id (projects w'))"
      "set (map project_id (projects w')) \<subseteq> pf_uuid pf ` {..<draws w'}"
    and others: "\<And>j. j \<noteq> i \<Longrightarrow>
      filter (\<lambda>p. project_workspaceId p = j) (projects w') = filter (\<lambda>p. project_workspaceId p = j) (projects w)"
  shows "projects_ok pf (cache_del (projectListKey i) w')"
proof -
  have filt: "filter (\<lambda>p. project_workspaceId p = j \<and> project_status p = ''ACTIVE'') ps =
      filter (\<lambda>p. project_status p = ''ACTIVE'') (filter (\<lambda>p. project_workspaceId p = j) ps)" for j ps
    by (simp add: conj_commute)
  have "load_projects j w' = load_projects j w" if "j \<noteq> i" for j
    unfolding load_projects_def active_projects_def filt others [OF that] ..
  moreover have "cache_get (projectListKey j) w' = cache_get (projectListKey j) w" for j
    by (rule redis_get_frame) (rule same)+
  ultimately have "coherent (\<lambda>i. cache_get (projectListKey i)) load_projects (cache_del (projectListKey i) w')"
    using ok by (intro pj_cache.write_then_del) (simp_all add: projects_ok_def)
  with ids show ?thesis by (simp add: projects_ok_def)
qed

lemma projects_ok_cong:
  assumes ok: "projects_ok pf w" and same: "projects w' = projects w" "draws w \<le> draws w'"
    and get: "\<And>k v. cache_get k w' = Some v \<Longrightarrow> cache_get k w = Some v"
  shows "projects_ok pf w'"
proof -
  have "pf_uuid pf ` {..<draws w} \<subseteq> pf_uuid pf ` {..<draws w'}" using same(2) by auto
  with ok have "set (map project_id (projects w')) \<subseteq> pf_uuid pf ` {..<draws w'}"
    unfolding projects_ok_def same(1) by blast
  moreover have load: "load_projects j w' = load_projects j w" for j
    by (simp add: load_projects_def active_projects_def same(1))
  have "coherent (\<lambda>i. cache_get (projectListKey i)) load_projects w'"
    using ok get unfolding projects_ok_def coherent_def load by blast
  ultimately show ?thesis using ok by (simp add: projects_ok_def same(1))
qed

lemma projects_messaging: "projects_ok pf w \<Longrightarrow> messaging_frame w w' \<Longrightarrow> projects_ok pf w'"
proof (rule projects_ok_cong)
  assume fr: "messaging_frame w w'"
  show "projects w' = projects w" "draws w \<le> draws w'" using messaging_frameD [OF fr] by simp_all
  have "cache_get k w' = cache_get k w" for k
    by (rule redis_get_frame) (use messaging_frameD [OF fr] in simp_all)
  then show "cache_get k w' = Some v \<Longrightarrow> cache_get k w = Some v" for k v by simp
qed

lemma projects_enqueue: "projects_ok pf w \<Longrightarrow> projects_ok pf (enqueue_if b j w)"
  by (erule projects_messaging) (rule enqueue_if_messaging)

section \<open>What each request does\<close>

definition created_project :: "platform \<Rightarrow> string \<Rightarrow> string \<Rightarrow> string option \<Rightarrow> world \<Rightarrow> project" where
  "created_project pf workspaceId name description w =
     \<lparr>project_id = pf_uuid pf (draws w), project_workspaceId = workspaceId, project_name = name,
      project_description = description, project_status = ''ACTIVE'',
      project_createdAt = clock w, project_updatedAt = clock w\<rparr>"

definition touched :: "project \<Rightarrow> project \<Rightarrow> int \<Rightarrow> project" where
  "touched p' p now = (if p' = p then p else p'\<lparr>project_updatedAt := now\<rparr>)"

lemma db_project_iff:
  assumes "distinct (map project_id (projects w))"
  shows "db_project pf i ws w = Some p \<longleftrightarrow>
    p \<in> set (projects w) \<and> project_id p = i \<and> project_workspaceId p = ws"
proof
  assume "db_project pf i ws w = Some p"
  then show "p \<in> set (projects w) \<and> project_id p = i \<and> project_workspaceId p = ws"
    unfolding db_project_def by (auto dest: fo.look_SomeD)
next
  assume p: "p \<in> set (projects w) \<and> project_id p = i \<and> project_workspaceId p = ws"
  then show "db_project pf i ws w = Some p"
    unfolding db_project_def by (intro fo.look_by_key [OF assms]) auto
qed

lemma edit_project_frame:
  "edit_project n d s p = Some p' \<Longrightarrow> project_id p' = project_id p \<and>
   project_workspaceId p' = project_workspaceId p \<and> project_updatedAt p' = project_updatedAt p"
  by (auto simp: edit_project_def split: option.splits)

lemma save_project_eval:
  assumes dist: "distinct (map project_id (projects w))" and p: "p \<in> set (projects w)"
    and p': "project_id p' = project_id p" "project_updatedAt p' = project_updatedAt p"
  shows "save_project p' w = (Inr (touched p' p (clock w)),
    w\<lparr>projects := map (\<lambda>r. if project_id r = project_id p then touched p' p (clock w) else r) (projects w)\<rparr>)"
proof -
  have uniq: "r = p" if "r \<in> set (projects w)" "project_id r = project_id p" for r
    using dist that p unfolding distinct_map by (auto dest: inj_onD)
  have found: "find (\<lambda>r. project_id r = project_id p) (projects w) = Some p"
  proof (cases "find (\<lambda>r. project_id r = project_id p) (projects w)")
    case None
    with p show ?thesis by (auto simp: find_None_iff)
  next
    case (Some r)
    then have "r \<in> set (projects w)" "project_id r = project_id p" by (auto simp: find_Some_iff)
    with uniq Some show ?thesis by simp
  qed
  have same: "p'\<lparr>project_updatedAt := project_updatedAt p\<rparr> = p'" by (simp add: p'(2) [symmetric])
  show ?thesis
  proof (cases "p' = p")
    case True
    have t: "touched p' p (clock w) = p" by (simp add: touched_def True)
    have "map (\<lambda>r. if project_id r = project_id p then p else r) (projects w) = projects w"
      by (rule map_idI) (use uniq in auto)
    with True found show ?thesis
      unfolding t by (simp add: save_project_def prog_simps Let_def)
  next
    case False
    then have "p'\<lparr>project_updatedAt := project_updatedAt p\<rparr> \<noteq> p" unfolding same .
    with False found p'(1) show ?thesis
      by (simp add: save_project_def prog_simps touched_def Let_def update_rows_def)
  qed
qed

definition put_project :: "project \<Rightarrow> world \<Rightarrow> world" where
  "put_project p w =
     w\<lparr>projects := map (\<lambda>r. if project_id r = project_id p then p else r) (projects w)\<rparr>"

lemma cascade_project_frame [simp]:
  "users (cascade_project i w) = users w" "draws (cascade_project i w) = draws w"
  "cache (cascade_project i w) = cache w" "clock (cascade_project i w) = clock w"
  "redisUp (cascade_project i w) = redisUp w" "queueUp (cascade_project i w) = queueUp w"
  "jobs (cascade_project i w) = jobs w" "workspaces (cascade_project i w) = workspaces w"
  "members (cascade_project i w) = members w" "sockets (cascade_project i w) = sockets w"
  "notifications (cascade_project i w) = notifications w"
  "projects (cascade_project i w) = delete_rows (\<lambda>p. project_id p = i) (projects w)"
  "tasks (cascade_project i w) = cascade_tasks (\<lambda>t. task_projectId t = i) (tasks w)"
  by (simp_all add: cascade_project_def orphan_free_def Let_def)

text \<open>The announcements of a change: the audit log, then the activity feed.\<close>

definition logged :: "job \<Rightarrow> job \<Rightarrow> world \<Rightarrow> world" where
  "logged a b w =
     enqueue_if (queueUp w ''activity.queue'') b (enqueue_if (queueUp w ''audit.queue'') a w)"

lemma logged_frame [simp]:
  "projects (logged a b w) = projects w" "tasks (logged a b w) = tasks w" "users (logged a b w) = users w"
  "workspaces (logged a b w) = workspaces w" "members (logged a b w) = members w"
  "cache (logged a b w) = cache w" "clock (logged a b w) = clock w" "draws (logged a b w) = draws w"
  "redisUp (logged a b w) = redisUp w"
  by (simp_all add: logged_def)

lemma projects_logged: "projects_ok pf w \<Longrightarrow> projects_ok pf (logged a b w)"
  unfolding logged_def by (intro projects_enqueue)

definition project_jobs :: "string \<Rightarrow> string \<Rightarrow> json \<Rightarrow> string \<Rightarrow> string \<Rightarrow> string \<Rightarrow> world \<Rightarrow> world" where
  "project_jobs auditAction u payload ws i act w =
     logged (audit_job auditAction (Some u) payload) (activity_job ws ''PROJECT'' i act u) w"

lemma createProject_eval:
  "createProject pf ws u n d w =
     (if \<not> workspace_exists ws w then (Inl (QueryFailedError ''projects: foreign key''), w)
      else
        (let p = created_project pf ws n d w
         in (Inr p,
             project_jobs ''PROJECT_CREATE'' u
               (JObj [(''projectId'', JStr (project_id p)), (''workspaceId'', JStr ws)])
               ws (project_id p) ''PROJECT_CREATED''
               (cache_del (projectListKey ws)
                 (w\<lparr>draws := Suc (draws w), projects := projects w @ [p]\<rparr>)))))"
  by (simp add: createProject_def insert_project_def prog_simps Let_def created_project_def
      project_jobs_def logged_def)

lemma updateProject_eval:
  assumes dist: "distinct (map project_id (projects w))"
  shows "updateProject pf i ws u n d s w =
     (case db_project pf i ws w of
        None \<Rightarrow> (Inl (NotFoundException ''Project not found in this workspace''), w)
      | Some p \<Rightarrow>
          (case edit_project n d s p of
             None \<Rightarrow> (Inl (QueryFailedError ''projects: null value''), w)
           | Some p' \<Rightarrow>
               (Inr (touched p' p (clock w)),
                project_jobs ''PROJECT_UPDATE'' u
                  (JObj [(''projectId'', JStr i), (''workspaceId'', JStr ws),
                         (''previous'', json_project p), (''new'', json_project p')])
                  ws i ''PROJECT_UPDATED''
                  (cache_del (projectListKey ws) (put_project (touched p' p (clock w)) w)))))"
proof (cases "db_project pf i ws w")
  case None
  then show ?thesis by (simp add: updateProject_def findProjectById_def prog_simps)
next
  case (Some p)
  with db_project_iff [OF dist] have p: "p \<in> set (projects w)" by blast
  show ?thesis
  proof (cases "edit_project n d s p")
    case None
    with Some show ?thesis by (simp add: updateProject_def findProjectById_def prog_simps)
  next
    case edit: (Some p')
    note fr = edit_project_frame [OF edit]
    then have "project_id (touched p' p (clock w)) = project_id p" by (simp add: touched_def)
    with Some edit fr show ?thesis
      by (simp add: updateProject_def findProjectById_def prog_simps save_project_eval [OF dist p]
          put_project_def project_jobs_def logged_def)
  qed
qed

lemma deleteProject_eval:
  assumes dist: "distinct (map project_id (projects w))"
  shows "deleteProject pf i ws u w =
     (case db_project pf i ws w of
        None \<Rightarrow> (Inl (NotFoundException ''Project not found in this workspace''), w)
      | Some p \<Rightarrow>
          (Inr (),
           project_jobs ''PROJECT_DELETE'' u
             (JObj [(''projectId'', JStr i), (''workspaceId'', JStr ws)]) ws i ''PROJECT_DELETED''
             (cache_del (projectListKey ws) (cascade_project i w))))"
proof (cases "db_project pf i ws w")
  case (Some p)
  with db_project_iff [OF dist] have "project_id p = i" by blast
  with Some show ?thesis
    by (simp add: deleteProject_def findProjectById_def prog_simps project_jobs_def logged_def)
qed (simp add: deleteProject_def findProjectById_def prog_simps)

end
