(* ===== verification/ProjectTheorems.thy ===== *)
theory ProjectTheorems
  imports Projects Tasks Demo
begin

text \<open>
  The properties of projects: the table and the cached list over any sequence of requests, and
  what deleting a project leaves in the cache of its tasks.
\<close>

section \<open>Requests\<close>

datatype project_op =
    PjCreate string string string "string option"
  | PjList string
  | PjFind string string
  | PjUpdate string string string "string js" "string js" "string js"
  | PjDelete string string string

fun run_pj :: "platform \<Rightarrow> project_op \<Rightarrow> world \<Rightarrow> world" where
  "run_pj pf (PjCreate ws u n d) w = snd (createProject pf ws u n d w)"
| "run_pj pf (PjList ws) w = snd (getProjects ws w)"
| "run_pj pf (PjFind i ws) w = snd (findProjectById pf i ws w)"
| "run_pj pf (PjUpdate i ws u n d s) w = snd (updateProject pf i ws u n d s w)"
| "run_pj pf (PjDelete i ws u) w = snd (deleteProject pf i ws u w)"

text \<open>
  The specification: the table after a request, as a function of the table before it and without
  any cache.
\<close>

fun spec_project :: "string \<Rightarrow> string \<Rightarrow> project list \<Rightarrow> project option" where
  "spec_project i ws ps = find (\<lambda>p. project_id p = i \<and> project_workspaceId p = ws) ps"

fun spec_projects :: "platform \<Rightarrow> project_op \<Rightarrow> world \<Rightarrow> project list" where
  "spec_projects pf (PjCreate ws u n d) w =
     (if workspace_exists ws w then projects w @ [created_project pf ws n d w] else projects w)"
| "spec_projects pf (PjUpdate i ws u n d s) w =
     (case spec_project i ws (projects w) of
        None \<Rightarrow> projects w
      | Some p \<Rightarrow>
          (case edit_project n d s p of
             None \<Rightarrow> projects w
           | Some p' \<Rightarrow> map (\<lambda>r. if r = p then touched p' p (clock w) else r) (projects w)))"
| "spec_projects pf (PjDelete i ws u) w =
     (case spec_project i ws (projects w) of
        None \<Rightarrow> projects w
      | Some p \<Rightarrow> filter (\<lambda>r. r \<noteq> p) (projects w))"
| "spec_projects pf op w = projects w"

lemma find_by_id:
  assumes "distinct (map project_id (projects w))"
  shows "spec_project i ws (projects w) = db_project pf i ws w"
proof (cases "spec_project i ws (projects w)")
  case None
  with db_project_iff [OF assms] show ?thesis
    by (cases "db_project pf i ws w") (auto simp: find_None_iff)
next
  case (Some p)
  then have "p \<in> set (projects w) \<and> project_id p = i \<and> project_workspaceId p = ws"
    by (auto simp: find_Some_iff)
  with Some db_project_iff [OF assms] show ?thesis by metis
qed

lemma same_id_same_project:
  assumes "distinct (map project_id (projects w))" and "p \<in> set (projects w)" "r \<in> set (projects w)"
  shows "project_id r = project_id p \<longleftrightarrow> r = p"
  using assms unfolding distinct_map by (auto dest: inj_onD)

lemma touched_id: "edit_project n d s p = Some p' \<Longrightarrow> project_id (touched p' p t) = project_id p"
  "edit_project n d s p = Some p' \<Longrightarrow> project_workspaceId (touched p' p t) = project_workspaceId p"
  by (auto simp: touched_def dest: edit_project_frame)

lemma run_pj_projects:
  assumes ok: "projects_ok pf w"
  shows "projects (run_pj pf op w) = spec_projects pf op w"
proof -
  from ok have dist: "distinct (map project_id (projects w))" by (simp add: projects_ok_def)
  show ?thesis
  proof (cases op)
    case (PjCreate ws u n d)
    then show ?thesis by (simp add: createProject_eval Let_def project_jobs_def)
  next
    case (PjList ws)
    obtain w1 where "getProjects ws w = (Inr (active_projects ws w), w1)" "projects_ok pf w1"
      "projects w1 = projects w" by (rule getProjects_eval [OF ok])
    then show ?thesis by (simp add: PjList)
  next
    case (PjFind i ws)
    then show ?thesis by (simp add: findProjectById_def prog_simps split: option.split)
  next
    case (PjUpdate i ws u n d s)
    show ?thesis
    proof (cases "db_project pf i ws w")
      case None
      then show ?thesis by (simp add: PjUpdate updateProject_eval [OF dist] find_by_id [OF dist, of _ _ pf] del: spec_project.simps)
    next
      case (Some p)
      then have p: "p \<in> set (projects w)" using db_project_iff [OF dist] by blast
      have "map (\<lambda>r. if project_id r = project_id p then f else r) (projects w) =
          map (\<lambda>r. if r = p then f else r) (projects w)" for f
        by (rule map_cong) (use same_id_same_project [OF dist p] in auto)
      then show ?thesis
        by (simp add: PjUpdate updateProject_eval [OF dist] find_by_id [OF dist, of _ _ pf] Some
            project_jobs_def put_project_def touched_id del: spec_project.simps split: option.split)
    qed
  next
    case (PjDelete i ws u)
    show ?thesis
    proof (cases "db_project pf i ws w")
      case None
      then show ?thesis by (simp add: PjDelete deleteProject_eval [OF dist] find_by_id [OF dist, of _ _ pf] del: spec_project.simps)
    next
      case (Some p)
      then have p: "p \<in> set (projects w)" "project_id p = i" using db_project_iff [OF dist] by blast+
      have "filter (\<lambda>r. project_id r \<noteq> i) (projects w) = filter (\<lambda>r. r \<noteq> p) (projects w)"
        by (rule filter_cong) (use same_id_same_project [OF dist p(1)] p(2) in auto)
      then show ?thesis
        by (simp add: PjDelete deleteProject_eval [OF dist] find_by_id [OF dist, of _ _ pf] Some
            project_jobs_def delete_rows_def del: spec_project.simps)
    qed
  qed
qed

section \<open>The cached list stays right\<close>

lemma filter_map_other:
  assumes "\<And>r. r \<in> set rs \<Longrightarrow> q r \<Longrightarrow> \<not> f r" and "\<not> f t"
  shows "filter f (map (\<lambda>r. if q r then t else r) rs) = filter f rs"
  using assms by (induction rs) auto

lemma filter_filter_other:
  assumes "\<And>r. r \<in> set rs \<Longrightarrow> q r \<Longrightarrow> \<not> f r"
  shows "filter f (filter (\<lambda>r. \<not> q r) rs) = filter f rs"
  using assms by (induction rs) auto

lemma run_pj_ok:
  assumes inj: "inj (pf_uuid pf)" and ok: "projects_ok pf w"
  shows "projects_ok pf (run_pj pf op w)"
proof -
  from ok have dist: "distinct (map project_id (projects w))"
    and ids: "set (map project_id (projects w)) \<subseteq> pf_uuid pf ` {..<draws w}"
    by (simp_all add: projects_ok_def)
  show ?thesis
  proof (cases op)
    case (PjCreate ws u n d)
    let ?p = "created_project pf ws n d w"
    have "pf_uuid pf (draws w) \<notin> set (map project_id (projects w))"
      by (rule fresh_id [OF inj ids]) simp
    then have "projects_ok pf (cache_del (projectListKey ws)
        (w\<lparr>draws := Suc (draws w), projects := projects w @ [?p]\<rparr>))"
      using dist ids
      by (intro projects_ok_write [OF ok]) (auto simp: created_project_def)
    then show ?thesis
      by (simp add: PjCreate createProject_eval Let_def project_jobs_def projects_logged ok)
  next
    case (PjList ws)
    obtain w1 where "getProjects ws w = (Inr (active_projects ws w), w1)" "projects_ok pf w1"
      "projects w1 = projects w" by (rule getProjects_eval [OF ok])
    then show ?thesis by (simp add: PjList)
  next
    case (PjFind i ws)
    with ok show ?thesis by (simp add: findProjectById_def prog_simps split: option.split)
  next
    case (PjUpdate i ws u n d s)
    have "projects_ok pf (cache_del (projectListKey ws) (put_project (touched p' p (clock w)) w))"
      if p: "db_project pf i ws w = Some p" and edit: "edit_project n d s p = Some p'" for p p'
    proof (rule projects_ok_write [OF ok])
      let ?t = "touched p' p (clock w)"
      have p: "p \<in> set (projects w)" "project_workspaceId p = ws"
        using p db_project_iff [OF dist] by blast+
      have same: "map project_id (projects (put_project ?t w)) = map project_id (projects w)"
        "draws (put_project ?t w) = draws w"
        by (simp_all add: put_project_def)
      show "distinct (map project_id (projects (put_project ?t w)))"
        and "set (map project_id (projects (put_project ?t w))) \<subseteq> pf_uuid pf ` {..<draws (put_project ?t w)}"
        unfolding same by (rule dist, rule ids)
      show "filter (\<lambda>p. project_workspaceId p = j) (projects (put_project ?t w)) =
          filter (\<lambda>p. project_workspaceId p = j) (projects w)" if "j \<noteq> ws" for j
      proof -
        have "filter (\<lambda>p. project_workspaceId p = j)
            (map (\<lambda>r. if project_id r = project_id ?t then ?t else r) (projects w)) =
          filter (\<lambda>p. project_workspaceId p = j) (projects w)"
          by (rule filter_map_other)
            (use same_id_same_project [OF dist p(1)] p(2) that touched_id [OF edit] in auto)
        then show ?thesis by (simp add: put_project_def)
      qed
    qed (simp_all add: put_project_def)
    with ok show ?thesis
      by (simp add: PjUpdate updateProject_eval [OF dist] project_jobs_def projects_logged split: option.split)
  next
    case (PjDelete i ws u)
    have "projects_ok pf (cache_del (projectListKey ws) (cascade_project i w))"
      if p: "db_project pf i ws w = Some p" for p
    proof (rule projects_ok_write [OF ok])
      have p: "p \<in> set (projects w)" "project_workspaceId p = ws" "project_id p = i"
        using p db_project_iff [OF dist] by blast+
      show "filter (\<lambda>p. project_workspaceId p = j) (projects (cascade_project i w)) =
          filter (\<lambda>p. project_workspaceId p = j) (projects w)" if "j \<noteq> ws" for j
        unfolding cascade_project_frame delete_rows_def
        by (rule filter_filter_other) (use same_id_same_project [OF dist p(1)] p(2,3) that in auto)
    qed (use dist ids in \<open>auto simp: row_simps\<close>)
    with ok show ?thesis
      by (simp add: PjDelete deleteProject_eval [OF dist] project_jobs_def projects_logged split: option.split)
  qed
qed

inductive pj_step :: "platform \<Rightarrow> world \<Rightarrow> world \<Rightarrow> bool" for pf where
  request: "pj_step pf w (run_pj pf op w)"
| time: "0 \<le> dt \<Longrightarrow> pj_step pf w (w\<lparr>clock := clock w + dt\<rparr>)"
| queues: "pj_step pf w (w\<lparr>queueUp := qs\<rparr>)"
| evict: "pj_step pf w (w\<lparr>cache := (cache w)(k := None)\<rparr>)"

inductive pj_reachable :: "platform \<Rightarrow> world \<Rightarrow> world \<Rightarrow> bool" for pf where
  start: "pj_reachable pf w w"
| then_step: "pj_reachable pf w w' \<Longrightarrow> pj_step pf w' w'' \<Longrightarrow> pj_reachable pf w w''"

lemma pj_step_ok:
  assumes inj: "inj (pf_uuid pf)" and ok: "projects_ok pf w" and step: "pj_step pf w w'"
  shows "projects_ok pf w'"
  using step
proof (cases rule: pj_step.cases)
  case (request op)
  with inj ok show ?thesis by (simp add: run_pj_ok)
next
  case (time dt)
  show ?thesis unfolding time(1)
    by (rule projects_ok_cong [OF ok]) (simp, simp, rule later_cache_get [OF time(2)])
next
  case (queues qs)
  show ?thesis unfolding queues
    by (rule projects_ok_cong [OF ok])
      (auto simp: cache_get_def redis_get_def split: option.splits if_splits)
next
  case (evict k)
  show ?thesis unfolding evict
    by (rule projects_ok_cong [OF ok]) (simp, simp, rule evict_cache_get)
qed

lemma pj_reachable_ok:
  assumes "pj_reachable pf w w'" and "inj (pf_uuid pf)" and "projects_ok pf w"
  shows "projects_ok pf w'"
  using assms by (induction) (auto intro: pj_step_ok)

section \<open>Properties\<close>

definition demo_projects :: world where
  "demo_projects = demo_world\<lparr>
     projects := [demo_project (demo_uuid 0) ''w1'', demo_project (demo_uuid 1) ''w2'']\<rparr>"

lemma demo_projects_ok: "projects_ok demo_pf demo_projects"
  by (auto simp: projects_ok_def coherent_def cache_get_def redis_get_def demo_projects_def demo_defs
      demo_uuid_def image_iff intro: bexI [of _ 0] bexI [of _ 1])

text \<open>
  C27: after any sequence of project requests, queue outages, passing time and evictions, the
  cached list of a workspace's projects answers exactly its active projects in the table, newest
  first; and the table after one more request is the one the specification gives, which knows no
  cache.
\<close>

theorem project_requests_refine_specification:
  assumes "pj_reachable pf w0 w" and "inj (pf_uuid pf)" and "projects_ok pf w0"
  shows "fst (getProjects ws w) = Inr (active_projects ws w) \<and>
    projects (run_pj pf op w) = spec_projects pf op w"
proof -
  from pj_reachable_ok [OF assms] have ok: "projects_ok pf w" .
  obtain w1 where "getProjects ws w = (Inr (active_projects ws w), w1)"
    by (rule getProjects_eval [OF ok])
  with run_pj_projects [OF ok] show ?thesis by simp
qed

theorem project_requests_refine_specification_witness:
  "fst (getProjects ''w1'' (run_pj demo_pf (PjDelete (demo_uuid 0) ''w1'' ''ann'') demo_projects)) = Inr []"
proof -
  let ?op = "PjDelete (demo_uuid 0) ''w1'' ''ann''"
  have table: "projects (run_pj demo_pf ?op demo_projects) = [demo_project (demo_uuid 1) ''w2'']"
    using project_requests_refine_specification [OF pj_reachable.start demo_uuid_inj demo_projects_ok, of _ ?op]
    by (simp add: demo_projects_def demo_defs demo_uuid_def)
  have "active_projects ''w1'' (run_pj demo_pf ?op demo_projects) = []"
    unfolding active_projects_def table by (simp add: order_desc_def demo_project_def)
  with project_requests_refine_specification [OF pj_reachable.then_step [OF pj_reachable.start pj_step.request]
      demo_uuid_inj demo_projects_ok, of "''w1''" ?op]
  show ?thesis by (simp only:)
qed

text \<open>
  Deleting a project deletes its tasks from the table but not from the cache of tasks: a task
  that was cached is still answered to its workspace although its row is gone.
\<close>

theorem deleted_projects_tasks_are_still_served:
  assumes ok: "projects_ok pf w"
    and p: "p \<in> set (projects w)" "project_id p = i" "project_workspaceId p = ws"
    and t: "task_projectId (view_task v) = i" "task_workspaceId (view_task v) = ws"
    and hit: "cache_get (getTaskCacheKey tid) w = Some (CTask v)" and tid: "tid = task_id (view_task v)"
    and own: "\<And>r. r \<in> set (tasks w) \<Longrightarrow> task_id r = tid \<Longrightarrow> task_projectId r = i"
    and run: "deleteProject pf i ws u w = (r, w')"
  shows "r = Inr () \<and> \<not> task_exists tid w' \<and> fst (findById pf tid ws w') = Inr v"
proof -
  from ok have dist: "distinct (map project_id (projects w))" by (simp add: projects_ok_def)
  from p db_project_iff [OF dist] have db: "db_project pf i ws w = Some p" by blast
  have eval: "deleteProject pf i ws u w =
      (Inr (), project_jobs ''PROJECT_DELETE'' u (JObj [(''projectId'', JStr i), (''workspaceId'', JStr ws)])
         ws i ''PROJECT_DELETED'' (cache_del (projectListKey ws) (cascade_project i w)))"
    by (simp add: deleteProject_eval [OF dist] db)
  then have w': "w' = project_jobs ''PROJECT_DELETE'' u
      (JObj [(''projectId'', JStr i), (''workspaceId'', JStr ws)]) ws i ''PROJECT_DELETED''
      (cache_del (projectListKey ws) (cascade_project i w))" and r: "r = Inr ()"
    using run by simp_all
  have gone: "\<not> task_exists tid w'"
  proof
    assume "task_exists tid w'"
    then obtain q where q: "q \<in> set (cascade_tasks (\<lambda>t. task_projectId t = i) (tasks w))" "task_id q = tid"
      by (auto simp: task_exists_def w' project_jobs_def)
    from q(1) have "task_projectId q \<noteq> i" by (rule cascade_tasks_not_dead)
    with own q cascade_tasks_subset show False by blast
  qed
  have "getTaskCacheKey tid \<noteq> projectListKey ws"
    by (simp add: getTaskCacheKey_def projectListKey_def)
  moreover have "cache_get k (cascade_project i w) = cache_get k w" for k
    by (rule redis_get_frame) simp_all
  moreover have "cache_get k (project_jobs a u pl ws i b x) = cache_get k x" for k a pl b x
    by (rule redis_get_frame) (simp_all add: project_jobs_def)
  ultimately have "cache_get (getTaskCacheKey tid) w' = Some (CTask v)"
    using hit by (simp add: w' cache_get_del_other)
  with t(2) have "fst (findById pf tid ws w') = Inr v"
    by (simp add: findById_def prog_simps Let_def)
  with r gone show ?thesis by simp
qed

theorem deleted_projects_tasks_are_still_served_witness:
  "fst (findById demo_pf (demo_uuid 0) ''w1'' (snd (deleteProject demo_pf (demo_uuid 0) ''w1'' ''ann''
     (cache_set (getTaskCacheKey (demo_uuid 0))
       (CTask (view_of demo_pf demo_projects ((demo_task 0 ''first'')\<lparr>task_projectId := demo_uuid 0\<rparr>))) 300
       (demo_projects\<lparr>tasks := [(demo_task 0 ''first'')\<lparr>task_projectId := demo_uuid 0\<rparr>]\<rparr>))))) =
   Inr (view_of demo_pf demo_projects ((demo_task 0 ''first'')\<lparr>task_projectId := demo_uuid 0\<rparr>))"
proof -
  let ?t = "(demo_task 0 ''first'')\<lparr>task_projectId := demo_uuid 0\<rparr>"
  let ?v = "view_of demo_pf demo_projects ?t"
  let ?w = "cache_set (getTaskCacheKey (demo_uuid 0)) (CTask ?v) 300 (demo_projects\<lparr>tasks := [?t]\<rparr>)"
  have up: "redisUp (demo_projects\<lparr>tasks := [?t]\<rparr>)" by (simp add: demo_projects_def demo_defs)
  have hit: "cache_get (getTaskCacheKey (demo_uuid 0)) ?w = Some (CTask ?v)"
    by (rule cache_get_set_fresh [OF up]) simp
  have none: "cache_get (projectListKey j) ?w = None" for j
  proof -
    have "projectListKey j \<noteq> getTaskCacheKey (demo_uuid 0)"
      by (simp add: getTaskCacheKey_def projectListKey_def)
    then show ?thesis
      by (simp add: cache_get_set_other) (simp add: cache_get_def redis_get_def demo_projects_def demo_defs)
  qed
  have ok: "projects_ok demo_pf ?w"
    using demo_projects_ok none by (simp add: projects_ok_def coherent_def)
  show ?thesis
    using deleted_projects_tasks_are_still_served [OF ok, of "demo_project (demo_uuid 0) ''w1''" "demo_uuid 0"
        "''w1''" ?v "demo_uuid 0" "''ann''", OF _ _ _ _ _ hit _ _ prod.collapse [symmetric]]
    by (simp add: demo_projects_def view_of_def demo_task_def demo_project_def)
qed

end
