(* ===== verification/Subtasks.thy ===== *)
theory Subtasks
  imports Entities "HOL-Library.While_Combinator"
begin

text \<open>
  \<open>src/src/modules/subtask/subtask.service.ts\<close>: the task hierarchy. Three recursive
  queries, evaluated the way PostgreSQL evaluates \<open>WITH RECURSIVE ... UNION ALL\<close>, and the
  assembly of the nested tree. A query that never runs out of rows is the value \<open>None\<close>.
\<close>

section \<open>Recursive queries\<close>

text \<open>
  The working table starts with the rows of the base term; each round appends it to the result
  and replaces it by the rows the recursive term joins to it, until it is empty.
\<close>

definition with_recursive :: "('r list \<Rightarrow> 'r list) \<Rightarrow> 'r list \<Rightarrow> 'r list option" where
  "with_recursive step base =
     map_option snd
       (while_option (\<lambda>(work, acc). work \<noteq> []) (\<lambda>(work, acc). (step work, acc @ work)) (base, []))"

definition is_live :: "task \<Rightarrow> bool" where
  "is_live t \<longleftrightarrow> task_deletedAt t = None"

text \<open>\<open>tasks t INNER JOIN work st ON t.parentTaskId = st.id WHERE t.deletedAt IS NULL\<close>\<close>

definition children_of :: "task list \<Rightarrow> string \<Rightarrow> task list" where
  "children_of ts i = filter (\<lambda>t. task_parentTaskId t = Some i \<and> is_live t) ts"

definition join_children :: "task list \<Rightarrow> task list \<Rightarrow> task list" where
  "join_children ts work = concat (map (\<lambda>st. children_of ts (task_id st)) work)"

section \<open>Rows and nodes\<close>

record task_row =
  row_id :: string
  row_parentTaskId :: "string option"
  row_title :: string
  row_description :: "string option"
  row_status :: string
  row_priority :: string
  row_assignedTo :: "string option"
  row_dueDate :: "int option"
  row_createdAt :: int

definition row_of :: "task \<Rightarrow> task_row" where
  "row_of t =
     \<lparr>row_id = task_id t, row_parentTaskId = task_parentTaskId t, row_title = task_title t,
      row_description = task_description t, row_status = task_status t,
      row_priority = task_priority t, row_assignedTo = task_assignedTo t,
      row_dueDate = task_dueDate t, row_createdAt = task_createdAt t\<rparr>"

datatype task_node = TaskNode task_row "task_node list"

text \<open>
  The first pass fills a map keyed by id in insertion order (a repeated key keeps its place); the
  second hangs every row under its parent when the parent is in the map. The nested value is the
  unfolding of that object graph, to the depth given.
\<close>

fun map_set :: "task_row \<Rightarrow> task_row list \<Rightarrow> task_row list" where
  "map_set r [] = [r]"
| "map_set r (x # xs) = (if row_id x = row_id r then r # xs else x # map_set r xs)"

definition sub_rows :: "task_row list \<Rightarrow> string \<Rightarrow> task_row list" where
  "sub_rows m i = filter (\<lambda>t. truthy (row_parentTaskId t) \<and> row_parentTaskId t = Some i) m"

fun unfold_node :: "nat \<Rightarrow> task_row list \<Rightarrow> task_row \<Rightarrow> task_node option" where
  "unfold_node 0 m r = None"
| "unfold_node (Suc n) m r =
     map_option (TaskNode r) (those (map (unfold_node n m) (sub_rows m (row_id r))))"

text \<open>\<open>Some None\<close> is the answer \<open>null\<close>; \<open>None\<close> a cyclic object, which has no JSON.\<close>

definition buildTree :: "task_row list \<Rightarrow> string \<Rightarrow> task_node option option" where
  "buildTree flatTasks rootId =
     (let taskMap = fold map_set flatTasks []
      in case find (\<lambda>r. row_id r = rootId) taskMap of
           None \<Rightarrow> Some None
         | Some r \<Rightarrow> map_option Some (unfold_node (length taskMap) taskMap r))"

section \<open>Operations\<close>

definition task_in_workspace :: "string \<Rightarrow> string \<Rightarrow> world \<Rightarrow> bool" where
  "task_in_workspace i workspaceId w \<longleftrightarrow>
     (\<exists>t \<in> set (tasks w). task_id t = i \<and> task_workspaceId t = workspaceId \<and> is_live t)"

definition hierarchy_not_found :: exn where
  "hierarchy_not_found = NotFoundException ''Task not found in this workspace''"

definition tree_rows :: "string \<Rightarrow> string \<Rightarrow> world \<Rightarrow> task list option" where
  "tree_rows i workspaceId w =
     with_recursive (join_children (tasks w))
       (filter (\<lambda>t. task_id t = i \<and> task_workspaceId t = workspaceId \<and> is_live t) (tasks w))"

definition getTaskTree :: "string \<Rightarrow> string \<Rightarrow> world \<Rightarrow> (exn + task_node option) option" where
  "getTaskTree taskId workspaceId w =
     (if \<not> task_in_workspace taskId workspaceId w then Some (Inl hierarchy_not_found)
      else
        (case tree_rows taskId workspaceId w of
           None \<Rightarrow> None
         | Some rows \<Rightarrow> map_option Inr (buildTree (map row_of rows) taskId)))"

definition getDescendants :: "string \<Rightarrow> string \<Rightarrow> world \<Rightarrow> (exn + task_row list) option" where
  "getDescendants taskId workspaceId w =
     (if \<not> task_in_workspace taskId workspaceId w then Some (Inl hierarchy_not_found)
      else
        map_option (\<lambda>rows. Inr (order_asc row_createdAt (map row_of rows)))
          (with_recursive (join_children (tasks w))
            (filter (\<lambda>t. task_parentTaskId t = Some taskId \<and> task_workspaceId t = workspaceId \<and> is_live t)
              (tasks w))))"

definition getAncestors :: "string \<Rightarrow> string \<Rightarrow> world \<Rightarrow> (exn + task_row list) option" where
  "getAncestors taskId workspaceId w =
     (if \<not> task_in_workspace taskId workspaceId w then Some (Inl hierarchy_not_found)
      else
        (let parent =
           Option.bind
             (find (\<lambda>t. task_id t = taskId \<and> task_workspaceId t = workspaceId \<and> is_live t) (tasks w))
             task_parentTaskId
         in map_option (\<lambda>rows. Inr (order_desc row_createdAt (map row_of rows)))
              (with_recursive (join_children (tasks w))
                (filter (\<lambda>t. Some (task_id t) = parent \<and> is_live t) (tasks w)))))"

section \<open>A table in which parents come first\<close>

fun parents_first :: "string set \<Rightarrow> task list \<Rightarrow> bool" where
  "parents_first known [] = True"
| "parents_first known (t # ts) =
     ((case task_parentTaskId t of None \<Rightarrow> True | Some p \<Rightarrow> p \<in> known) \<and>
      parents_first (insert (task_id t) known) ts)"

lemma parents_first_append:
  "parents_first A (xs @ ys) \<longleftrightarrow> parents_first A xs \<and> parents_first (A \<union> task_id ` set xs) ys"
  by (induction xs arbitrary: A) auto

lemma parents_first_map:
  assumes "\<And>t. t \<in> set ts \<Longrightarrow> task_id (f t) = task_id t \<and> task_parentTaskId (f t) = task_parentTaskId t"
  shows "parents_first A (map f ts) = parents_first A ts"
  using assms by (induction ts arbitrary: A) auto

text \<open>Such a table has a rank that grows from parent to child.\<close>

definition ranked :: "(string \<Rightarrow> nat) \<Rightarrow> task list \<Rightarrow> bool" where
  "ranked rk ts \<longleftrightarrow>
     (\<forall>t \<in> set ts. rk (task_id t) < length ts \<and>
        (\<forall>p. task_parentTaskId t = Some p \<longrightarrow> rk p < rk (task_id t)))"

lemma parents_first_known: "parents_first A ts \<Longrightarrow> t \<in> set ts \<Longrightarrow> task_parentTaskId t = Some p \<Longrightarrow>
   p \<in> A \<union> task_id ` set ts"
proof (induction ts arbitrary: A)
  case (Cons a ts)
  then have "parents_first (insert (task_id a) A) ts" by simp
  with Cons show ?case by (cases "t = a") fastforce+
qed simp

lemma parents_first_ranked:
  assumes "parents_first {} ts" and "distinct (map task_id ts)"
  shows "\<exists>rk. ranked rk ts"
  using assms
proof (induction ts rule: rev_induct)
  case Nil
  then show ?case by (simp add: ranked_def)
next
  case (snoc t ts)
  then obtain rk where rk: "ranked rk ts" by (auto simp: parents_first_append)
  from snoc.prems have pf: "parents_first {} ts" and new: "task_id t \<notin> task_id ` set ts"
    and par: "\<And>p. task_parentTaskId t = Some p \<Longrightarrow> p \<in> task_id ` set ts"
    by (auto simp: parents_first_append)
  let ?rk = "rk(task_id t := length ts)"
  have old: "rk' p < length ts" if "p \<in> task_id ` set ts" "rk' = rk" for p rk'
    using that rk by (auto simp: ranked_def)
  have "ranked ?rk (ts @ [t])"
    unfolding ranked_def
  proof (intro ballI conjI allI impI)
    fix x p
    assume x: "x \<in> set (ts @ [t])"
    show "?rk (task_id x) < length (ts @ [t])"
      using x new rk by (auto simp: ranked_def less_SucI)
    assume p: "task_parentTaskId x = Some p"
    show "?rk p < ?rk (task_id x)"
    proof (cases "x = t")
      case True
      with p par have "p \<in> task_id ` set ts" by simp
      moreover from this new have "p \<noteq> task_id t" by blast
      ultimately show ?thesis using True old by simp
    next
      case False
      with x have x: "x \<in> set ts" by simp
      then have "task_id x \<in> task_id ` set ts" by (rule imageI)
      moreover have "p \<in> task_id ` set ts" using parents_first_known [OF pf x p] by simp
      ultimately have "p \<noteq> task_id t" "task_id x \<noteq> task_id t" using new by metis+
      with rk x p show ?thesis by (simp add: ranked_def)
    qed
  qed
  then show ?case by blast
qed

section \<open>What a recursive query returns\<close>

inductive descends :: "task list \<Rightarrow> string \<Rightarrow> task \<Rightarrow> bool" for ts i where
  child: "t \<in> set ts \<Longrightarrow> is_live t \<Longrightarrow> task_parentTaskId t = Some i \<Longrightarrow> descends ts i t"
| deeper: "descends ts i s \<Longrightarrow> t \<in> set ts \<Longrightarrow> is_live t \<Longrightarrow> task_parentTaskId t = Some (task_id s) \<Longrightarrow>
    descends ts i t"

lemma set_children_of: "t \<in> set (children_of ts i) \<longleftrightarrow> t \<in> set ts \<and> is_live t \<and> task_parentTaskId t = Some i"
  by (auto simp: children_of_def)

lemma set_join_children:
  "t \<in> set (join_children ts work) \<longleftrightarrow>
     t \<in> set ts \<and> is_live t \<and> (\<exists>s \<in> set work. task_parentTaskId t = Some (task_id s))"
  by (auto simp: join_children_def set_children_of)

lemma descends_rank:
  assumes "descends ts i t" and rk: "ranked rk ts"
  shows "rk i < rk (task_id t)"
  using assms(1)
proof (induction)
  case (deeper s t)
  then have "rk (task_id s) < rk (task_id t)" using rk by (simp add: ranked_def)
  with deeper show ?case by simp
qed (use rk in \<open>simp add: ranked_def\<close>)

lemma descends_mem: "descends ts i t \<Longrightarrow> t \<in> set ts \<and> is_live t"
  by (induction rule: descends.induct) auto

text \<open>Children of different rows are different rows, each listed once.\<close>

lemma distinct_join:
  assumes dist: "distinct (map task_id ts)" and work: "distinct (map task_id work)"
  shows "distinct (map task_id (join_children ts work))"
  using work
proof (induction work)
  case (Cons s work)
  have "join_children ts (s # work) = children_of ts (task_id s) @ join_children ts work"
    by (simp add: join_children_def)
  moreover have "distinct (map task_id (children_of ts (task_id s)))"
    using dist by (simp add: children_of_def distinct_map_filter)
  moreover have "task_id x \<noteq> task_id y"
    if "x \<in> set (children_of ts (task_id s))" "y \<in> set (join_children ts work)" for x y
  proof
    assume same: "task_id x = task_id y"
    from that have "x \<in> set ts" "y \<in> set ts" by (simp_all add: set_children_of set_join_children)
    with dist same have "x = y" by (auto simp: distinct_map dest: inj_onD)
    with that Cons.prems show False by (auto simp: set_children_of set_join_children)
  qed
  ultimately show ?case using Cons by fastforce
qed (simp add: join_children_def)

text \<open>
  The loop invariant: the rows seen are distinct live rows reached from the base; every row that
  is not of the base hangs under a finished row; the children of finished rows have been seen.
\<close>

definition query_inv :: "task list \<Rightarrow> task list \<Rightarrow> task list \<times> task list \<Rightarrow> bool" where
  "query_inv ts base = (\<lambda>(work, acc).
     distinct (map task_id (acc @ work)) \<and>
     (\<forall>t \<in> set (acc @ work). t \<in> set base \<or>
        ((\<exists>b \<in> set base. descends ts (task_id b) t) \<and>
         (\<exists>s \<in> set acc. task_parentTaskId t = Some (task_id s)))) \<and>
     set base \<subseteq> set (acc @ work) \<and> set (acc @ work) \<subseteq> set ts \<and>
     (\<forall>s \<in> set acc. set (children_of ts (task_id s)) \<subseteq> set (acc @ work)))"

lemma query_inv_step:
  assumes dist: "distinct (map task_id ts)" and rk: "ranked rk ts"
    and base: "\<And>b. b \<in> set base \<Longrightarrow> m \<le> rk (task_id b) \<and> (\<forall>p. task_parentTaskId b = Some p \<longrightarrow> rk p < m)"
    and inv: "query_inv ts base (work, acc)"
  shows "query_inv ts base (join_children ts work, acc @ work)"
proof -
  let ?new = "join_children ts work"
  from inv have d: "distinct (map task_id (acc @ work))"
    and seen: "\<And>t. t \<in> set (acc @ work) \<Longrightarrow> t \<in> set base \<or>
        ((\<exists>b \<in> set base. descends ts (task_id b) t) \<and> (\<exists>s \<in> set acc. task_parentTaskId t = Some (task_id s)))"
    and sub: "set base \<subseteq> set (acc @ work)" "set (acc @ work) \<subseteq> set ts"
    and kids: "\<And>s. s \<in> set acc \<Longrightarrow> set (children_of ts (task_id s)) \<subseteq> set (acc @ work)"
    by (auto simp: query_inv_def)
  have high: "m \<le> rk (task_id t)" if t: "t \<in> set (acc @ work)" for t
    using seen [OF t]
  proof (elim disjE conjE bexE)
    fix b
    assume "b \<in> set base" and "descends ts (task_id b) t"
    with base descends_rank [OF _ rk] show ?thesis by (meson le_less_trans less_imp_le)
  qed (use base in blast)
  have fresh: "t \<notin> set (acc @ work)" if t: "t \<in> set ?new" for t
  proof
    assume old: "t \<in> set (acc @ work)"
    from t obtain s where s: "s \<in> set work" and par: "task_parentTaskId t = Some (task_id s)"
      by (auto simp: set_join_children)
    from seen [OF old] show False
    proof (elim disjE conjE bexE)
      assume "t \<in> set base"
      with base par high [of s] s show False by fastforce
    next
      fix s'
      assume "s' \<in> set acc" and "task_parentTaskId t = Some (task_id s')"
      with par s d show False by (auto simp: image_iff)
    qed
  qed
  have mem: "set ?new \<subseteq> set ts" by (auto simp: set_join_children)
  have apart: "task_id x \<noteq> task_id y" if "x \<in> set ?new" "y \<in> set (acc @ work)" for x y
    using that fresh mem sub(2) dist unfolding distinct_map by (metis inj_onD subsetD)
  have "distinct (map task_id ((acc @ work) @ ?new))"
    using d distinct_join [OF dist, of work] apart by fastforce
  moreover have "(\<exists>b \<in> set base. descends ts (task_id b) t) \<and>
      (\<exists>s \<in> set (acc @ work). task_parentTaskId t = Some (task_id s))" if t: "t \<in> set ?new" for t
  proof -
    from t obtain s where s: "s \<in> set work" and par: "task_parentTaskId t = Some (task_id s)"
      and t': "t \<in> set ts" "is_live t" by (auto simp: set_join_children)
    have "\<exists>b \<in> set base. descends ts (task_id b) t"
      using seen [of s] s descends.child [OF t' par] descends.deeper [OF _ t' par] by fastforce
    with s par show ?thesis by auto
  qed
  moreover have "set (children_of ts (task_id s)) \<subseteq> set ((acc @ work) @ ?new)" if "s \<in> set (acc @ work)" for s
  proof (cases "s \<in> set acc")
    case True
    with kids [OF True] show ?thesis by auto
  next
    case False
    with that show ?thesis by (auto simp: set_join_children set_children_of)
  qed
  moreover have "set base \<subseteq> set ((acc @ work) @ ?new)" "set ((acc @ work) @ ?new) \<subseteq> set ts"
    using sub mem by auto
  moreover have "t \<in> set base \<or> ((\<exists>b \<in> set base. descends ts (task_id b) t) \<and>
      (\<exists>s \<in> set (acc @ work). task_parentTaskId t = Some (task_id s)))" if "t \<in> set (acc @ work)" for t
    using seen [OF that] by auto
  ultimately show ?thesis
    unfolding query_inv_def prod.case by (metis Un_iff set_append)
qed

text \<open>
  A query terminates when the table is ranked: the least rank in the working table grows with
  each round and never reaches the number of rows.
\<close>

lemma query_terminates:
  assumes rk: "ranked rk ts" and base: "set base \<subseteq> set ts"
  shows "\<exists>s. while_option (\<lambda>(work, acc). work \<noteq> []) (\<lambda>(work, acc). (join_children ts work, acc @ work))
    (base, []) = Some s"
proof (rule measure_while_option_Some [where P = "\<lambda>(work, acc). set work \<subseteq> set ts"
      and f = "\<lambda>(work, acc). if work = [] then 0 else Suc (length ts) - Min (rk ` task_id ` set work)"])
  show "case (base, []) of (work, acc) \<Rightarrow> set work \<subseteq> set ts" using base by simp
  fix s :: "task list \<times> task list"
  assume P: "case s of (work, acc) \<Rightarrow> set work \<subseteq> set ts" and b: "case s of (work, acc) \<Rightarrow> work \<noteq> []"
  obtain work acc where s: "s = (work, acc)" by (cases s)
  let ?new = "join_children ts work" and ?min = "\<lambda>xs. Min (rk ` task_id ` set xs)"
  from P b s have work: "set work \<subseteq> set ts" "work \<noteq> []" by simp_all
  have "?min work \<in> rk ` task_id ` set work" using work(2) by (intro Min_in) auto
  then obtain q where "?min work = rk (task_id q)" "q \<in> set work" by (elim imageE) simp
  with work rk have low: "?min work < length ts" unfolding ranked_def by (metis subsetD)
  have "Suc (length ts) - ?min ?new < Suc (length ts) - ?min work" if "?new \<noteq> []"
  proof -
    have "?min ?new \<in> rk ` task_id ` set ?new" using that by (intro Min_in) auto
    then obtain t where t: "t \<in> set ?new" and min: "?min ?new = rk (task_id t)" by auto
    from t obtain p where "t \<in> set ts" "p \<in> set work" "task_parentTaskId t = Some (task_id p)"
      by (auto simp: set_join_children)
    with rk have "rk (task_id p) < rk (task_id t)" by (auto simp: ranked_def)
    moreover from \<open>p \<in> set work\<close> have "?min work \<le> rk (task_id p)" by (intro Min_le) auto
    ultimately show ?thesis using min low by simp
  qed
  with low work(2) show "(case case s of (work, acc) \<Rightarrow> (join_children ts work, acc @ work) of (work, acc) \<Rightarrow> set work \<subseteq> set ts) \<and>
      (case case s of (work, acc) \<Rightarrow> (join_children ts work, acc @ work) of
         (work, acc) \<Rightarrow> if work = [] then 0 else Suc (length ts) - ?min work)
      < (case s of (work, acc) \<Rightarrow> if work = [] then 0 else Suc (length ts) - ?min work)"
    by (auto simp: s set_join_children)
qed

lemma query_result:
  assumes dist: "distinct (map task_id ts)" and rk: "ranked rk ts"
    and base: "set base \<subseteq> set ts" "distinct (map task_id base)"
    and low: "\<And>b. b \<in> set base \<Longrightarrow> m \<le> rk (task_id b) \<and> (\<forall>p. task_parentTaskId b = Some p \<longrightarrow> rk p < m)"
  shows "\<exists>rows. with_recursive (join_children ts) base = Some rows \<and> distinct (map task_id rows) \<and>
    (\<forall>t. t \<in> set rows \<longleftrightarrow> t \<in> set base \<or> (\<exists>b \<in> set base. descends ts (task_id b) t))"
proof -
  let ?b = "\<lambda>(work :: task list, acc :: task list). work \<noteq> []"
  let ?c = "\<lambda>(work, acc). (join_children ts work, acc @ work)"
  obtain s where run: "while_option ?b ?c (base, []) = Some s"
    using query_terminates [OF rk base(1)] by blast
  have "query_inv ts base s"
  proof (rule while_option_rule [where b = ?b and c = ?c, OF _ run])
    show "query_inv ts base (base, [])" using base by (auto simp: query_inv_def)
    fix s' assume "query_inv ts base s'" and "?b s'"
    then show "query_inv ts base (?c s')"
      using query_inv_step [OF dist rk low] by (cases s') simp
  qed
  moreover from while_option_stop [OF run] obtain acc where s: "s = ([], acc)" by (cases s) auto
  ultimately have inv: "distinct (map task_id acc)" "set base \<subseteq> set acc"
      "\<And>t. t \<in> set acc \<Longrightarrow> t \<in> set base \<or> (\<exists>b \<in> set base. descends ts (task_id b) t)"
      "\<And>s. s \<in> set acc \<Longrightarrow> set (children_of ts (task_id s)) \<subseteq> set acc"
    by (auto simp: query_inv_def)
  have "t \<in> set acc" if b: "b \<in> set base" and t: "descends ts (task_id b) t" for b t
    using t
  proof (induction)
    case (child t)
    from inv(2) b have "b \<in> set acc" by blast
    from inv(4) [OF this] child show ?case by (auto simp: set_children_of)
  next
    case (deeper s t)
    from inv(4) [OF deeper.IH] deeper.hyps show ?case by (auto simp: set_children_of)
  qed
  with inv run s show ?thesis unfolding with_recursive_def by auto
qed

end
