(* ===== verification/SubtaskTheorems.thy ===== *)
theory SubtaskTheorems
  imports Subtasks TaskSpec Demo
begin

text \<open>
  The task requests keep parents before their children, so the hierarchy has no cycle: the
  recursive queries return, and return what they return for.
\<close>

section \<open>No request makes a cycle\<close>

definition hierarchy_ok :: "platform \<Rightarrow> world \<Rightarrow> bool" where
  "hierarchy_ok pf w \<longleftrightarrow> tasks_ok pf w \<and> parents_first {} (tasks w)"

lemma apply_update_parent: "apply_update pf now dto t = Some t' \<Longrightarrow> task_parentTaskId t' = task_parentTaskId t"
  by (auto simp: apply_update_def split: option.splits)

lemma write_outcome_parent: "write_outcome pf dto t w = Inr s \<Longrightarrow> task_parentTaskId s = task_parentTaskId t"
  by (auto simp: write_outcome_def saved_task_def dest: apply_update_parent split: if_splits option.splits)

lemma put_outcome_parents:
  assumes "distinct (map task_id ts)"
    and "\<And>s. out = Inr s \<Longrightarrow> \<exists>t \<in> set ts. task_id t = task_id s \<and> task_parentTaskId t = task_parentTaskId s"
  shows "parents_first A (put_outcome out ts) = parents_first A ts"
proof (cases out)
  case (Inr s)
  with assms(2) obtain t where t: "t \<in> set ts" "task_id t = task_id s" "task_parentTaskId t = task_parentTaskId s"
    by blast
  have "task_parentTaskId r = task_parentTaskId s" if "r \<in> set ts" "task_id r = task_id s" for r
    using assms(1) that t by (metis distinct_map inj_onD)
  then show ?thesis unfolding Inr put_outcome.simps by (intro parents_first_map) simp
qed simp

lemma op_parents_first:
  assumes inv: "task_inv pf w" and pf: "parents_first {} (tasks w)"
  shows "parents_first {} (op_tasks pf op w)"
proof -
  from inv have dist: "distinct (map task_id (tasks w))" by (simp add: task_inv_def task_ids_ok_def)
  show ?thesis
  proof (cases op)
    case (TaskCreate ws pid uid dto)
    have "task_parentTaskId t = Some p \<Longrightarrow> p \<in> task_id ` set (tasks w)"
      if "create_outcome pf ws pid uid dto w = Inr t" for t p
      using that
      by (auto simp: create_outcome_def Let_def inserted_task_def task_fks_def task_exists_def split: if_splits)
    with pf show ?thesis
      by (auto simp: TaskCreate parents_first_append split: sum.split option.split)
  next
    case (TaskUpdate ws i uid dto)
    have "\<exists>t \<in> set (tasks w). task_id t = task_id s \<and> task_parentTaskId t = task_parentTaskId s"
      if "update_outcome pf ws i dto w = Inr s" for s
      using that by (rule update_outcomeD) (metis write_outcome_parent)
    then show ?thesis using put_outcome_parents [OF dist] pf by (simp add: TaskUpdate)
  next
    case (TaskDelete ws i uid)
    have "\<exists>t \<in> set (tasks w). task_id t = task_id s \<and> task_parentTaskId t = task_parentTaskId s"
      if "delete_outcome ws i w = Inr s" for s
      using that by (rule delete_outcomeD) auto
    then show ?thesis using put_outcome_parents [OF dist] pf by (simp add: TaskDelete)
  qed (use pf in simp_all)
qed

lemma hierarchy_step:
  assumes inj: "inj (pf_uuid pf)" and ok: "hierarchy_ok pf w" and step: "task_step pf w w'"
  shows "hierarchy_ok pf w'"
proof -
  from ok have tasks: "tasks_ok pf w" and inv: "task_inv pf w" and first: "parents_first {} (tasks w)"
    by (simp_all add: hierarchy_ok_def tasks_ok_def)
  have "parents_first {} (tasks w')"
    using step
  proof (cases rule: task_step.cases)
    case (request op)
    then show ?thesis using op_parents_first [OF inv first] run_op_tasks [OF inv] by simp
  qed (use first in simp_all)
  with step_ok [OF inj tasks step] show ?thesis by (simp add: hierarchy_ok_def)
qed

lemma hierarchy_reachable:
  assumes "task_reachable pf w w'" and "inj (pf_uuid pf)" and "hierarchy_ok pf w"
  shows "hierarchy_ok pf w'"
  by (rule reachable_invariant [where I = "hierarchy_ok pf", OF assms(1,3)]) (rule hierarchy_step [OF assms(2)])

lemma hierarchy_ranked:
  assumes "hierarchy_ok pf w"
  obtains rk where "ranked rk (tasks w)" and "distinct (map task_id (tasks w))"
  using assms parents_first_ranked [of "tasks w"]
  by (auto simp: hierarchy_ok_def tasks_ok_def task_inv_def task_ids_ok_def)

section \<open>Witnesses\<close>

text \<open>A grandparent, a parent with two children, the second of which belongs to another workspace.\<close>

definition demo_family :: "task list" where
  "demo_family =
     [demo_task 0 ''grandparent'',
      (demo_task 1 ''parent'')\<lparr>task_parentTaskId := Some (demo_uuid 0)\<rparr>,
      (demo_task 2 ''child'')\<lparr>task_parentTaskId := Some (demo_uuid 1)\<rparr>,
      (demo_task 3 ''foreign'')\<lparr>task_parentTaskId := Some (demo_uuid 1), task_workspaceId := ''w2'',
         task_projectId := ''p2''\<rparr>]"

definition demo_hierarchy :: world where
  "demo_hierarchy = demo_world\<lparr>tasks := demo_family, draws := 4\<rparr>"

lemma demo_hierarchy_ok: "hierarchy_ok demo_pf demo_hierarchy"
proof -
  have "task_id ` set (tasks demo_hierarchy) \<subseteq> pf_uuid demo_pf ` {..<draws demo_hierarchy}"
    by (auto simp: demo_hierarchy_def demo_family_def demo_defs)
  then have "task_inv demo_pf demo_hierarchy"
    by (simp add: task_inv_def task_ids_ok_def task_coherent_def coherent_def cache_get_def redis_get_def
        demo_hierarchy_def demo_family_def demo_defs demo_uuid_def numeral_2_eq_2 numeral_3_eq_3)
  then show ?thesis
    by (simp add: hierarchy_ok_def tasks_ok_def row_ok_def task_fks_def exists_defs task_statuses_def
        task_priorities_def demo_hierarchy_def demo_family_def demo_defs demo_uuid_def
        numeral_2_eq_2 numeral_3_eq_3)
qed

section \<open>Descendants\<close>

lemma distinct_rows: "distinct (map row_id (map row_of ts)) = distinct (map task_id ts)"
  by (simp add: comp_def row_of_def)

lemma task_in_workspace_row:
  assumes "task_in_workspace i ws w"
  obtains t where "t \<in> set (tasks w)" and "task_id t = i" and "task_workspaceId t = ws" and "is_live t"
  using assms by (auto simp: task_in_workspace_def)

text \<open>
  C29: after any sequence of task requests the query for a task's descendants returns, with each
  row once and in the order of creation: the live children in the caller's workspace and, of any
  workspace, every live task below one of them.
\<close>

theorem getDescendants_returns_the_descendants:
  assumes run: "task_reachable pf w0 w" "inj (pf_uuid pf)" "hierarchy_ok pf w0"
    and here: "task_in_workspace i ws w"
  shows "\<exists>rows. getDescendants i ws w = Some (Inr rows) \<and> sorted (map row_createdAt rows) \<and>
    distinct (map row_id rows) \<and>
    (\<forall>r. r \<in> set rows \<longleftrightarrow> (\<exists>b t. r = row_of t \<and> b \<in> set (children_of (tasks w) i) \<and>
       task_workspaceId b = ws \<and> (t = b \<or> descends (tasks w) (task_id b) t)))"
proof -
  obtain rk where rk: "ranked rk (tasks w)" and dist: "distinct (map task_id (tasks w))"
    by (rule hierarchy_ranked [OF hierarchy_reachable [OF run]])
  let ?base = "filter (\<lambda>t. task_parentTaskId t = Some i \<and> task_workspaceId t = ws \<and> is_live t) (tasks w)"
  have low: "Suc (rk i) \<le> rk (task_id b) \<and> (\<forall>p. task_parentTaskId b = Some p \<longrightarrow> rk p < Suc (rk i))"
    if "b \<in> set ?base" for b
    using that rk by (auto simp: ranked_def)
  have "set ?base \<subseteq> set (tasks w)" "distinct (map task_id ?base)"
    using dist by (simp_all add: distinct_map_filter)
  from query_result [OF dist rk this low] obtain rows
    where rows: "with_recursive (join_children (tasks w)) ?base = Some rows" "distinct (map task_id rows)"
      "\<And>t. t \<in> set rows \<longleftrightarrow> t \<in> set ?base \<or> (\<exists>b \<in> set ?base. descends (tasks w) (task_id b) t)"
    by blast
  let ?out = "order_asc row_createdAt (map row_of rows)"
  have "getDescendants i ws w = Some (Inr ?out)"
    using here rows(1) by (simp add: getDescendants_def)
  moreover have "distinct (map row_id ?out)"
  proof -
    have "mset (map row_id ?out) = mset (map row_id (map row_of rows))"
      by (simp only: order_asc_def mset_map mset_sort)
    with rows(2) show ?thesis by (metis distinct_rows mset_eq_imp_distinct_iff)
  qed
  moreover have "r \<in> set ?out \<longleftrightarrow> (\<exists>b t. r = row_of t \<and> b \<in> set (children_of (tasks w) i) \<and>
       task_workspaceId b = ws \<and> (t = b \<or> descends (tasks w) (task_id b) t))" for r
  proof -
    have "r \<in> set ?out \<longleftrightarrow> (\<exists>t. t \<in> set rows \<and> r = row_of t)" by auto
    then show ?thesis unfolding rows(3) set_children_of by auto
  qed
  ultimately show ?thesis using order_asc_sorted by blast
qed

theorem getDescendants_returns_the_descendants_witness:
  "\<exists>rows. getDescendants (demo_uuid 0) ''w1'' demo_hierarchy = Some (Inr rows) \<and>
     row_of (demo_family ! 1) \<in> set rows \<and> row_of (demo_family ! 2) \<in> set rows \<and>
     row_of (demo_family ! 3) \<in> set rows"
proof -
  have here: "task_in_workspace (demo_uuid 0) ''w1'' demo_hierarchy"
    by (simp add: task_in_workspace_def is_live_def demo_hierarchy_def demo_family_def demo_defs)
  have b: "demo_family ! 1 \<in> set (children_of (tasks demo_hierarchy) (demo_uuid 0))"
    "task_workspaceId (demo_family ! 1) = ''w1''"
    by (simp_all add: children_of_def is_live_def demo_hierarchy_def demo_family_def demo_defs)
  have d: "descends (tasks demo_hierarchy) (task_id (demo_family ! 1)) (demo_family ! n)" if "n = 2 \<or> n = 3" for n
    by (rule descends.child)
      (use that in \<open>auto simp: is_live_def demo_hierarchy_def demo_family_def demo_defs\<close>)
  from getDescendants_returns_the_descendants [OF task_reachable.start demo_uuid_inj demo_hierarchy_ok here]
  obtain rows where rows: "getDescendants (demo_uuid 0) ''w1'' demo_hierarchy = Some (Inr rows)"
    and mem: "\<And>r. r \<in> set rows \<longleftrightarrow> (\<exists>b t. r = row_of t \<and>
       b \<in> set (children_of (tasks demo_hierarchy) (demo_uuid 0)) \<and> task_workspaceId b = ''w1'' \<and>
       (t = b \<or> descends (tasks demo_hierarchy) (task_id b) t))"
    by blast
  have "row_of t \<in> set rows" if "t = demo_family ! 1 \<or> descends (tasks demo_hierarchy) (task_id (demo_family ! 1)) t" for t
    unfolding mem using b that by blast
  with d rows show ?thesis by simp
qed

section \<open>Ancestors\<close>

text \<open>
  The query for the ancestors of a task answers, for a task with a live parent, the parent and
  everything below the parent: it contains the task itself and its siblings, and never the
  parent's own parent or any task further up.
\<close>

theorem getAncestors_returns_the_parents_subtree:
  assumes run: "task_reachable pf w0 w" "inj (pf_uuid pf)" "hierarchy_ok pf w0"
    and t: "t \<in> set (tasks w)" "is_live t" "task_workspaceId t = ws"
    and p: "p \<in> set (tasks w)" "is_live p" "task_parentTaskId t = Some (task_id p)"
  shows "\<exists>rows. getAncestors (task_id t) ws w = Some (Inr rows) \<and>
    (\<forall>r. r \<in> set rows \<longleftrightarrow> (\<exists>x. r = row_of x \<and> (x = p \<or> descends (tasks w) (task_id p) x))) \<and>
    row_of t \<in> set rows \<and>
    (\<forall>g \<in> set (tasks w). descends (tasks w) (task_id g) p \<longrightarrow> row_of g \<notin> set rows)"
proof -
  obtain rk where rk: "ranked rk (tasks w)" and dist: "distinct (map task_id (tasks w))"
    by (rule hierarchy_ranked [OF hierarchy_reachable [OF run]])
  have same: "x = y" if "x \<in> set (tasks w)" "y \<in> set (tasks w)" "task_id x = task_id y" for x y
    using dist that by (metis distinct_map inj_onD)
  have here: "task_in_workspace (task_id t) ws w" using t by (auto simp: task_in_workspace_def)
  have find: "find (\<lambda>x. task_id x = task_id t \<and> task_workspaceId x = ws \<and> is_live x) (tasks w) = Some t"
    (is "find ?q _ = _")
  proof (cases "find ?q (tasks w)")
    case None
    with t show ?thesis by (auto simp: find_None_iff)
  next
    case (Some x)
    then have "x \<in> set (tasks w)" "task_id x = task_id t" by (auto simp: find_Some_iff)
    with same t(1) Some show ?thesis by blast
  qed
  let ?base = "filter (\<lambda>x. Some (task_id x) = task_parentTaskId t \<and> is_live x) (tasks w)"
  have base: "set ?base = {p}" using p same by auto
  have sub: "set ?base \<subseteq> set (tasks w)" "distinct (map task_id ?base)"
    using dist by (simp_all add: distinct_map_filter)
  have low: "rk (task_id p) \<le> rk (task_id b) \<and> (\<forall>q. task_parentTaskId b = Some q \<longrightarrow> rk q < rk (task_id p))"
    if "b \<in> set ?base" for b
    using that p(1) rk unfolding base by (auto simp: ranked_def)
  from query_result [OF dist rk sub low] obtain rows
    where rows: "with_recursive (join_children (tasks w)) ?base = Some rows"
      "\<And>x. x \<in> set rows \<longleftrightarrow> x = p \<or> descends (tasks w) (task_id p) x"
    unfolding base by auto
  let ?out = "order_desc row_createdAt (map row_of rows)"
  have out: "getAncestors (task_id t) ws w = Some (Inr ?out)"
    using here find rows(1) by (simp add: getAncestors_def)
  have mem: "r \<in> set ?out \<longleftrightarrow> (\<exists>x. r = row_of x \<and> (x = p \<or> descends (tasks w) (task_id p) x))" for r
    by (auto simp: rows(2))
  have "descends (tasks w) (task_id p) t" using t p(3) by (intro descends.child)
  then have self: "row_of t \<in> set ?out" unfolding mem by blast
  have up: "row_of g \<notin> set ?out" if g: "g \<in> set (tasks w)" "descends (tasks w) (task_id g) p" for g
  proof
    assume "row_of g \<in> set ?out"
    then obtain x where x: "row_of g = row_of x" "x = p \<or> descends (tasks w) (task_id p) x"
      unfolding mem by blast
    from x(1) have "task_id g = task_id x" by (simp add: row_of_def)
    then have "rk (task_id p) \<le> rk (task_id g)" using x(2) descends_rank [OF _ rk] by fastforce
    with descends_rank [OF g(2) rk] show False by simp
  qed
  show ?thesis by (rule exI [of _ ?out]) (use out mem self up in blast)
qed

theorem getAncestors_returns_the_parents_subtree_witness:
  "\<exists>rows. getAncestors (demo_uuid 2) ''w1'' demo_hierarchy = Some (Inr rows) \<and>
     row_of (demo_family ! 2) \<in> set rows \<and> row_of (demo_family ! 0) \<notin> set rows"
proof -
  have t: "demo_family ! 2 \<in> set (tasks demo_hierarchy)" "is_live (demo_family ! 2)"
      "task_workspaceId (demo_family ! 2) = ''w1''"
    and p: "demo_family ! 1 \<in> set (tasks demo_hierarchy)" "is_live (demo_family ! 1)"
      "task_parentTaskId (demo_family ! 2) = Some (task_id (demo_family ! 1))"
    and g: "demo_family ! 0 \<in> set (tasks demo_hierarchy)"
    and id: "task_id (demo_family ! 2) = demo_uuid 2"
    by (simp_all add: is_live_def demo_hierarchy_def demo_family_def demo_task_def)
  have "descends (tasks demo_hierarchy) (task_id (demo_family ! 0)) (demo_family ! 1)"
    by (rule descends.child) (use p in \<open>simp_all add: demo_family_def demo_task_def\<close>)
  with getAncestors_returns_the_parents_subtree [OF task_reachable.start demo_uuid_inj demo_hierarchy_ok t p] g
  show ?thesis unfolding id by blast
qed

section \<open>The tree\<close>

fun node_row :: "task_node \<Rightarrow> task_row" where
  "node_row (TaskNode r cs) = r"

fun nodes :: "task_node \<Rightarrow> task_row list" where
  "nodes (TaskNode r cs) = r # concat (map nodes cs)"

fun hangs :: "task_node \<Rightarrow> bool" where
  \<comment> \<open>every node hangs under its parent\<close>
  "hangs (TaskNode r cs) \<longleftrightarrow>
     (\<forall>c \<in> set cs. row_parentTaskId (node_row c) = Some (row_id r) \<and> hangs c)"

lemma map_set_new: "row_id r \<notin> row_id ` set m \<Longrightarrow> map_set r m = m @ [r]"
  by (induction m) auto

lemma fold_map_set:
  "distinct (map row_id (m @ rs)) \<Longrightarrow> fold map_set rs m = m @ rs"
proof (induction rs arbitrary: m)
  case (Cons r rs)
  then have "map_set r m = m @ [r]" by (intro map_set_new) auto
  with Cons show ?case by simp
qed simp

text \<open>
  Unfolding a map of rows that has a rank: with fuel above the number of ranks that are left, the
  unfolding of a row exists, its nodes are the row and what descends from it, each once.
\<close>

inductive below :: "task_row list \<Rightarrow> task_row \<Rightarrow> task_row \<Rightarrow> bool" for m where
  self: "below m r r"
| under: "below m r q \<Longrightarrow> c \<in> set (sub_rows m (row_id q)) \<Longrightarrow> below m r c"

lemma set_sub_rows: "c \<in> set (sub_rows m i) \<longleftrightarrow> c \<in> set m \<and> row_parentTaskId c = Some i \<and> i \<noteq> []"
  by (auto simp: sub_rows_def)

lemma below_first: "c \<in> set (sub_rows m (row_id r)) \<Longrightarrow> below m c x \<Longrightarrow> below m r x"
  by (rotate_tac, induction rule: below.induct) (auto intro: below.intros)

lemma below_cases: "below m r x \<longleftrightarrow> x = r \<or> (\<exists>c \<in> set (sub_rows m (row_id r)). below m c x)"
proof
  show "below m r x \<Longrightarrow> x = r \<or> (\<exists>c \<in> set (sub_rows m (row_id r)). below m c x)"
    by (induction rule: below.induct) (auto intro: below.intros)
qed (auto intro: below_first below.self)

lemma below_mem: "below m r x \<Longrightarrow> r \<in> set m \<Longrightarrow> x \<in> set m"
  by (induction rule: below.induct) (auto simp: set_sub_rows)

definition rows_ranked :: "(string \<Rightarrow> nat) \<Rightarrow> task_row list \<Rightarrow> bool" where
  "rows_ranked rk m \<longleftrightarrow>
     (\<forall>c \<in> set m. \<forall>p. row_parentTaskId c = Some p \<longrightarrow> rk p < rk (row_id c))"

lemma below_rank:
  assumes "below m r x" and rk: "rows_ranked rk m"
  shows "rk (row_id r) \<le> rk (row_id x)"
  using assms(1)
proof (induction)
  case (under r q c)
  then have "rk (row_id q) < rk (row_id c)" using rk by (simp add: set_sub_rows rows_ranked_def)
  with under show ?case by simp
qed simp

lemma below_comparable:
  assumes dist: "distinct (map row_id m)" and "below m c x" "below m d x" and mem: "c \<in> set m" "d \<in> set m"
  shows "below m c d \<or> below m d c"
  using assms(2,3,4)
proof (induction)
  case (self c)
  then show ?case by simp
next
  case (under c q x)
  from under.prems(1) show ?case
  proof (cases rule: below.cases)
    case self
    with below.under [OF under.hyps] show ?thesis by simp
  next
    case (under q')
    have "q = q'"
    proof -
      have "q \<in> set m" by (rule below_mem [OF \<open>below m c q\<close> \<open>c \<in> set m\<close>])
      moreover have "q' \<in> set m" by (rule below_mem [OF under(1) mem(2)])
      moreover have "row_id q = row_id q'"
        using under(2) \<open>x \<in> set (sub_rows m (row_id q))\<close> by (simp add: set_sub_rows)
      ultimately show ?thesis using dist by (metis distinct_map inj_onD)
    qed
    with under(1) \<open>c \<in> set m\<close> show ?thesis using under.IH by blast
  qed
qed

text \<open>Two different children have no node in common.\<close>

lemma below_children_disjoint:
  assumes dist: "distinct (map row_id m)" and rk: "rows_ranked rk m"
    and c: "c \<in> set (sub_rows m i)" and d: "d \<in> set (sub_rows m i)"
    and x: "below m c x" "below m d x"
  shows "c = d"
proof (rule ccontr)
  assume ne: "c \<noteq> d"
  have step: False if "a \<in> set (sub_rows m i)" "b \<in> set (sub_rows m i)" "a \<noteq> b" "below m a b" for a b
    using that(4)
  proof (cases rule: below.cases)
    case self
    with that(3) show ?thesis by simp
  next
    case (under q)
    with that(2) have "row_id q = i" by (simp add: set_sub_rows)
    with below_rank [OF under(1) rk] have "rk (row_id a) \<le> rk i" by simp
    moreover have "rk i < rk (row_id a)" using that(1) rk by (simp add: set_sub_rows rows_ranked_def)
    ultimately show ?thesis by simp
  qed
  have "c \<in> set m" "d \<in> set m" using c d by (simp_all add: set_sub_rows)
  from below_comparable [OF dist x this] step c d ne show False by blast
qed

lemma those_map_Some: "(\<And>x. x \<in> set xs \<Longrightarrow> f x = Some (g x)) \<Longrightarrow> those (map f xs) = Some (map g xs)"
  by (induction xs) auto

lemma distinct_concat_map:
  assumes "distinct xs" and "\<And>x. x \<in> set xs \<Longrightarrow> distinct (f x)"
    and "\<And>x y z. x \<in> set xs \<Longrightarrow> y \<in> set xs \<Longrightarrow> z \<in> set (f x) \<Longrightarrow> z \<in> set (f y) \<Longrightarrow> x = y"
  shows "distinct (concat (map f xs))"
  using assms
proof (induction xs)
  case (Cons x xs)
  have "distinct (concat (map f xs))" by (rule Cons.IH) (use Cons.prems in auto)
  moreover have "set (f x) \<inter> set (concat (map f xs)) = {}"
    using Cons.prems(1) Cons.prems(3) [of x] by fastforce
  ultimately show ?case using Cons.prems by simp
qed simp

lemma unfold_node_ok:
  assumes dist: "distinct (map row_id m)" and rk: "rows_ranked rk m"
  shows "r \<in> set m \<Longrightarrow> card {x \<in> set m. rk (row_id r) < rk (row_id x)} < n \<Longrightarrow>
    \<exists>t. unfold_node n m r = Some t \<and> node_row t = r \<and> hangs t \<and> distinct (nodes t) \<and>
      set (nodes t) = {x. below m r x}"
proof (induction n arbitrary: r)
  case (Suc n)
  let ?cs = "sub_rows m (row_id r)"
  have sub: "\<exists>t. unfold_node n m c = Some t \<and> node_row t = c \<and> hangs t \<and> distinct (nodes t) \<and>
      set (nodes t) = {x. below m c x}" if c: "c \<in> set ?cs" for c
  proof (rule Suc.IH)
    show mem: "c \<in> set m" using c by (simp add: set_sub_rows)
    have low: "rk (row_id r) < rk (row_id c)" using c rk by (simp add: set_sub_rows rows_ranked_def)
    have "card {x \<in> set m. rk (row_id c) < rk (row_id x)} < card {x \<in> set m. rk (row_id r) < rk (row_id x)}"
      by (rule psubset_card_mono) (use low mem in auto)
    with Suc.prems(2) show "card {x \<in> set m. rk (row_id c) < rk (row_id x)} < n" by simp
  qed
  define g where "g c = the (unfold_node n m c)" for c
  have g: "unfold_node n m c = Some (g c)" "node_row (g c) = c" "hangs (g c)"
      "distinct (nodes (g c))" "set (nodes (g c)) = {x. below m c x}" if "c \<in> set ?cs" for c
    using sub [OF that] by (auto simp: g_def)
  let ?t = "TaskNode r (map g ?cs)"
  have "unfold_node (Suc n) m r = Some ?t"
    using those_map_Some [of ?cs "unfold_node n m" g] g(1) by simp
  moreover have "hangs ?t" using g(2,3) by (simp add: set_sub_rows)
  moreover have "set (nodes ?t) = {x. below m r x}"
  proof -
    have "set (nodes ?t) = insert r (\<Union>c \<in> set ?cs. set (nodes (g c)))" by simp
    also have "\<dots> = insert r (\<Union>c \<in> set ?cs. {x. below m c x})" by (simp add: g(5))
    also have "\<dots> = {x. below m r x}" unfolding below_cases [of m r] by blast
    finally show ?thesis .
  qed
  moreover have "distinct (nodes ?t)"
  proof -
    have "distinct ?cs" using dist by (simp add: sub_rows_def distinct_map)
    then have "distinct (concat (map (nodes \<circ> g) ?cs))"
      by (rule distinct_concat_map)
        (use g(4,5) below_children_disjoint [OF dist rk, of _ "row_id r"] in \<open>auto\<close>)
    moreover have "r \<notin> set (concat (map (nodes \<circ> g) ?cs))"
    proof
      assume "r \<in> set (concat (map (nodes \<circ> g) ?cs))"
      then obtain c where c: "c \<in> set ?cs" "below m c r" using g(5) by auto
      then have "rk (row_id r) < rk (row_id c)" using rk by (simp add: set_sub_rows rows_ranked_def)
      with below_rank [OF c(2) rk] show False by simp
    qed
    ultimately show ?thesis by simp
  qed
  ultimately show ?case by auto
qed simp

lemma buildTree_ok:
  assumes dist: "distinct (map row_id m)" and rk: "rows_ranked rk m"
    and r: "r \<in> set m" "row_id r = i"
  shows "\<exists>t. buildTree m i = Some (Some t) \<and> node_row t = r \<and> hangs t \<and> distinct (nodes t) \<and>
    set (nodes t) = {x. below m r x}"
proof -
  have map: "fold map_set m [] = m" using fold_map_set [of "[]" m] dist by simp
  have find: "find (\<lambda>x. row_id x = i) m = Some r"
  proof (cases "find (\<lambda>x. row_id x = i) m")
    case None
    with r show ?thesis by (auto simp: find_None_iff)
  next
    case (Some x)
    then have "x \<in> set m" "row_id x = row_id r" using r(2) by (auto simp: find_Some_iff)
    with dist r(1) have "x = r" by (metis distinct_map inj_onD)
    with Some show ?thesis by simp
  qed
  have "card {x \<in> set m. rk (row_id r) < rk (row_id x)} < card (set m)"
    by (rule psubset_card_mono) (use r(1) in auto)
  also have "\<dots> = length m" using dist by (metis distinct_card distinct_map)
  finally show ?thesis
    using unfold_node_ok [OF dist rk r(1)] map find by (auto simp: buildTree_def)
qed

text \<open>The tree of a live task, from the rows its query returns.\<close>

lemma tree_of_live_task:
  assumes dist: "distinct (map task_id (tasks w))" and rk: "ranked rk (tasks w)"
    and t: "t \<in> set (tasks w)" "is_live t" "task_workspaceId t = ws"
  obtains rows n where "distinct (map task_id rows)"
    and "\<And>x. x \<in> set rows \<longleftrightarrow> x = t \<or> descends (tasks w) (task_id t) x"
    and "getTaskTree (task_id t) ws w = Some (Inr (Some n))" and "node_row n = row_of t" and "hangs n"
    and "distinct (nodes n)" and "set (nodes n) = {x. below (map row_of rows) (row_of t) x}"
proof -
  let ?base = "filter (\<lambda>x. task_id x = task_id t \<and> task_workspaceId x = ws \<and> is_live x) (tasks w)"
  have base: "set ?base = {t}" using t dist by (auto simp: distinct_map dest: inj_onD)
  have sub: "set ?base \<subseteq> set (tasks w)" "distinct (map task_id ?base)"
    using dist by (simp_all add: distinct_map_filter)
  have low: "rk (task_id t) \<le> rk (task_id b) \<and> (\<forall>q. task_parentTaskId b = Some q \<longrightarrow> rk q < rk (task_id t))"
    if "b \<in> set ?base" for b
    using that t(1) rk unfolding base by (auto simp: ranked_def)
  from query_result [OF dist rk sub low] obtain rows
    where rows: "with_recursive (join_children (tasks w)) ?base = Some rows" "distinct (map task_id rows)"
      and mem: "\<And>x. x \<in> set rows \<longleftrightarrow> x = t \<or> descends (tasks w) (task_id t) x"
    unfolding base by auto
  let ?m = "map row_of rows"
  have "x \<in> set (tasks w)" if "x \<in> set rows" for x using that t(1) descends_mem unfolding mem by blast
  then have mrk: "rows_ranked rk ?m" using rk by (auto simp: rows_ranked_def ranked_def row_of_def)
  have root: "row_of t \<in> set ?m" by (simp add: mem)
  have "distinct (map row_id ?m)" using rows(2) unfolding distinct_rows .
  from buildTree_ok [OF this mrk root, of "task_id t"] obtain n
    where n: "buildTree ?m (task_id t) = Some (Some n)" "node_row n = row_of t" "hangs n"
      "distinct (nodes n)" "set (nodes n) = {x. below ?m (row_of t) x}"
    by (auto simp: row_of_def)
  have "task_in_workspace (task_id t) ws w" using t by (auto simp: task_in_workspace_def)
  then have "getTaskTree (task_id t) ws w = Some (Inr (Some n))"
    using rows(1) n(1) by (simp add: getTaskTree_def tree_rows_def)
  with that [OF rows(2) mem] n show thesis by blast
qed

text \<open>
  C28: after any sequence of task requests the tree of a task exists, starts at the task, contains
  the task and every live task below it exactly once and nothing else, and hangs every node under
  the node of its parent.
\<close>

theorem getTaskTree_is_the_subtree:
  assumes run: "task_reachable pf w0 w" "inj (pf_uuid pf)" "hierarchy_ok pf w0"
    and t: "t \<in> set (tasks w)" "is_live t" "task_workspaceId t = ws"
    and ids: "'''' \<notin> task_id ` set (tasks w)"
  shows "\<exists>n. getTaskTree (task_id t) ws w = Some (Inr (Some n)) \<and> node_row n = row_of t \<and> hangs n \<and>
    distinct (nodes n) \<and>
    (\<forall>r. r \<in> set (nodes n) \<longleftrightarrow> (\<exists>x. r = row_of x \<and> (x = t \<or> descends (tasks w) (task_id t) x)))"
proof -
  obtain rk where rk: "ranked rk (tasks w)" and dist: "distinct (map task_id (tasks w))"
    by (rule hierarchy_ranked [OF hierarchy_reachable [OF run]])
  obtain rows n where mem: "\<And>x. x \<in> set rows \<longleftrightarrow> x = t \<or> descends (tasks w) (task_id t) x"
    and n: "getTaskTree (task_id t) ws w = Some (Inr (Some n))" "node_row n = row_of t" "hangs n"
      "distinct (nodes n)" "set (nodes n) = {x. below (map row_of rows) (row_of t) x}"
    by (rule tree_of_live_task [OF dist rk t]) blast
  let ?m = "map row_of rows"
  have root: "row_of t \<in> set ?m" by (simp add: mem)
  have below: "below ?m (row_of t) (row_of x)" if "descends (tasks w) (task_id t) x" for x
    using that
  proof (induction)
    case (child x)
    then have "row_of x \<in> set (sub_rows ?m (row_id (row_of t)))"
      using t(1) ids descends.child [OF child.hyps] by (auto simp: set_sub_rows mem row_of_def image_iff)
    with below.under [OF below.self] show ?case by blast
  next
    case (deeper s x)
    have s: "s \<in> set (tasks w)" using deeper.hyps(1) descends_mem by blast
    have "row_of x \<in> set (sub_rows ?m (row_id (row_of s)))"
      using s ids deeper.hyps(4) descends.deeper [OF deeper.hyps] by (auto simp: set_sub_rows mem row_of_def image_iff)
    with below.under [OF deeper.IH] show ?case by blast
  qed
  have nodes: "below ?m (row_of t) r \<longleftrightarrow> (\<exists>x. r = row_of x \<and> (x = t \<or> descends (tasks w) (task_id t) x))" for r
  proof
    assume "below ?m (row_of t) r"
    then have "r \<in> set ?m" using root by (rule below_mem)
    then show "\<exists>x. r = row_of x \<and> (x = t \<or> descends (tasks w) (task_id t) x)" by (auto simp: mem)
  qed (use below in \<open>auto intro: below.self\<close>)
  with n nodes show ?thesis by auto
qed

theorem getTaskTree_is_the_subtree_witness:
  "\<exists>n. getTaskTree (demo_uuid 0) ''w1'' demo_hierarchy = Some (Inr (Some n)) \<and>
     row_of (demo_family ! 1) \<in> set (nodes n)"
proof -
  have t: "demo_family ! 0 \<in> set (tasks demo_hierarchy)" "is_live (demo_family ! 0)"
      "task_workspaceId (demo_family ! 0) = ''w1''"
    and p: "demo_family ! 1 \<in> set (tasks demo_hierarchy)" "is_live (demo_family ! 1)"
      "task_parentTaskId (demo_family ! 1) = Some (task_id (demo_family ! 0))"
    and id: "task_id (demo_family ! 0) = demo_uuid 0"
    and ids: "'''' \<notin> task_id ` set (tasks demo_hierarchy)"
    by (simp_all add: is_live_def demo_hierarchy_def demo_family_def demo_task_def demo_uuid_def)
  have "descends (tasks demo_hierarchy) (task_id (demo_family ! 0)) (demo_family ! 1)"
    using p by (rule descends.child)
  with getTaskTree_is_the_subtree [OF task_reachable.start demo_uuid_inj demo_hierarchy_ok t ids]
  show ?thesis unfolding id by blast
qed

end
