(* ===== verification/Comments.thy ===== *)
theory Comments
  imports Tasks
begin

text \<open>
  \<open>src/src/modules/comment/comment.service.ts\<close>: comments on a task, broadcast to the
  workspace and announced to the assignee and the creator of the task, never to the commenter.
\<close>

section \<open>Operations\<close>

definition createCommentDto_valid :: "string \<Rightarrow> bool" where
  "createCommentDto_valid message \<longleftrightarrow> message \<noteq> []"

definition insert_comment :: "platform \<Rightarrow> string \<Rightarrow> string \<Rightarrow> string \<Rightarrow> task_comment svc" where
  "insert_comment pf taskId userId message =
     await (gets (\<lambda>w. task_exists taskId w \<and> user_exists userId w)) (\<lambda>ok.
     if \<not> ok then throw (QueryFailedError ''comments: foreign key'')
     else
       await (gen_uuid pf) (\<lambda>i.
       await new_date (\<lambda>now.
         let c = \<lparr>comment_id = i, comment_taskId = taskId, comment_userId = userId,
                  comment_message = message, comment_createdAt = now, comment_updatedAt = now\<rparr>
         in await (modify (\<lambda>w. w\<lparr>comments := comments w @ [c]\<rparr>)) (\<lambda>_. ret c))))"

text \<open>\<open>findOne\<close> with the author joined: what the socket message carries.\<close>

definition comment_with_user :: "platform \<Rightarrow> string \<Rightarrow> world \<Rightarrow> (task_comment \<times> user option) option" where
  "comment_with_user pf i w =
     map_option (\<lambda>c. (c, find_user pf (comment_userId c) w))
       (find_one (pf_pick pf) (\<lambda>c. comment_id c = i) (comments w))"

text \<open>The set of targets, in the order they are added.\<close>

definition comment_targets :: "task \<Rightarrow> string \<Rightarrow> string list" where
  "comment_targets t userId =
     (let a = (if truthy (task_assignedTo t) \<and> task_assignedTo t \<noteq> Some userId
               then [the (task_assignedTo t)] else [])
      in if task_createdBy t \<noteq> userId \<and> task_createdBy t \<notin> set a then a @ [task_createdBy t] else a)"

definition comment_notice :: "task \<Rightarrow> string \<Rightarrow> string" where
  "comment_notice t message =
     ''A new comment was added to the task \"'' @ task_title t @ ''\": \"'' @ take 50 message @
     (if length message > 50 then ''...'' else '''') @ ''\"''"

definition notify_targets :: "platform \<Rightarrow> string list \<Rightarrow> string \<Rightarrow> string \<Rightarrow> string \<Rightarrow> unit svc" where
  "notify_targets pf targets ty title message =
     for_each targets (\<lambda>target.
       await (createAndSendNotification pf target ty title message) (\<lambda>_. ret ()))"

definition addComment :: "platform \<Rightarrow> string \<Rightarrow> string \<Rightarrow> string \<Rightarrow> string \<Rightarrow> task_comment svc" where
  "addComment pf workspaceId taskId userId message =
     await (gets (db_task pf taskId workspaceId)) (\<lambda>found.
     case found of
       None \<Rightarrow> throw (NotFoundException ''Task not found in this workspace'')
     | Some t \<Rightarrow>
         await (insert_comment pf taskId userId message) (\<lambda>saved.
         await (gets (comment_with_user pf (comment_id saved))) (\<lambda>savedWithUser.
         await (case savedWithUser of
                  None \<Rightarrow> ret ()
                | Some (c, u) \<Rightarrow> sendCommentCreated workspaceId (CommentPayload c u)) (\<lambda>_.
         await (auditLog ''COMMENT_CREATE'' (Some userId)
                  (JObj [(''commentId'', JStr (comment_id saved)), (''taskId'', JStr taskId),
                         (''workspaceId'', JStr workspaceId)])) (\<lambda>_.
         await (activityLog workspaceId ''TASK'' taskId ''COMMENT_ADDED'' userId) (\<lambda>_.
         await (notify_targets pf (comment_targets t userId) ''COMMENT_ADDED''
                  (''New Comment on: '' @ task_title t) (comment_notice t message)) (\<lambda>_.
         ret saved)))))))"

definition getComments :: "platform \<Rightarrow> string \<Rightarrow> string \<Rightarrow> (task_comment \<times> user option) list svc" where
  "getComments pf taskId workspaceId =
     await (gets (db_task pf taskId workspaceId)) (\<lambda>found.
     if found = None then throw (NotFoundException ''Task not found in this workspace'')
     else
       gets (\<lambda>w. map (\<lambda>c. (c, find_user pf (comment_userId c) w))
         (order_asc comment_createdAt (filter (\<lambda>c. comment_taskId c = taskId) (comments w)))))"

section \<open>Laws\<close>

lemma comment_targets_others: "distinct (comment_targets t u) \<and> u \<notin> set (comment_targets t u)"
  by (auto simp: comment_targets_def Let_def elim: truthy.elims)

lemma comment_targets_iff:
  "x \<in> set (comment_targets t u) \<longleftrightarrow> x \<noteq> u \<and> (x = task_createdBy t \<or> (task_assignedTo t = Some x \<and> x \<noteq> []))"
  by (cases "task_assignedTo t") (auto simp: comment_targets_def Let_def)

text \<open>A notification that can be sent: it is appended, with its two jobs and its broadcast.\<close>

definition sent_notification :: "platform \<Rightarrow> string \<Rightarrow> string \<Rightarrow> string \<Rightarrow> string \<Rightarrow> world \<Rightarrow> notification" where
  "sent_notification pf u ty ti me w =
     \<lparr>notification_id = pf_uuid pf (draws w), notification_userId = u, notification_type = ty,
      notification_title = ti, notification_message = me, notification_isRead = False,
      notification_createdAt = clock w\<rparr>"

definition can_notify :: "string list \<Rightarrow> world \<Rightarrow> bool" where
  "can_notify us w \<longleftrightarrow>
     queueUp w ''notification.queue'' \<and> queueUp w ''email.queue'' \<and> (\<forall>u \<in> set us. user_exists u w)"

lemma createAndSendNotification_sent:
  assumes "can_notify [u] w"
  shows "\<exists>w'. createAndSendNotification pf u ty ti me w = (Inr (sent_notification pf u ty ti me w), w') \<and>
    notifications w' = notifications w @ [sent_notification pf u ty ti me w] \<and>
    users w' = users w \<and> queueUp w' = queueUp w \<and> comments w' = comments w \<and> tasks w' = tasks w"
  using assms
  by (simp add: can_notify_def createAndSendNotification_def insert_notification_def prog_simps Let_def
      send_defs emit_to_def queue_add_def sent_notification_def user_exists_def)

lemma notify_targets_eval:
  assumes "can_notify us w"
  shows "\<exists>ns w'. notify_targets pf us ty ti me w = (Inr (), w') \<and>
    notifications w' = notifications w @ ns \<and> map notification_userId ns = us \<and>
    (\<forall>n \<in> set ns. notification_type n = ty \<and> notification_message n = me \<and> \<not> notification_isRead n) \<and>
    comments w' = comments w \<and> tasks w' = tasks w \<and> users w' = users w"
  using assms
proof (induction us arbitrary: w)
  case Nil
  then show ?case by (simp add: notify_targets_def ret_def)
next
  case (Cons u us)
  then have "can_notify [u] w" by (simp add: can_notify_def)
  from createAndSendNotification_sent [OF this, of pf ty ti me] obtain w1
    where w1: "createAndSendNotification pf u ty ti me w = (Inr (sent_notification pf u ty ti me w), w1)"
      "notifications w1 = notifications w @ [sent_notification pf u ty ti me w]"
      "users w1 = users w" "queueUp w1 = queueUp w" "comments w1 = comments w" "tasks w1 = tasks w"
    by blast
  from Cons.prems w1 have "can_notify us w1" by (simp add: can_notify_def user_exists_def)
  from Cons.IH [OF this] obtain ns w'
    where ns: "notify_targets pf us ty ti me w1 = (Inr (), w')"
      "notifications w' = notifications w1 @ ns" "map notification_userId ns = us"
      "\<forall>n \<in> set ns. notification_type n = ty \<and> notification_message n = me \<and> \<not> notification_isRead n"
      "comments w' = comments w1" "tasks w' = tasks w1" "users w' = users w1"
    by blast
  have "notify_targets pf (u # us) ty ti me w = notify_targets pf us ty ti me w1"
    by (simp add: notify_targets_def await_def ret_def w1(1))
  with w1 ns show ?case
    by (intro exI [of _ "sent_notification pf u ty ti me w # ns"] exI [of _ w'])
      (simp add: sent_notification_def)
qed

text \<open>What \<open>addComment\<close> does up to the notifications.\<close>

lemma insert_comment_eval:
  "insert_comment pf taskId userId message w =
     (if task_exists taskId w \<and> user_exists userId w then
        (let c = \<lparr>comment_id = pf_uuid pf (draws w), comment_taskId = taskId, comment_userId = userId,
                  comment_message = message, comment_createdAt = clock w, comment_updatedAt = clock w\<rparr>
         in (Inr c, w\<lparr>draws := Suc (draws w), comments := comments w @ [c]\<rparr>))
      else (Inl (QueryFailedError ''comments: foreign key''), w))"
  by (simp add: insert_comment_def prog_simps Let_def)

lemma broadcast_comment:
  "\<exists>w2. (case x of None \<Rightarrow> ret () | Some (c, u) \<Rightarrow> sendCommentCreated ws (CommentPayload c u)) w = (Inr (), w2) \<and>
     messaging_frame w w2 \<and> notifications w2 = notifications w"
proof (cases x)
  case None
  then show ?thesis by (simp add: ret_def msg.refl)
next
  case (Some p)
  obtain c u where "p = (c, u)" by (cases p)
  with Some withinD [OF within_send(4), of w ws "CommentPayload c u"] show ?thesis
    by (simp add: send_defs emit_to_def modify_def)
qed

lemma addComment_eval:
  assumes db: "db_task pf i ws w = Some t" and u: "user_exists u w" and can: "can_notify (comment_targets t u) w"
  shows "\<exists>c ns w'. addComment pf ws i u m w = (Inr c, w') \<and> comments w' = comments w @ [c] \<and>
    comment_taskId c = i \<and> comment_userId c = u \<and> comment_message c = m \<and> comment_createdAt c = clock w \<and>
    notifications w' = notifications w @ ns \<and> map notification_userId ns = comment_targets t u \<and>
    (\<forall>n \<in> set ns. notification_message n = comment_notice t m) \<and> tasks w' = tasks w \<and> users w' = users w"
proof -
  from db have "task_exists i w" unfolding db_task_def task_exists_def by (auto dest: fo.look_SomeD)
  define c where "c = \<lparr>comment_id = pf_uuid pf (draws w), comment_taskId = i, comment_userId = u,
      comment_message = m, comment_createdAt = clock w, comment_updatedAt = clock w\<rparr>"
  let ?w1 = "w\<lparr>draws := Suc (draws w), comments := comments w @ [c]\<rparr>"
  have ins: "insert_comment pf i u m w = (Inr c, ?w1)"
    using \<open>task_exists i w\<close> u by (simp add: insert_comment_eval c_def Let_def)
  obtain w2 where say: "(case comment_with_user pf (comment_id c) ?w1 of
      None \<Rightarrow> ret () | Some (c, u) \<Rightarrow> sendCommentCreated ws (CommentPayload c u)) ?w1 = (Inr (), w2)"
    and fr: "messaging_frame ?w1 w2" "notifications w2 = notifications ?w1"
    using broadcast_comment by blast
  let ?a = "audit_job ''COMMENT_CREATE'' (Some u)
      (JObj [(''commentId'', JStr (comment_id c)), (''taskId'', JStr i), (''workspaceId'', JStr ws)])"
  let ?w3 = "enqueue_if (queueUp w2 ''audit.queue'') ?a w2"
  let ?w4 = "enqueue_if (queueUp w2 ''activity.queue'') (activity_job ws ''TASK'' i ''COMMENT_ADDED'' u) ?w3"
  from can messaging_frameD [OF fr(1)] have "can_notify (comment_targets t u) ?w4"
    by (simp add: can_notify_def user_exists_def)
  from notify_targets_eval [OF this, of pf "''COMMENT_ADDED''" "''New Comment on: '' @ task_title t" "comment_notice t m"]
  obtain ns w' where ns: "notify_targets pf (comment_targets t u) ''COMMENT_ADDED''
        (''New Comment on: '' @ task_title t) (comment_notice t m) ?w4 = (Inr (), w')"
      "notifications w' = notifications ?w4 @ ns" "map notification_userId ns = comment_targets t u"
      "\<forall>n \<in> set ns. notification_message n = comment_notice t m"
      "comments w' = comments ?w4" "tasks w' = tasks ?w4" "users w' = users ?w4" by blast
  have "addComment pf ws i u m w = (Inr c, w')"
    using ns(1) unfolding addComment_def await_def gets_def
    by (simp add: db ins say auditLog_eval activityLog_eval ret_def)
  with ns fr(2) messaging_frameD [OF fr(1)] show ?thesis
    by (intro exI [of _ c] exI [of _ ns] exI [of _ w']) (simp add: c_def)
qed

end
