(* ===== verification/Reminders.thy ===== *)
theory Reminders
  imports Messaging
begin

text \<open>
  \<open>src/src/modules/scheduler/scheduler.service.ts\<close>, the minutely search for tasks about
  to fall due, and the workers of \<open>src/src/workers\<close> that consume the job queues. A worker
  either completes a job or throws, upon which the queue runs it again until its attempts are
  used up.
\<close>

section \<open>Scheduler\<close>

definition milestones :: "(string \<times> int) list" where
  "milestones = [(''24 hours'', 24), (''12 hours'', 12), (''6 hours'', 6), (''1 hour'', 1)]"

text \<open>The query of one milestone: soft-deleted tasks are left out.\<close>

definition due_tasks :: "platform \<Rightarrow> int \<Rightarrow> world \<Rightarrow> task list" where
  "due_tasks pf hours w =
     filter (\<lambda>t. task_deletedAt t = None \<and> task_status t \<noteq> ''DONE'' \<and> task_assignedTo t \<noteq> None \<and>
       (case task_dueDate t of
          None \<Rightarrow> False
        | Some d \<Rightarrow> pf_addHours pf (clock w) (hours - 1) \<le> d \<and> d \<le> pf_addHours pf (clock w) hours))
       (tasks w)"

definition insert_reminder :: "platform \<Rightarrow> string \<Rightarrow> int \<Rightarrow> reminder svc" where
  "insert_reminder pf taskId scheduledAt =
     await (gets (task_exists taskId)) (\<lambda>ok.
     if \<not> ok then throw (QueryFailedError ''reminders: foreign key'')
     else
       await (gen_uuid pf) (\<lambda>i.
       await new_date (\<lambda>now.
         let r = \<lparr>reminder_id = i, reminder_taskId = taskId, reminder_scheduledAt = scheduledAt,
                  reminder_status = ''PENDING'', reminder_createdAt = now\<rparr>
         in await (modify (\<lambda>w. w\<lparr>reminders := reminders w @ [r]\<rparr>)) (\<lambda>_. ret r))))"

definition has_reminder :: "string \<Rightarrow> int \<Rightarrow> world \<Rightarrow> bool" where
  "has_reminder taskId d w \<longleftrightarrow>
     (\<exists>r \<in> set (reminders w). reminder_taskId r = taskId \<and> reminder_scheduledAt r = d)"

definition remind_task :: "platform \<Rightarrow> string \<Rightarrow> task \<Rightarrow> unit svc" where
  "remind_task pf milestone t =
     (let d = the (task_dueDate t)
      in await (gets (has_reminder (task_id t) d)) (\<lambda>seen.
         if seen then ret ()
         else
           await (insert_reminder pf (task_id t) d) (\<lambda>saved.
           queue_add ''reminder.queue'' ''process-reminder''
             (ReminderData (reminder_id saved) (task_id t) (task_assignedTo t) milestone d)
             3 (Some 1000))))"

definition check_milestone :: "platform \<Rightarrow> string \<times> int \<Rightarrow> unit svc" where
  "check_milestone pf m =
     await (gets (due_tasks pf (snd m))) (\<lambda>ts. for_each ts (remind_task pf (fst m)))"

definition checkDueTasks :: "platform \<Rightarrow> unit svc" where
  "checkDueTasks pf = for_each milestones (check_milestone pf)"

section \<open>Workers\<close>

definition activity_process :: "platform \<Rightarrow> string \<Rightarrow> string \<Rightarrow> string \<Rightarrow> string \<Rightarrow> string \<Rightarrow> unit svc" where
  "activity_process pf workspaceId entityType entityId action performedBy =
     await (gets (\<lambda>w. workspace_exists workspaceId w \<and> user_exists performedBy w)) (\<lambda>ok.
     if \<not> ok then throw (QueryFailedError ''activities: foreign key'')
     else
       await (gen_uuid pf) (\<lambda>i.
       await new_date (\<lambda>now.
       modify (\<lambda>w. w\<lparr>activities := activities w @
         [\<lparr>activity_id = i, activity_workspaceId = workspaceId, activity_entityType = entityType,
           activity_entityId = entityId, activity_action = action,
           activity_performedBy = performedBy, activity_createdAt = now\<rparr>]\<rparr>))))"

definition audit_process :: "platform \<Rightarrow> string \<Rightarrow> string option \<Rightarrow> json \<Rightarrow> unit svc" where
  "audit_process pf action userId payload =
     await (gets (fk_null user_exists userId)) (\<lambda>ok.
     if \<not> ok then throw (QueryFailedError ''audit_logs: foreign key'')
     else
       await (gen_uuid pf) (\<lambda>i.
       await new_date (\<lambda>now.
       modify (\<lambda>w. w\<lparr>auditLogs := auditLogs w @
         [\<lparr>audit_id = i, audit_action = action, audit_userId = userId, audit_payload = payload,
           audit_createdAt = now\<rparr>]\<rparr>))))"

text \<open>
  The line the mail worker logs instead of sending; a field the job does not have is
  \<open>undefined\<close>.
\<close>

definition email_line :: "string \<Rightarrow> job_data \<Rightarrow> string" where
  "email_line name d =
     (let email = (case d of VerificationData e _ _ \<Rightarrow> Some e | PasswordResetData e _ \<Rightarrow> Some e | _ \<Rightarrow> None);
          nm = (case d of VerificationData _ n _ \<Rightarrow> Some n | _ \<Rightarrow> None);
          code = (case d of VerificationData _ _ c \<Rightarrow> Some c | PasswordResetData _ c \<Rightarrow> Some c | _ \<Rightarrow> None);
          subject = (case d of EmailTextData _ s _ \<Rightarrow> Some s | _ \<Rightarrow> None);
          body = (case d of EmailTextData _ _ t \<Rightarrow> Some t | _ \<Rightarrow> None);
          show = (\<lambda>x. case x of None \<Rightarrow> ''undefined'' | Some s \<Rightarrow> s)
      in (if name = ''send-verification'' then
              ''[EMAIL SENT] To: '' @ show nm @ '' <'' @ show email @ ''> | Subject: Verify Email | Code: '' @ show code
            else if name = ''send-password-reset'' then
              ''[EMAIL SENT] To: <'' @ show email @ ''> | Subject: Password Reset | Code: '' @ show code
            else if name = ''send-email'' then
              ''[EMAIL SENT] To: <'' @ show email @ ''> | Subject: '' @ show subject @ '' | Body: '' @ show body
            else ''[EMAIL SENT] Generic email to <'' @ show email @ ''>''))"

definition set_reminder_status :: "string \<Rightarrow> string \<Rightarrow> unit svc" where
  "set_reminder_status reminderId status =
     modify (\<lambda>w. w\<lparr>reminders :=
       update_rows (\<lambda>r. reminder_id r = reminderId) (\<lambda>r. r\<lparr>reminder_status := status\<rparr>) (reminders w)\<rparr>)"

definition reminder_process ::
  "platform \<Rightarrow> string \<Rightarrow> string \<Rightarrow> string option \<Rightarrow> string \<Rightarrow> unit svc" where
  "reminder_process pf reminderId taskId userId milestone =
     try_catch
       (await (gets (\<lambda>w. find_one (pf_pick pf) (\<lambda>t. task_id t = taskId \<and> task_deletedAt t = None) (tasks w)))
         (\<lambda>found.
            case found of
              None \<Rightarrow> throw (ErrorE (''Task '' @ taskId @ '' not found''))
            | Some t \<Rightarrow>
                (case userId of
                   None \<Rightarrow> throw (QueryFailedError ''notifications.userId'')
                 | Some u \<Rightarrow>
                     await (createAndSendNotification pf u ''DUE_REMINDER''
                       (''Task Due Soon: '' @ task_title t)
                       (''Reminder: The task \"'' @ task_title t @ ''\" is due in '' @ milestone @ ''.'')) (\<lambda>_.
                     set_reminder_status reminderId ''SENT''))))
       (\<lambda>error. await (set_reminder_status reminderId ''FAILED'') (\<lambda>_. throw error))"

text \<open>The worker of a job's queue.\<close>

definition process_job :: "platform \<Rightarrow> job \<Rightarrow> unit svc" where
  "process_job pf j =
     (case job_data j of
        ActivityData ws ty i a u \<Rightarrow> activity_process pf ws ty i a u
      | AuditData a u p \<Rightarrow> audit_process pf a u p
      | ReminderData rid tid u m d \<Rightarrow> reminder_process pf rid tid u m
      | _ \<Rightarrow> ret ())"

text \<open>The queue's part: run a job until it completes or the attempts are used up.\<close>

fun run_attempts :: "platform \<Rightarrow> nat \<Rightarrow> job \<Rightarrow> unit svc" where
  "run_attempts pf 0 j = ret ()"
| "run_attempts pf (Suc n) j = try_catch (process_job pf j) (\<lambda>e. if n = 0 then throw e else run_attempts pf n j)"

section \<open>What the scheduler keeps\<close>

definition reminder_key :: "reminder \<Rightarrow> string \<times> int" where
  "reminder_key r = (reminder_taskId r, reminder_scheduledAt r)"

fun job_key :: "job \<Rightarrow> (string \<times> int) list" where
  "job_key j = (case job_data j of ReminderData rid tid u m d \<Rightarrow> [(tid, d)] | _ \<Rightarrow> [])"

definition reminder_job_keys :: "world \<Rightarrow> (string \<times> int) list" where
  "reminder_job_keys w = concat (map job_key (jobs w))"

text \<open>One row per task and due date, at most one job, and every job has its row.\<close>

definition reminders_ok :: "world \<Rightarrow> bool" where
  "reminders_ok w \<longleftrightarrow>
     distinct (map reminder_key (reminders w)) \<and> distinct (reminder_job_keys w) \<and>
     set (reminder_job_keys w) \<subseteq> set (map reminder_key (reminders w))"

lemma has_reminder_key: "has_reminder i d w \<longleftrightarrow> (i, d) \<in> set (map reminder_key (reminders w))"
  by (auto simp: has_reminder_def reminder_key_def image_iff)

definition pending_reminder :: "platform \<Rightarrow> task \<Rightarrow> world \<Rightarrow> reminder" where
  "pending_reminder pf t w =
     \<lparr>reminder_id = pf_uuid pf (draws w), reminder_taskId = task_id t,
      reminder_scheduledAt = the (task_dueDate t), reminder_status = ''PENDING'',
      reminder_createdAt = clock w\<rparr>"

definition reminder_job :: "platform \<Rightarrow> string \<Rightarrow> task \<Rightarrow> world \<Rightarrow> job" where
  "reminder_job pf milestone t w =
     \<lparr>job_queue = ''reminder.queue'', job_name = ''process-reminder'',
      job_data = ReminderData (pf_uuid pf (draws w)) (task_id t) (task_assignedTo t) milestone
        (the (task_dueDate t)),
      job_attempts = 3, job_backoff = Some 1000\<rparr>"

lemma remind_task_eval:
  "remind_task pf m t w =
     (if has_reminder (task_id t) (the (task_dueDate t)) w then (Inr (), w)
      else if \<not> task_exists (task_id t) w then (Inl (QueryFailedError ''reminders: foreign key''), w)
      else
        (let w1 = w\<lparr>draws := Suc (draws w), reminders := reminders w @ [pending_reminder pf t w]\<rparr>
         in if queueUp w ''reminder.queue'' then (Inr (), w1\<lparr>jobs := jobs w @ [reminder_job pf m t w]\<rparr>)
            else (Inl (ErrorE ''Connection is closed.''), w1)))"
  by (simp add: remind_task_def prog_simps Let_def insert_reminder_def queue_add_def
      pending_reminder_def reminder_job_def)

lemma remind_task_ok:
  assumes "reminders_ok w"
  shows "reminders_ok (snd (remind_task pf m t w))"
proof (cases "has_reminder (task_id t) (the (task_dueDate t)) w \<or> \<not> task_exists (task_id t) w")
  case True
  with assms show ?thesis by (auto simp: remind_task_eval)
next
  case False
  let ?k = "(task_id t, the (task_dueDate t))" and ?w = "snd (remind_task pf m t w)"
  from False have new: "?k \<notin> set (map reminder_key (reminders w))" by (simp add: has_reminder_key)
  with assms have "?k \<notin> set (reminder_job_keys w)" unfolding reminders_ok_def by blast
  moreover have "map reminder_key (reminders ?w) = map reminder_key (reminders w) @ [?k]"
    using False by (simp add: remind_task_eval Let_def reminder_key_def pending_reminder_def)
  moreover have "reminder_job_keys ?w = reminder_job_keys w @ [?k] \<or> reminder_job_keys ?w = reminder_job_keys w"
    using False by (simp add: remind_task_eval Let_def reminder_job_keys_def reminder_job_def)
  ultimately show ?thesis
    using new assms unfolding reminders_ok_def by auto
qed

lemma preserves_checkDueTasks: "preserves reminders_ok (checkDueTasks pf)"
  unfolding checkDueTasks_def check_milestone_def
  by (intro preserves_for_each preserves_await hoare_gets preservesI remind_task_ok) simp

section \<open>What the scheduler achieves\<close>

text \<open>A run of the scheduler only adds reminders and jobs.\<close>

definition scheduler_frame :: "world \<Rightarrow> world \<Rightarrow> bool" where
  "scheduler_frame w w' \<longleftrightarrow>
     tasks w' = tasks w \<and> users w' = users w \<and> clock w' = clock w \<and> queueUp w' = queueUp w \<and>
     notifications w' = notifications w \<and> prefix (reminders w) (reminders w') \<and> prefix (jobs w) (jobs w')"

interpretation sch: effect_frame scheduler_frame
  by unfold_locales (auto simp: scheduler_frame_def)

lemma within_remind_task: "within scheduler_frame (remind_task pf m t)"
  by (rule withinI) (simp add: remind_task_eval Let_def scheduler_frame_def)

lemma within_checkDueTasks: "within scheduler_frame (checkDueTasks pf)"
  unfolding checkDueTasks_def check_milestone_def by (intro sch.within_intros within_remind_task)

lemma has_reminder_mono: "has_reminder i d w \<Longrightarrow> scheduler_frame w w' \<Longrightarrow> has_reminder i d w'"
  by (auto simp: has_reminder_def scheduler_frame_def dest: set_mono_prefix)

lemma due_tasks_cong:
  assumes "scheduler_frame w w'"
  shows "due_tasks pf h w' = due_tasks pf h w"
proof -
  from assms have same: "tasks w' = tasks w" "clock w' = clock w" by (simp_all add: scheduler_frame_def)
  show ?thesis unfolding due_tasks_def same ..
qed

lemma remind_tasks_all:
  assumes "queueUp w ''reminder.queue''" and "set ts \<subseteq> set (tasks w)"
  shows "\<exists>w'. for_each ts (remind_task pf m) w = (Inr (), w') \<and>
    (\<forall>t \<in> set ts. has_reminder (task_id t) (the (task_dueDate t)) w')"
  using assms
proof (induction ts arbitrary: w)
  case (Cons t ts)
  then have "task_exists (task_id t) w" by (auto simp: task_exists_def)
  with Cons.prems(1) have "fst (remind_task pf m t w) = Inr ()"
      "has_reminder (task_id t) (the (task_dueDate t)) (snd (remind_task pf m t w))"
    by (simp_all add: remind_task_eval Let_def has_reminder_key pending_reminder_def reminder_key_def)
  then obtain w1 where w1: "remind_task pf m t w = (Inr (), w1)"
      "has_reminder (task_id t) (the (task_dueDate t)) w1"
    by (metis prod.collapse)
  have fr: "scheduler_frame w w1" by (rule withinD_eq [OF within_remind_task w1(1)])
  with Cons.prems have "queueUp w1 ''reminder.queue''" "set ts \<subseteq> set (tasks w1)"
    by (auto simp: scheduler_frame_def)
  from Cons.IH [OF this] obtain w' where w': "for_each ts (remind_task pf m) w1 = (Inr (), w')"
      "\<forall>t \<in> set ts. has_reminder (task_id t) (the (task_dueDate t)) w'" by blast
  have "within scheduler_frame (for_each ts (remind_task pf m))"
    by (intro sch.within_intros within_remind_task)
  from has_reminder_mono [OF w1(2) withinD_eq [OF this w'(1)]] w1(1) w' show ?case
    by (simp add: await_def)
qed (simp add: ret_def)

lemma within_check_milestone: "within scheduler_frame (check_milestone pf m)"
  unfolding check_milestone_def by (intro sch.within_intros within_remind_task)

lemma check_milestones_all:
  assumes "queueUp w ''reminder.queue''"
  shows "\<exists>w'. for_each ms (check_milestone pf) w = (Inr (), w') \<and>
    (\<forall>m \<in> set ms. \<forall>t \<in> set (due_tasks pf (snd m) w). has_reminder (task_id t) (the (task_dueDate t)) w')"
  using assms
proof (induction ms arbitrary: w)
  case (Cons m ms)
  have "set (due_tasks pf (snd m) w) \<subseteq> set (tasks w)" by (auto simp: due_tasks_def)
  from remind_tasks_all [OF Cons.prems this, of pf "fst m"] obtain w1
    where w1: "check_milestone pf m w = (Inr (), w1)"
      "\<forall>t \<in> set (due_tasks pf (snd m) w). has_reminder (task_id t) (the (task_dueDate t)) w1"
    by (auto simp: check_milestone_def await_def gets_def)
  have fr: "scheduler_frame w w1" by (rule withinD_eq [OF within_check_milestone w1(1)])
  with Cons.prems have "queueUp w1 ''reminder.queue''" by (simp add: scheduler_frame_def)
  from Cons.IH [OF this] obtain w'
    where w': "for_each ms (check_milestone pf) w1 = (Inr (), w')"
      "\<forall>m \<in> set ms. \<forall>t \<in> set (due_tasks pf (snd m) w). has_reminder (task_id t) (the (task_dueDate t)) w'"
    unfolding due_tasks_cong [OF fr] by blast
  have "within scheduler_frame (for_each ms (check_milestone pf))"
    by (intro sch.within_intros within_check_milestone)
  from withinD_eq [OF this w'(1)] w1(2)
  have "\<forall>t \<in> set (due_tasks pf (snd m) w). has_reminder (task_id t) (the (task_dueDate t)) w'"
    using has_reminder_mono by blast
  with w1(1) w' show ?case by (simp add: await_def)
qed (simp add: ret_def)

text \<open>A reminder whose job was never queued: no run of the scheduler queues it.\<close>

definition lost_reminder :: "string \<times> int \<Rightarrow> world \<Rightarrow> bool" where
  "lost_reminder k w \<longleftrightarrow> k \<in> set (map reminder_key (reminders w)) \<and> k \<notin> set (reminder_job_keys w)"

lemma remind_task_lost: "lost_reminder k w \<Longrightarrow> lost_reminder k (snd (remind_task pf m t w))"
  by (auto simp: remind_task_eval Let_def lost_reminder_def reminder_job_keys_def reminder_job_def
      has_reminder_key reminder_key_def pending_reminder_def image_iff)

lemma checkDueTasks_lost: "lost_reminder k w \<Longrightarrow> lost_reminder k (snd (checkDueTasks pf w))"
proof -
  have "preserves (lost_reminder k) (checkDueTasks pf)"
    unfolding checkDueTasks_def check_milestone_def
    by (intro preserves_for_each preserves_await hoare_gets preservesI remind_task_lost) simp
  then show "lost_reminder k w \<Longrightarrow> lost_reminder k (snd (checkDueTasks pf w))" by (rule preservesD)
qed

end
