(* ===== verification/MessagingTheorems.thy ===== *)
theory MessagingTheorems
  imports Comments Reminders Demo
begin

text \<open>
  The properties of comments, of the reminder scheduler and of the reminder worker.
\<close>

section \<open>Comments\<close>

text \<open>
  C30: a comment on a live task of the workspace is stored with its author and time and is then
  listed with the task; a notification with the first fifty characters goes to the task's creator
  and assignee, to each of them once and never to the commenter.
\<close>

theorem addComment_notifies_the_others:
  assumes db: "db_task pf i ws w = Some t" and u: "user_exists u w"
    and can: "can_notify (comment_targets t u) w"
  shows "\<exists>c ns w'. addComment pf ws i u m w = (Inr c, w') \<and> comments w' = comments w @ [c] \<and>
    comment_taskId c = i \<and> comment_userId c = u \<and> comment_message c = m \<and> comment_createdAt c = clock w \<and>
    notifications w' = notifications w @ ns \<and> distinct (map notification_userId ns) \<and>
    (\<forall>x. x \<in> set (map notification_userId ns) \<longleftrightarrow>
       x \<noteq> u \<and> (x = task_createdBy t \<or> (task_assignedTo t = Some x \<and> x \<noteq> []))) \<and>
    (\<forall>n \<in> set ns. notification_message n = comment_notice t m) \<and>
    (c, find_user pf u w') \<in> set (case fst (getComments pf i ws w') of Inr cs \<Rightarrow> cs)"
proof -
  from addComment_eval [OF assms, of m] obtain c ns w'
    where run: "addComment pf ws i u m w = (Inr c, w')" "comments w' = comments w @ [c]"
      "comment_taskId c = i" "comment_userId c = u" "comment_message c = m" "comment_createdAt c = clock w"
      "notifications w' = notifications w @ ns" "map notification_userId ns = comment_targets t u"
      "\<forall>n \<in> set ns. notification_message n = comment_notice t m" "tasks w' = tasks w" "users w' = users w"
    by blast
  from db run(10) have "db_task pf i ws w' = Some t" by (simp add: db_task_def)
  then have "(c, find_user pf u w') \<in> set (case fst (getComments pf i ws w') of Inr cs \<Rightarrow> cs)"
    using run(2-4) by (simp add: getComments_def prog_simps)
  moreover have "distinct (map notification_userId ns)"
    unfolding run(8) using comment_targets_others by blast
  moreover have "x \<in> set (map notification_userId ns) \<longleftrightarrow>
      x \<noteq> u \<and> (x = task_createdBy t \<or> (task_assignedTo t = Some x \<and> x \<noteq> []))" for x
    unfolding run(8) by (rule comment_targets_iff)
  ultimately show ?thesis using run(1-7,9) by blast
qed

theorem addComment_notifies_the_others_witness:
  "\<exists>c ns w'. addComment demo_pf ''w1'' (demo_uuid 0) ''eve'' ''hi'' demo_world = (Inr c, w') \<and>
     comment_message c = ''hi'' \<and> notifications w' = notifications demo_world @ ns \<and>
     set (map notification_userId ns) = {''ann'', ''bob''}"
proof -
  have db: "db_task demo_pf (demo_uuid 0) ''w1'' demo_world = Some (demo_task 0 ''first'')"
    by (simp add: db_task_def find_one_def demo_defs demo_uuid_def)
  have u: "user_exists ''eve'' demo_world" by (simp add: user_exists_def demo_defs)
  have can: "can_notify (comment_targets (demo_task 0 ''first'') ''eve'') demo_world"
    by (simp add: can_notify_def comment_targets_def user_exists_def demo_defs)
  from addComment_notifies_the_others [OF db u can, of "''hi''"] obtain c ns w'
    where "addComment demo_pf ''w1'' (demo_uuid 0) ''eve'' ''hi'' demo_world = (Inr c, w')"
      "comment_message c = ''hi''" "notifications w' = notifications demo_world @ ns"
      and who: "\<And>x. x \<in> set (map notification_userId ns) \<longleftrightarrow> x \<noteq> ''eve'' \<and>
        (x = task_createdBy (demo_task 0 ''first'') \<or> (task_assignedTo (demo_task 0 ''first'') = Some x \<and> x \<noteq> []))"
    by blast
  moreover have "set (map notification_userId ns) = {''ann'', ''bob''}"
    unfolding set_eq_iff who by (auto simp: demo_task_def)
  ultimately show ?thesis by blast
qed

section \<open>Reminders\<close>

text \<open>
  C31: a run of the scheduler with its queue up completes; afterwards every live, assigned, open
  task that was in the window of one of the four milestones has a reminder for its due date; no
  reminder is taken back, and however many runs and milestones there are, a task has at most one
  reminder row and at most one job per due date.
\<close>

theorem checkDueTasks_reminds_once_per_due_date:
  assumes ok: "reminders_ok w" and up: "queueUp w ''reminder.queue''"
  shows "\<exists>w'. checkDueTasks pf w = (Inr (), w') \<and> prefix (reminders w) (reminders w') \<and>
    (\<forall>m \<in> set milestones. \<forall>t \<in> set (due_tasks pf (snd m) w). has_reminder (task_id t) (the (task_dueDate t)) w') \<and>
    distinct (map reminder_key (reminders w')) \<and> distinct (reminder_job_keys w') \<and> reminders_ok w'"
proof -
  from check_milestones_all [OF up, of milestones pf] obtain w'
    where w': "checkDueTasks pf w = (Inr (), w')"
      "\<forall>m \<in> set milestones. \<forall>t \<in> set (due_tasks pf (snd m) w). has_reminder (task_id t) (the (task_dueDate t)) w'"
    unfolding checkDueTasks_def by blast
  from preservesD [OF preserves_checkDueTasks ok, of pf] w'(1) have "reminders_ok w'" by simp
  moreover have "prefix (reminders w) (reminders w')"
    using withinD_eq [OF within_checkDueTasks w'(1)] by (simp add: scheduler_frame_def)
  ultimately show ?thesis using w' by (simp add: reminders_ok_def)
qed

definition demo_due :: world where
  "demo_due = demo_world\<lparr>tasks := [(demo_task 0 ''first'')\<lparr>task_dueDate := Some 86400000\<rparr>]\<rparr>"

lemma demo_due_ok: "reminders_ok demo_due"
  by (simp add: reminders_ok_def reminder_job_keys_def demo_due_def demo_defs)

theorem checkDueTasks_reminds_once_per_due_date_witness:
  "\<exists>w'. checkDueTasks demo_pf demo_due = (Inr (), w') \<and> has_reminder (demo_uuid 0) 86400000 w'"
proof -
  have up: "queueUp demo_due ''reminder.queue''" by (simp add: demo_due_def demo_defs)
  have m: "(''24 hours'', 24) \<in> set milestones" by (simp add: milestones_def)
  have due: "(demo_task 0 ''first'')\<lparr>task_dueDate := Some 86400000\<rparr> \<in> set (due_tasks demo_pf 24 demo_due)"
    by (simp add: due_tasks_def demo_due_def demo_defs)
  from checkDueTasks_reminds_once_per_due_date [OF demo_due_ok up, of demo_pf] obtain w'
    where run: "checkDueTasks demo_pf demo_due = (Inr (), w')"
      and all: "\<forall>m \<in> set milestones. \<forall>t \<in> set (due_tasks demo_pf (snd m) demo_due).
        has_reminder (task_id t) (the (task_dueDate t)) w'" by blast
  from bspec [OF bspec [OF all m], unfolded snd_conv, OF due] have "has_reminder (demo_uuid 0) 86400000 w'"
    by (simp add: demo_task_def)
  with run show ?thesis by blast
qed

text \<open>
  When the queue is down at the moment a task first comes due, the run fails after the row was
  written, no job exists for it, and no later run ever makes one: the reminder is lost.
\<close>

theorem reminder_is_lost_when_the_queue_is_down:
  assumes ok: "reminders_ok w" and down: "\<not> queueUp w ''reminder.queue''"
    and due: "due_tasks pf 24 w = t # ts" and new: "\<not> has_reminder (task_id t) (the (task_dueDate t)) w"
    and run: "checkDueTasks pf w = (r, w1)"
  shows "r = Inl (ErrorE ''Connection is closed.'') \<and>
    (task_id t, the (task_dueDate t)) \<in> set (map reminder_key (reminders w1)) \<and>
    (task_id t, the (task_dueDate t)) \<notin> set (reminder_job_keys w1) \<and>
    (\<forall>qs dt. (task_id t, the (task_dueDate t)) \<notin>
       set (reminder_job_keys (snd (checkDueTasks pf (w1\<lparr>queueUp := qs, clock := clock w1 + dt\<rparr>)))))"
proof -
  let ?k = "(task_id t, the (task_dueDate t))"
  from due have "t \<in> set (due_tasks pf 24 w)" by simp
  then have ex: "task_exists (task_id t) w" by (auto simp: due_tasks_def task_exists_def)
  let ?w1 = "w\<lparr>draws := Suc (draws w), reminders := reminders w @ [pending_reminder pf t w]\<rparr>"
  have "remind_task pf ''24 hours'' t w = (Inl (ErrorE ''Connection is closed.''), ?w1)"
    using new ex down by (simp add: remind_task_eval Let_def)
  then have "checkDueTasks pf w = (Inl (ErrorE ''Connection is closed.''), ?w1)"
    by (simp add: checkDueTasks_def milestones_def check_milestone_def await_def gets_def due)
  with run have r: "r = Inl (ErrorE ''Connection is closed.'')" and w1: "w1 = ?w1" by simp_all
  have "?k \<notin> set (map reminder_key (reminders w))" using new by (simp add: has_reminder_key)
  with ok have "?k \<notin> set (reminder_job_keys w)" unfolding reminders_ok_def by blast
  then have lost: "lost_reminder ?k w1"
    by (simp add: lost_reminder_def w1 reminder_job_keys_def reminder_key_def pending_reminder_def)
  have "lost_reminder ?k (snd (checkDueTasks pf (w1\<lparr>queueUp := qs, clock := clock w1 + dt\<rparr>)))" for qs dt
    by (rule checkDueTasks_lost) (use lost in \<open>simp add: lost_reminder_def reminder_job_keys_def\<close>)
  with r lost show ?thesis by (simp add: lost_reminder_def)
qed

theorem reminder_is_lost_when_the_queue_is_down_witness:
  "fst (checkDueTasks demo_pf (demo_due\<lparr>queueUp := (\<lambda>_. False)\<rparr>)) = Inl (ErrorE ''Connection is closed.'')"
proof -
  let ?w = "demo_due\<lparr>queueUp := (\<lambda>_. False)\<rparr>"
  have ok: "reminders_ok ?w" using demo_due_ok by (simp add: reminders_ok_def reminder_job_keys_def)
  have down: "\<not> queueUp ?w ''reminder.queue''" by simp
  have due: "due_tasks demo_pf 24 ?w = [(demo_task 0 ''first'')\<lparr>task_dueDate := Some 86400000\<rparr>]"
    by (simp add: due_tasks_def demo_due_def demo_defs)
  have new: "\<not> has_reminder (task_id ((demo_task 0 ''first'')\<lparr>task_dueDate := Some 86400000\<rparr>))
      (the (task_dueDate ((demo_task 0 ''first'')\<lparr>task_dueDate := Some 86400000\<rparr>))) ?w"
    by (simp add: has_reminder_def demo_due_def demo_defs)
  obtain r w1 where run: "checkDueTasks demo_pf ?w = (r, w1)" by fastforce
  from reminder_is_lost_when_the_queue_is_down [OF ok down due new run] run show ?thesis by simp
qed

end
