(* ===== verification/Http.thy ===== *)
theory Http
  imports Guards Tasks
begin

text \<open>
  The HTTP edge: the configuration, the correlation id, the validation pipe with the request
  bodies of the controllers, the response envelope (\<open>transform.interceptor.ts\<close>) and the
  exception filter (\<open>global-exception.filter.ts\<close>). A request runs through them in the order
  middleware, guards, pipe, handler, and its outcome becomes exactly one response.
\<close>

section \<open>Configuration\<close>

text \<open>\<open>parseInt(x || default, 10)\<close>: leading digits, \<open>NaN\<close> (None) when there are none.\<close>

definition digit_value :: "char \<Rightarrow> nat option" where
  "digit_value c =
     (if of_char (CHR ''0'') \<le> (of_char c :: nat) \<and> (of_char c :: nat) \<le> of_char (CHR ''9'')
      then Some ((of_char c :: nat) - of_char (CHR ''0'')) else None)"

fun digits_value :: "nat \<Rightarrow> string \<Rightarrow> nat" where
  "digits_value acc [] = acc"
| "digits_value acc (c # cs) =
     (case digit_value c of None \<Rightarrow> acc | Some d \<Rightarrow> digits_value (10 * acc + d) cs)"

fun parse_port :: "string \<Rightarrow> nat option" where
  "parse_port [] = None"
| "parse_port (c # cs) = (case digit_value c of None \<Rightarrow> None | Some d \<Rightarrow> Some (digits_value d cs))"

record database_config =
  db_host :: string
  db_port :: "nat option"
  db_username :: string
  db_password :: string
  db_database :: string

record redis_config =
  redis_host :: string
  redis_port :: "nat option"
  redis_password :: string

record s3_config =
  s3_endpoint :: string
  s3_region :: string
  s3_accessKey :: string
  s3_secretKey :: string
  s3_bucket :: string

record app_config =
  cfg_port :: "nat option"
  cfg_environment :: string
  cfg_database :: database_config
  cfg_redis :: redis_config
  cfg_jwt :: jwt_config
  cfg_s3 :: s3_config

definition configuration :: "platform \<Rightarrow> app_config" where
  "configuration pf =
     \<lparr>cfg_port = parse_port (env_or pf ''PORT'' ''3000''),
      cfg_environment = env_or pf ''NODE_ENV'' ''development'',
      cfg_database =
        \<lparr>db_host = env_or pf ''DB_HOST'' ''localhost'',
         db_port = parse_port (env_or pf ''DB_PORT'' ''5432''),
         db_username = env_or pf ''DB_USERNAME'' ''postgres'',
         db_password = env_or pf ''DB_PASSWORD'' ''postgres'',
         db_database = env_or pf ''DB_DATABASE'' ''task_platform''\<rparr>,
      cfg_redis =
        \<lparr>redis_host = env_or pf ''REDIS_HOST'' ''localhost'',
         redis_port = parse_port (env_or pf ''REDIS_PORT'' ''6379''),
         redis_password = env_or pf ''REDIS_PASSWORD'' ''''\<rparr>,
      cfg_jwt = jwt_configuration pf,
      cfg_s3 =
        \<lparr>s3_endpoint = env_or pf ''S3_ENDPOINT'' ''http://localhost:9000'',
         s3_region = env_or pf ''S3_REGION'' ''us-east-1'',
         s3_accessKey = env_or pf ''S3_ACCESS_KEY'' ''minioadmin'',
         s3_secretKey = env_or pf ''S3_SECRET_KEY'' ''minioadmin'',
         s3_bucket = env_or pf ''S3_BUCKET'' ''task-attachments''\<rparr>\<rparr>"

section \<open>Request bodies\<close>

record signup_dto =
  sd_email :: string
  sd_password :: string
  sd_name :: string

record login_dto =
  ld_email :: string
  ld_password :: string
  ld_deviceFingerprint :: "string option"

record reset_password_dto =
  rp_email :: string
  rp_code :: string
  rp_newPassword :: string

record create_workspace_dto =
  cw_name :: string
  cw_slug :: "string option"

record invite_member_dto =
  im_email :: string
  im_role :: string

record create_project_dto =
  cp_name :: string
  cp_description :: "string option"

definition signupDto_valid :: "platform \<Rightarrow> signup_dto \<Rightarrow> bool" where
  "signupDto_valid pf d \<longleftrightarrow>
     pf_isEmail pf (sd_email d) \<and> sd_email d \<noteq> [] \<and> 6 \<le> length (sd_password d) \<and> sd_name d \<noteq> []"

definition loginDto_valid :: "platform \<Rightarrow> login_dto \<Rightarrow> bool" where
  "loginDto_valid pf d \<longleftrightarrow> pf_isEmail pf (ld_email d) \<and> ld_email d \<noteq> [] \<and> ld_password d \<noteq> []"

definition refreshTokenDto_valid :: "string \<Rightarrow> bool" where
  "refreshTokenDto_valid token \<longleftrightarrow> token \<noteq> []"

definition verifyEmailDto_valid :: "string \<Rightarrow> string \<Rightarrow> bool" where
  "verifyEmailDto_valid email code \<longleftrightarrow> email \<noteq> [] \<and> code \<noteq> []"

definition forgotPasswordDto_valid :: "platform \<Rightarrow> string \<Rightarrow> bool" where
  "forgotPasswordDto_valid pf email \<longleftrightarrow> pf_isEmail pf email \<and> email \<noteq> []"

definition resetPasswordDto_valid :: "platform \<Rightarrow> reset_password_dto \<Rightarrow> bool" where
  "resetPasswordDto_valid pf d \<longleftrightarrow>
     pf_isEmail pf (rp_email d) \<and> rp_email d \<noteq> [] \<and> rp_code d \<noteq> [] \<and> 6 \<le> length (rp_newPassword d)"

text \<open>\<open>@Matches(/^[a-z0-9-]+$/)\<close>\<close>

definition slug_pattern :: "string \<Rightarrow> bool" where
  "slug_pattern s \<longleftrightarrow> s \<noteq> [] \<and>
     list_all (\<lambda>c. (of_char (CHR ''a'') \<le> (of_char c :: nat) \<and> (of_char c :: nat) \<le> of_char (CHR ''z'')) \<or>
       digit_value c \<noteq> None \<or> c = CHR ''-'') s"

definition createWorkspaceDto_valid :: "create_workspace_dto \<Rightarrow> bool" where
  "createWorkspaceDto_valid d \<longleftrightarrow> cw_name d \<noteq> [] \<and> opt_valid slug_pattern (cw_slug d)"

definition inviteMemberDto_valid :: "platform \<Rightarrow> invite_member_dto \<Rightarrow> bool" where
  "inviteMemberDto_valid pf d \<longleftrightarrow>
     pf_isEmail pf (im_email d) \<and> im_email d \<noteq> [] \<and>
     (im_role d = role_value ADMIN \<or> im_role d = role_value MEMBER)"

definition createProjectDto_valid :: "create_project_dto \<Rightarrow> bool" where
  "createProjectDto_valid d \<longleftrightarrow> cp_name d \<noteq> []"

section \<open>The validation pipe\<close>

text \<open>
  \<open>whitelist\<close> with \<open>forbidNonWhitelisted\<close>: a body with a property that has no decorator in
  its class is refused, as is one a decorator rejects.
\<close>

definition pipe :: "platform \<Rightarrow> string list \<Rightarrow> bool \<Rightarrow> (http_request \<Rightarrow> 'a svc) \<Rightarrow> http_request \<Rightarrow> 'a svc" where
  "pipe pf decorated ok k r =
     (if set (map fst (rq_body r)) \<subseteq> set decorated \<and> ok then k r
      else throw (BadRequestException (pf_pipeMessage pf (map fst (rq_body r)))))"

text \<open>Guards run before the pipe; the handler sees what they attached.\<close>

definition guarded :: "platform \<Rightarrow> guard list \<Rightarrow> (http_request \<Rightarrow> 'a svc) \<Rightarrow> http_request \<Rightarrow> 'a svc" where
  "guarded pf gs k r w =
     (case run_guards gs pf w r of Inl e \<Rightarrow> (Inl e, w) | Inr r' \<Rightarrow> k r' w)"

text \<open>The decorators \<open>@CurrentUser(field)\<close> and \<open>@Param(name)\<close>.\<close>

definition CurrentUser :: "(jwt_payload \<Rightarrow> string) \<Rightarrow> http_request \<Rightarrow> string option" where
  "CurrentUser field r = map_option field (rq_user r)"

definition userId :: "http_request \<Rightarrow> string" where
  "userId r = the (CurrentUser jwt_userId r)"

definition param :: "http_request \<Rightarrow> string \<Rightarrow> string" where
  "param r name = the (map_of (rq_params r) name)"

section \<open>Responses\<close>

record request_line =
  rl_method :: string
  rl_url :: string
  rl_correlationId :: "string option"
    \<comment> \<open>the header \<open>x-correlation-id\<close>\<close>

record error_body =
  eb_statusCode :: nat
  eb_message :: string
  eb_error :: string
  eb_timestamp :: string
  eb_path :: string
  eb_correlationId :: string

datatype 'a response =
    Enveloped nat 'a string string
      \<comment> \<open>statusCode, data, timestamp, correlationId; \<open>success\<close> is true\<close>
  | Bare 'a
  | Failed error_body
      \<comment> \<open>\<open>success\<close> is false\<close>

text \<open>\<open>CorrelationIdMiddleware\<close>: the header's id, or a fresh one.\<close>

definition correlation :: "platform \<Rightarrow> request_line \<Rightarrow> string svc" where
  "correlation pf l =
     (if truthy (rl_correlationId l) then ret (the (rl_correlationId l)) else gen_uuid pf)"

fun exn_status :: "exn \<Rightarrow> nat" where
  "exn_status (BadRequestException m) = 400"
| "exn_status (UnauthorizedException m) = 401"
| "exn_status (ForbiddenException m) = 403"
| "exn_status (NotFoundException m) = 404"
| "exn_status (ConflictException m) = 409"
| "exn_status (ServiceUnavailableException m) = 503"
| "exn_status (QueryFailedError m) = 500"
| "exn_status OptimisticLockVersionMismatchError = 500"
| "exn_status (ErrorE m) = 500"

text \<open>
  The \<open>message\<close> and \<open>error\<close> of \<open>HttpException.getResponse()\<close>; for any other exception the
  filter substitutes the fixed message and falls back to the exception's name.
\<close>

fun exn_message :: "exn \<Rightarrow> string" where
  "exn_message (BadRequestException m) = m"
| "exn_message (UnauthorizedException m) = m"
| "exn_message (ForbiddenException m) = m"
| "exn_message (NotFoundException m) = m"
| "exn_message (ConflictException m) = m"
| "exn_message (ServiceUnavailableException m) = m"
| "exn_message _ = ''Internal server error''"

fun exn_error :: "exn \<Rightarrow> string" where
  "exn_error (BadRequestException m) = ''Bad Request''"
| "exn_error (UnauthorizedException m) = ''Unauthorized''"
| "exn_error (ForbiddenException m) = ''Forbidden''"
| "exn_error (NotFoundException m) = ''Not Found''"
| "exn_error (ConflictException m) = ''Conflict''"
| "exn_error (ServiceUnavailableException m) = ''Service Unavailable''"
| "exn_error (QueryFailedError m) = ''QueryFailedError''"
| "exn_error OptimisticLockVersionMismatchError = ''OptimisticLockVersionMismatchError''"
| "exn_error (ErrorE m) = ''Error''"

definition exception_filter :: "platform \<Rightarrow> request_line \<Rightarrow> string \<Rightarrow> exn \<Rightarrow> world \<Rightarrow> error_body" where
  "exception_filter pf l correlationId e w =
     \<lparr>eb_statusCode = exn_status e, eb_message = exn_message e, eb_error = exn_error e,
      eb_timestamp = pf_toISOString pf (clock w), eb_path = rl_url l,
      eb_correlationId = correlationId\<rparr>"

definition bypasses :: "string \<Rightarrow> bool" where
  "bypasses path \<longleftrightarrow>
     path = ''/metrics'' \<or> path = ''/api/v1/metrics'' \<or> sublist ''/health'' path \<or> sublist ''/docs'' path"

text \<open>
  One request: the correlation id, the route (guards, pipe, handler), and the interceptor's
  envelope or the filter's error. \<open>POST\<close> answers 201, the rest 200.
\<close>

definition success_status :: "string \<Rightarrow> nat" where
  "success_status m = (if m = ''POST'' then 201 else 200)"

definition respond :: "platform \<Rightarrow> request_line \<Rightarrow> 'a svc \<Rightarrow> world \<Rightarrow> 'a response \<times> world" where
  "respond pf l handler w =
     (case correlation pf l w of (c, w1) \<Rightarrow>
      (let cid = (case c of Inr i \<Rightarrow> i | Inl e \<Rightarrow> '''')
       in case handler w1 of (result, w2) \<Rightarrow>
         (case result of
            Inl e \<Rightarrow> (Failed (exception_filter pf l cid e w2), w2)
          | Inr x \<Rightarrow>
              if bypasses (rl_url l) then (Bare x, w2)
              else (Enveloped (success_status (rl_method l)) x (pf_toISOString pf (clock w2)) cid, w2))))"

section \<open>Laws\<close>

lemma guarded_Inl: "run_guards gs pf w r = Inl e \<Longrightarrow> guarded pf gs k r w = (Inl e, w)"
  by (simp add: guarded_def)

lemma guarded_Inr: "run_guards gs pf w r = Inr r' \<Longrightarrow> guarded pf gs k r w = k r' w"
  by (simp add: guarded_def)

lemma guarded_append:
  "run_guards (gs @ hs) pf w r = (case run_guards gs pf w r of Inl e \<Rightarrow> Inl e | Inr r' \<Rightarrow> run_guards hs pf w r')"
  by (induction gs arbitrary: r) (auto split: sum.split)

end
