(* ===== verification/Routes.thy ===== *)
theory Routes
  imports Http Auth Workspaces Projects Subtasks Comments
begin

text \<open>
  The controllers of \<open>src/src/modules\<close>: each route as its guards in the order they run, the
  validation of its body, and the service call it makes with the parameters and the identity the
  guards attached. One definition per route, named after the controller and the method.
\<close>

section \<open>Guards of the controllers\<close>

definition member_guards :: "guard list" where
  \<comment> \<open>\<open>@UseGuards(JwtAuthGuard, RoleGuard)\<close>\<close>
  "member_guards = [jwtAuthGuard, roleGuard None]"

definition permission_guards :: "permission list \<Rightarrow> guard list" where
  \<comment> \<open>the same with \<open>PermissionGuard\<close> and \<open>@Permissions(...)\<close>\<close>
  "permission_guards perms = member_guards @ [permissionGuard perms]"

section \<open>AuthController\<close>

definition AuthController_signup :: "platform \<Rightarrow> signup_dto \<Rightarrow> http_request \<Rightarrow> signup_result svc" where
  "AuthController_signup pf dto =
     pipe pf [''email'', ''password'', ''name''] (signupDto_valid pf dto)
       (\<lambda>r. signup pf (sd_email dto) (sd_password dto) (sd_name dto))"

definition AuthController_login ::
  "platform \<Rightarrow> string option \<Rightarrow> login_dto \<Rightarrow> http_request \<Rightarrow> login_result svc" where
  "AuthController_login pf ip dto =
     pipe pf [''email'', ''password'', ''deviceFingerprint''] (loginDto_valid pf dto)
       (\<lambda>r. login pf (ld_email dto) (ld_password dto)
         (first_truthy [ld_deviceFingerprint dto, map_of (rq_headers r) ''user-agent'', Some ''unknown'']) ip)"

definition AuthController_logout :: "platform \<Rightarrow> string \<Rightarrow> http_request \<Rightarrow> unit svc" where
  "AuthController_logout pf token =
     guarded pf [jwtAuthGuard] (pipe pf [''refreshToken''] (refreshTokenDto_valid token)
       (\<lambda>r. logout pf token (userId r)))"

definition AuthController_refresh :: "platform \<Rightarrow> string \<Rightarrow> http_request \<Rightarrow> token_pair svc" where
  "AuthController_refresh pf token =
     pipe pf [''refreshToken''] (refreshTokenDto_valid token) (\<lambda>r. refresh pf token)"

definition AuthController_verifyEmail :: "platform \<Rightarrow> string \<Rightarrow> string \<Rightarrow> http_request \<Rightarrow> unit svc" where
  "AuthController_verifyEmail pf email code =
     pipe pf [''email'', ''code''] (verifyEmailDto_valid email code) (\<lambda>r. verifyEmail pf email code)"

definition AuthController_forgotPassword :: "platform \<Rightarrow> string \<Rightarrow> http_request \<Rightarrow> unit svc" where
  "AuthController_forgotPassword pf email =
     pipe pf [''email''] (forgotPasswordDto_valid pf email) (\<lambda>r. requestPasswordReset pf email)"

definition AuthController_resetPassword :: "platform \<Rightarrow> reset_password_dto \<Rightarrow> http_request \<Rightarrow> unit svc" where
  "AuthController_resetPassword pf dto =
     pipe pf [''email'', ''code'', ''newPassword''] (resetPasswordDto_valid pf dto)
       (\<lambda>r. resetPassword pf (rp_email dto) (rp_code dto) (rp_newPassword dto))"

definition AuthController_getSessions :: "platform \<Rightarrow> http_request \<Rightarrow> user_session list svc" where
  "AuthController_getSessions pf = guarded pf [jwtAuthGuard] (\<lambda>r. getSessions (userId r))"

definition AuthController_revokeSession :: "platform \<Rightarrow> http_request \<Rightarrow> unit svc" where
  "AuthController_revokeSession pf =
     guarded pf [jwtAuthGuard] (\<lambda>r. revokeSession pf (param r ''sessionId'') (userId r))"

section \<open>UsersController\<close>

definition UsersController_getProfile :: "platform \<Rightarrow> http_request \<Rightarrow> user svc" where
  "UsersController_getProfile pf = guarded pf [jwtAuthGuard] (\<lambda>r. findUserById pf (userId r))"

text \<open>\<open>UpdateProfileDto\<close> has no decorators, so the pipe lets no property through.\<close>

definition UsersController_updateProfile :: "platform \<Rightarrow> http_request \<Rightarrow> user svc" where
  "UsersController_updateProfile pf =
     guarded pf [jwtAuthGuard] (pipe pf [] True (\<lambda>r. updateProfile pf (userId r) Undefined Undefined))"

section \<open>WorkspaceController and DashboardController\<close>

definition WorkspaceController_create ::
  "platform \<Rightarrow> create_workspace_dto \<Rightarrow> http_request \<Rightarrow> workspace svc" where
  "WorkspaceController_create pf dto =
     guarded pf [jwtAuthGuard] (pipe pf [''name'', ''slug''] (createWorkspaceDto_valid dto)
       (\<lambda>r. createWorkspace pf (userId r) (cw_name dto) (cw_slug dto)))"

definition WorkspaceController_getUserWorkspaces :: "platform \<Rightarrow> http_request \<Rightarrow> workspace option list svc" where
  "WorkspaceController_getUserWorkspaces pf =
     guarded pf [jwtAuthGuard] (\<lambda>r. getUserWorkspaces pf (userId r))"

definition WorkspaceController_getBySlug :: "platform \<Rightarrow> http_request \<Rightarrow> workspace_view svc" where
  "WorkspaceController_getBySlug pf = guarded pf member_guards (\<lambda>r. findWorkspaceBySlug pf (param r ''slug''))"

definition WorkspaceController_getById :: "platform \<Rightarrow> http_request \<Rightarrow> workspace_view svc" where
  "WorkspaceController_getById pf =
     guarded pf member_guards (\<lambda>r. findWorkspaceById pf (param r ''workspaceId''))"

text \<open>
  \<open>UpdateWorkspaceDto\<close> has no decorators either: a body with a name is refused. The call an
  empty body leads to, with the name \<open>undefined\<close>, is outside the service's type and is
  \<open>None\<close> here.
\<close>

definition WorkspaceController_update :: "platform \<Rightarrow> string option \<Rightarrow> http_request \<Rightarrow> workspace svc option" where
  "WorkspaceController_update pf name r =
     (if rq_body r = [] then None
      else Some (guarded pf (permission_guards [WORKSPACE_UPDATE])
             (pipe pf [] True
               (\<lambda>r. updateWorkspace pf (param r ''workspaceId'') (userId r) (the name))) r))"

definition WorkspaceController_delete :: "platform \<Rightarrow> http_request \<Rightarrow> unit svc" where
  "WorkspaceController_delete pf =
     guarded pf (permission_guards [WORKSPACE_DELETE])
       (\<lambda>r. deleteWorkspace pf (param r ''workspaceId'') (userId r))"

definition WorkspaceController_invite ::
  "platform \<Rightarrow> invite_member_dto \<Rightarrow> http_request \<Rightarrow> workspace_member svc" where
  "WorkspaceController_invite pf dto =
     guarded pf (permission_guards [WORKSPACE_INVITE])
       (pipe pf [''email'', ''role''] (inviteMemberDto_valid pf dto)
         (\<lambda>r. inviteMember pf (param r ''workspaceId'') (userId r) (im_email dto) (im_role dto)))"

definition WorkspaceController_getMembers ::
  "platform \<Rightarrow> http_request \<Rightarrow> (workspace_member \<times> user option) list svc" where
  "WorkspaceController_getMembers pf =
     guarded pf member_guards (\<lambda>r. getMembers pf (param r ''workspaceId''))"

definition DashboardController_getSummary :: "platform \<Rightarrow> http_request \<Rightarrow> summary svc" where
  "DashboardController_getSummary pf =
     guarded pf member_guards (\<lambda>r. getSummary (param r ''workspaceId''))"

section \<open>ProjectController\<close>

definition ProjectController_create ::
  "platform \<Rightarrow> create_project_dto \<Rightarrow> http_request \<Rightarrow> project svc" where
  "ProjectController_create pf dto =
     guarded pf (permission_guards [PROJECT_CREATE])
       (pipe pf [''name'', ''description''] (createProjectDto_valid dto)
         (\<lambda>r. createProject pf (param r ''workspaceId'') (userId r) (cp_name dto) (cp_description dto)))"

definition ProjectController_list :: "platform \<Rightarrow> http_request \<Rightarrow> project list svc" where
  "ProjectController_list pf = guarded pf member_guards (\<lambda>r. getProjects (param r ''workspaceId''))"

definition ProjectController_get :: "platform \<Rightarrow> http_request \<Rightarrow> project svc" where
  "ProjectController_get pf =
     guarded pf member_guards (\<lambda>r. findProjectById pf (param r ''projectId'') (param r ''workspaceId''))"

text \<open>\<open>UpdateProjectDto\<close> has no decorators: only an empty body reaches the service.\<close>

definition ProjectController_update :: "platform \<Rightarrow> http_request \<Rightarrow> project svc" where
  "ProjectController_update pf =
     guarded pf (permission_guards [PROJECT_UPDATE])
       (pipe pf [] True
         (\<lambda>r. updateProject pf (param r ''projectId'') (param r ''workspaceId'') (userId r)
           Undefined Undefined Undefined))"

definition ProjectController_delete :: "platform \<Rightarrow> http_request \<Rightarrow> unit svc" where
  "ProjectController_delete pf =
     guarded pf (permission_guards [PROJECT_DELETE])
       (\<lambda>r. deleteProject pf (param r ''projectId'') (param r ''workspaceId'') (userId r))"

section \<open>TaskController\<close>

definition create_task_properties :: "string list" where
  "create_task_properties =
     [''title'', ''description'', ''parentTaskId'', ''priority'', ''assignedTo'', ''dueDate'',
      ''labels'', ''attachments'']"

definition update_task_properties :: "string list" where
  "update_task_properties =
     [''title'', ''description'', ''status'', ''priority'', ''assignedTo'', ''dueDate'', ''labels'',
      ''attachments'', ''version'']"

definition TaskController_create :: "platform \<Rightarrow> create_task_dto \<Rightarrow> http_request \<Rightarrow> task svc" where
  "TaskController_create pf dto =
     guarded pf (permission_guards [TASK_CREATE])
       (pipe pf create_task_properties (createTaskDto_valid pf dto)
         (\<lambda>r. createTask pf (param r ''workspaceId'') (param r ''projectId'') (userId r) dto))"

definition TaskController_list :: "platform \<Rightarrow> query_task_dto \<Rightarrow> http_request \<Rightarrow> task_page svc" where
  "TaskController_list pf q =
     guarded pf member_guards
       (\<lambda>r. if queryTaskDto_valid q
            then getTasks pf (param r ''workspaceId'') (param r ''projectId'') q
            else throw (BadRequestException (pf_pipeMessage pf (map fst (rq_query r)))))"

definition TaskController_get :: "platform \<Rightarrow> http_request \<Rightarrow> task_view svc" where
  "TaskController_get pf =
     guarded pf member_guards (\<lambda>r. findById pf (param r ''taskId'') (param r ''workspaceId''))"

text \<open>
  Both \<open>@Put\<close> and \<open>@Patch\<close> decorate the method; each writes the same metadata key, so the
  router registers only the one applied last, \<open>@Put\<close>.
\<close>

definition TaskController_update ::
  "platform \<Rightarrow> update_task_dto \<Rightarrow> http_request \<Rightarrow> task_view svc" where
  "TaskController_update pf dto =
     guarded pf (permission_guards [TASK_UPDATE])
       (pipe pf update_task_properties (updateTaskDto_valid pf dto)
         (\<lambda>r. updateTask pf (param r ''taskId'') (param r ''workspaceId'') (userId r) dto))"

definition TaskController_delete :: "platform \<Rightarrow> http_request \<Rightarrow> unit svc" where
  "TaskController_delete pf =
     guarded pf (permission_guards [TASK_DELETE])
       (\<lambda>r. deleteTask pf (param r ''taskId'') (param r ''workspaceId'') (userId r))"

text \<open>\<open>FilesService\<close>: presigned URLs for one hour in the configured bucket.\<close>

definition getUploadPresignedUrl :: "platform \<Rightarrow> string \<Rightarrow> string \<Rightarrow> string" where
  "getUploadPresignedUrl pf key contentType =
     pf_presign pf ''PutObject'' (s3_bucket (cfg_s3 (configuration pf))) key (Some contentType) 3600"

definition getDownloadPresignedUrl :: "platform \<Rightarrow> string \<Rightarrow> string" where
  "getDownloadPresignedUrl pf key =
     pf_presign pf ''GetObject'' (s3_bucket (cfg_s3 (configuration pf))) key None 3600"

record presigned =
  ps_uploadUrl :: string
  ps_downloadUrl :: string
  ps_key :: string

definition TaskController_getAttachmentPresign ::
  "platform \<Rightarrow> string \<Rightarrow> string \<Rightarrow> http_request \<Rightarrow> presigned svc" where
  "TaskController_getAttachmentPresign pf filename contentType =
     guarded pf member_guards
       (\<lambda>r. await (gen_uuid pf) (\<lambda>i.
         let key = ''workspaces/'' @ param r ''workspaceId'' @ ''/tasks/'' @ param r ''taskId'' @ ''/'' @ i @
                   ''-'' @ filename
         in ret \<lparr>ps_uploadUrl = getUploadPresignedUrl pf key contentType,
                 ps_downloadUrl = getDownloadPresignedUrl pf key, ps_key = key\<rparr>))"

section \<open>SubtaskController, CommentController, NotificationController, AuditController\<close>

text \<open>\<open>None\<close>: the query does not return.\<close>

definition hierarchy_route ::
  "platform \<Rightarrow> (string \<Rightarrow> string \<Rightarrow> world \<Rightarrow> (exn + 'a) option) \<Rightarrow> http_request \<Rightarrow> world \<Rightarrow> (exn + 'a) option" where
  "hierarchy_route pf query r w =
     (case run_guards member_guards pf w r of
        Inl e \<Rightarrow> Some (Inl e)
      | Inr r' \<Rightarrow> query (param r' ''taskId'') (param r' ''workspaceId'') w)"

definition SubtaskController_getTree ::
  "platform \<Rightarrow> http_request \<Rightarrow> world \<Rightarrow> (exn + task_node option) option" where
  "SubtaskController_getTree pf = hierarchy_route pf getTaskTree"

definition SubtaskController_getDescendants ::
  "platform \<Rightarrow> http_request \<Rightarrow> world \<Rightarrow> (exn + task_row list) option" where
  "SubtaskController_getDescendants pf = hierarchy_route pf getDescendants"

definition SubtaskController_getAncestors ::
  "platform \<Rightarrow> http_request \<Rightarrow> world \<Rightarrow> (exn + task_row list) option" where
  "SubtaskController_getAncestors pf = hierarchy_route pf getAncestors"

definition CommentController_add :: "platform \<Rightarrow> string \<Rightarrow> http_request \<Rightarrow> task_comment svc" where
  "CommentController_add pf message =
     guarded pf member_guards
       (pipe pf [''message''] (createCommentDto_valid message)
         (\<lambda>r. addComment pf (param r ''workspaceId'') (param r ''taskId'') (userId r) message))"

definition CommentController_list ::
  "platform \<Rightarrow> http_request \<Rightarrow> (task_comment \<times> user option) list svc" where
  "CommentController_list pf =
     guarded pf member_guards (\<lambda>r. getComments pf (param r ''taskId'') (param r ''workspaceId''))"

definition NotificationController_getNotifications :: "platform \<Rightarrow> http_request \<Rightarrow> notification list svc" where
  "NotificationController_getNotifications pf =
     guarded pf [jwtAuthGuard] (\<lambda>r. getNotificationsForUser (userId r) None)"

definition NotificationController_markAsRead :: "platform \<Rightarrow> http_request \<Rightarrow> notification option svc" where
  "NotificationController_markAsRead pf =
     guarded pf [jwtAuthGuard] (\<lambda>r. markAsRead pf (param r ''id'') (userId r))"

definition NotificationController_markAllAsRead :: "platform \<Rightarrow> http_request \<Rightarrow> bool svc" where
  "NotificationController_markAllAsRead pf = guarded pf [jwtAuthGuard] (\<lambda>r. markAllAsRead (userId r))"

definition AuditController_getAuditLogs ::
  "platform \<Rightarrow> nat \<Rightarrow> nat \<Rightarrow> http_request \<Rightarrow> ((audit_log \<times> user option) list \<times> nat) svc" where
  "AuditController_getAuditLogs pf page limit =
     guarded pf [jwtAuthGuard]
       (\<lambda>r. if CurrentUser jwt_email r \<noteq> Some ''admin@gmail.com''
            then throw (ForbiddenException
              ''Only system administrators can access global security audit logs.'')
            else if page = 0 then throw (QueryFailedError ''OFFSET must not be negative'')
            else
              gets (\<lambda>w.
                (map (\<lambda>a. (a, Option.bind (audit_userId a) (\<lambda>u. find_user pf u w)))
                   (take limit (drop ((page - 1) * limit) (order_desc audit_createdAt (auditLogs w)))),
                 length (auditLogs w))))"

end
