(* ===== verification/Store.thy ===== *)
theory Store
  imports Entities
begin

text \<open>
  The browser's side of the session, \<open>src/frontend/src/app/store\<close>: the slices of the
  Redux store with their reducers and the local storage some of them write. One record holds what
  a tab has, the five slices and the storage; a reducer takes the payload of its action.
\<close>

section \<open>Local storage\<close>

text \<open>
  A stored text is a string, or the JSON text of a user (\<open>JSON.stringify(user)\<close>), which is
  kept as the value it denotes.
\<close>

record user_info =
  info_id :: string
  info_email :: string
  info_name :: string
  info_avatar :: "string option"
  info_isVerified :: bool

datatype stored = Text string | UserText "user_info option"

type_synonym local_storage = "string \<rightharpoonup> stored"

definition getItem :: "string \<Rightarrow> local_storage \<Rightarrow> string option" where
  "getItem k ls = (case ls k of Some (Text s) \<Rightarrow> Some s | _ \<Rightarrow> None)"

definition getUser :: "local_storage \<Rightarrow> user_info option" where
  "getUser ls = (case ls ''user_info'' of Some (UserText u) \<Rightarrow> u | _ \<Rightarrow> None)"

section \<open>State\<close>

record auth_state =
  au_token :: "string option"
  au_user :: "user_info option"
  au_isAuthenticated :: bool

record workspace_info =
  wi_id :: string
  wi_name :: string
  wi_slug :: string
  wi_ownerId :: string
  wi_createdAt :: string

record workspace_state =
  ws_activeWorkspaceId :: "string option"
  ws_workspaces :: "workspace_info list"
  ws_members :: "json list"
  ws_isLoading :: bool

record project_info =
  pi_id :: string
  pi_workspaceId :: string
  pi_name :: string
  pi_description :: "string option"
  pi_isArchived :: bool
  pi_createdAt :: string

record project_state =
  pj_activeProjectId :: "string option"
  pj_projects :: "project_info list"

datatype task_view_mode = ListView | BoardView | CalendarView | TimelineView | TableView

record task_filters =
  tf_status :: "string option"
  tf_priority :: "string option"
  tf_assignedTo :: "string option"
  tf_search :: "string option"

record task_state =
  tk_view :: task_view_mode
  tk_filters :: task_filters
  tk_selectedTaskId :: "string option"

record ui_state =
  ui_sidebarOpen :: bool
  ui_notificationDrawerOpen :: bool
  ui_rightContextPanelOpen :: bool
  ui_commandPaletteOpen :: bool
  ui_quickCreateTaskOpen :: bool

record browser =
  st_auth :: auth_state
  st_workspace :: workspace_state
  st_project :: project_state
  st_task :: task_state
  st_ui :: ui_state
  st_storage :: local_storage

text \<open>Loading the page: every slice takes its initial state, two of them from the storage.\<close>

definition initial_auth :: "local_storage \<Rightarrow> auth_state" where
  "initial_auth ls =
     \<lparr>au_token = getItem ''access_token'' ls, au_user = getUser ls,
      au_isAuthenticated = truthy (getItem ''access_token'' ls)\<rparr>"

definition initial_workspace :: "local_storage \<Rightarrow> workspace_state" where
  "initial_workspace ls =
     \<lparr>ws_activeWorkspaceId = getItem ''active_workspace_id'' ls, ws_workspaces = [], ws_members = [],
      ws_isLoading = False\<rparr>"

definition initial_project :: project_state where
  "initial_project = \<lparr>pj_activeProjectId = None, pj_projects = []\<rparr>"

definition no_filters :: task_filters where
  "no_filters = \<lparr>tf_status = None, tf_priority = None, tf_assignedTo = None, tf_search = Some ''''\<rparr>"

definition initial_task :: task_state where
  "initial_task = \<lparr>tk_view = BoardView, tk_filters = no_filters, tk_selectedTaskId = None\<rparr>"

definition initial_ui :: ui_state where
  "initial_ui = \<lparr>ui_sidebarOpen = True, ui_notificationDrawerOpen = False,
     ui_rightContextPanelOpen = False, ui_commandPaletteOpen = False, ui_quickCreateTaskOpen = False\<rparr>"

definition load_page :: "local_storage \<Rightarrow> browser" where
  "load_page ls =
     \<lparr>st_auth = initial_auth ls, st_workspace = initial_workspace ls, st_project = initial_project,
      st_task = initial_task, st_ui = initial_ui, st_storage = ls\<rparr>"

section \<open>Reducers of the auth slice\<close>

text \<open>A property a payload may leave out is \<open>None\<close>.\<close>

definition setCredentials :: "string \<Rightarrow> string option \<Rightarrow> user_info option \<Rightarrow> browser \<Rightarrow> browser" where
  "setCredentials token refreshToken user b =
     (let ls = (st_storage b)(''access_token'' \<mapsto> Text token);
          ls = (if truthy refreshToken then ls(''refresh_token'' \<mapsto> Text (the refreshToken)) else ls)
      in b\<lparr>st_auth := \<lparr>au_token = Some token, au_user = user, au_isAuthenticated = True\<rparr>,
           st_storage := ls(''user_info'' \<mapsto> UserText user)\<rparr>)"

record user_patch =
  up_id :: "string option"
  up_email :: "string option"
  up_name :: "string option"
  up_avatar :: "string option"
  up_isVerified :: "bool option"

fun given :: "'a option \<Rightarrow> 'a \<Rightarrow> 'a" where
  "given None x = x"
| "given (Some y) x = y"

definition patch_user :: "user_patch \<Rightarrow> user_info \<Rightarrow> user_info" where
  "patch_user p u =
     \<lparr>info_id = given (up_id p) (info_id u), info_email = given (up_email p) (info_email u),
      info_name = given (up_name p) (info_name u),
      info_avatar = (case up_avatar p of None \<Rightarrow> info_avatar u | Some a \<Rightarrow> Some a),
      info_isVerified = given (up_isVerified p) (info_isVerified u)\<rparr>"

definition updateUser :: "user_patch \<Rightarrow> browser \<Rightarrow> browser" where
  "updateUser p b =
     (case au_user (st_auth b) of
        None \<Rightarrow> b
      | Some u \<Rightarrow>
          b\<lparr>st_auth := (st_auth b)\<lparr>au_user := Some (patch_user p u)\<rparr>,
            st_storage := (st_storage b)(''user_info'' \<mapsto> UserText (Some (patch_user p u)))\<rparr>)"

definition removeItems :: "string list \<Rightarrow> local_storage \<Rightarrow> local_storage" where
  "removeItems ks ls = (\<lambda>k. if k \<in> set ks then None else ls k)"

definition logout_action :: "browser \<Rightarrow> browser" where
  "logout_action b =
     b\<lparr>st_auth := \<lparr>au_token = None, au_user = None, au_isAuthenticated = False\<rparr>,
       st_storage := removeItems [''access_token'', ''refresh_token'', ''user_info'', ''active_workspace_id'']
         (st_storage b)\<rparr>"

section \<open>Reducers of the workspace slice\<close>

definition setActiveWorkspaceId :: "string option \<Rightarrow> browser \<Rightarrow> browser" where
  "setActiveWorkspaceId i b =
     b\<lparr>st_workspace := (st_workspace b)\<lparr>ws_activeWorkspaceId := i\<rparr>,
       st_storage :=
         (if truthy i then (st_storage b)(''active_workspace_id'' \<mapsto> Text (the i))
          else removeItems [''active_workspace_id''] (st_storage b))\<rparr>"

definition setWorkspaces :: "workspace_info list \<Rightarrow> browser \<Rightarrow> browser" where
  "setWorkspaces xs b =
     (let b' = b\<lparr>st_workspace := (st_workspace b)\<lparr>ws_workspaces := xs\<rparr>\<rparr>
      in if xs \<noteq> [] \<and> \<not> truthy (ws_activeWorkspaceId (st_workspace b)) then
           b'\<lparr>st_workspace := (st_workspace b')\<lparr>ws_activeWorkspaceId := Some (wi_id (hd xs))\<rparr>,
              st_storage := (st_storage b')(''active_workspace_id'' \<mapsto> Text (wi_id (hd xs)))\<rparr>
         else b')"

definition setMembers :: "json list \<Rightarrow> browser \<Rightarrow> browser" where
  "setMembers ms b = b\<lparr>st_workspace := (st_workspace b)\<lparr>ws_members := ms\<rparr>\<rparr>"

definition clearWorkspaceState :: "browser \<Rightarrow> browser" where
  "clearWorkspaceState b =
     b\<lparr>st_workspace := (st_workspace b)\<lparr>ws_activeWorkspaceId := None, ws_workspaces := [], ws_members := []\<rparr>\<rparr>"

section \<open>Reducers of the project, task and ui slices\<close>

definition setActiveProjectId :: "string option \<Rightarrow> browser \<Rightarrow> browser" where
  "setActiveProjectId i b = b\<lparr>st_project := (st_project b)\<lparr>pj_activeProjectId := i\<rparr>\<rparr>"

definition setProjects :: "project_info list \<Rightarrow> browser \<Rightarrow> browser" where
  "setProjects ps b = b\<lparr>st_project := (st_project b)\<lparr>pj_projects := ps\<rparr>\<rparr>"

definition clearProjectState :: "browser \<Rightarrow> browser" where
  "clearProjectState b = b\<lparr>st_project := \<lparr>pj_activeProjectId = None, pj_projects = []\<rparr>\<rparr>"

definition setView :: "task_view_mode \<Rightarrow> browser \<Rightarrow> browser" where
  "setView v b = b\<lparr>st_task := (st_task b)\<lparr>tk_view := v\<rparr>\<rparr>"

text \<open>
  \<open>{ ...state.filters, ...action.payload }\<close>: a property the payload has, even as
  \<open>undefined\<close>, replaces the filter; one it lacks keeps it. The payload is the list of its
  properties.
\<close>

datatype filter_key = StatusKey | PriorityKey | AssignedToKey | SearchKey

fun put_filter :: "filter_key \<times> string option \<Rightarrow> task_filters \<Rightarrow> task_filters" where
  "put_filter (StatusKey, v) f = f\<lparr>tf_status := v\<rparr>"
| "put_filter (PriorityKey, v) f = f\<lparr>tf_priority := v\<rparr>"
| "put_filter (AssignedToKey, v) f = f\<lparr>tf_assignedTo := v\<rparr>"
| "put_filter (SearchKey, v) f = f\<lparr>tf_search := v\<rparr>"

definition setFilters :: "(filter_key \<times> string option) list \<Rightarrow> browser \<Rightarrow> browser" where
  "setFilters ps b = b\<lparr>st_task := (st_task b)\<lparr>tk_filters := fold put_filter ps (tk_filters (st_task b))\<rparr>\<rparr>"

definition resetFilters :: "browser \<Rightarrow> browser" where
  "resetFilters b = b\<lparr>st_task := (st_task b)\<lparr>tk_filters := no_filters\<rparr>\<rparr>"

definition setSelectedTaskId :: "string option \<Rightarrow> browser \<Rightarrow> browser" where
  "setSelectedTaskId i b = b\<lparr>st_task := (st_task b)\<lparr>tk_selectedTaskId := i\<rparr>\<rparr>"

datatype panel = Sidebar | NotificationDrawer | RightContextPanel | CommandPalette | QuickCreateTask

fun panel_open :: "panel \<Rightarrow> ui_state \<Rightarrow> bool" where
  "panel_open Sidebar u = ui_sidebarOpen u"
| "panel_open NotificationDrawer u = ui_notificationDrawerOpen u"
| "panel_open RightContextPanel u = ui_rightContextPanelOpen u"
| "panel_open CommandPalette u = ui_commandPaletteOpen u"
| "panel_open QuickCreateTask u = ui_quickCreateTaskOpen u"

text \<open>The five \<open>set...Open\<close> reducers, and the five toggles.\<close>

fun set_panel :: "panel \<Rightarrow> bool \<Rightarrow> ui_state \<Rightarrow> ui_state" where
  "set_panel Sidebar v u = u\<lparr>ui_sidebarOpen := v\<rparr>"
| "set_panel NotificationDrawer v u = u\<lparr>ui_notificationDrawerOpen := v\<rparr>"
| "set_panel RightContextPanel v u = u\<lparr>ui_rightContextPanelOpen := v\<rparr>"
| "set_panel CommandPalette v u = u\<lparr>ui_commandPaletteOpen := v\<rparr>"
| "set_panel QuickCreateTask v u = u\<lparr>ui_quickCreateTaskOpen := v\<rparr>"

definition setOpen :: "panel \<Rightarrow> bool \<Rightarrow> browser \<Rightarrow> browser" where
  "setOpen p v b = b\<lparr>st_ui := set_panel p v (st_ui b)\<rparr>"

definition toggle :: "panel \<Rightarrow> browser \<Rightarrow> browser" where
  "toggle p b = b\<lparr>st_ui := set_panel p (\<not> panel_open p (st_ui b)) (st_ui b)\<rparr>"

section \<open>Actions\<close>

datatype action =
    SetCredentials string "string option" "user_info option"
  | UpdateUser user_patch
  | Logout
  | SetActiveWorkspaceId "string option"
  | SetWorkspaces "workspace_info list"
  | SetMembers "json list"
  | ClearWorkspaceState
  | SetActiveProjectId "string option"
  | SetProjects "project_info list"
  | ClearProjectState
  | SetView task_view_mode
  | SetFilters "(filter_key \<times> string option) list"
  | ResetFilters
  | SetSelectedTaskId "string option"
  | SetOpen panel bool
  | Toggle panel

fun dispatch :: "action \<Rightarrow> browser \<Rightarrow> browser" where
  "dispatch (SetCredentials t r u) = setCredentials t r u"
| "dispatch (UpdateUser p) = updateUser p"
| "dispatch Logout = logout_action"
| "dispatch (SetActiveWorkspaceId i) = setActiveWorkspaceId i"
| "dispatch (SetWorkspaces xs) = setWorkspaces xs"
| "dispatch (SetMembers ms) = setMembers ms"
| "dispatch ClearWorkspaceState = clearWorkspaceState"
| "dispatch (SetActiveProjectId i) = setActiveProjectId i"
| "dispatch (SetProjects ps) = setProjects ps"
| "dispatch ClearProjectState = clearProjectState"
| "dispatch (SetView v) = setView v"
| "dispatch (SetFilters ps) = setFilters ps"
| "dispatch ResetFilters = resetFilters"
| "dispatch (SetSelectedTaskId i) = setSelectedTaskId i"
| "dispatch (SetOpen p v) = setOpen p v"
| "dispatch (Toggle p) = toggle p"

text \<open>\<open>ProtectedRoute\<close> and \<open>GuestRoute\<close>: where each sends the visitor, if anywhere.\<close>

definition ProtectedRoute :: "browser \<Rightarrow> string option" where
  "ProtectedRoute b = (if \<not> au_isAuthenticated (st_auth b) then Some ''/login'' else None)"

definition GuestRoute :: "browser \<Rightarrow> string option" where
  "GuestRoute b = (if au_isAuthenticated (st_auth b) then Some ''/'' else None)"

lemmas auth_reducers = setCredentials_def updateUser_def logout_action_def

lemmas other_reducers =
  setActiveWorkspaceId_def setWorkspaces_def setMembers_def clearWorkspaceState_def
  setActiveProjectId_def setProjects_def clearProjectState_def setView_def setFilters_def
  resetFilters_def setSelectedTaskId_def setOpen_def toggle_def

section \<open>The session survives a reload\<close>

text \<open>What the page would load from the storage is what it has.\<close>

definition auth_stored :: "browser \<Rightarrow> bool" where
  "auth_stored b \<longleftrightarrow> initial_auth (st_storage b) = st_auth b"

lemma getItem_simps [simp]:
  "getItem k (ls(k' \<mapsto> Text s)) = (if k = k' then Some s else getItem k ls)"
  "k \<noteq> k' \<Longrightarrow> getItem k (ls(k' \<mapsto> v)) = getItem k ls"
  "getItem k (removeItems ks ls) = (if k \<in> set ks then None else getItem k ls)"
  by (simp_all add: getItem_def removeItems_def)

lemma getUser_simps [simp]:
  "getUser (ls(''user_info'' \<mapsto> UserText u)) = u"
  "k \<noteq> ''user_info'' \<Longrightarrow> getUser (ls(k \<mapsto> v)) = getUser ls"
  "getUser (removeItems ks ls) = (if ''user_info'' \<in> set ks then None else getUser ls)"
  by (simp_all add: getUser_def removeItems_def)

lemma auth_stored_load: "auth_stored (load_page ls)"
  by (simp add: auth_stored_def load_page_def)

lemma dispatch_auth_stored:
  assumes "auth_stored b" and "\<And>t r u. a = SetCredentials t r u \<Longrightarrow> t \<noteq> []"
  shows "auth_stored (dispatch a b)"
proof (cases a)
  case (SetCredentials t r u)
  with assms(2) have "t \<noteq> []" by blast
  with SetCredentials show ?thesis
    by (simp add: auth_stored_def auth_reducers initial_auth_def Let_def)
next
  case (UpdateUser p)
  from assms(1) have "st_auth b = initial_auth (st_storage b)" by (simp add: auth_stored_def)
  with UpdateUser show ?thesis
    by (cases "getUser (st_storage b)") (simp_all add: auth_stored_def auth_reducers initial_auth_def)
qed (use assms(1) in \<open>simp_all add: auth_stored_def auth_reducers other_reducers initial_auth_def Let_def\<close>)

lemma toggle_toggle [simp]: "toggle p (toggle p b) = b"
  by (cases p) (simp_all add: toggle_def)

lemma route_exclusive: "ProtectedRoute b = None \<longleftrightarrow> GuestRoute b = Some ''/''"
  by (simp add: ProtectedRoute_def GuestRoute_def)

end
