(* ===== verification/ApiClient.thy ===== *)
theory ApiClient
  imports Store AuthLaws
begin

text \<open>
  \<open>src/frontend/src/app/api/apiSlice.ts\<close>: how the browser sends a request, what it makes
  of the answer, and how requests that are refused with 401 share one refresh of the tokens. The
  refresh runs against the model of \<open>AuthService.refresh\<close>, so that the two ends of the
  token rotation meet in one state.
\<close>

section \<open>One request\<close>

record fetch_args =
  fa_url :: string
  fa_method :: "string option"
  fa_body :: "json option"
  fa_params :: "(string \<times> string) list"
  fa_headers :: "(string \<times> string) list"

definition fetch_url :: "string \<Rightarrow> fetch_args" where
  "fetch_url u = \<lparr>fa_url = u, fa_method = None, fa_body = None, fa_params = [], fa_headers = []\<rparr>"

definition request_method :: "fetch_args \<Rightarrow> string" where
  "request_method a = given (fa_method a) ''GET''"

definition request_headers :: "browser \<Rightarrow> fetch_args \<Rightarrow> string \<rightharpoonup> string" where
  "request_headers b a =
     (let token = au_token (st_auth b);
          workspaceId = ws_activeWorkspaceId (st_workspace b);
          h = fold (\<lambda>(k, v) m. m(k \<mapsto> v)) (fa_headers a) Map.empty;
          h = (if truthy token then h(''Authorization'' \<mapsto> ''Bearer '' @ the token) else h)
      in if truthy workspaceId then h(''x-workspace-id'' \<mapsto> the workspaceId) else h)"

text \<open>
  What the HTTP client hands back: an answer, which it throws unless its status is 2xx, or an
  error with a message of its own.
\<close>

datatype reply = Answer nat json | NoAnswer string

datatype query_result = QueryData json | QueryError nat json

fun json_truthy :: "json \<Rightarrow> bool" where
  "json_truthy JNull = False"
| "json_truthy (JBool v) = v"
| "json_truthy (JNum n) = (n \<noteq> 0)"
| "json_truthy (JStr s) = (s \<noteq> [])"
| "json_truthy (JArr xs) = True"
| "json_truthy (JObj fs) = True"

definition unwrap :: "json \<Rightarrow> json" where
  "unwrap j =
     (case j of
        JObj fs \<Rightarrow>
          (case (map_of fs ''success'', map_of fs ''data'') of (Some _, Some d) \<Rightarrow> d | _ \<Rightarrow> j)
      | _ \<Rightarrow> j)"

text \<open>The argument \<open>message\<close> is the text the HTTP client gives an error of that status.\<close>

definition axiosBaseQuery :: "(nat \<Rightarrow> string) \<Rightarrow> reply \<Rightarrow> query_result" where
  "axiosBaseQuery message r =
     (case r of
        Answer status j \<Rightarrow>
          if 200 \<le> status \<and> status < 300 then QueryData (unwrap j)
          else QueryError (if status = 0 then 500 else status)
                 (if json_truthy j then j else JObj [(''message'', JStr (message status))])
      | NoAnswer m \<Rightarrow> QueryError 500 (JObj [(''message'', JStr m)]))"

section \<open>Calls that share a refresh\<close>

datatype call_phase =
    Sent
      \<comment> \<open>the first attempt is under way\<close>
  | Waiting
      \<comment> \<open>refused with 401, awaiting \<open>refreshPromise\<close>\<close>
  | Retrying
  | Finished

text \<open>
  \<open>refreshPromise\<close>: the request for new tokens on its way, with the token it carries, or its
  result on its way back.
\<close>

datatype refresh_call = Asked string | Answered "token_pair option"

record tab =
  tab_browser :: browser
  tab_refresh :: "refresh_call option"
  tab_calls :: "call_phase list"

definition send_call :: "tab \<Rightarrow> tab" where
  "send_call t = t\<lparr>tab_calls := tab_calls t @ [Sent]\<rparr>"

text \<open>The first attempt of a call was answered 401.\<close>

definition on_unauthorized :: "nat \<Rightarrow> tab \<Rightarrow> tab" where
  "on_unauthorized i t =
     (let refreshToken = getItem ''refresh_token'' (st_storage (tab_browser t))
      in if truthy refreshToken then
           t\<lparr>tab_refresh := (case tab_refresh t of None \<Rightarrow> Some (Asked (the refreshToken)) | Some c \<Rightarrow> Some c),
             tab_calls := (tab_calls t)[i := Waiting]\<rparr>
         else
           t\<lparr>tab_browser := dispatch Logout (tab_browser t), tab_calls := (tab_calls t)[i := Finished]\<rparr>)"

text \<open>
  The result of the refresh reaches the tab: \<open>refreshQuery\<close> runs to its end, and with it
  every call that awaits the promise.
\<close>

definition store_tokens :: "token_pair \<Rightarrow> browser \<Rightarrow> browser" where
  "store_tokens p b =
     (let b' = dispatch (SetCredentials (accessToken p) None (au_user (st_auth b))) b
      in b'\<lparr>st_storage := (st_storage b')(''refresh_token'' \<mapsto> Text (refreshToken p))\<rparr>)"

definition force_logout :: "browser \<Rightarrow> browser" where
  "force_logout b =
     (let b' = dispatch Logout b
      in b'\<lparr>st_storage := removeItems [''refresh_token''] (st_storage b')\<rparr>)"

definition resume :: "call_phase \<Rightarrow> call_phase \<Rightarrow> call_phase" where
  "resume to c = (if c = Waiting then to else c)"

definition refreshed :: "token_pair option \<Rightarrow> tab \<Rightarrow> tab" where
  "refreshed r t =
     (let b = (case r of None \<Rightarrow> tab_browser t | Some p \<Rightarrow> store_tokens p (tab_browser t));
          newToken = map_option accessToken r
      in if truthy newToken then
           t\<lparr>tab_browser := b, tab_refresh := None, tab_calls := map (resume Retrying) (tab_calls t)\<rparr>
         else
           t\<lparr>tab_browser := (if Waiting \<in> set (tab_calls t) then force_logout b else b),
             tab_refresh := None, tab_calls := map (resume Finished) (tab_calls t)\<rparr>)"

section \<open>A tab and the server\<close>

text \<open>
  What other requests may do to the sessions of a user while the tab is open: revoke them, but
  neither open one (a login) nor rotate one (another device).
\<close>

definition no_new_session :: "string \<Rightarrow> world \<Rightarrow> world \<Rightarrow> bool" where
  "no_new_session u w w' \<longleftrightarrow>
     (\<forall>s \<in> set (sessions w'). live_session u s \<longrightarrow>
        (\<exists>s0 \<in> set (sessions w). live_session u s0 \<and> session_id s0 = session_id s \<and>
           session_tokenHash s0 = session_tokenHash s))"

definition pair_of :: "exn + token_pair \<Rightarrow> token_pair option" where
  "pair_of r = (case r of Inl e \<Rightarrow> None | Inr p \<Rightarrow> Some p)"

inductive tab_step :: "platform \<Rightarrow> string \<Rightarrow> tab \<times> world \<Rightarrow> tab \<times> world \<Rightarrow> bool" for pf u where
  send: "tab_step pf u (t, w) (send_call t, w)"
| answered: "i < length (tab_calls t) \<Longrightarrow> tab_calls t ! i \<in> {Sent, Retrying} \<Longrightarrow>
    tab_step pf u (t, w) (t\<lparr>tab_calls := (tab_calls t)[i := Finished]\<rparr>, w)"
| unauthorized: "i < length (tab_calls t) \<Longrightarrow> tab_calls t ! i = Sent \<Longrightarrow>
    tab_step pf u (t, w) (on_unauthorized i t, w)"
| served: "tab_refresh t = Some (Asked tok) \<Longrightarrow> refresh pf tok w = (r, w') \<Longrightarrow>
    tab_step pf u (t, w) (t\<lparr>tab_refresh := Some (Answered (pair_of r))\<rparr>, w')"
| reply_lost: "tab_refresh t = Some (Asked tok) \<Longrightarrow> refresh pf tok w = (r, w') \<Longrightarrow>
    tab_step pf u (t, w) (t\<lparr>tab_refresh := Some (Answered None)\<rparr>, w')"
| unreachable: "tab_refresh t = Some (Asked tok) \<Longrightarrow>
    tab_step pf u (t, w) (t\<lparr>tab_refresh := Some (Answered None)\<rparr>, w)"
| settled: "tab_refresh t = Some (Answered r) \<Longrightarrow> tab_step pf u (t, w) (refreshed r t, w)"
| user_acts: "(\<And>tok r x. a \<noteq> SetCredentials tok r x) \<Longrightarrow>
    tab_step pf u (t, w) (t\<lparr>tab_browser := dispatch a (tab_browser t)\<rparr>, w)"
| other_requests: "no_new_session u w w' \<Longrightarrow> tab_step pf u (t, w) (t, w')"

inductive tab_reachable :: "platform \<Rightarrow> string \<Rightarrow> tab \<times> world \<Rightarrow> tab \<times> world \<Rightarrow> bool" for pf u where
  start: "tab_reachable pf u x x"
| then_step: "tab_reachable pf u x y \<Longrightarrow> tab_step pf u y z \<Longrightarrow> tab_reachable pf u x z"

section \<open>The token the tab holds\<close>

text \<open>
  A token is current for a user: it carries that user's identity if it verifies, and the one live
  session the user has, if any, is the session of the token.
\<close>

definition current_token :: "platform \<Rightarrow> string \<Rightarrow> world \<Rightarrow> string \<Rightarrow> bool" where
  "current_token pf u w tok \<longleftrightarrow>
     (\<forall>now p. pf_jwtVerify pf (refreshSecret (jwt_configuration pf)) tok now = Some p \<longrightarrow> jwt_userId p = u) \<and>
     (\<forall>s \<in> set (sessions w). live_session u s \<longrightarrow> session_tokenHash s = hashToken pf tok) \<and>
     (\<forall>s \<in> set (sessions w). \<forall>s' \<in> set (sessions w). live_session u s \<longrightarrow> live_session u s' \<longrightarrow>
        session_id s = session_id s')"

definition tab_inv :: "platform \<Rightarrow> string \<Rightarrow> tab \<times> world \<Rightarrow> bool" where
  "tab_inv pf u x \<longleftrightarrow>
     (case x of (t, w) \<Rightarrow>
        (case tab_refresh t of
           None \<Rightarrow> \<forall>tok. getItem ''refresh_token'' (st_storage (tab_browser t)) = Some tok \<longrightarrow> current_token pf u w tok
         | Some (Asked tok) \<Rightarrow> current_token pf u w tok \<and> Waiting \<in> set (tab_calls t)
         | Some (Answered (Some p)) \<Rightarrow> current_token pf u w (refreshToken p) \<and> Waiting \<in> set (tab_calls t)
         | Some (Answered None) \<Rightarrow> Waiting \<in> set (tab_calls t)))"

lemma current_token_mono: "current_token pf u w tok \<Longrightarrow> no_new_session u w w' \<Longrightarrow> current_token pf u w' tok"
  unfolding current_token_def no_new_session_def by (metis (no_types, opaque_lifting))

text \<open>Tokens are signed, so a token that verifies carries the claims it was made with.\<close>

definition jwt_law :: "platform \<Rightarrow> bool" where
  "jwt_law pf \<longleftrightarrow>
     (\<forall>secret secret' ttl p iat now q. pf_jwtVerify pf secret' (pf_jwtSign pf secret ttl p iat) now = Some q \<longrightarrow> q = p)"

lemma refresh_of_current:
  assumes law: "jwt_law pf" and cur: "current_token pf u w tok" and run: "refresh pf tok w = (r, w')"
  shows "(\<forall>m. r \<noteq> Inl (ForbiddenException m)) \<and> (\<forall>p. r = Inr p \<longrightarrow> current_token pf u w' (refreshToken p)) \<and>
    ((\<exists>e. r = Inl e) \<longrightarrow> w' = w)"
proof (cases "pf_jwtVerify pf (refreshSecret (jwt_configuration pf)) tok (now_seconds w)")
  case None
  with run show ?thesis by (auto simp: refresh_eval)
next
  case (Some p)
  with cur have u: "jwt_userId p = u" by (simp add: current_token_def)
  show ?thesis
  proof (cases "find_session pf (live_session u) w")
    case None
    with run Some u show ?thesis by (auto simp: refresh_eval live_session_def [abs_def])
  next
    case (Some s)
    from find_session_SomeD [OF this] have s: "s \<in> set (sessions w)" "live_session u s" by simp_all
    with cur have hash: "session_tokenHash s = hashToken pf tok" by (simp add: current_token_def)
    let ?new = "pf_jwtSign pf (refreshSecret (jwt_configuration pf)) (refreshExpiration (jwt_configuration pf))
      \<lparr>jwt_userId = jwt_userId p, jwt_email = jwt_email p\<rparr> (now_seconds w)"
    let ?s = "s\<lparr>session_tokenHash := hashToken pf ?new, session_expiresAt := pf_jwtExp pf ?new * 1000\<rparr>"
    from run \<open>pf_jwtVerify pf _ tok _ = Some p\<close> Some hash u
    have eq: "\<exists>x. r = Inr \<lparr>accessToken = x, refreshToken = ?new\<rparr>" and w': "w' = put_session ?s w"
      by (auto simp: refresh_eval live_session_def [abs_def] Let_def)
    have rows: "session_id q = session_id s \<and> session_tokenHash q = hashToken pf ?new"
      if q: "q \<in> set (sessions w')" "live_session u q" for q
      using q(1) unfolding w'
    proof (cases rule: put_session_cases)
      case kept
      with cur s q(2) have "session_id q = session_id s" unfolding current_token_def by blast
      with kept(1) show ?thesis by simp
    qed simp_all
    have "current_token pf u w' ?new"
      unfolding current_token_def
    proof (intro conjI)
      show "\<forall>now q. pf_jwtVerify pf (refreshSecret (jwt_configuration pf)) ?new now = Some q \<longrightarrow> jwt_userId q = u"
        using law u unfolding jwt_law_def by (metis jwt_payload.select_convs(1))
    qed (use rows in auto)
    with eq show ?thesis by auto
  qed
qed

section \<open>No tab presents a rotated token\<close>

lemma refresh_token_kept:
  assumes "\<And>tok r x. a \<noteq> SetCredentials tok r x"
    and "getItem ''refresh_token'' (st_storage (dispatch a b)) = Some tok"
  shows "getItem ''refresh_token'' (st_storage b) = Some tok"
proof (cases a)
  case (SetCredentials t r x)
  with assms(1) show ?thesis by blast
qed (use assms(2) in \<open>auto simp: auth_reducers other_reducers Let_def split: option.splits if_splits\<close>)

lemma refreshed_settles:
  "tab_refresh (refreshed r t) = None" "Waiting \<notin> set (tab_calls (refreshed r t))"
  by (auto simp: refreshed_def Let_def resume_def)

lemma refreshed_token:
  assumes "Waiting \<in> set (tab_calls t)"
    and "getItem ''refresh_token'' (st_storage (tab_browser (refreshed r t))) = Some tok"
  shows "\<exists>p. r = Some p \<and> tok = refreshToken p"
  using assms
  by (auto simp: refreshed_def store_tokens_def force_logout_def auth_reducers Let_def split: if_splits option.splits)

lemma waiting_update: "cs ! i = Sent \<or> cs ! i = Retrying \<Longrightarrow> i < length cs \<Longrightarrow> Waiting \<in> set cs \<Longrightarrow>
   Waiting \<in> set (cs[i := Finished])"
  by (metis call_phase.distinct in_set_conv_nth length_list_update nth_list_update_neq)

lemma tab_step_inv:
  assumes law: "jwt_law pf" and inv: "tab_inv pf u x" and step: "tab_step pf u x y"
  shows "tab_inv pf u y"
  using step
proof (cases rule: tab_step.cases)
  case (send t w)
  with inv show ?thesis
    by (auto simp: tab_inv_def send_call_def split: option.splits refresh_call.splits)
next
  case (answered i t w)
  with inv show ?thesis
    by (auto simp: tab_inv_def waiting_update split: option.splits refresh_call.splits)
next
  case (unauthorized i t w)
  then have i: "i < length (tab_calls t)" "tab_calls t ! i = Sent" by simp_all
  show ?thesis
  proof (cases "truthy (getItem ''refresh_token'' (st_storage (tab_browser t)))")
    case True
    then obtain tok where "getItem ''refresh_token'' (st_storage (tab_browser t)) = Some tok"
      by (cases "getItem ''refresh_token'' (st_storage (tab_browser t))") auto
    with True unauthorized inv show ?thesis
      by (auto simp: tab_inv_def on_unauthorized_def Let_def set_update_memI
          split: option.splits refresh_call.splits)
  next
    case False
    with unauthorized inv i show ?thesis
      by (auto simp: tab_inv_def on_unauthorized_def Let_def waiting_update auth_reducers
          split: option.splits refresh_call.splits)
  qed
next
  case (served t tok w r w')
  with inv have "current_token pf u w tok" "Waiting \<in> set (tab_calls t)" by (simp_all add: tab_inv_def)
  from refresh_of_current [OF law this(1) served(4)] this(2) show ?thesis
    by (auto simp: served(2) tab_inv_def pair_of_def split: sum.splits option.splits)
next
  case (reply_lost t tok w r w')
  with inv show ?thesis by (simp add: tab_inv_def)
next
  case (unreachable t tok w)
  with inv show ?thesis by (simp add: tab_inv_def)
next
  case (settled t r w)
  with inv have wait: "Waiting \<in> set (tab_calls t)"
    by (auto simp: tab_inv_def split: option.splits)
  from settled inv have "current_token pf u w (refreshToken p)" if "r = Some p" for p
    using that by (simp add: tab_inv_def)
  with refreshed_token [OF wait, of r] show ?thesis
    by (auto simp: settled(2) tab_inv_def refreshed_settles)
next
  case (user_acts a t w)
  with inv show ?thesis
    by (auto simp: tab_inv_def split: option.splits refresh_call.splits dest: refresh_token_kept [OF user_acts(3)])
next
  case (other_requests w w' t)
  with inv show ?thesis
    by (auto simp: tab_inv_def split: option.splits refresh_call.splits
        intro: current_token_mono [OF _ other_requests(3)])
qed

lemma tab_reachable_inv:
  assumes "tab_reachable pf u x y" and "jwt_law pf" and "tab_inv pf u x"
  shows "tab_inv pf u y"
  using assms by (induction) (auto intro: tab_step_inv)





end
