(* ===== verification/Endpoints.thy ===== *)
theory Endpoints
  imports ApiClient Routes
begin

text \<open>
  The contract between the two programs: the requests \<open>src/frontend/src/app/api/endpoints.ts\<close>
  builds, with the cache tags they provide or invalidate, the route table the controllers of
  \<open>src/src\<close> declare, and the JSON that travels back.
\<close>

section \<open>Requests of the client\<close>

datatype tag_type =
  WorkspaceTag | ProjectTag | TaskTag | CommentTag | NotificationTag | UserTag | SessionTag
| DashboardTag | AuditLogTag

text \<open>A tag of a type, or of one row of it.\<close>

datatype tag = Tag tag_type | TagOf tag_type string

record endpoint =
  ep_request :: fetch_args
  ep_provides :: "tag list"
  ep_invalidates :: "tag list"

definition query_of :: "fetch_args \<Rightarrow> tag list \<Rightarrow> endpoint" where
  "query_of a tags = \<lparr>ep_request = a, ep_provides = tags, ep_invalidates = []\<rparr>"

definition mutation_of :: "string \<Rightarrow> string \<Rightarrow> json option \<Rightarrow> tag list \<Rightarrow> endpoint" where
  "mutation_of method url body tags =
     \<lparr>ep_request = (fetch_url url)\<lparr>fa_method := Some method, fa_body := body\<rparr>,
      ep_provides = [], ep_invalidates = tags\<rparr>"

datatype auth_call =
    Login json
  | Signup json
  | VerifyEmail json
  | ForgotPassword json
  | ResetPassword json
  | GetSessions
  | RevokeSession string

fun auth_endpoint :: "auth_call \<Rightarrow> endpoint" where
  "auth_endpoint (Login credentials) =
     mutation_of ''POST'' ''/auth/login'' (Some credentials) [Tag UserTag, Tag SessionTag]"
| "auth_endpoint (Signup userData) = mutation_of ''POST'' ''/auth/signup'' (Some userData) []"
| "auth_endpoint (VerifyEmail d) = mutation_of ''POST'' ''/auth/verify-email'' (Some d) []"
| "auth_endpoint (ForgotPassword d) = mutation_of ''POST'' ''/auth/forgot-password'' (Some d) []"
| "auth_endpoint (ResetPassword d) = mutation_of ''POST'' ''/auth/reset-password'' (Some d) []"
| "auth_endpoint GetSessions = query_of (fetch_url ''/auth/sessions'') [Tag SessionTag]"
| "auth_endpoint (RevokeSession sessionId) =
     mutation_of ''POST'' (''/auth/sessions/'' @ sessionId @ ''/revoke'') None [Tag SessionTag]"

datatype workspace_call =
    GetWorkspaces
  | CreateWorkspace json
  | UpdateWorkspace string json
  | DeleteWorkspace string
  | GetWorkspaceMembers string
  | InviteWorkspaceMember string json

fun workspace_endpoint :: "workspace_call \<Rightarrow> endpoint" where
  "workspace_endpoint GetWorkspaces = query_of (fetch_url ''/workspaces'') [Tag WorkspaceTag]"
| "workspace_endpoint (CreateWorkspace d) =
     mutation_of ''POST'' ''/workspaces'' (Some d) [Tag WorkspaceTag]"
| "workspace_endpoint (UpdateWorkspace i d) =
     mutation_of ''PUT'' (''/workspaces/'' @ i) (Some d) [Tag WorkspaceTag]"
| "workspace_endpoint (DeleteWorkspace i) =
     mutation_of ''DELETE'' (''/workspaces/'' @ i) None [Tag WorkspaceTag]"
| "workspace_endpoint (GetWorkspaceMembers w) =
     query_of (fetch_url (''/workspaces/'' @ w @ ''/members'')) [Tag WorkspaceTag]"
| "workspace_endpoint (InviteWorkspaceMember w body) =
     mutation_of ''POST'' (''/workspaces/'' @ w @ ''/members/invite'') (Some body) [Tag WorkspaceTag]"

datatype project_call =
    GetProjects string
  | CreateProject string json
  | UpdateProject string string json
  | DeleteProject string string

fun project_endpoint :: "project_call \<Rightarrow> endpoint" where
  "project_endpoint (GetProjects w) =
     query_of (fetch_url (''/workspaces/'' @ w @ ''/projects'')) [Tag ProjectTag]"
| "project_endpoint (CreateProject w body) =
     mutation_of ''POST'' (''/workspaces/'' @ w @ ''/projects'') (Some body) [Tag ProjectTag]"
| "project_endpoint (UpdateProject w i body) =
     mutation_of ''PUT'' (''/workspaces/'' @ w @ ''/projects/'' @ i) (Some body) [Tag ProjectTag]"
| "project_endpoint (DeleteProject w i) =
     mutation_of ''DELETE'' (''/workspaces/'' @ w @ ''/projects/'' @ i) None [Tag ProjectTag]"

datatype task_call =
    GetTasks string string "(string \<times> string) list"
  | GetTaskById string string
  | GetSubtaskTree string string
  | CreateTask string string json
  | UpdateTask string string json
  | DeleteTask string string

fun task_endpoint :: "task_call \<Rightarrow> endpoint" where
  "task_endpoint (GetTasks w p params) =
     query_of ((fetch_url (''/workspaces/'' @ w @ ''/projects/'' @ p @ ''/tasks''))\<lparr>fa_params := params\<rparr>)
       [Tag TaskTag]"
| "task_endpoint (GetTaskById w t) =
     query_of (fetch_url (''/workspaces/'' @ w @ ''/tasks/'' @ t)) [TagOf TaskTag t]"
| "task_endpoint (GetSubtaskTree w t) =
     query_of (fetch_url (''/workspaces/'' @ w @ ''/tasks/'' @ t @ ''/tree'')) [TagOf TaskTag t]"
| "task_endpoint (CreateTask w p body) =
     mutation_of ''POST'' (''/workspaces/'' @ w @ ''/projects/'' @ p @ ''/tasks'') (Some body)
       [Tag TaskTag, Tag DashboardTag]"
| "task_endpoint (UpdateTask w t body) =
     mutation_of ''PUT'' (''/workspaces/'' @ w @ ''/tasks/'' @ t) (Some body)
       [Tag TaskTag, TagOf TaskTag t, Tag DashboardTag]"
| "task_endpoint (DeleteTask w t) =
     mutation_of ''DELETE'' (''/workspaces/'' @ w @ ''/tasks/'' @ t) None [Tag TaskTag, Tag DashboardTag]"

datatype other_call =
    GetComments string string
  | AddComment string string json
  | GetDashboardMetrics string
  | GetNotifications
  | MarkNotificationRead string
  | MarkAllNotificationsRead
  | GetAdminAuditLogs "(string \<times> string) list"

fun other_endpoint :: "other_call \<Rightarrow> endpoint" where
  "other_endpoint (GetComments w t) =
     query_of (fetch_url (''/workspaces/'' @ w @ ''/tasks/'' @ t @ ''/comments'')) [Tag CommentTag]"
| "other_endpoint (AddComment w t body) =
     mutation_of ''POST'' (''/workspaces/'' @ w @ ''/tasks/'' @ t @ ''/comments'') (Some body) [Tag CommentTag]"
| "other_endpoint (GetDashboardMetrics w) =
     query_of (fetch_url (''/workspaces/'' @ w @ ''/dashboard/metrics'')) [Tag DashboardTag]"
| "other_endpoint GetNotifications = query_of (fetch_url ''/notifications'') [Tag NotificationTag]"
| "other_endpoint (MarkNotificationRead n) =
     mutation_of ''POST'' (''/notifications/'' @ n @ ''/read'') None [Tag NotificationTag]"
| "other_endpoint MarkAllNotificationsRead =
     mutation_of ''POST'' ''/notifications/read-all'' None [Tag NotificationTag]"
| "other_endpoint (GetAdminAuditLogs params) =
     query_of ((fetch_url ''/admin/audit-logs'')\<lparr>fa_params := params\<rparr>) [Tag AuditLogTag]"

datatype api_call =
    AuthCall auth_call
  | WorkspaceCall workspace_call
  | ProjectCall project_call
  | TaskCall task_call
  | OtherCall other_call

fun endpoint_of :: "api_call \<Rightarrow> endpoint" where
  "endpoint_of (AuthCall c) = auth_endpoint c"
| "endpoint_of (WorkspaceCall c) = workspace_endpoint c"
| "endpoint_of (ProjectCall c) = project_endpoint c"
| "endpoint_of (TaskCall c) = task_endpoint c"
| "endpoint_of (OtherCall c) = other_endpoint c"

section \<open>Routes of the server\<close>

datatype segment = Lit string | Par string

record route =
  rt_method :: string
  rt_path :: "segment list"
  rt_handler :: string

definition at :: "string \<Rightarrow> segment list \<Rightarrow> string \<Rightarrow> route" where
  "at method path handler = \<lparr>rt_method = method, rt_path = path, rt_handler = handler\<rparr>"

definition AuthController_routes :: "route list" where
  "AuthController_routes =
    [at ''POST'' [Lit ''auth'', Lit ''signup''] ''AuthController.signup'',
     at ''POST'' [Lit ''auth'', Lit ''login''] ''AuthController.login'',
     at ''POST'' [Lit ''auth'', Lit ''logout''] ''AuthController.logout'',
     at ''POST'' [Lit ''auth'', Lit ''refresh''] ''AuthController.refresh'',
     at ''POST'' [Lit ''auth'', Lit ''verify-email''] ''AuthController.verifyEmail'',
     at ''POST'' [Lit ''auth'', Lit ''forgot-password''] ''AuthController.forgotPassword'',
     at ''POST'' [Lit ''auth'', Lit ''reset-password''] ''AuthController.resetPassword'',
     at ''GET'' [Lit ''auth'', Lit ''sessions''] ''AuthController.getSessions'',
     at ''POST'' [Lit ''auth'', Lit ''sessions'', Par ''sessionId'', Lit ''revoke'']
       ''AuthController.revokeSession'']"

definition UsersController_routes :: "route list" where
  "UsersController_routes =
    [at ''GET'' [Lit ''users'', Lit ''profile''] ''UsersController.getProfile'',
     at ''PATCH'' [Lit ''users'', Lit ''profile''] ''UsersController.updateProfile'']"

definition WorkspaceController_routes :: "route list" where
  "WorkspaceController_routes =
    [at ''POST'' [Lit ''workspaces''] ''WorkspaceController.create'',
     at ''GET'' [Lit ''workspaces''] ''WorkspaceController.getUserWorkspaces'',
     at ''GET'' [Lit ''workspaces'', Lit ''slug'', Par ''slug''] ''WorkspaceController.getBySlug'',
     at ''GET'' [Lit ''workspaces'', Par ''workspaceId''] ''WorkspaceController.getById'',
     at ''PATCH'' [Lit ''workspaces'', Par ''workspaceId''] ''WorkspaceController.update'',
     at ''DELETE'' [Lit ''workspaces'', Par ''workspaceId''] ''WorkspaceController.delete'',
     at ''POST'' [Lit ''workspaces'', Par ''workspaceId'', Lit ''invite''] ''WorkspaceController.invite'',
     at ''POST'' [Lit ''workspaces'', Par ''workspaceId'', Lit ''members'', Lit ''invite'']
       ''WorkspaceController.invite'',
     at ''GET'' [Lit ''workspaces'', Par ''workspaceId'', Lit ''members''] ''WorkspaceController.getMembers'']"

definition DashboardController_routes :: "route list" where
  "DashboardController_routes =
    [at ''GET'' [Lit ''workspaces'', Par ''workspaceId'', Lit ''dashboard'', Lit ''summary'']
       ''DashboardController.getSummary'',
     at ''GET'' [Lit ''workspaces'', Par ''workspaceId'', Lit ''dashboard'', Lit ''metrics'']
       ''DashboardController.getSummary'']"

definition ProjectController_routes :: "route list" where
  "ProjectController_routes =
    (let root = [Lit ''workspaces'', Par ''workspaceId'', Lit ''projects'']
     in [at ''POST'' root ''ProjectController.create'',
         at ''GET'' root ''ProjectController.list'',
         at ''GET'' (root @ [Par ''projectId'']) ''ProjectController.get'',
         at ''PATCH'' (root @ [Par ''projectId'']) ''ProjectController.update'',
         at ''DELETE'' (root @ [Par ''projectId'']) ''ProjectController.delete''])"

definition TaskController_routes :: "route list" where
  "TaskController_routes =
    (let list = [Lit ''workspaces'', Par ''workspaceId'', Lit ''projects'', Par ''projectId'', Lit ''tasks''];
         one = [Lit ''workspaces'', Par ''workspaceId'', Lit ''tasks'', Par ''taskId'']
     in [at ''POST'' list ''TaskController.create'',
         at ''GET'' list ''TaskController.list'',
         at ''GET'' one ''TaskController.get'',
         at ''PUT'' one ''TaskController.update'',
         at ''DELETE'' one ''TaskController.delete'',
         at ''GET'' (one @ [Lit ''attachments'', Lit ''presign'']) ''TaskController.getAttachmentPresign''])"

definition SubtaskController_routes :: "route list" where
  "SubtaskController_routes =
    (let one = [Lit ''workspaces'', Par ''workspaceId'', Lit ''tasks'', Par ''taskId'']
     in [at ''GET'' (one @ [Lit ''tree'']) ''SubtaskController.getTree'',
         at ''GET'' (one @ [Lit ''descendants'']) ''SubtaskController.getDescendants'',
         at ''GET'' (one @ [Lit ''ancestors'']) ''SubtaskController.getAncestors''])"

definition CommentController_routes :: "route list" where
  "CommentController_routes =
    (let root = [Lit ''workspaces'', Par ''workspaceId'', Lit ''tasks'', Par ''taskId'', Lit ''comments'']
     in [at ''POST'' root ''CommentController.add'', at ''GET'' root ''CommentController.list''])"

definition NotificationController_routes :: "route list" where
  "NotificationController_routes =
    [at ''GET'' [Lit ''notifications''] ''NotificationController.getNotifications'',
     at ''POST'' [Lit ''notifications'', Par ''id'', Lit ''read''] ''NotificationController.markAsRead'',
     at ''POST'' [Lit ''notifications'', Lit ''read-all''] ''NotificationController.markAllAsRead'']"

definition AuditController_routes :: "route list" where
  "AuditController_routes = [at ''GET'' [Lit ''admin'', Lit ''audit-logs''] ''AuditController.getAuditLogs'']"

text \<open>In the order \<open>AppModule\<close> imports the modules.\<close>

definition all_routes :: "route list" where
  "all_routes =
     NotificationController_routes @ AuditController_routes @ UsersController_routes @
     AuthController_routes @ WorkspaceController_routes @ DashboardController_routes @
     ProjectController_routes @ TaskController_routes @ SubtaskController_routes @
     CommentController_routes"

section \<open>The router\<close>

fun match_path :: "segment list \<Rightarrow> string list \<Rightarrow> (string \<times> string) list option" where
  "match_path [] [] = Some []"
| "match_path (Lit s # ps) (x # xs) = (if s = x then match_path ps xs else None)"
| "match_path (Par n # ps) (x # xs) =
     (if x = [] then None else map_option (Cons (n, x)) (match_path ps xs))"
| "match_path _ _ = None"

definition url_segments :: "string \<Rightarrow> string list" where
  "url_segments url = tl (split_on (CHR ''/'') url)"

fun find_route :: "route list \<Rightarrow> string \<Rightarrow> string list \<Rightarrow> (string \<times> (string \<times> string) list) option" where
  "find_route [] method segs = None"
| "find_route (r # rs) method segs =
     (case (if rt_method r = method then match_path (rt_path r) segs else None) of
        Some params \<Rightarrow> Some (rt_handler r, params)
      | None \<Rightarrow> find_route rs method segs)"

definition served_by :: "fetch_args \<Rightarrow> (string \<times> (string \<times> string) list) option" where
  "served_by a = find_route all_routes (request_method a) (url_segments (fa_url a))"

section \<open>The answer on its way back\<close>

definition error_json :: "error_body \<Rightarrow> json" where
  "error_json b = JObj
     [(''success'', JBool False), (''statusCode'', JNum (int (eb_statusCode b))),
      (''message'', JStr (eb_message b)), (''error'', JStr (eb_error b)),
      (''timestamp'', JStr (eb_timestamp b)), (''path'', JStr (eb_path b)),
      (''correlationId'', JStr (eb_correlationId b))]"

text \<open>The JSON of a response; \<open>enc\<close> is the JSON of the handler's value.\<close>

definition wire :: "('a \<Rightarrow> json) \<Rightarrow> string \<Rightarrow> 'a response \<Rightarrow> reply" where
  "wire enc method r =
     (case r of
        Enveloped st x ts cid \<Rightarrow>
          Answer st (JObj
            [(''success'', JBool True), (''statusCode'', JNum (int st)), (''data'', enc x),
             (''timestamp'', JStr ts), (''correlationId'', JStr cid)])
      | Bare x \<Rightarrow> Answer (success_status method) (enc x)
      | Failed b \<Rightarrow> Answer (eb_statusCode b) (error_json b))"

end
