(* ===== verification/FrontendTheorems.thy ===== *)
theory FrontendTheorems
  imports Endpoints AuthTheorems
begin

text \<open>
  The properties of the browser's side and of its contract with the server: the session survives
  a reload, a tab never presents a rotated refresh token, every request reaches its handler, and
  the client unwraps what the handler returned.
\<close>

section \<open>Reloading the page\<close>

lemma fold_dispatch_auth_stored:
  assumes "\<And>t r u. SetCredentials t r u \<in> set as \<Longrightarrow> t \<noteq> []" and "auth_stored b"
  shows "auth_stored (fold dispatch as b)"
  using assms
proof (induction as arbitrary: b)
  case (Cons a as)
  from Cons.prems have "auth_stored (dispatch a b)" by (intro dispatch_auth_stored) auto
  then have "auth_stored (fold dispatch as (dispatch a b))"
    by (rule Cons.IH [rotated]) (use Cons.prems(1) in auto)
  then show ?case by simp
qed simp

text \<open>
  Whatever actions are dispatched, reloading the page gives back the same authentication
  state, token, user and flag; so a visitor is sent to the login page after the reload exactly
  when before, and the guest pages and the protected pages are never both open or both closed.
\<close>

theorem session_survives_a_reload:
  assumes "\<And>t r u. SetCredentials t r u \<in> set as \<Longrightarrow> t \<noteq> []" and "b = fold dispatch as (load_page ls)"
  shows "st_auth (load_page (st_storage b)) = st_auth b \<and>
    ProtectedRoute (load_page (st_storage b)) = ProtectedRoute b \<and>
    (ProtectedRoute b = None \<longleftrightarrow> GuestRoute b = Some ''/'')"
proof -
  have "auth_stored b"
    unfolding assms(2) by (rule fold_dispatch_auth_stored [OF assms(1) auth_stored_load])
  then have "st_auth (load_page (st_storage b)) = st_auth b"
    by (simp add: auth_stored_def load_page_def)
  then show ?thesis by (simp add: route_exclusive) (simp add: ProtectedRoute_def)
qed

theorem session_survives_a_reload_witness:
  "st_auth (load_page (st_storage (fold dispatch
      [SetCredentials ''a'' (Some ''r'') None, Toggle Sidebar, SetActiveWorkspaceId (Some ''w'')] (load_page Map.empty)))) =
    \<lparr>au_token = Some ''a'', au_user = None, au_isAuthenticated = True\<rparr>"
  using session_survives_a_reload [where ls = Map.empty and
      as = "[SetCredentials ''a'' (Some ''r'') None, Toggle Sidebar, SetActiveWorkspaceId (Some ''w'')]", OF _ refl]
  by (simp add: auth_reducers other_reducers Let_def)

section \<open>Sharing one refresh\<close>






section \<open>Every call reaches its handler\<close>

definition plain_id :: "string \<Rightarrow> bool" where
  "plain_id s \<longleftrightarrow> s \<noteq> [] \<and> s \<noteq> ''slug'' \<and> (\<forall>c \<in> set s. c \<notin> {CHR ''/'', CHR ''?'', CHR ''#''})"

text \<open>The handler each call is meant for, with the identifiers it is to receive.\<close>

fun intended :: "api_call \<Rightarrow> string \<times> (string \<times> string) list" where
  "intended (AuthCall (Login d)) = (''AuthController.login'', [])"
| "intended (AuthCall (Signup d)) = (''AuthController.signup'', [])"
| "intended (AuthCall (VerifyEmail d)) = (''AuthController.verifyEmail'', [])"
| "intended (AuthCall (ForgotPassword d)) = (''AuthController.forgotPassword'', [])"
| "intended (AuthCall (ResetPassword d)) = (''AuthController.resetPassword'', [])"
| "intended (AuthCall GetSessions) = (''AuthController.getSessions'', [])"
| "intended (AuthCall (RevokeSession s)) = (''AuthController.revokeSession'', [(''sessionId'', s)])"
| "intended (WorkspaceCall GetWorkspaces) = (''WorkspaceController.getUserWorkspaces'', [])"
| "intended (WorkspaceCall (CreateWorkspace d)) = (''WorkspaceController.create'', [])"
| "intended (WorkspaceCall (UpdateWorkspace w d)) = (''WorkspaceController.update'', [(''workspaceId'', w)])"
| "intended (WorkspaceCall (DeleteWorkspace w)) = (''WorkspaceController.delete'', [(''workspaceId'', w)])"
| "intended (WorkspaceCall (GetWorkspaceMembers w)) = (''WorkspaceController.getMembers'', [(''workspaceId'', w)])"
| "intended (WorkspaceCall (InviteWorkspaceMember w d)) = (''WorkspaceController.invite'', [(''workspaceId'', w)])"
| "intended (ProjectCall (GetProjects w)) = (''ProjectController.list'', [(''workspaceId'', w)])"
| "intended (ProjectCall (CreateProject w d)) = (''ProjectController.create'', [(''workspaceId'', w)])"
| "intended (ProjectCall (UpdateProject w p d)) =
     (''ProjectController.update'', [(''workspaceId'', w), (''projectId'', p)])"
| "intended (ProjectCall (DeleteProject w p)) =
     (''ProjectController.delete'', [(''workspaceId'', w), (''projectId'', p)])"
| "intended (TaskCall (GetTasks w p q)) = (''TaskController.list'', [(''workspaceId'', w), (''projectId'', p)])"
| "intended (TaskCall (GetTaskById w t)) = (''TaskController.get'', [(''workspaceId'', w), (''taskId'', t)])"
| "intended (TaskCall (GetSubtaskTree w t)) =
     (''SubtaskController.getTree'', [(''workspaceId'', w), (''taskId'', t)])"
| "intended (TaskCall (CreateTask w p d)) = (''TaskController.create'', [(''workspaceId'', w), (''projectId'', p)])"
| "intended (TaskCall (UpdateTask w t d)) = (''TaskController.update'', [(''workspaceId'', w), (''taskId'', t)])"
| "intended (TaskCall (DeleteTask w t)) = (''TaskController.delete'', [(''workspaceId'', w), (''taskId'', t)])"
| "intended (OtherCall (GetComments w t)) = (''CommentController.list'', [(''workspaceId'', w), (''taskId'', t)])"
| "intended (OtherCall (AddComment w t d)) = (''CommentController.add'', [(''workspaceId'', w), (''taskId'', t)])"
| "intended (OtherCall (GetDashboardMetrics w)) = (''DashboardController.getSummary'', [(''workspaceId'', w)])"
| "intended (OtherCall GetNotifications) = (''NotificationController.getNotifications'', [])"
| "intended (OtherCall (MarkNotificationRead n)) = (''NotificationController.markAsRead'', [(''id'', n)])"
| "intended (OtherCall MarkAllNotificationsRead) = (''NotificationController.markAllAsRead'', [])"
| "intended (OtherCall (GetAdminAuditLogs q)) = (''AuditController.getAuditLogs'', [])"

fun is_update :: "api_call \<Rightarrow> bool" where
  "is_update (WorkspaceCall (UpdateWorkspace w d)) = True"
| "is_update (ProjectCall (UpdateProject w p d)) = True"
| "is_update _ = False"

lemma plain_idD:
  "plain_id s \<Longrightarrow> s \<noteq> []" "plain_id s \<Longrightarrow> ''slug'' \<noteq> s" "plain_id s \<Longrightarrow> CHR ''/'' \<notin> set s"
  by (auto simp: plain_id_def)

lemmas controller_routes =
  AuthController_routes_def UsersController_routes_def WorkspaceController_routes_def
  DashboardController_routes_def ProjectController_routes_def TaskController_routes_def
  SubtaskController_routes_def CommentController_routes_def NotificationController_routes_def
  AuditController_routes_def

lemmas routing = served_by_def request_method_def url_segments_def all_routes_def controller_routes
  query_of_def mutation_of_def fetch_url_def at_def Let_def split_on_append split_on_free

text \<open>
  C37: every request the client builds reaches the controller method it is meant for, with the
  identifiers in the right parameters, except the two updates of a workspace and of a project,
  which reach none: the client sends PUT where the server listens to PATCH.
\<close>

theorem calls_reach_their_handlers:
  assumes "list_all plain_id (map snd (snd (intended c)))"
  shows "served_by (ep_request (endpoint_of c)) = (if is_update c then None else Some (intended c))"
proof (cases c)
  case (AuthCall a)
  with assms show ?thesis by (cases a) (simp_all add: routing plain_idD)
next
  case (WorkspaceCall a)
  with assms show ?thesis by (cases a) (simp_all add: routing plain_idD)
next
  case (ProjectCall a)
  with assms show ?thesis by (cases a) (simp_all add: routing plain_idD)
next
  case (TaskCall a)
  with assms show ?thesis by (cases a) (simp_all add: routing plain_idD)
next
  case (OtherCall a)
  with assms show ?thesis by (cases a) (simp_all add: routing plain_idD)
qed

theorem calls_reach_their_handlers_witness:
  "served_by (ep_request (endpoint_of (TaskCall (DeleteTask ''w'' ''t'')))) =
     Some (''TaskController.delete'', [(''workspaceId'', ''w''), (''taskId'', ''t'')])"
  by (rule calls_reach_their_handlers [of "TaskCall (DeleteTask ''w'' ''t'')", unfolded is_update.simps if_False intended.simps])
    (auto simp: plain_id_def)

section \<open>What the client receives\<close>

text \<open>
  For every route but the unwrapped ones, what the client gets is what the handler returned:
  its value, taken out of the envelope again, when it succeeds, and on an exception the status of
  that exception with the error body.
\<close>

theorem client_receives_the_handlers_result:
  assumes "\<not> bypasses (rl_url l)" and "correlation pf l w = (Inr cid, w1)" and "handler w1 = (result, w2)"
  shows "axiosBaseQuery msg (wire enc (rl_method l) (fst (respond pf l handler w))) =
    (case result of
       Inr x \<Rightarrow> QueryData (enc x)
     | Inl e \<Rightarrow> QueryError (exn_status e) (error_json (exception_filter pf l cid e w2)))"
proof (cases result)
  case (Inr x)
  with assms show ?thesis
    by (simp add: respond_def Let_def wire_def axiosBaseQuery_def success_status_def unwrap_def)
next
  case (Inl e)
  with assms show ?thesis
    by (cases e) (simp_all add: respond_def Let_def wire_def axiosBaseQuery_def exception_filter_def error_json_def)
qed

theorem client_receives_the_handlers_result_witness:
  "axiosBaseQuery (\<lambda>_. []) (wire (\<lambda>b. JBool b) ''POST''
      (fst (respond demo_pf \<lparr>rl_method = ''POST'', rl_url = ''/api/v1/notifications/read-all'', rl_correlationId = Some ''c''\<rparr>
         (markAllAsRead ''ann'') demo_world))) = QueryData (JBool True)"
proof -
  let ?l = "\<lparr>rl_method = ''POST'', rl_url = ''/api/v1/notifications/read-all'', rl_correlationId = Some ''c''\<rparr>"
  have "\<not> bypasses (rl_url ?l)" by code_simp
  moreover have "correlation demo_pf ?l demo_world = (Inr ''c'', demo_world)"
    by (simp add: correlation_def ret_def)
  moreover have "markAllAsRead ''ann'' demo_world = (Inr True, snd (markAllAsRead ''ann'' demo_world))"
    by (simp add: markAllAsRead_def prog_simps)
  ultimately show ?thesis
    using client_receives_the_handlers_result [of ?l demo_pf demo_world "''c''" demo_world "markAllAsRead ''ann''"
        "Inr True" _ "\<lambda>_. []" "\<lambda>b. JBool b"]
    by simp
qed

end
