(* ===== verification/SocketClient.thy ===== *)
theory SocketClient
  imports Messaging Endpoints
begin

text \<open>
  The browser's end of the realtime channel: \<open>services/socket/socketService.ts\<close>, the object that
  owns the socket, and \<open>hooks/useSocket.ts\<close>, the hook of the page layout that opens it and turns
  its events into invalidated cache tags. \<open>socket.io-client\<close> is third-party; of it the service
  uses that \<open>on\<close> appends a handler, \<open>off\<close> removes the first occurrence, and a socket that is not
  disconnected by the program keeps (re)connecting.
\<close>

section \<open>The service\<close>

text \<open>
  A callback is a closure: its owner tells the hook's handlers apart by the run of the effect
  that made them and the event they were made for.
\<close>

datatype callback = Logger string | Handler nat string

record connection =
  cn_token :: string
  cn_query :: "string option"
    \<comment> \<open>\<open>query.workspaceId\<close>, absent in \<open>{}\<close>\<close>
  cn_handlers :: "(string \<times> callback) list"
  cn_connected :: bool

text \<open>
  Beside \<open>this.socket\<close> and \<open>this.listeners\<close> the model keeps the sockets the service dropped
  without disconnecting them: they stay open, with their handlers.
\<close>

record socket_service =
  sv_socket :: "connection option"
  sv_listeners :: "(string \<times> callback list) list"
  sv_lost :: "connection list"

definition new_service :: socket_service where
  "new_service = \<lparr>sv_socket = None, sv_listeners = [], sv_lost = []\<rparr>"

definition bound :: "(string \<times> callback list) list \<Rightarrow> (string \<times> callback) list" where
  "bound ls = concat (map (\<lambda>(event, callbacks). map (Pair event) callbacks) ls)"

definition open_socket :: "string \<Rightarrow> string option \<Rightarrow> socket_service \<Rightarrow> socket_service" where
  "open_socket token workspaceId sv =
     sv\<lparr>sv_lost := sv_lost sv @ (case sv_socket sv of None \<Rightarrow> [] | Some c \<Rightarrow> [c]),
        sv_socket := Some
          \<lparr>cn_token = token, cn_query = first_truthy [workspaceId],
           cn_handlers = [(''connect'', Logger ''connect''), (''disconnect'', Logger ''disconnect''),
             (''connect_error'', Logger ''connect_error'')] @ bound (sv_listeners sv),
           cn_connected = False\<rparr>\<rparr>"

definition socket_disconnect :: "socket_service \<Rightarrow> socket_service" where
  "socket_disconnect sv = sv\<lparr>sv_socket := None\<rparr>"

text \<open>
  The workspace argument is a string or \<open>null\<close>; a socket opened with \<open>null\<close> or the empty
  string has the query \<open>{}\<close>, whose \<open>workspaceId\<close> is \<open>undefined\<close> and differs from every argument.
\<close>

definition other_workspace :: "connection \<Rightarrow> string option \<Rightarrow> bool" where
  "other_workspace c workspaceId \<longleftrightarrow> cn_query c = None \<or> cn_query c \<noteq> workspaceId"

definition socket_connect :: "string \<Rightarrow> string option \<Rightarrow> socket_service \<Rightarrow> socket_service" where
  "socket_connect token workspaceId sv =
     (case sv_socket sv of
        Some c \<Rightarrow>
          if cn_connected c then
            if other_workspace c workspaceId then open_socket token workspaceId (socket_disconnect sv) else sv
          else open_socket token workspaceId sv
      | None \<Rightarrow> open_socket token workspaceId sv)"

text \<open>The listeners are a \<open>Map\<close> of \<open>Set\<close>s, both in the order of insertion.\<close>

fun add_listener :: "string \<Rightarrow> callback \<Rightarrow> (string \<times> callback list) list \<Rightarrow> (string \<times> callback list) list" where
  "add_listener event cb [] = [(event, [cb])]"
| "add_listener event cb ((e, cbs) # ls) =
     (if e = event then (e, if cb \<in> set cbs then cbs else cbs @ [cb]) # ls
      else (e, cbs) # add_listener event cb ls)"

fun delete_listener :: "string \<Rightarrow> callback \<Rightarrow> (string \<times> callback list) list \<Rightarrow> (string \<times> callback list) list" where
  "delete_listener event cb [] = []"
| "delete_listener event cb ((e, cbs) # ls) =
     (if e = event then (if removeAll cb cbs = [] then ls else (e, removeAll cb cbs) # ls)
      else (e, cbs) # delete_listener event cb ls)"

definition update_handlers ::
  "((string \<times> callback) list \<Rightarrow> (string \<times> callback) list) \<Rightarrow> socket_service \<Rightarrow> socket_service" where
  "update_handlers f sv =
     sv\<lparr>sv_socket := map_option (\<lambda>c. c\<lparr>cn_handlers := f (cn_handlers c)\<rparr>) (sv_socket sv)\<rparr>"

definition socket_on :: "string \<Rightarrow> callback \<Rightarrow> socket_service \<Rightarrow> socket_service" where
  "socket_on event cb sv =
     update_handlers (\<lambda>hs. hs @ [(event, cb)]) (sv\<lparr>sv_listeners := add_listener event cb (sv_listeners sv)\<rparr>)"

definition socket_off :: "string \<Rightarrow> callback \<Rightarrow> socket_service \<Rightarrow> socket_service" where
  "socket_off event cb sv =
     update_handlers (remove1 (event, cb)) (sv\<lparr>sv_listeners := delete_listener event cb (sv_listeners sv)\<rparr>)"

definition isConnected :: "socket_service \<Rightarrow> bool" where
  "isConnected sv \<longleftrightarrow> (case sv_socket sv of None \<Rightarrow> False | Some c \<Rightarrow> cn_connected c)"

text \<open>What the service sends: nothing, with a warning, while it is not connected.\<close>

definition socket_emit :: "string \<Rightarrow> json \<Rightarrow> socket_service \<Rightarrow> (string \<times> json) list" where
  "socket_emit event payload sv = (if isConnected sv then [(event, payload)] else [])"

text \<open>The handlers that run when an event arrives on a socket.\<close>

definition handlers_of :: "string \<Rightarrow> connection \<Rightarrow> callback list" where
  "handlers_of event c = map snd (filter (\<lambda>h. fst h = event) (cn_handlers c))"

section \<open>The hook\<close>

definition hook_events :: "string list" where
  "hook_events = [''task.created'', ''task.updated'', ''task.deleted'', ''comment.created'',
     ''notification.created'', ''workspace.updated'', ''project.updated'']"

text \<open>The tags a handler invalidates, given the \<open>id\<close> of what it received.\<close>

definition event_tags :: "string \<Rightarrow> string \<Rightarrow> tag list" where
  "event_tags event i =
     (if event = ''task.created'' \<or> event = ''task.deleted'' then [Tag TaskTag, Tag DashboardTag]
      else if event = ''task.updated'' then [Tag TaskTag, Tag DashboardTag, TagOf TaskTag i]
      else if event = ''comment.created'' then [Tag CommentTag]
      else if event = ''notification.created'' then [Tag NotificationTag]
      else if event = ''workspace.updated'' then [Tag WorkspaceTag]
      else if event = ''project.updated'' then [Tag ProjectTag] else [])"

text \<open>
  The hook's memory between renders: the token and workspace its effects last ran with, when the
  layout is mounted, and the number of runs of the second effect, which names its closures.
\<close>

record hook =
  hk_deps :: "(string option \<times> string option) option"
  hk_run :: nat

definition new_hook :: hook where
  "new_hook = \<lparr>hk_deps = None, hk_run = 0\<rparr>"

definition subscribe :: "nat \<Rightarrow> socket_service \<Rightarrow> socket_service" where
  "subscribe n sv = fold (\<lambda>e. socket_on e (Handler n e)) hook_events sv"

definition unsubscribe :: "nat \<Rightarrow> socket_service \<Rightarrow> socket_service" where
  "unsubscribe n sv = fold (\<lambda>e. socket_off e (Handler n e)) hook_events sv"

definition session_effect :: "string option \<Rightarrow> string option \<Rightarrow> socket_service \<Rightarrow> socket_service" where
  "session_effect token workspaceId sv =
     (case first_truthy [token] of
        Some t \<Rightarrow> socket_connect t workspaceId sv
      | None \<Rightarrow> socket_disconnect sv)"

definition cleanup :: "hook \<Rightarrow> socket_service \<Rightarrow> socket_service" where
  "cleanup hk sv =
     (case hk_deps hk of
        Some (token, _) \<Rightarrow> if truthy token then unsubscribe (hk_run hk) sv else sv
      | None \<Rightarrow> sv)"

definition listen_effect :: "string option \<Rightarrow> hook \<times> socket_service \<Rightarrow> hook \<times> socket_service" where
  "listen_effect token = (\<lambda>(hk, sv).
     if truthy token then (hk\<lparr>hk_run := Suc (hk_run hk)\<rparr>, subscribe (Suc (hk_run hk)) sv) else (hk, sv))"

text \<open>
  React runs an effect after the first render and after those that change its dependencies, the
  cleanups of the effects it runs again first, then the effects in their order.
\<close>

definition render :: "string option \<Rightarrow> string option \<Rightarrow> hook \<times> socket_service \<Rightarrow> hook \<times> socket_service" where
  "render token workspaceId = (\<lambda>(hk, sv).
     let first = hk_deps hk = None;
         token_changed = first \<or> fst (the (hk_deps hk)) \<noteq> token;
         changed = token_changed \<or> snd (the (hk_deps hk)) \<noteq> workspaceId;
         sv1 = (if token_changed then cleanup hk sv else sv);
         sv2 = (if changed then session_effect token workspaceId sv1 else sv1);
         hk1 = hk\<lparr>hk_deps := Some (token, workspaceId)\<rparr>
     in if token_changed then listen_effect token (hk1, sv2) else (hk1, sv2))"

definition unmount :: "hook \<times> socket_service \<Rightarrow> hook \<times> socket_service" where
  "unmount = (\<lambda>(hk, sv). (hk\<lparr>hk_deps := None\<rparr>, cleanup hk sv))"

text \<open>What happens to the pair: renders and unmounts of the layout, and the network.\<close>

datatype page_event = Render "string option" "string option" | Unmount | Network bool

definition network :: "bool \<Rightarrow> socket_service \<Rightarrow> socket_service" where
  "network up sv = sv\<lparr>sv_socket := map_option (\<lambda>c. c\<lparr>cn_connected := up\<rparr>) (sv_socket sv)\<rparr>"

fun page_step :: "page_event \<Rightarrow> hook \<times> socket_service \<Rightarrow> hook \<times> socket_service" where
  "page_step (Render token workspaceId) s = render token workspaceId s"
| "page_step Unmount s = unmount s"
| "page_step (Network up) s = (fst s, network up (snd s))"

definition run_page :: "page_event list \<Rightarrow> hook \<times> socket_service" where
  "run_page es = fold page_step es (new_hook, new_service)"

section \<open>The handshake\<close>

text \<open>
  What the gateway can read of a socket the service opens. A browser cannot set headers on a
  websocket; the token travels in \<open>auth\<close>, and the query has the workspace only.
\<close>

definition query_params :: "connection \<Rightarrow> (string \<times> string) list" where
  "query_params c = (case cn_query c of None \<Rightarrow> [] | Some w \<Rightarrow> [(''workspaceId'', w)])"

definition client_handshake :: "connection \<Rightarrow> handshake" where
  "client_handshake c = \<lparr>hs_authorization = None, hs_query_token = map_of (query_params c) ''token''\<rparr>"

end
