(* ===== verification/SocketTheorems.thy ===== *)
theory SocketTheorems
  imports SocketClient Demo
begin

text \<open>
  The realtime channel of the browser: which handlers run for an event after any history of
  renders, logouts and network failures, when a socket is left open, and what the gateway answers
  to the handshake of this client.
\<close>

section \<open>Handlers follow the session\<close>

definition listening :: "hook \<Rightarrow> bool" where
  "listening hk \<longleftrightarrow> (case hk_deps hk of None \<Rightarrow> False | Some (token, _) \<Rightarrow> truthy token)"

definition hook_listeners :: "hook \<Rightarrow> (string \<times> callback list) list" where
  "hook_listeners hk = (if listening hk then map (\<lambda>e. (e, [Handler (hk_run hk) e])) hook_events else [])"

definition loggers :: "(string \<times> callback) list" where
  "loggers = [(''connect'', Logger ''connect''), (''disconnect'', Logger ''disconnect''),
     (''connect_error'', Logger ''connect_error'')]"

definition binds :: "(string \<times> callback list) list \<Rightarrow> socket_service \<Rightarrow> bool" where
  "binds ls sv \<longleftrightarrow>
     sv_listeners sv = ls \<and> (\<forall>c. sv_socket sv = Some c \<longrightarrow> cn_handlers c = loggers @ bound ls)"

definition page_inv :: "hook \<times> socket_service \<Rightarrow> bool" where
  "page_inv = (\<lambda>(hk, sv). binds (hook_listeners hk) sv \<and>
     (\<forall>token w. hk_deps hk = Some (token, w) \<longrightarrow> \<not> truthy token \<longrightarrow> sv_socket sv = None))"

lemma binds_subscribe:
  "binds [] sv \<Longrightarrow> binds (map (\<lambda>e. (e, [Handler n e])) hook_events) (subscribe n sv)"
  by (cases "sv_socket sv")
    (simp_all add: binds_def subscribe_def hook_events_def socket_on_def update_handlers_def bound_def)

lemma binds_unsubscribe:
  "binds (map (\<lambda>e. (e, [Handler n e])) hook_events) sv \<Longrightarrow> binds [] (unsubscribe n sv)"
  by (cases "sv_socket sv")
    (simp_all add: binds_def unsubscribe_def hook_events_def socket_off_def update_handlers_def bound_def
      loggers_def)

lemma binds_open: "binds ls sv \<Longrightarrow> binds ls (open_socket t w sv)"
  by (simp add: binds_def open_socket_def loggers_def)

lemma binds_disconnect: "binds ls sv \<Longrightarrow> binds ls (socket_disconnect sv)"
  by (simp add: binds_def socket_disconnect_def)

lemma binds_connect: "binds ls sv \<Longrightarrow> binds ls (socket_connect t w sv)"
  by (simp add: socket_connect_def binds_open binds_disconnect split: option.split)

lemma binds_session: "binds ls sv \<Longrightarrow> binds ls (session_effect t w sv)"
  by (simp add: session_effect_def binds_connect binds_disconnect split: option.split)

lemma binds_network: "binds ls sv \<Longrightarrow> binds ls (network up sv)"
  by (auto simp: binds_def network_def)

lemmas binds_rules = binds_subscribe binds_unsubscribe binds_disconnect binds_session binds_network

lemma binds_cleanup: "binds (hook_listeners hk) sv \<Longrightarrow> binds [] (cleanup hk sv)"
  by (cases "hk_deps hk")
    (auto simp: cleanup_def hook_listeners_def listening_def binds_unsubscribe split: if_splits)

lemma session_closes: "\<not> truthy t \<Longrightarrow> sv_socket (session_effect t w sv) = None"
  by (simp add: session_effect_def socket_disconnect_def)

lemma page_inv_fresh:
  assumes "binds [] sv" and "\<not> truthy token \<Longrightarrow> sv_socket sv = None" and "hk_deps hk = Some (token, w)"
  shows "page_inv (listen_effect token (hk, sv))"
  using assms by (auto simp: listen_effect_def page_inv_def hook_listeners_def listening_def binds_subscribe)

lemma render_inv:
  assumes "page_inv (hk, sv)"
  shows "page_inv (render token w (hk, sv))"
proof (cases "hk_deps hk = None \<or> fst (the (hk_deps hk)) \<noteq> token")
  case True
  from assms have "binds [] (session_effect token w (cleanup hk sv))"
    by (intro binds_session binds_cleanup) (simp add: page_inv_def)
  then have "page_inv (listen_effect token
      (hk\<lparr>hk_deps := Some (token, w)\<rparr>, session_effect token w (cleanup hk sv)))"
    by (rule page_inv_fresh) (simp_all add: session_closes)
  with True show ?thesis by (auto simp: render_def Let_def)
next
  case False
  then obtain w' where deps: "hk_deps hk = Some (token, w')" by (cases "hk_deps hk") auto
  then have "hook_listeners (hk\<lparr>hk_deps := Some (token, w)\<rparr>) = hook_listeners hk"
    by (simp add: hook_listeners_def listening_def)
  with assms deps show ?thesis
    by (auto simp: render_def Let_def page_inv_def binds_session session_closes)
qed

lemma page_step_inv: "page_inv s \<Longrightarrow> page_inv (page_step e s)"
proof (cases s)
  case (Pair hk sv)
  assume inv: "page_inv s"
  show ?thesis
  proof (cases e)
    case (Render token w)
    with inv Pair show ?thesis by (simp add: render_inv)
  next
    case Unmount
    with inv Pair binds_cleanup [of hk sv] show ?thesis
      by (simp add: unmount_def page_inv_def) (simp add: hook_listeners_def listening_def)
  next
    case (Network up)
    with inv Pair show ?thesis by (auto simp: page_inv_def binds_network) (simp add: network_def)
  qed
qed

lemma run_page_inv: "page_inv (run_page es)"
proof -
  have "page_inv (fold page_step es s)" if "page_inv s" for s
    using that by (induction es arbitrary: s) (simp_all add: page_step_inv)
  moreover have "page_inv (new_hook, new_service)"
    by (simp add: page_inv_def binds_def hook_listeners_def listening_def new_hook_def new_service_def bound_def)
  ultimately show ?thesis unfolding run_page_def by blast
qed

text \<open>A history is settled when the layout renders only while no socket is still connecting.\<close>

fun settled :: "page_event list \<Rightarrow> hook \<times> socket_service \<Rightarrow> bool" where
  "settled [] s = True"
| "settled (e # es) s =
     ((case e of Render _ _ \<Rightarrow> sv_socket (snd s) = None \<or> isConnected (snd s) | _ \<Rightarrow> True) \<and>
      settled es (page_step e s))"

lemma keeps_no_lost:
  "sv_lost (subscribe n sv) = sv_lost sv" "sv_lost (unsubscribe n sv) = sv_lost sv"
  "isConnected (unsubscribe n sv) = isConnected sv"
  "sv_socket (unsubscribe n sv) = None \<longleftrightarrow> sv_socket sv = None"
  by (simp_all add: subscribe_def unsubscribe_def hook_events_def socket_on_def socket_off_def update_handlers_def
      isConnected_def split: option.split)

lemma cleanup_keeps:
  "sv_lost (cleanup hk sv) = sv_lost sv" "isConnected (cleanup hk sv) = isConnected sv"
  "sv_socket (cleanup hk sv) = None \<longleftrightarrow> sv_socket sv = None"
  by (auto simp: cleanup_def keeps_no_lost split: option.split)

lemma session_lost:
  assumes "sv_socket sv = None \<or> isConnected sv"
  shows "sv_lost (session_effect t w sv) = sv_lost sv"
  using assms
  by (auto simp: session_effect_def socket_connect_def open_socket_def socket_disconnect_def isConnected_def
      split: option.splits)

lemma render_lost:
  assumes "sv_socket sv = None \<or> isConnected sv"
  shows "sv_lost (snd (render t w (hk, sv))) = sv_lost sv"
  using assms
  by (auto simp: render_def Let_def listen_effect_def session_lost cleanup_keeps keeps_no_lost)

lemma step_lost:
  assumes "case e of Render _ _ \<Rightarrow> sv_socket (snd s) = None \<or> isConnected (snd s) | _ \<Rightarrow> True"
  shows "sv_lost (snd (page_step e s)) = sv_lost (snd s)"
  using assms
  by (cases s; cases e) (auto simp: render_lost unmount_def cleanup_keeps network_def)

lemma settled_lost: "settled es s \<Longrightarrow> sv_lost (snd (fold page_step es s)) = sv_lost (snd s)"
  by (induction es arbitrary: s) (simp_all add: step_lost)

lemma hook_handlers:
  assumes "e \<in> set hook_events" and "cn_handlers c = loggers @ bound (hook_listeners hk)"
  shows "handlers_of e c = (if listening hk then [Handler (hk_run hk) e] else [])"
proof -
  have "\<forall>e \<in> set hook_events. map snd (filter (\<lambda>h. fst h = e) (loggers @
      bound (map (\<lambda>e. (e, [Handler n e])) hook_events))) = [Handler n e]" for n
    by (simp add: hook_events_def loggers_def bound_def)
  moreover have "\<forall>e \<in> set hook_events. filter (\<lambda>h. fst h = e) loggers = []"
    by (simp add: hook_events_def loggers_def)
  ultimately show ?thesis
    using assms by (simp add: handlers_of_def hook_listeners_def bound_def del: filter_append)
qed

text \<open>
  C38: whatever the history of renders, page changes, token changes and network failures, an event
  the hook knows runs exactly one handler on the service's socket, the one of the last run of
  the effect, and none when the layout is gone or nobody is logged in; a mounted layout without a
  token has no socket; and as long as the layout renders only while no socket is connecting, no
  socket is left open behind the service's back.
\<close>

theorem events_run_one_current_handler:
  assumes "run_page es = (hk, sv)"
  shows "(\<forall>c e. sv_socket sv = Some c \<longrightarrow> e \<in> set hook_events \<longrightarrow>
            handlers_of e c = (if listening hk then [Handler (hk_run hk) e] else [])) \<and>
    (\<forall>token w. hk_deps hk = Some (token, w) \<longrightarrow> \<not> truthy token \<longrightarrow> sv_socket sv = None) \<and>
    (settled es (new_hook, new_service) \<longrightarrow> sv_lost sv = [])"
proof (intro conjI allI impI)
  from run_page_inv [of es] assms have inv: "page_inv (hk, sv)" by simp
  show "handlers_of e c = (if listening hk then [Handler (hk_run hk) e] else [])"
    if "sv_socket sv = Some c" "e \<in> set hook_events" for c e
    using inv that hook_handlers [OF that(2)] by (simp add: page_inv_def binds_def)
  show "sv_socket sv = None" if "hk_deps hk = Some (token, w)" "\<not> truthy token" for token w
    using inv that by (simp add: page_inv_def)
  show "sv_lost sv = []" if "settled es (new_hook, new_service)"
    using settled_lost [OF that] assms by (simp add: run_page_def new_service_def)
qed

lemmas page_eval = run_page_def render_def Let_def new_hook_def new_service_def cleanup_def unmount_def
  session_effect_def socket_connect_def socket_disconnect_def open_socket_def other_workspace_def
  listen_effect_def subscribe_def unsubscribe_def socket_on_def socket_off_def update_handlers_def
  network_def isConnected_def bound_def hook_events_def

definition demo_visit :: "page_event list" where
  "demo_visit =
     [Render (Some ''t'') (Some ''a''), Network True, Render (Some ''t'') (Some ''b''), Network True,
      Render (Some ''u'') (Some ''b'')]"

theorem events_run_one_current_handler_witness:
  "\<exists>hk sv c. run_page demo_visit = (hk, sv) \<and> sv_socket sv = Some c \<and> cn_query c = Some ''b'' \<and>
     handlers_of ''task.created'' c = [Handler 2 ''task.created''] \<and> sv_lost sv = []"
proof -
  obtain hk sv where run: "run_page demo_visit = (hk, sv)" by fastforce
  then have c: "\<exists>c. sv_socket sv = Some c \<and> cn_query c = Some ''b'' \<and> hk_run hk = 2 \<and> listening hk"
    by (auto simp: demo_visit_def page_eval listening_def)
  have "settled demo_visit (new_hook, new_service)"
    by (simp add: demo_visit_def page_eval)
  with events_run_one_current_handler [OF run] have "sv_lost sv = []" by blast
  moreover have "''task.created'' \<in> set hook_events" by (simp add: hook_events_def)
  with events_run_one_current_handler [OF run] c have
    "\<exists>c. sv_socket sv = Some c \<and> cn_query c = Some ''b'' \<and> handlers_of ''task.created'' c = [Handler 2 ''task.created'']"
    by fastforce
  ultimately show ?thesis using run by blast
qed

section \<open>What goes wrong\<close>

text \<open>
  Switching the workspace while the first socket is still connecting leaves that socket open with
  all its handlers: when both are up, every event runs two handlers.
\<close>

lemma switch_while_connecting_leaks:
  assumes "t \<noteq> []" and "a \<noteq> b"
  shows "\<exists>c. sv_lost (snd (run_page [Render (Some t) a, Render (Some t) b])) = [c] \<and>
    handlers_of ''task.created'' c = [Handler 1 ''task.created'']"
  using assms by (simp add: page_eval handlers_of_def)

text \<open>
  Logging out unmounts the layout before its effect can see the missing token: the socket stays,
  and the next account to log in with the same workspace selected keeps the socket of the first.
\<close>

lemma logout_keeps_the_socket:
  assumes "t \<noteq> []" "u \<noteq> []" "a \<noteq> []"
  shows "\<exists>c. sv_socket (snd (run_page [Render (Some t) (Some a), Network True, Unmount,
      Render (Some u) (Some a)])) = Some c \<and> cn_token c = t \<and> cn_connected c"
  using assms by (simp add: page_eval)

text \<open>The gateway refuses every socket of this client: it never finds the token.\<close>

lemma gateway_refuses_the_client:
  "handleConnection pf key sid (client_handshake c) = disconnect sid"
  by (simp add: handleConnection_def extractToken_def client_handshake_def query_params_def split: option.split)

text \<open>
  C39: once the gateway has answered the connection of a socket this client opened, whatever its
  token and workspace, the socket is in no room, and no broadcast to any room reaches it.
\<close>

theorem refused_socket_receives_nothing:
  assumes "handleConnection pf key sid (client_handshake c) w = (r, w')"
  shows "\<exists>em. emitted (snd (emit_to room ev pl w')) = emitted w @ [em] \<and> sid \<notin> set (em_recipients em)"
proof -
  let ?cut = "\<lambda>s. if socket_id s = sid then s\<lparr>socket_connected := False, socket_rooms := []\<rparr> else s"
  from assms have "w' = w\<lparr>sockets := map ?cut (sockets w)\<rparr>"
    by (simp add: gateway_refuses_the_client disconnect_def update_socket_def modify_def update_rows_def)
  moreover have "sid \<notin> set (map socket_id (filter (\<lambda>s. room \<in> set (socket_rooms s)) (map ?cut ss)))" for ss
    by (induction ss) auto
  ultimately show ?thesis by (simp add: emit_to_def modify_def)
qed

theorem refused_socket_receives_nothing_witness:
  "\<exists>c w'. sv_socket (socket_connect ''t'' (Some ''w1'') new_service) = Some c \<and>
     handleConnection demo_pf ''key'' ''s1'' (client_handshake c)
       (demo_world\<lparr>sockets := [\<lparr>socket_id = ''s1'', socket_userId = None, socket_email = None,
          socket_rooms = [], socket_connected = True\<rparr>]\<rparr>) = (Inr (), w') \<and>
     ''s1'' \<notin> set (em_recipients (last (emitted
       (snd (sendTaskCreated ''w1'' (TaskDeletedPayload ''a'' ''b'' 0) w')))))"
proof -
  define w0 where "w0 = demo_world\<lparr>sockets := [\<lparr>socket_id = ''s1'', socket_userId = None, socket_email = None,
    socket_rooms = [], socket_connected = True\<rparr>]\<rparr>"
  obtain c where c: "sv_socket (socket_connect ''t'' (Some ''w1'') new_service) = Some c"
    by (simp add: socket_connect_def new_service_def open_socket_def)
  obtain w' where run: "handleConnection demo_pf ''key'' ''s1'' (client_handshake c) w0 = (Inr (), w')"
    by (simp add: gateway_refuses_the_client disconnect_def update_socket_def modify_def)
  from refused_socket_receives_nothing [OF run] have
    "''s1'' \<notin> set (em_recipients (last (emitted
       (snd (sendTaskCreated ''w1'' (TaskDeletedPayload ''a'' ''b'' 0) w')))))"
    unfolding sendTaskCreated_def by (metis last_snoc)
  with c run show ?thesis unfolding w0_def by blast
qed

end
