(* ===== verification/Platform.thy ===== *)
theory Platform
  imports Routes Reminders
begin

text \<open>
  The server as one transition system (\<open>app.module.ts\<close>, \<open>workers\<close>, \<open>modules/realtime\<close>): the
  requests of every controller, the scheduler, the workers and the sockets act on one world,
  while time passes, queues fail and cache entries are evicted.
\<close>

section \<open>Requests\<close>

text \<open>
  A request by its route, with the body or query its handler is given; the parameters, headers and
  the names in the body are in the \<open>http_request\<close>.
\<close>

datatype api_request =
    AuthSignup signup_dto
  | AuthLogin "string option" login_dto
  | AuthLogout string
  | AuthRefresh string
  | AuthVerifyEmail string string
  | AuthForgotPassword string
  | AuthResetPassword reset_password_dto
  | AuthGetSessions
  | AuthRevokeSession
  | UsersGetProfile
  | UsersUpdateProfile
  | WorkspaceCreate create_workspace_dto
  | WorkspaceGetAll
  | WorkspaceGetBySlug
  | WorkspaceGetById
  | WorkspaceUpdate string
  | WorkspaceDelete
  | WorkspaceInvite invite_member_dto
  | WorkspaceGetMembers
  | DashboardGetSummary
  | ProjectCreate create_project_dto
  | ProjectList
  | ProjectGet
  | ProjectUpdate
  | ProjectDelete
  | TaskCreateRequest create_task_dto
  | TaskListRequest query_task_dto
  | TaskGetRequest
  | TaskUpdateRequest update_task_dto
  | TaskDeleteRequest
  | TaskPresign string string
  | SubtaskGetTree
  | SubtaskGetDescendants
  | SubtaskGetAncestors
  | CommentAdd string
  | CommentList
  | NotificationList
  | NotificationMarkAsRead
  | NotificationMarkAllAsRead
  | AuditGetLogs nat nat

text \<open>The outcome of a request, \<open>None\<close> when its handler does not return.\<close>

type_synonym outcome = "((exn + unit) \<times> world) option"

definition answers :: "'a svc \<Rightarrow> world \<Rightarrow> outcome" where
  "answers m w = Some (map_prod (map_sum id (\<lambda>_. ())) id (m w))"

definition answers_read :: "(world \<Rightarrow> (exn + 'a) option) \<Rightarrow> world \<Rightarrow> outcome" where
  "answers_read q w = map_option (\<lambda>r. (map_sum id (\<lambda>_. ()) r, w)) (q w)"

text \<open>
  An empty body reaches \<open>updateWorkspace\<close> with the name \<open>undefined\<close>: the save leaves the column
  alone, the caches are invalidated and the audit log has no new name.
\<close>

definition updateWorkspace_unnamed :: "platform \<Rightarrow> string \<Rightarrow> string \<Rightarrow> workspace svc" where
  "updateWorkspace_unnamed pf i uid =
     await (findWorkspaceById pf i) (\<lambda>(x, ow).
     await (save_workspace x) (\<lambda>saved.
     await (invalidate_workspace i (workspace_slug x)) (\<lambda>_.
     await (auditLog ''WORKSPACE_UPDATE'' (Some uid)
              (JObj [(''workspaceId'', JStr i),
                     (''previous'', JObj [(''name'', JStr (workspace_name x))]),
                     (''new'', JObj [])])) (\<lambda>_.
     ret saved))))"

fun serve :: "platform \<Rightarrow> api_request \<Rightarrow> http_request \<Rightarrow> world \<Rightarrow> outcome" where
  "serve pf (AuthSignup d) r = answers (AuthController_signup pf d r)"
| "serve pf (AuthLogin ip d) r = answers (AuthController_login pf ip d r)"
| "serve pf (AuthLogout token) r = answers (AuthController_logout pf token r)"
| "serve pf (AuthRefresh token) r = answers (AuthController_refresh pf token r)"
| "serve pf (AuthVerifyEmail email code) r = answers (AuthController_verifyEmail pf email code r)"
| "serve pf (AuthForgotPassword email) r = answers (AuthController_forgotPassword pf email r)"
| "serve pf (AuthResetPassword d) r = answers (AuthController_resetPassword pf d r)"
| "serve pf AuthGetSessions r = answers (AuthController_getSessions pf r)"
| "serve pf AuthRevokeSession r = answers (AuthController_revokeSession pf r)"
| "serve pf UsersGetProfile r = answers (UsersController_getProfile pf r)"
| "serve pf UsersUpdateProfile r = answers (UsersController_updateProfile pf r)"
| "serve pf (WorkspaceCreate d) r = answers (WorkspaceController_create pf d r)"
| "serve pf WorkspaceGetAll r = answers (WorkspaceController_getUserWorkspaces pf r)"
| "serve pf WorkspaceGetBySlug r = answers (WorkspaceController_getBySlug pf r)"
| "serve pf WorkspaceGetById r = answers (WorkspaceController_getById pf r)"
| "serve pf (WorkspaceUpdate name) r =
     (case WorkspaceController_update pf (Some name) r of
        None \<Rightarrow> answers (guarded pf (permission_guards [WORKSPACE_UPDATE])
          (pipe pf [] True (\<lambda>r. updateWorkspace_unnamed pf (param r ''workspaceId'') (userId r))) r)
      | Some m \<Rightarrow> answers m)"
| "serve pf WorkspaceDelete r = answers (WorkspaceController_delete pf r)"
| "serve pf (WorkspaceInvite d) r = answers (WorkspaceController_invite pf d r)"
| "serve pf WorkspaceGetMembers r = answers (WorkspaceController_getMembers pf r)"
| "serve pf DashboardGetSummary r = answers (DashboardController_getSummary pf r)"
| "serve pf (ProjectCreate d) r = answers (ProjectController_create pf d r)"
| "serve pf ProjectList r = answers (ProjectController_list pf r)"
| "serve pf ProjectGet r = answers (ProjectController_get pf r)"
| "serve pf ProjectUpdate r = answers (ProjectController_update pf r)"
| "serve pf ProjectDelete r = answers (ProjectController_delete pf r)"
| "serve pf (TaskCreateRequest d) r = answers (TaskController_create pf d r)"
| "serve pf (TaskListRequest q) r = answers (TaskController_list pf q r)"
| "serve pf TaskGetRequest r = answers (TaskController_get pf r)"
| "serve pf (TaskUpdateRequest d) r = answers (TaskController_update pf d r)"
| "serve pf TaskDeleteRequest r = answers (TaskController_delete pf r)"
| "serve pf (TaskPresign name ty) r = answers (TaskController_getAttachmentPresign pf name ty r)"
| "serve pf SubtaskGetTree r = answers_read (SubtaskController_getTree pf r)"
| "serve pf SubtaskGetDescendants r = answers_read (SubtaskController_getDescendants pf r)"
| "serve pf SubtaskGetAncestors r = answers_read (SubtaskController_getAncestors pf r)"
| "serve pf (CommentAdd m) r = answers (CommentController_add pf m r)"
| "serve pf CommentList r = answers (CommentController_list pf r)"
| "serve pf NotificationList r = answers (NotificationController_getNotifications pf r)"
| "serve pf NotificationMarkAsRead r = answers (NotificationController_markAsRead pf r)"
| "serve pf NotificationMarkAllAsRead r = answers (NotificationController_markAllAsRead pf r)"
| "serve pf (AuditGetLogs page limit) r = answers (AuditController_getAuditLogs pf page limit r)"

text \<open>The middleware runs before the route.\<close>

definition handle_request :: "platform \<Rightarrow> request_line \<Rightarrow> api_request \<Rightarrow> http_request \<Rightarrow> world \<Rightarrow> outcome" where
  "handle_request pf l q r w = serve pf q r (snd (correlation pf l w))"

section \<open>Sockets\<close>

datatype socket_event =
    Connect string handshake
  | JoinWorkspace string "string option"
  | LeaveWorkspace string "string option"
  | Disconnect string

text \<open>A new connection has a fresh socket of its own; a closed one is gone.\<close>

fun on_socket :: "platform \<Rightarrow> socket_event \<Rightarrow> world \<Rightarrow> world" where
  "on_socket pf (Connect sid h) w =
     snd (handleConnection pf (accessSecret (jwt_configuration pf)) sid h
       (w\<lparr>sockets := sockets w @ [\<lparr>socket_id = sid, socket_userId = None, socket_email = None,
          socket_rooms = [], socket_connected = True\<rparr>]\<rparr>))"
| "on_socket pf (JoinWorkspace sid i) w = snd (handleJoinWorkspace sid i w)"
| "on_socket pf (LeaveWorkspace sid i) w = snd (handleLeaveWorkspace sid i w)"
| "on_socket pf (Disconnect sid) w = w\<lparr>sockets := delete_rows (\<lambda>s. socket_id s = sid) (sockets w)\<rparr>"

section \<open>Steps\<close>

inductive server_step :: "platform \<Rightarrow> world \<Rightarrow> world \<Rightarrow> bool" for pf where
  request: "handle_request pf l q r w = Some (x, w') \<Longrightarrow> server_step pf w w'"
| scheduler: "checkDueTasks pf w = (x, w') \<Longrightarrow> server_step pf w w'"
| worker: "j \<in> set (jobs w) \<Longrightarrow> run_attempts pf (job_attempts j) j w = (x, w') \<Longrightarrow> server_step pf w w'"
| socket: "server_step pf w (on_socket pf e w)"
| time: "0 \<le> dt \<Longrightarrow> server_step pf w (w\<lparr>clock := clock w + dt\<rparr>)"
| outage: "server_step pf w (w\<lparr>queueUp := qs\<rparr>)"
| evict: "server_step pf w (w\<lparr>cache := (cache w)(k := None)\<rparr>)"

inductive server_reachable :: "platform \<Rightarrow> world \<Rightarrow> world \<Rightarrow> bool" for pf where
  start: "server_reachable pf w w"
| then_step: "server_reachable pf w w' \<Longrightarrow> server_step pf w' w'' \<Longrightarrow> server_reachable pf w w''"

inductive_cases server_stepE: "server_step pf w w'"

end
