(* ===== verification/Integrity.thy ===== *)
theory Integrity
  imports Platform TaskSpec AuthLaws WorkspaceLaws
begin

text \<open>
  The integrity of the database as one invariant of the whole server: every key identifies its row
  and was issued, every reference finds its row, every row is well formed, and what the cache holds
  is good enough to be saved again. The invariant is kept by every operation of every service.
\<close>

section \<open>Tables\<close>

definition keyed :: "platform \<Rightarrow> nat \<Rightarrow> ('r \<Rightarrow> string) \<Rightarrow> 'r list \<Rightarrow> bool" where
  "keyed pf n key rows \<longleftrightarrow> distinct (map key rows) \<and> key ` set rows \<subseteq> pf_uuid pf ` {..<n}"

definition refs :: "('r \<Rightarrow> string option) \<Rightarrow> 'r list \<Rightarrow> string set \<Rightarrow> bool" where
  "refs col rows ids \<longleftrightarrow> (\<forall>r \<in> set rows. \<forall>i. col r = Some i \<longrightarrow> i \<in> ids)"

lemma keyed_mono: "keyed pf n key rows \<Longrightarrow> n \<le> m \<Longrightarrow> keyed pf m key rows"
  unfolding keyed_def by (meson image_mono lessThan_subset_iff order_trans)

lemma keyed_append:
  assumes "inj (pf_uuid pf)" and "keyed pf n key rows" and "key r = pf_uuid pf n"
  shows "keyed pf (Suc n) key (rows @ [r])"
proof -
  have "pf_uuid pf n \<notin> pf_uuid pf ` {..<n}" using assms(1) by (simp add: inj_image_mem_iff)
  then have "key r \<notin> key ` set rows" using assms(2,3) by (auto simp: keyed_def)
  with assms(2,3) show ?thesis unfolding keyed_def by (auto simp: lessThan_Suc)
qed

lemma keyed_put:
  "keyed pf n key rows \<Longrightarrow> key r \<in> pf_uuid pf ` {..<n} \<Longrightarrow> key r \<notin> key ` set rows \<Longrightarrow> keyed pf n key (rows @ [r])"
  unfolding keyed_def by auto

lemma keyed_update:
  assumes "keyed pf n key rows" and "\<And>r. r \<in> set rows \<Longrightarrow> p r \<Longrightarrow> key (f r) = key r"
  shows "keyed pf n key (update_rows p f rows)"
proof -
  have "map key (update_rows p f rows) = map key rows"
    using assms(2) by (simp add: update_rows_def)
  with assms(1) show ?thesis unfolding keyed_def by (metis set_map)
qed

lemma keyed_subset:
  "keyed pf n key rows \<Longrightarrow> distinct (map key rows') \<Longrightarrow> set rows' \<subseteq> set rows \<Longrightarrow> keyed pf n key rows'"
  unfolding keyed_def by blast

lemma keyed_delete: "keyed pf n key rows \<Longrightarrow> keyed pf n key (delete_rows p rows)"
  unfolding keyed_def delete_rows_def by (auto simp: distinct_map_filter)

lemma keyed_filter: "keyed pf n key rows \<Longrightarrow> keyed pf n key (filter p rows)"
  unfolding keyed_def by (auto simp: distinct_map_filter)

lemma refs_append [simp]:
  "refs col (rows @ [r]) ids \<longleftrightarrow> refs col rows ids \<and> (\<forall>i. col r = Some i \<longrightarrow> i \<in> ids)"
  by (auto simp: refs_def)

lemma refs_update:
  assumes "refs col rows ids" and "\<And>r i. r \<in> set rows \<Longrightarrow> p r \<Longrightarrow> col (f r) = Some i \<Longrightarrow> i \<in> ids"
  shows "refs col (update_rows p f rows) ids"
  using assms by (auto simp: refs_def update_rows_def)

lemma refs_mono: "refs col rows ids \<Longrightarrow> ids \<subseteq> ids' \<Longrightarrow> refs col rows ids'"
  by (auto simp: refs_def)

lemma refs_subset: "refs col rows ids \<Longrightarrow> set rows' \<subseteq> set rows \<Longrightarrow> refs col rows' ids"
  by (auto simp: refs_def)

lemma key_image_update:
  assumes "\<And>r. r \<in> set rows \<Longrightarrow> p r \<Longrightarrow> key (f r) = key r"
  shows "key ` set (update_rows p f rows) = key ` set rows"
proof -
  have "map key (update_rows p f rows) = map key rows"
    using assms by (simp add: update_rows_def)
  then show ?thesis by (metis set_map)
qed

section \<open>The invariant\<close>

text \<open>Identifiers in the order they were issued: a parent is older than its children.\<close>

definition older :: "platform \<Rightarrow> string \<Rightarrow> string \<Rightarrow> bool" where
  "older pf i j \<longleftrightarrow> (\<exists>m n. m < n \<and> i = pf_uuid pf m \<and> j = pf_uuid pf n)"

definition elders :: "platform \<Rightarrow> task \<Rightarrow> bool" where
  "elders pf t \<longleftrightarrow> (\<forall>p. task_parentTaskId t = Some p \<longrightarrow> older pf p (task_id t))"

abbreviation "user_ids w \<equiv> user_id ` set (users w)"
abbreviation "workspace_ids w \<equiv> workspace_id ` set (workspaces w)"
abbreviation "project_ids w \<equiv> project_id ` set (projects w)"
abbreviation "task_ids w \<equiv> task_id ` set (tasks w)"

definition keys_ok :: "platform \<Rightarrow> world \<Rightarrow> bool" where
  "keys_ok pf w \<longleftrightarrow>
     keyed pf (draws w) workspace_id (workspaces w) \<and> keyed pf (draws w) project_id (projects w) \<and>
     keyed pf (draws w) task_id (tasks w) \<and> keyed pf (draws w) comment_id (comments w) \<and>
     keyed pf (draws w) activity_id (activities w) \<and> keyed pf (draws w) notification_id (notifications w) \<and>
     keyed pf (draws w) reminder_id (reminders w) \<and> keyed pf (draws w) audit_id (auditLogs w) \<and>
     distinct (map workspace_slug (workspaces w))"

definition user_refs_ok :: "world \<Rightarrow> bool" where
  "user_refs_ok w \<longleftrightarrow>
     refs (Some \<circ> workspace_ownerId) (workspaces w) (user_ids w) \<and>
     refs task_assignedTo (tasks w) (user_ids w) \<and> refs (Some \<circ> task_createdBy) (tasks w) (user_ids w) \<and>
     refs (Some \<circ> comment_userId) (comments w) (user_ids w) \<and>
     refs (Some \<circ> activity_performedBy) (activities w) (user_ids w) \<and>
     refs (Some \<circ> notification_userId) (notifications w) (user_ids w) \<and>
     refs audit_userId (auditLogs w) (user_ids w)"

definition row_refs_ok :: "world \<Rightarrow> bool" where
  "row_refs_ok w \<longleftrightarrow>
     refs (Some \<circ> project_workspaceId) (projects w) (workspace_ids w) \<and>
     refs (Some \<circ> activity_workspaceId) (activities w) (workspace_ids w) \<and>
     refs (Some \<circ> task_workspaceId) (tasks w) (workspace_ids w) \<and>
     refs (Some \<circ> task_projectId) (tasks w) (project_ids w) \<and>
     refs task_parentTaskId (tasks w) (task_ids w) \<and>
     refs (Some \<circ> comment_taskId) (comments w) (task_ids w) \<and>
     refs (Some \<circ> reminder_taskId) (reminders w) (task_ids w)"

definition seen_task :: "platform \<Rightarrow> nat \<Rightarrow> task \<Rightarrow> bool" where
  "seen_task pf n t \<longleftrightarrow> row_ok t \<and> elders pf t \<and> task_id t \<in> pf_uuid pf ` {..<n}"

text \<open>The identity of a workspace, which no operation changes.\<close>

definition ws_identity :: "workspace \<Rightarrow> string \<times> string \<times> string" where
  "ws_identity x = (workspace_id x, workspace_slug x, workspace_ownerId x)"

definition cached_ok :: "platform \<Rightarrow> world \<Rightarrow> bool" where
  "cached_ok pf w \<longleftrightarrow>
     (\<forall>i v. cache_get (getTaskCacheKey i) w = Some (CTask v) \<longrightarrow>
        seen_task pf (draws w) (view_task v) \<and> task_id (view_task v) = i) \<and>
     (\<forall>b k x ow. cache_get (ws_key (b, k)) w = Some (CWorkspace x ow) \<longrightarrow>
        ws_field b x = k \<and> ws_identity x \<in> ws_identity ` set (workspaces w))"

definition db_ok :: "platform \<Rightarrow> world \<Rightarrow> bool" where
  "db_ok pf w \<longleftrightarrow> accounts_ok pf w \<and> members_ok w \<and> keys_ok pf w \<and> user_refs_ok w \<and> row_refs_ok w \<and>
     (\<forall>t \<in> set (tasks w). row_ok t \<and> elders pf t) \<and> cached_ok pf w"

section \<open>Steps that leave the tables alone\<close>

definition quiet :: "world \<Rightarrow> world \<Rightarrow> bool" where
  "quiet w w' \<longleftrightarrow>
     users w' = users w \<and> sessions w' = sessions w \<and> workspaces w' = workspaces w \<and>
     members w' = members w \<and> projects w' = projects w \<and> tasks w' = tasks w \<and>
     comments w' = comments w \<and> activities w' = activities w \<and> notifications w' = notifications w \<and>
     reminders w' = reminders w \<and> auditLogs w' = auditLogs w \<and> draws w \<le> draws w' \<and>
     (\<forall>k v. cache_get k w' = Some v \<longrightarrow> cache_get k w = Some v)"

interpretation quiet: effect_frame quiet
  by unfold_locales (auto simp: quiet_def)

lemma seen_task_mono: "seen_task pf n t \<Longrightarrow> n \<le> m \<Longrightarrow> seen_task pf m t"
  unfolding seen_task_def by (meson image_mono lessThan_subset_iff subsetD)

lemma keys_ok_mono:
  assumes "keys_ok pf w" and "quiet w w'"
  shows "keys_ok pf w'"
  using assms by (auto simp: keys_ok_def quiet_def elim: keyed_mono)

lemma cached_ok_mono:
  assumes "cached_ok pf w" and "draws w \<le> draws w'"
    and "ws_identity ` set (workspaces w) \<subseteq> ws_identity ` set (workspaces w')"
    and "\<And>k v. cache_get k w' = Some v \<Longrightarrow> cache_get k w = Some v"
  shows "cached_ok pf w'"
  unfolding cached_ok_def
proof (intro conjI allI impI)
  fix i v
  assume "cache_get (getTaskCacheKey i) w' = Some (CTask v)"
  with assms(1,4) have "seen_task pf (draws w) (view_task v) \<and> task_id (view_task v) = i"
    unfolding cached_ok_def by blast
  with assms(2) show "seen_task pf (draws w') (view_task v)" "task_id (view_task v) = i"
    by (auto elim: seen_task_mono)
next
  fix b k x ow
  assume "cache_get (ws_key (b, k)) w' = Some (CWorkspace x ow)"
  with assms(1,4) have "ws_field b x = k \<and> ws_identity x \<in> ws_identity ` set (workspaces w)"
    unfolding cached_ok_def by blast
  with assms(3) show "ws_field b x = k" "ws_identity x \<in> ws_identity ` set (workspaces w')" by auto
qed

lemma db_ok_quiet:
  assumes ok: "db_ok pf w" and q: "quiet w w'"
  shows "db_ok pf w'"
proof -
  have "accounts_ok pf w'" using ok q by (auto simp: db_ok_def quiet_def elim!: accounts_cong)
  moreover have "members_ok w'" using ok q by (auto simp: db_ok_def quiet_def elim!: members_ok_cong)
  moreover have "keys_ok pf w'" using ok keys_ok_mono [OF _ q] by (simp add: db_ok_def)
  moreover have "user_refs_ok w'" "row_refs_ok w'"
    using ok q by (simp_all add: db_ok_def quiet_def user_refs_ok_def row_refs_ok_def)
  moreover have "cached_ok pf w'"
    using ok q by (auto simp: db_ok_def quiet_def elim!: cached_ok_mono)
  ultimately show ?thesis using ok q by (simp add: db_ok_def quiet_def)
qed

lemma preserves_quiet: "within quiet m \<Longrightarrow> preserves (db_ok pf) m"
  by (erule within_preserves_rule) (rule db_ok_quiet)

text \<open>Most of them do not touch the cache either.\<close>

lemma quietI:
  assumes "users w' = users w" "sessions w' = sessions w" "workspaces w' = workspaces w" "members w' = members w"
    and "projects w' = projects w" "tasks w' = tasks w" "comments w' = comments w" "activities w' = activities w"
    and "notifications w' = notifications w" "reminders w' = reminders w" "auditLogs w' = auditLogs w"
    and "draws w \<le> draws w'" "cache w' = cache w" "clock w \<le> clock w'" "redisUp w' = redisUp w"
  shows "quiet w w'"
  using assms by (auto simp: quiet_def cache_get_def redis_get_def split: option.splits if_splits)

lemma within_quiet_enqueue: "within quiet (queue_add q n d a b)"
  by (rule withinI) (auto simp: queue_add_def intro: quietI)

lemma within_quiet_emit: "within quiet (emit_to room ev pl)"
  by (rule withinI) (auto simp: emit_to_def modify_def intro: quietI)

lemma within_quiet_logs:
  "within quiet (auditLog ac uo j)" "within quiet (activityLog ws ty i a u)"
  unfolding auditLog_def activityLog_def
  by (intro quiet.within_intros within_quiet_enqueue)+

lemma within_quiet_send:
  "within quiet (sendTaskCreated i pl)" "within quiet (sendTaskUpdated i pl)"
  "within quiet (sendTaskAssigned i pl)" "within quiet (sendNotificationCreated i pl)"
  "within quiet (sendCommentCreated i pl)" "within quiet (sendMemberJoined i pl)"
  unfolding send_defs by (rule within_quiet_emit)+

lemma quiet_cacheI:
  assumes "\<exists>c. w' = w\<lparr>cache := c\<rparr>" and "\<And>k v. cache_get k w' = Some v \<Longrightarrow> cache_get k w = Some v"
  shows "quiet w w'"
proof -
  from assms(1) obtain c where "w' = w\<lparr>cache := c\<rparr>" ..
  then have tables: "users w' = users w" "sessions w' = sessions w"
    "workspaces w' = workspaces w" "members w' = members w" "projects w' = projects w" "tasks w' = tasks w"
    "comments w' = comments w" "activities w' = activities w" "notifications w' = notifications w"
    "reminders w' = reminders w" "auditLogs w' = auditLogs w" "draws w' = draws w"
    by simp_all
  show ?thesis unfolding quiet_def tables using assms(2) by blast
qed

lemma quiet_del: "quiet w (cache_del k w)"
proof (rule quiet_cacheI)
  show "\<exists>c. cache_del k w = w\<lparr>cache := c\<rparr>"
    by (cases "redisUp w") (auto simp: cache_del_def intro: exI [of _ "cache w"])
  show "cache_get k' (cache_del k w) = Some v \<Longrightarrow> cache_get k' w = Some v" for k' v
    using redis.get_delD [of k' k w v] by simp
qed

lemma quiet_delPattern: "quiet w (cache_delPattern pf pat w)"
proof (rule quiet_cacheI)
  show "\<exists>c. cache_delPattern pf pat w = w\<lparr>cache := c\<rparr>"
    by (cases "redisUp w") (auto simp: cache_delPattern_def intro: exI [of _ "cache w"])
  show "cache_get k (cache_delPattern pf pat w) = Some v \<Longrightarrow> cache_get k w = Some v" for k v
    by (simp add: cache_get_delPattern split: if_splits)
qed

lemma within_quiet_cache: "within quiet (cacheDel k)" "within quiet (cacheDelPattern pf pat)" "within quiet (cacheGet k)"
  by (simp_all add: within_def cache_prog_eval quiet_del quiet_delPattern quiet.refl)

lemma within_quiet_draw: "within quiet (draw f)"
  by (rule withinI) (simp add: draw_eval quietI)

lemma within_quiet_date: "within quiet new_date"
  by (rule withinI) (simp add: new_date_eval quiet.refl)

lemmas within_quiet = within_quiet_logs within_quiet_send within_quiet_cache within_quiet_draw within_quiet_date
  within_quiet_enqueue

lemmas quiet_ops = within_quiet [THEN preserves_quiet]

section \<open>New rows\<close>

lemma cache_get_tables [simp]:
  "cache_get k (w\<lparr>projects := ps\<rparr>) = cache_get k w" "cache_get k (w\<lparr>tasks := ts\<rparr>) = cache_get k w"
  "cache_get k (w\<lparr>comments := cs\<rparr>) = cache_get k w" "cache_get k (w\<lparr>activities := acs\<rparr>) = cache_get k w"
  "cache_get k (w\<lparr>notifications := ns\<rparr>) = cache_get k w" "cache_get k (w\<lparr>reminders := rs\<rparr>) = cache_get k w"
  "cache_get k (w\<lparr>auditLogs := als\<rparr>) = cache_get k w" "cache_get k (w\<lparr>workspaces := xs\<rparr>) = cache_get k w"
  "cache_get k (w\<lparr>members := ms\<rparr>) = cache_get k w"
  by (rule redis_get_frame; simp)+

lemma accounts_tables [simp]:
  "accounts_ok pf (w\<lparr>projects := ps\<rparr>) = accounts_ok pf w" "accounts_ok pf (w\<lparr>tasks := ts\<rparr>) = accounts_ok pf w"
  "accounts_ok pf (w\<lparr>comments := cs\<rparr>) = accounts_ok pf w" "accounts_ok pf (w\<lparr>activities := acs\<rparr>) = accounts_ok pf w"
  "accounts_ok pf (w\<lparr>notifications := ns\<rparr>) = accounts_ok pf w" "accounts_ok pf (w\<lparr>reminders := rs\<rparr>) = accounts_ok pf w"
  "accounts_ok pf (w\<lparr>auditLogs := als\<rparr>) = accounts_ok pf w" "accounts_ok pf (w\<lparr>workspaces := xs\<rparr>) = accounts_ok pf w"
  "accounts_ok pf (w\<lparr>members := ms\<rparr>) = accounts_ok pf w"
  by (simp_all add: accounts_ok_def users_ok_def user_exists_def)

lemma members_tables [simp]:
  "members_ok (w\<lparr>projects := ps\<rparr>) = members_ok w" "members_ok (w\<lparr>tasks := ts\<rparr>) = members_ok w"
  "members_ok (w\<lparr>comments := cs\<rparr>) = members_ok w" "members_ok (w\<lparr>activities := acs\<rparr>) = members_ok w"
  "members_ok (w\<lparr>notifications := ns\<rparr>) = members_ok w" "members_ok (w\<lparr>reminders := rs\<rparr>) = members_ok w"
  "members_ok (w\<lparr>auditLogs := als\<rparr>) = members_ok w"
  by (simp_all add: members_ok_def user_exists_def workspace_exists_def)

lemma cached_tables [simp]:
  "cached_ok pf (w\<lparr>projects := ps\<rparr>) = cached_ok pf w" "cached_ok pf (w\<lparr>tasks := ts\<rparr>) = cached_ok pf w"
  "cached_ok pf (w\<lparr>comments := cs\<rparr>) = cached_ok pf w" "cached_ok pf (w\<lparr>activities := acs\<rparr>) = cached_ok pf w"
  "cached_ok pf (w\<lparr>notifications := ns\<rparr>) = cached_ok pf w" "cached_ok pf (w\<lparr>reminders := rs\<rparr>) = cached_ok pf w"
  "cached_ok pf (w\<lparr>auditLogs := als\<rparr>) = cached_ok pf w" "cached_ok pf (w\<lparr>members := ms\<rparr>) = cached_ok pf w"
  by (simp_all add: cached_ok_def)

lemmas db_defs = db_ok_def keys_ok_def user_refs_ok_def row_refs_ok_def

lemma exists_iff:
  "user_exists i w \<longleftrightarrow> i \<in> user_ids w" "workspace_exists i w \<longleftrightarrow> i \<in> workspace_ids w"
  "project_exists i w \<longleftrightarrow> i \<in> project_ids w" "task_exists i w \<longleftrightarrow> i \<in> task_ids w"
  by (auto simp: exists_defs)

lemma fk_null_iff: "fk_null ex i w \<longleftrightarrow> (\<forall>x. i = Some x \<longrightarrow> ex x w)"
  by (cases i) auto

text \<open>A row with an identifier that was issued and is not in the table.\<close>

abbreviation "issued pf w i \<equiv> i \<in> pf_uuid pf ` {..<draws w}"

lemma db_ok_new_comment:
  assumes "db_ok pf w" and "issued pf w (comment_id c)" "comment_id c \<notin> comment_id ` set (comments w)"
    and "task_exists (comment_taskId c) w" "user_exists (comment_userId c) w"
  shows "db_ok pf (w\<lparr>comments := comments w @ [c]\<rparr>)"
  using assms by (simp add: db_defs exists_iff keyed_put)

lemma db_ok_new_activity:
  assumes "db_ok pf w" and "issued pf w (activity_id a)" "activity_id a \<notin> activity_id ` set (activities w)"
    and "workspace_exists (activity_workspaceId a) w" "user_exists (activity_performedBy a) w"
  shows "db_ok pf (w\<lparr>activities := activities w @ [a]\<rparr>)"
  using assms by (simp add: db_defs exists_iff keyed_put)

lemma db_ok_new_audit:
  assumes "db_ok pf w" and "issued pf w (audit_id a)" "audit_id a \<notin> audit_id ` set (auditLogs w)"
    and "fk_null user_exists (audit_userId a) w"
  shows "db_ok pf (w\<lparr>auditLogs := auditLogs w @ [a]\<rparr>)"
  using assms by (simp add: db_defs exists_iff keyed_put fk_null_iff)

lemma db_ok_new_notification:
  assumes "db_ok pf w" and "issued pf w (notification_id n)" "notification_id n \<notin> notification_id ` set (notifications w)"
    and "user_exists (notification_userId n) w"
  shows "db_ok pf (w\<lparr>notifications := notifications w @ [n]\<rparr>)"
  using assms by (simp add: db_defs exists_iff keyed_put)

lemma db_ok_new_reminder:
  assumes "db_ok pf w" and "issued pf w (reminder_id r)" "reminder_id r \<notin> reminder_id ` set (reminders w)"
    and "task_exists (reminder_taskId r) w"
  shows "db_ok pf (w\<lparr>reminders := reminders w @ [r]\<rparr>)"
  using assms by (simp add: db_defs exists_iff keyed_put)

lemma db_ok_new_project:
  assumes "db_ok pf w" and "issued pf w (project_id p)" "project_id p \<notin> project_ids w"
    and "workspace_exists (project_workspaceId p) w"
  shows "db_ok pf (w\<lparr>projects := projects w @ [p]\<rparr>)"
  using assms by (auto simp: db_defs exists_iff keyed_put elim: refs_mono)

lemma db_ok_new_task:
  assumes "db_ok pf w" and "issued pf w (task_id t)" "task_id t \<notin> task_ids w"
    and "task_fks t w" "row_ok t" "elders pf t"
  shows "db_ok pf (w\<lparr>tasks := tasks w @ [t]\<rparr>)"
  using assms by (auto simp: db_defs exists_iff task_fks_def fk_null_iff keyed_put elim: refs_mono)

text \<open>Drawing an identifier gives one that is in no table.\<close>

lemma draw_next:
  assumes "inj (pf_uuid pf)" and "db_ok pf w"
  defines "w1 \<equiv> w\<lparr>draws := Suc (draws w)\<rparr>" and "i \<equiv> pf_uuid pf (draws w)"
  shows "db_ok pf w1" and "issued pf w1 i"
    and "i \<notin> workspace_ids w1" "i \<notin> project_ids w1" "i \<notin> task_ids w1"
      "i \<notin> comment_id ` set (comments w1)" "i \<notin> activity_id ` set (activities w1)"
      "i \<notin> notification_id ` set (notifications w1)" "i \<notin> reminder_id ` set (reminders w1)"
      "i \<notin> audit_id ` set (auditLogs w1)"
proof -
  show "db_ok pf w1" using assms(2) unfolding w1_def by (rule db_ok_quiet) (rule quietI; simp)
  show "issued pf w1 i" by (simp add: w1_def i_def)
  have new: "i \<notin> key ` set rows" if "keyed pf (draws w) key rows" for key :: "'r \<Rightarrow> string" and rows
    using that assms(1) unfolding i_def keyed_def by (metis inj_image_mem_iff lessThan_iff less_irrefl subsetD)
  show "i \<notin> workspace_ids w1" "i \<notin> project_ids w1" "i \<notin> task_ids w1"
      "i \<notin> comment_id ` set (comments w1)" "i \<notin> activity_id ` set (activities w1)"
      "i \<notin> notification_id ` set (notifications w1)" "i \<notin> reminder_id ` set (reminders w1)"
      "i \<notin> audit_id ` set (auditLogs w1)"
    using assms(2) by (auto simp: db_defs w1_def dest: new)
qed

section \<open>Writes of the services\<close>

lemma preserves_insert_comment:
  assumes inj: "inj (pf_uuid pf)"
  shows "preserves (db_ok pf) (insert_comment pf t u m)"
proof (rule preservesI)
  fix w
  assume ok: "db_ok pf w"
  note new = draw_next [OF inj ok]
  show "db_ok pf (snd (insert_comment pf t u m w))"
    using ok db_ok_new_comment [OF new(1)] new
    by (simp add: insert_comment_def prog_simps Let_def exists_defs)
qed

lemma preserves_insert_reminder:
  assumes inj: "inj (pf_uuid pf)"
  shows "preserves (db_ok pf) (insert_reminder pf t d)"
proof (rule preservesI)
  fix w
  assume ok: "db_ok pf w"
  note new = draw_next [OF inj ok]
  show "db_ok pf (snd (insert_reminder pf t d w))"
    using ok db_ok_new_reminder [OF new(1)] new
    by (simp add: insert_reminder_def prog_simps Let_def exists_defs)
qed

lemma preserves_insert_notification:
  assumes inj: "inj (pf_uuid pf)"
  shows "preserves (db_ok pf) (insert_notification pf u ty ti me)"
proof (rule preservesI)
  fix w
  assume ok: "db_ok pf w"
  note new = draw_next [OF inj ok]
  show "db_ok pf (snd (insert_notification pf u ty ti me w))"
    using ok db_ok_new_notification [OF new(1)] new
    by (simp add: insert_notification_def prog_simps Let_def exists_defs)
qed

lemma preserves_activity_process:
  assumes inj: "inj (pf_uuid pf)"
  shows "preserves (db_ok pf) (activity_process pf ws ty i a u)"
proof (rule preservesI)
  fix w
  assume ok: "db_ok pf w"
  note new = draw_next [OF inj ok]
  show "db_ok pf (snd (activity_process pf ws ty i a u w))"
    using ok db_ok_new_activity [OF new(1)] new
    by (simp add: activity_process_def prog_simps Let_def exists_defs)
qed

lemma preserves_audit_process:
  assumes inj: "inj (pf_uuid pf)"
  shows "preserves (db_ok pf) (audit_process pf a u p)"
proof (rule preservesI)
  fix w
  assume ok: "db_ok pf w"
  note new = draw_next [OF inj ok]
  show "db_ok pf (snd (audit_process pf a u p w))"
    using ok db_ok_new_audit [OF new(1)] new
    by (simp add: audit_process_def prog_simps Let_def exists_defs fk_null_iff)
qed

lemma preserves_insert_project:
  assumes inj: "inj (pf_uuid pf)"
  shows "preserves (db_ok pf) (insert_project pf p)"
proof (rule preservesI)
  fix w
  assume ok: "db_ok pf w"
  note new = draw_next [OF inj ok]
  show "db_ok pf (snd (insert_project pf p w))"
    using ok db_ok_new_project [OF new(1)] new
    by (simp add: insert_project_def prog_simps Let_def exists_defs)
qed

lemma older_next: "i \<in> pf_uuid pf ` {..<n} \<Longrightarrow> older pf i (pf_uuid pf n)"
  by (auto simp: older_def)

lemma db_ok_task_issued: "db_ok pf w \<Longrightarrow> i \<in> task_ids w \<Longrightarrow> issued pf w i"
  by (auto simp: db_defs keyed_def)

lemma insert_task_db_ok:
  assumes inj: "inj (pf_uuid pf)" and ok: "db_ok pf w" and row: "row_ok (inserted_task pf t w)"
  shows "db_ok pf (snd (insert_task pf t w))"
proof (cases "task_fks t w")
  case True
  note new = draw_next [OF inj ok]
  have "elders pf (inserted_task pf t w)"
    using True db_ok_task_issued [OF ok]
    by (auto simp: elders_def inserted_task_def task_fks_def fk_null_iff exists_iff intro!: older_next)
  with db_ok_new_task [OF new(1) _ _ _ row] new True show ?thesis
    by (simp add: insert_task_eval) (simp add: inserted_task_def task_fks_def fk_null_iff exists_defs)
qed (simp add: insert_task_eval ok)

lemma preserves_createAndSend:
  assumes "inj (pf_uuid pf)"
  shows "preserves (db_ok pf) (createAndSendNotification pf u ty ti me)"
  unfolding createAndSendNotification_def
  by (intro hoare_intros preserves_insert_notification [OF assms] quiet_ops)

section \<open>Changed rows\<close>

text \<open>An update that keeps the key and the references of each row it changes.\<close>

lemma db_ok_update_notifications:
  assumes "db_ok pf w" and "\<And>r. r \<in> set (notifications w) \<Longrightarrow> p r \<Longrightarrow>
      notification_id (f r) = notification_id r \<and> notification_userId (f r) = notification_userId r"
  shows "db_ok pf (w\<lparr>notifications := update_rows p f (notifications w)\<rparr>)"
proof -
  have "refs (Some \<circ> notification_userId) (update_rows p f (notifications w)) (user_ids w)"
    using assms by (intro refs_update) (auto simp: db_defs refs_def)
  then show ?thesis using assms by (simp add: db_defs keyed_update)
qed

lemma db_ok_update_reminders:
  assumes "db_ok pf w" and "\<And>r. r \<in> set (reminders w) \<Longrightarrow> p r \<Longrightarrow>
      reminder_id (f r) = reminder_id r \<and> reminder_taskId (f r) = reminder_taskId r"
  shows "db_ok pf (w\<lparr>reminders := update_rows p f (reminders w)\<rparr>)"
proof -
  have "refs (Some \<circ> reminder_taskId) (update_rows p f (reminders w)) (task_ids w)"
    using assms by (intro refs_update) (auto simp: db_defs refs_def)
  then show ?thesis using assms by (simp add: db_defs keyed_update)
qed

lemma db_ok_update_projects:
  assumes "db_ok pf w" and "\<And>r. r \<in> set (projects w) \<Longrightarrow> p r \<Longrightarrow>
      project_id (f r) = project_id r \<and> workspace_exists (project_workspaceId (f r)) w"
  shows "db_ok pf (w\<lparr>projects := update_rows p f (projects w)\<rparr>)"
proof -
  have "refs (Some \<circ> project_workspaceId) (update_rows p f (projects w)) (workspace_ids w)"
    using assms by (intro refs_update) (auto simp: db_defs refs_def exists_iff)
  moreover have "project_id ` set (update_rows p f (projects w)) = project_ids w"
    using assms(2) by (intro key_image_update) simp
  ultimately show ?thesis using assms by (simp add: db_defs keyed_update)
qed

lemma db_ok_update_tasks:
  assumes ok: "db_ok pf w" and up: "\<And>r. r \<in> set (tasks w) \<Longrightarrow> p r \<Longrightarrow>
      task_id (f r) = task_id r \<and> task_fks (f r) w \<and> row_ok (f r) \<and> elders pf (f r)"
  shows "db_ok pf (w\<lparr>tasks := update_rows p f (tasks w)\<rparr>)"
proof -
  have ids: "task_id ` set (update_rows p f (tasks w)) = task_ids w"
    using up by (intro key_image_update) simp
  have "refs task_assignedTo (update_rows p f (tasks w)) (user_ids w)"
    "refs (Some \<circ> task_createdBy) (update_rows p f (tasks w)) (user_ids w)"
    "refs (Some \<circ> task_workspaceId) (update_rows p f (tasks w)) (workspace_ids w)"
    "refs (Some \<circ> task_projectId) (update_rows p f (tasks w)) (project_ids w)"
    "refs task_parentTaskId (update_rows p f (tasks w)) (task_ids w)"
    using ok up by (intro refs_update; force simp: db_defs task_fks_def fk_null_iff exists_iff)+
  moreover have "\<forall>t \<in> set (update_rows p f (tasks w)). row_ok t \<and> elders pf t"
    using ok up by (auto simp: update_rows_def db_ok_def)
  ultimately show ?thesis using ok up by (simp add: db_defs ids keyed_update)
qed

section \<open>Writing the cache\<close>

lemma cache_setD:
  assumes "cache_get k' (cache_set k v ttl w) = Some x"
  shows "(k' = k \<and> x = v) \<or> cache_get k' w = Some x"
proof (cases "k' = k")
  case True
  with cache_get_set [of k v ttl w x] assms show ?thesis by simp
next
  case False
  with cache_get_set_other [of k' k v ttl w] assms show ?thesis by simp
qed

lemma cached_taskD:
  "db_ok pf w \<Longrightarrow> cache_get (getTaskCacheKey i) w = Some (CTask v) \<Longrightarrow>
   seen_task pf (draws w) (view_task v) \<and> task_id (view_task v) = i"
  unfolding db_ok_def cached_ok_def by blast

lemma cached_workspaceD:
  "db_ok pf w \<Longrightarrow> cache_get (ws_key (b, k)) w = Some (CWorkspace x ow) \<Longrightarrow>
   ws_field b x = k \<and> ws_identity x \<in> ws_identity ` set (workspaces w)"
  unfolding db_ok_def cached_ok_def by blast

lemma db_ok_cacheI:
  assumes ok: "db_ok pf w" and cache: "cached_ok pf (w\<lparr>cache := c\<rparr>)"
  shows "db_ok pf (w\<lparr>cache := c\<rparr>)"
  using assms
  by (simp add: db_defs accounts_ok_def users_ok_def members_ok_def user_exists_def workspace_exists_def)

lemma db_ok_cache_set:
  assumes ok: "db_ok pf w"
    and task: "\<And>i t. k = getTaskCacheKey i \<Longrightarrow> v = CTask t \<Longrightarrow>
      seen_task pf (draws w) (view_task t) \<and> task_id (view_task t) = i"
    and ws: "\<And>b j x ow. k = ws_key (b, j) \<Longrightarrow> v = CWorkspace x ow \<Longrightarrow>
      ws_field b x = j \<and> ws_identity x \<in> ws_identity ` set (workspaces w)"
  shows "db_ok pf (cache_set k v ttl w)"
proof -
  obtain c where c: "cache_set k v ttl w = w\<lparr>cache := c\<rparr>"
    by (cases "redisUp w") (auto simp: cache_set_def intro: that [of "cache w"])
  have "cached_ok pf (cache_set k v ttl w)"
    unfolding cached_ok_def
  proof (intro allI conjI impI)
    fix i t
    assume "cache_get (getTaskCacheKey i) (cache_set k v ttl w) = Some (CTask t)"
    from cache_setD [OF this] have "seen_task pf (draws w) (view_task t) \<and> task_id (view_task t) = i"
      using task cached_taskD [OF ok] by blast
    then show "seen_task pf (draws (cache_set k v ttl w)) (view_task t)" "task_id (view_task t) = i"
      by (simp_all add: c)
  next
    fix b j x ow
    assume "cache_get (ws_key (b, j)) (cache_set k v ttl w) = Some (CWorkspace x ow)"
    from cache_setD [OF this] have "ws_field b x = j \<and> ws_identity x \<in> ws_identity ` set (workspaces w)"
      using ws cached_workspaceD [OF ok] by blast
    then show "ws_field b x = j" "ws_identity x \<in> ws_identity ` set (workspaces (cache_set k v ttl w))"
      by (simp_all add: c)
  qed
  with db_ok_cacheI [OF ok] show ?thesis by (simp add: c)
qed

end
