(* ===== verification/TaskIntegrity.thy ===== *)
theory TaskIntegrity
  imports Integrity
begin

text \<open>
  The operations of tasks, comments, notifications, reminders and the workers keep the integrity of
  the database.
\<close>

section \<open>Tasks\<close>

abbreviation "holds_task pf t w \<equiv> db_ok pf w \<and> seen_task pf (draws w) t"

lemma seen_row:
  assumes "db_ok pf w" and "t \<in> set (tasks w)"
  shows "seen_task pf (draws w) t"
  using assms by (auto simp: db_defs seen_task_def keyed_def)

lemma hoare_new_date: "(\<And>w. P w \<Longrightarrow> Q (clock w) w) \<Longrightarrow> hoare P new_date Q E"
  by (simp add: hoare_def new_date_eval)

lemma hoare_save_task: "hoare (holds_task pf t) (save_task t) (\<lambda>_. db_ok pf) (\<lambda>_. db_ok pf)"
  unfolding hoare_def
proof (intro allI impI)
  fix w
  assume pre: "holds_task pf t w"
  then have t: "row_ok t" "elders pf t" "issued pf w (task_id t)" by (simp_all add: seen_task_def)
  have "db_ok pf (snd (save_task t w))"
  proof (cases "find (\<lambda>r. task_id r = task_id t) (tasks w)")
    case None
    then have new: "task_id t \<notin> task_ids w" by (auto simp: find_None_iff)
    show ?thesis
    proof (cases "task_fks t w")
      case True
      with pre new t show ?thesis
        using db_ok_new_task [of pf w "t\<lparr>task_version := 1, task_updatedAt := clock w\<rparr>"]
        by (simp add: save_task_def prog_simps Let_def None task_fks_def row_ok_def elders_def)
    qed (simp add: save_task_def prog_simps None pre)
  next
    case (Some row)
    let ?t = "t\<lparr>task_version := Suc (task_version row), task_updatedAt := clock w\<rparr>"
    have "db_ok pf (w\<lparr>tasks := update_rows (\<lambda>r. task_id r = task_id t) (\<lambda>_. ?t) (tasks w)\<rparr>)"
      if "task_fks t w"
      using pre t that by (intro db_ok_update_tasks) (simp_all add: task_fks_def row_ok_def elders_def)
    then show ?thesis using pre by (simp add: save_task_def prog_simps Let_def Some)
  qed
  then show "case save_task t w of (r, w') \<Rightarrow> case r of Inl e \<Rightarrow> db_ok pf w' | Inr x \<Rightarrow> db_ok pf w'"
    by (cases "save_task t w"; cases "fst (save_task t w)") simp_all
qed

lemma preserves_soft_remove: "preserves (db_ok pf) (soft_remove_task t)"
proof (rule preservesI)
  fix w
  assume ok: "db_ok pf w"
  let ?f = "\<lambda>r. r\<lparr>task_deletedAt := Some (clock w), task_version := Suc (task_version r), task_updatedAt := clock w\<rparr>"
  have "db_ok pf (w\<lparr>tasks := update_rows (\<lambda>r. task_id r = task_id t) ?f (tasks w)\<rparr>)"
  proof (rule db_ok_update_tasks [OF ok])
    fix r
    assume "r \<in> set (tasks w)"
    with ok have "task_fks r w" "row_ok r" "elders pf r"
      by (force simp: db_defs refs_def task_fks_def fk_null_iff exists_iff)+
    then show "task_id (?f r) = task_id r \<and> task_fks (?f r) w \<and> row_ok (?f r) \<and> elders pf (?f r)"
      by (simp add: task_fks_def row_ok_def elders_def)
  qed
  then show "db_ok pf (snd (soft_remove_task t w))"
    by (simp add: soft_remove_task_def prog_simps)
qed

lemma hoare_findById:
  "hoare (db_ok pf) (findById pf i ws) (\<lambda>v. holds_task pf (view_task v)) (\<lambda>_. db_ok pf)"
  unfolding hoare_def
proof (intro allI impI)
  fix w
  assume ok: "db_ok pf w"
  show "case findById pf i ws w of (r, w') \<Rightarrow>
      case r of Inl e \<Rightarrow> db_ok pf w' | Inr v \<Rightarrow> holds_task pf (view_task v) w'"
  proof (cases "cached_task i ws w")
    case (Some v)
    then have "cache_get (getTaskCacheKey i) w = Some (CTask v)"
      by (auto simp: cached_task_def split: option.splits cache_value.splits if_splits)
    with cached_taskD [OF ok] have "seen_task pf (draws w) (view_task v)" by blast
    with Some ok show ?thesis by (simp add: findById_eval)
  next
    case None
    show ?thesis
    proof (cases "db_task pf i ws w")
      case (Some t)
      then have t: "t \<in> set (tasks w)" "task_id t = i" by (auto dest: db_task_SomeD)
      from seen_row [OF ok t(1)] have seen: "seen_task pf (draws w) t" .
      have "db_ok pf (cache_set (getTaskCacheKey i) (CTask (view_of pf w t)) 300 w)"
        by (rule db_ok_cache_set [OF ok]) (use seen t in \<open>auto simp: view_of_def\<close>)
      with seen None Some show ?thesis by (simp add: findById_eval view_of_def)
    qed (simp add: findById_eval None ok)
  qed
qed

lemma db_findById: "preserves (db_ok pf) (findById pf i ws)"
  by (rule hoare_conseq [OF hoare_findById]) simp_all

text \<open>What the update makes of a task it has seen is good enough to be saved.\<close>

lemma seen_update:
  assumes "updateTaskDto_valid pf dto" and "seen_task pf n t" and "apply_update pf now dto t = Some t'"
  shows "seen_task pf n t'"
  using assms apply_update_ok [OF assms(1) _ assms(3)] apply_update_id [OF assms(3)]
  by (simp add: seen_task_def row_ok_def elders_def)

lemma db_announce_create:
  assumes "inj (pf_uuid pf)"
  shows "preserves (db_ok pf) (announce_create pf ws pid uid cdto t)"
  unfolding announce_create_def
  by (intro hoare_intros preserves_createAndSend [OF assms] quiet_ops)

lemma db_announce_update:
  assumes "inj (pf_uuid pf)"
  shows "preserves (db_ok pf) (announce_update pf i ws uid dto v t s)"
  unfolding announce_update_def
  by (intro hoare_intros preserves_createAndSend [OF assms] quiet_ops)

lemma db_announce_delete: "preserves (db_ok pf) (announce_delete i ws uid)"
  unfolding announce_delete_def
  by (intro hoare_intros quiet_ops)

lemma hoare_update_loaded:
  assumes inj: "inj (pf_uuid pf)" and valid: "updateTaskDto_valid pf dto"
  shows "hoare (holds_task pf (view_task v)) (update_loaded pf i ws uid dto v) (\<lambda>_. db_ok pf) (\<lambda>_. db_ok pf)"
proof (cases "version_conflict dto (view_task v)")
  case True
  show ?thesis unfolding update_loaded_def if_P [OF True] by (rule hoare_throw) simp
next
  case False
  have "hoare (holds_task pf (view_task v)) (save_and_publish pf i ws uid dto v (apply_update pf now dto (view_task v)))
      (\<lambda>_. db_ok pf) (\<lambda>_. db_ok pf)" for now
  proof (cases "apply_update pf now dto (view_task v)")
    case None
    show ?thesis unfolding save_and_publish_def None option.case by (rule hoare_throw) simp
  next
    case (Some t)
    have "hoare (holds_task pf (view_task v)) (save_task t) (\<lambda>_. db_ok pf) (\<lambda>_. db_ok pf)"
      by (rule hoare_conseq [OF hoare_save_task]) (use seen_update [OF valid _ Some] in auto)
    then show ?thesis
      unfolding save_and_publish_def Some option.case
      by (rule hoare_await) (intro hoare_intros db_announce_update [OF inj] quiet_ops)
  qed
  then have "hoare (holds_task pf (view_task v))
      (try_catch (save_and_publish pf i ws uid dto v (apply_update pf now dto (view_task v)))
        (\<lambda>error. if error = OptimisticLockVersionMismatchError then throw (ConflictException lock_violation)
           else throw error)) (\<lambda>_. db_ok pf) (\<lambda>_. db_ok pf)" for now
    by (rule hoare_try_catch) (intro hoare_intros)
  then show ?thesis
    unfolding update_loaded_def if_not_P [OF False]
    by (intro hoare_await [where R = "\<lambda>_. holds_task pf (view_task v)"] hoare_new_date)
qed

lemma db_updateTask:
  assumes "inj (pf_uuid pf)" and "updateTaskDto_valid pf dto"
  shows "preserves (db_ok pf) (updateTask pf i ws uid dto)"
  unfolding updateTask_def by (rule hoare_await [OF hoare_findById hoare_update_loaded [OF assms]])

lemma db_deleteTask: "preserves (db_ok pf) (deleteTask pf i ws uid)"
  unfolding deleteTask_def
  by (intro hoare_intros db_findById preserves_soft_remove db_announce_delete quiet_ops)

lemma db_createTask:
  assumes inj: "inj (pf_uuid pf)" and valid: "createTaskDto_valid pf dto"
  shows "preserves (db_ok pf) (createTask pf ws pid uid dto)"
proof -
  have "row_ok (inserted_task pf (task_entity pf ws pid uid dto) w)" for w
    using valid by (cases "ct_priority dto")
      (auto simp: inserted_task_def task_entity_def row_ok_def createTaskDto_valid_def task_statuses_def
        task_priorities_def)
  then have "preserves (db_ok pf) (insert_task pf (task_entity pf ws pid uid dto))"
    by (intro preservesI insert_task_db_ok [OF inj])
  then show ?thesis
    unfolding createTask_def by (intro hoare_intros db_announce_create [OF inj] quiet_ops)
qed

text \<open>A list in the cache is read back, never saved.\<close>

lemma preserves_case_cache [hoare_intros]:
  assumes "\<And>x ow. preserves I (a x ow)" and "\<And>ps. preserves I (b ps)"
    and "\<And>v. preserves I (c v)" and "\<And>p. preserves I (d p)"
  shows "preserves I (case x of CWorkspace x ow \<Rightarrow> a x ow | CProjects ps \<Rightarrow> b ps | CTask v \<Rightarrow> c v | CTaskPage p \<Rightarrow> d p)"
  using assms by (cases x) simp_all

lemma db_cacheSet_list:
  "preserves (db_ok pf) (cacheSet k (CTaskPage p) ttl)" "preserves (db_ok pf) (cacheSet k (CProjects ps) ttl)"
  by (rule preservesI, simp add: cache_prog_eval, rule db_ok_cache_set; simp)+

lemma db_getTasks: "preserves (db_ok pf) (getTasks pf ws pid q)"
  unfolding getTasks_def by (intro hoare_intros quiet_ops db_cacheSet_list)

section \<open>Comments and notifications\<close>

lemma db_notify_targets:
  assumes "inj (pf_uuid pf)"
  shows "preserves (db_ok pf) (notify_targets pf us ty ti me)"
  unfolding notify_targets_def by (intro hoare_intros preserves_createAndSend [OF assms])

lemma preserves_case_comment:
  "preserves (db_ok pf) (case x of None \<Rightarrow> ret () | Some (c, u) \<Rightarrow> sendCommentCreated ws (CommentPayload c u))"
  by (cases x) (auto intro: hoare_intros quiet_ops)

lemma db_addComment:
  assumes "inj (pf_uuid pf)"
  shows "preserves (db_ok pf) (addComment pf ws i u m)"
  unfolding addComment_def
  by (intro preserves_await preserves_case_option hoare_gets hoare_throw hoare_ret preserves_case_comment
      preserves_insert_comment [OF assms] db_notify_targets [OF assms] quiet_ops)

lemma db_markAsRead: "preserves (db_ok pf) (markAsRead pf i u)"
proof (rule preservesI)
  fix w
  assume ok: "db_ok pf w"
  show "db_ok pf (snd (markAsRead pf i u w))"
  proof (cases "find_one (pf_pick pf) (\<lambda>n. notification_id n = i \<and> notification_userId n = u) (notifications w)")
    case None
    with ok show ?thesis by (simp add: markAsRead_def prog_simps)
  next
    case (Some n)
    then have n: "n \<in> set (notifications w)" by (auto dest: fo.look_SomeD)
    have "r = n" if "r \<in> set (notifications w)" "notification_id r = notification_id n" for r
      using that n ok by (auto simp: db_defs keyed_def distinct_map dest: inj_onD)
    then have "db_ok pf (w\<lparr>notifications := update_rows (\<lambda>r. notification_id r = notification_id n)
        (\<lambda>_. n\<lparr>notification_isRead := True\<rparr>) (notifications w)\<rparr>)"
      by (intro db_ok_update_notifications [OF ok]) auto
    with Some show ?thesis by (simp add: markAsRead_def prog_simps Let_def)
  qed
qed

lemma db_markAllAsRead: "preserves (db_ok pf) (markAllAsRead u)"
  by (rule preservesI) (simp add: markAllAsRead_def prog_simps db_ok_update_notifications)

section \<open>Reminders and workers\<close>

lemma db_set_reminder_status: "preserves (db_ok pf) (set_reminder_status i s)"
  by (rule preservesI) (simp add: set_reminder_status_def prog_simps db_ok_update_reminders)

lemma db_checkDueTasks:
  assumes "inj (pf_uuid pf)"
  shows "preserves (db_ok pf) (checkDueTasks pf)"
  unfolding checkDueTasks_def check_milestone_def remind_task_def Let_def
  by (intro hoare_intros preserves_insert_reminder [OF assms] quiet_ops)

lemma db_reminder_process:
  assumes "inj (pf_uuid pf)"
  shows "preserves (db_ok pf) (reminder_process pf ri ti u m)"
  unfolding reminder_process_def
  by (intro hoare_intros preserves_createAndSend [OF assms] db_set_reminder_status)

lemma db_process_job:
  assumes "inj (pf_uuid pf)"
  shows "preserves (db_ok pf) (process_job pf j)"
  unfolding process_job_def
  by (cases "job_data j") (auto intro: hoare_ret preserves_activity_process preserves_audit_process
      db_reminder_process assms)

lemma db_run_attempts:
  assumes "inj (pf_uuid pf)"
  shows "preserves (db_ok pf) (run_attempts pf n j)"
proof (induction n)
  case (Suc n)
  then show ?case
    unfolding run_attempts.simps by (intro hoare_intros db_process_job [OF assms])
qed (simp add: hoare_ret)

section \<open>Projects\<close>

lemma hoare_findProjectById:
  "hoare (db_ok pf) (findProjectById pf i ws) (\<lambda>p w. db_ok pf w \<and> p \<in> set (projects w)) (\<lambda>_. db_ok pf)"
  by (auto simp: hoare_def findProjectById_def prog_simps db_project_def dest: fo.look_SomeD split: option.split)

lemma hoare_save_project:
  "hoare (\<lambda>w. db_ok pf w \<and> project_id p \<in> project_ids w \<and> workspace_exists (project_workspaceId p) w)
     (save_project p) (\<lambda>_. db_ok pf) (\<lambda>_. db_ok pf)"
  unfolding hoare_def
proof (intro allI impI)
  fix w
  assume pre: "db_ok pf w \<and> project_id p \<in> project_ids w \<and> workspace_exists (project_workspaceId p) w"
  then obtain row where row: "find (\<lambda>r. project_id r = project_id p) (projects w) = Some row"
    by (cases "find (\<lambda>r. project_id r = project_id p) (projects w)") (auto simp: find_None_iff)
  have "db_ok pf (w\<lparr>projects := update_rows (\<lambda>r. project_id r = project_id p)
      (\<lambda>_. p\<lparr>project_updatedAt := clock w\<rparr>) (projects w)\<rparr>)"
    using pre by (intro db_ok_update_projects) auto
  with pre row show "case save_project p w of (r, w') \<Rightarrow> case r of Inl e \<Rightarrow> db_ok pf w' | Inr x \<Rightarrow> db_ok pf w'"
    by (simp add: save_project_def prog_simps Let_def)
qed

lemma edit_project_keeps:
  "edit_project n d s p = Some p' \<Longrightarrow> project_id p' = project_id p \<and> project_workspaceId p' = project_workspaceId p"
  by (auto simp: edit_project_def split: option.splits)

lemma db_updateProject: "preserves (db_ok pf) (updateProject pf i ws u n d s)"
  unfolding updateProject_def
proof (rule hoare_await [OF hoare_findProjectById])
  fix p
  show "hoare (\<lambda>w. db_ok pf w \<and> p \<in> set (projects w))
     (case edit_project n d s p of None \<Rightarrow> throw (QueryFailedError ''projects: null value'')
      | Some p' \<Rightarrow> await (save_project p') (\<lambda>saved.
         await (cacheDel (projectListKey ws)) (\<lambda>_.
         await (auditLog ''PROJECT_UPDATE'' (Some u)
                  (JObj [(''projectId'', JStr i), (''workspaceId'', JStr ws),
                         (''previous'', json_project p), (''new'', json_project p')])) (\<lambda>_.
         await (activityLog ws ''PROJECT'' i ''PROJECT_UPDATED'' u) (\<lambda>_.
         ret saved))))) (\<lambda>_. db_ok pf) (\<lambda>_. db_ok pf)"
  proof (cases "edit_project n d s p")
    case None
    show ?thesis unfolding None option.case by (rule hoare_throw) simp
  next
    case (Some p')
    have "hoare (\<lambda>w. db_ok pf w \<and> p \<in> set (projects w)) (save_project p') (\<lambda>_. db_ok pf) (\<lambda>_. db_ok pf)"
      by (rule hoare_conseq [OF hoare_save_project])
        (use edit_project_keeps [OF Some] in \<open>auto simp: db_defs refs_def exists_iff\<close>)
    then show ?thesis
      unfolding Some option.case by (rule hoare_await) (intro hoare_intros quiet_ops)
  qed
qed

lemma db_createProject:
  assumes "inj (pf_uuid pf)"
  shows "preserves (db_ok pf) (createProject pf ws u n d)"
  unfolding createProject_def by (intro hoare_intros preserves_insert_project [OF assms] quiet_ops)

lemma db_getProjects: "preserves (db_ok pf) (getProjects ws)"
  unfolding getProjects_def by (intro hoare_intros quiet_ops db_cacheSet_list)

end
