(* ===== verification/TenantIntegrity.thy ===== *)
theory TenantIntegrity
  imports TaskIntegrity
begin

text \<open>
  The operations on accounts and workspaces, and the deletions that cascade, keep the integrity of
  the database.
\<close>

section \<open>Cascades\<close>

lemma cascade_parents:
  assumes "distinct (map task_id ts)" and "refs task_parentTaskId ts (task_id ` set ts)"
  shows "refs task_parentTaskId (cascade_tasks dead ts) (task_id ` set (cascade_tasks dead ts))"
  unfolding refs_def
proof (intro ballI allI impI)
  fix t i
  assume t: "t \<in> set (cascade_tasks dead ts)" and par: "task_parentTaskId t = Some i"
  from t cascade_tasks_subset have "t \<in> set ts" by blast
  with par assms(2) obtain p where "p \<in> set ts" "task_id p = i" unfolding refs_def by blast
  with cascade_tasks_parent [OF assms(1) t, of p] par show "i \<in> task_id ` set (cascade_tasks dead ts)" by auto
qed

text \<open>Removing tasks with all their descendants, and what hangs on them.\<close>

lemma db_ok_cascade_tasks:
  assumes ok: "db_ok pf w"
  shows "db_ok pf (orphan_free (cascade_tasks dead (tasks w)) w)"
proof -
  let ?ts = "cascade_tasks dead (tasks w)"
  have sub: "set ?ts \<subseteq> set (tasks w)" by (rule cascade_tasks_subset)
  have dist: "distinct (map task_id (tasks w))" using ok by (simp add: db_defs keyed_def)
  have "keyed pf (draws w) task_id ?ts"
    by (rule keyed_subset [OF _ cascade_tasks_distinct [OF dist] sub]) (use ok in \<open>simp add: db_defs\<close>)
  moreover have "refs task_parentTaskId ?ts (task_id ` set ?ts)"
    by (rule cascade_parents [OF dist]) (use ok in \<open>simp add: db_defs\<close>)
  moreover have "refs task_assignedTo ?ts (user_ids w)" "refs (Some \<circ> task_createdBy) ?ts (user_ids w)"
    "refs (Some \<circ> task_workspaceId) ?ts (workspace_ids w)" "refs (Some \<circ> task_projectId) ?ts (project_ids w)"
    using ok by (auto simp: db_defs elim!: refs_subset [OF _ sub])
  moreover have "\<forall>t \<in> set ?ts. row_ok t \<and> elders pf t" using ok sub by (auto simp: db_ok_def)
  moreover have "refs (Some \<circ> comment_taskId) (filter (\<lambda>c. comment_taskId c \<in> task_id ` set ?ts) (comments w))
      (task_id ` set ?ts)"
    "refs (Some \<circ> reminder_taskId) (filter (\<lambda>c. reminder_taskId c \<in> task_id ` set ?ts) (reminders w))
      (task_id ` set ?ts)"
    by (auto simp: refs_def)
  moreover have "refs (Some \<circ> comment_userId) (filter p (comments w)) (user_ids w)" for p
    using ok by (auto simp: db_defs refs_def)
  ultimately show ?thesis using ok by (simp add: orphan_free_def db_defs keyed_filter)
qed

lemma db_ok_delete_projects:
  assumes ok: "db_ok pf w" and free: "\<And>t q. t \<in> set (tasks w) \<Longrightarrow> q \<in> set (projects w) \<Longrightarrow> p q \<Longrightarrow>
      task_projectId t \<noteq> project_id q"
  shows "db_ok pf (w\<lparr>projects := delete_rows p (projects w)\<rparr>)"
proof -
  have "refs (Some \<circ> task_projectId) (tasks w) (project_id ` set (delete_rows p (projects w)))"
    using ok free by (fastforce simp: db_defs refs_def row_simps image_iff)
  moreover have "refs (Some \<circ> project_workspaceId) (delete_rows p (projects w)) (workspace_ids w)"
    using ok by (auto simp: db_defs refs_def row_simps)
  ultimately show ?thesis using ok by (simp add: db_defs keyed_delete)
qed

lemma db_cascade_project: "db_ok pf w \<Longrightarrow> db_ok pf (cascade_project pid w)"
proof -
  assume ok: "db_ok pf w"
  let ?dead = "\<lambda>t. task_projectId t = pid"
  have "cascade_project pid w = (orphan_free (cascade_tasks ?dead (tasks w)) w)
      \<lparr>projects := delete_rows (\<lambda>p. project_id p = pid) (projects (orphan_free (cascade_tasks ?dead (tasks w)) w))\<rparr>"
    by (simp add: cascade_project_def orphan_free_def)
  moreover have "db_ok pf \<dots>"
    by (rule db_ok_delete_projects [OF db_ok_cascade_tasks [OF ok]])
      (auto simp: orphan_free_def dest: cascade_tasks_not_dead)
  ultimately show ?thesis by simp
qed

lemma db_deleteProject: "preserves (db_ok pf) (deleteProject pf i ws u)"
  unfolding deleteProject_def
  by (rule preserves_await, rule hoare_conseq [OF hoare_findProjectById])
    (auto intro!: hoare_intros quiet_ops intro: db_cascade_project)

section \<open>Accounts\<close>

text \<open>What the operations on accounts leave alone.\<close>

definition account_frame :: "world \<Rightarrow> world \<Rightarrow> bool" where
  "account_frame w w' \<longleftrightarrow>
     workspaces w' = workspaces w \<and> members w' = members w \<and> projects w' = projects w \<and> tasks w' = tasks w \<and>
     comments w' = comments w \<and> activities w' = activities w \<and> notifications w' = notifications w \<and>
     reminders w' = reminders w \<and> auditLogs w' = auditLogs w \<and> cache w' = cache w \<and> clock w' = clock w \<and>
     redisUp w' = redisUp w \<and> user_ids w \<subseteq> user_ids w' \<and> draws w \<le> draws w'"

interpretation acf: effect_frame account_frame
  by unfold_locales (auto simp: account_frame_def)

lemma db_ok_accounts:
  assumes ok: "db_ok pf w" and acc: "accounts_ok pf w'" and fr: "account_frame w w'"
  shows "db_ok pf w'"
proof -
  have users: "user_exists u w \<Longrightarrow> user_exists u w'" for u
    using fr by (auto simp: account_frame_def exists_iff)
  have eq: "workspaces w' = workspaces w" "members w' = members w" "projects w' = projects w" "tasks w' = tasks w"
    "comments w' = comments w" "activities w' = activities w" "notifications w' = notifications w"
    "reminders w' = reminders w" "auditLogs w' = auditLogs w" "draws w \<le> draws w'" "user_ids w \<subseteq> user_ids w'"
    using fr by (simp_all add: account_frame_def)
  have get: "cache_get k w' = cache_get k w" for k
    using fr by (intro redis_get_frame) (simp_all add: account_frame_def)
  have "members_ok w" using ok by (simp add: db_ok_def)
  moreover have "workspace_exists i w' = workspace_exists i w" for i by (simp add: workspace_exists_def eq(1))
  ultimately have "members_ok w'" by (simp add: members_ok_def eq(1,2) users)
  moreover have "keys_ok pf w'"
    using ok by (simp add: db_defs eq keyed_mono [OF _ eq(10)])
  moreover have "user_refs_ok w'" using ok by (simp add: db_defs eq(1-9) refs_mono [OF _ eq(11)])
  moreover have "row_refs_ok w'" using ok by (simp add: db_defs eq(1-9))
  moreover have "cached_ok pf w'"
    by (rule cached_ok_mono [of pf w]) (use ok eq in \<open>simp_all add: db_ok_def get\<close>)
  ultimately show ?thesis using ok acc by (simp add: db_ok_def eq(1-9))
qed

lemma preserves_accounts:
  assumes "preserves (accounts_ok pf) m" and "within account_frame m"
  shows "preserves (db_ok pf) m"
proof (rule preservesI)
  fix w
  assume ok: "db_ok pf w"
  then have "accounts_ok pf (snd (m w))" using preservesD [OF assms(1)] by (simp add: db_ok_def)
  then show "db_ok pf (snd (m w))" by (rule db_ok_accounts [OF ok _ withinD [OF assms(2)]])
qed

lemma within_account_primitives:
  "within account_frame (queue_add q n d a b)" "within account_frame (auditLog ac uo j)"
  "within account_frame (draw f)" "within account_frame new_date" "within account_frame (save_user u)"
  "within account_frame (update_password i h)" "within account_frame (save_session s)"
  "within account_frame (revoke_all_sessions i)"
  by (rule withinI, simp add: queue_add_def auditLog_eval enqueue_if_def prog_simps save_user_def update_password_def
      merge_user_def account_frame_def update_rows_ids put_session_def revoked_all_def split: option.split)+

lemma within_account_createUser: "within account_frame (createUser pf email pw name)"
  by (rule withinI) (auto simp: createUser_eval Let_def account_frame_def)

lemma within_account_users:
  "within account_frame (updateProfile pf i name avatar)" "within account_frame (setVerified pf email)"
  unfolding updateProfile_def findUserById_def setVerified_def findByEmail_def
  by (intro acf.within_intros within_account_primitives)+

lemmas within_account = within_account_primitives within_account_createUser within_account_users

lemma within_account_auth:
  "within account_frame (signup pf email pw name)" "within account_frame (logout pf token u)"
  "within account_frame (refresh pf token)" "within account_frame (revokeSession pf sid u)"
  "within account_frame (verifyEmail pf email code)" "within account_frame (requestPasswordReset pf email)"
  "within account_frame (resetPassword pf email code pw)"
  unfolding signup_def logout_def refresh_def revokeSession_def verifyEmail_def requestPasswordReset_def
    resetPassword_def findByEmail_def generateAccessToken_def generateRefreshToken_def Let_def
  by (intro acf.within_intros within_account)+

lemma within_account_login: "within account_frame (login pf email pw dev ip)"
  by (rule withinI) (auto simp: login_eval Let_def account_frame_def enqueue_if_def split: option.split)

lemma db_account_operations:
  assumes "inj (pf_uuid pf)"
  shows "preserves (db_ok pf) (signup pf email pw name)" "preserves (db_ok pf) (login pf email pw dev ip)"
    "preserves (db_ok pf) (logout pf token u)" "preserves (db_ok pf) (refresh pf token)"
    "preserves (db_ok pf) (revokeSession pf sid u)" "preserves (db_ok pf) (verifyEmail pf email code)"
    "preserves (db_ok pf) (requestPasswordReset pf email)" "preserves (db_ok pf) (resetPassword pf email code pw)"
    "preserves (db_ok pf) (updateProfile pf i nm av)"
  by (intro preserves_accounts preserves_signup preserves_login preserves_logout preserves_refresh
      preserves_revokeSession preserves_verifyEmail preserves_requestPasswordReset preserves_resetPassword
      preserves_accounts_users preserves_updateProfile within_updateProfile
      within_account_auth within_account_login within_account_users assms)+

section \<open>Workspaces\<close>

lemma ws_rows:
  assumes "db_ok pf w"
  shows "ws_rows_ok pf w"
  using assms by (simp add: db_defs ws_rows_ok_def keyed_def)

lemma hoare_read_ws:
  "hoare (db_ok pf) (read_ws pf b k)
     (\<lambda>v w. db_ok pf w \<and> ws_field b (fst v) = k \<and> ws_identity (fst v) \<in> ws_identity ` set (workspaces w))
     (\<lambda>_. db_ok pf)"
  unfolding hoare_def
proof (intro allI impI)
  fix w
  assume ok: "db_ok pf w"
  show "case read_ws pf b k w of (r, w') \<Rightarrow> case r of Inl e \<Rightarrow> db_ok pf w'
      | Inr v \<Rightarrow> db_ok pf w' \<and> ws_field b (fst v) = k \<and> ws_identity (fst v) \<in> ws_identity ` set (workspaces w')"
  proof (cases "\<exists>x ow. cache_get (ws_key (b, k)) w = Some (CWorkspace x ow)")
    case True
    then obtain x ow where get: "cache_get (ws_key (b, k)) w = Some (CWorkspace x ow)" by blast
    from cached_workspaceD [OF ok get] get ok show ?thesis by (simp add: read_workspace_def prog_simps)
  next
    case False
    let ?db = "await (gets (\<lambda>w. map_option (view_workspace pf w) (find_one (pf_pick pf) (\<lambda>x. ws_field b x = k) (workspaces w))))
           (\<lambda>found. case found of None \<Rightarrow> throw (NotFoundException ''Workspace not found'')
              | Some (x, ow) \<Rightarrow> await (cacheSet (ws_key (b, k)) (CWorkspace x ow) 3600) (\<lambda>_. ret (x, ow)))"
    have eq: "read_ws pf b k w = ?db w"
      using False by (auto simp: read_workspace_def prog_simps split: option.split cache_value.split)
    show ?thesis
    proof (cases "find_one (pf_pick pf) (\<lambda>x. ws_field b x = k) (workspaces w)")
      case None
      then show ?thesis using ok unfolding eq by (simp add: prog_simps)
    next
      case (Some x)
      then have x: "x \<in> set (workspaces w)" "ws_field b x = k" by (auto dest: fo.look_SomeD)
      have "db_ok pf (cache_set (ws_key (b, k)) (CWorkspace x (find_user pf (workspace_ownerId x) w)) 3600 w)"
        by (rule db_ok_cache_set [OF ok]) (use x in auto)
      with Some x show ?thesis unfolding eq by (simp add: prog_simps view_workspace_def)
    qed
  qed
qed

lemma db_read_ws: "preserves (db_ok pf) (read_ws pf b k)"
  by (rule hoare_conseq [OF hoare_read_ws]) simp_all

subsection \<open>Create\<close>

lemma db_ok_add_workspace:
  assumes inj: "inj (pf_uuid pf)" and ok: "db_ok pf w" and free: "\<not> slug_taken (workspace_slug x) w"
    and id: "workspace_id x = pf_uuid pf (draws w)" and own: "user_exists (workspace_ownerId x) w"
  shows "db_ok pf (add_workspace x w)"
proof -
  let ?w = "add_workspace x w"
  note new = draw_next [OF inj ok]
  have eq: "users ?w = users w" "sessions ?w = sessions w" "projects ?w = projects w" "tasks ?w = tasks w"
    "comments ?w = comments w" "activities ?w = activities w" "notifications ?w = notifications w"
    "reminders ?w = reminders w" "auditLogs ?w = auditLogs w" "draws ?w = Suc (draws w)"
    "workspaces ?w = workspaces w @ [x]" "members ?w = members w @ [owner_member x w]"
    by (simp_all add: add_workspace_def)
  have le: "draws w \<le> draws ?w" by (simp add: eq)
  have get: "cache_get k ?w = cache_get k w" for k
    by (rule redis_get_frame) (simp_all add: add_workspace_def)
  have "accounts_ok pf ?w" by (rule accounts_cong [of pf w]) (use ok in \<open>simp_all add: eq db_ok_def\<close>)
  moreover have notin: "workspace_id x \<notin> workspace_ids w" using new(3) by (simp add: id)
  then have "member_key (owner_member x w) \<notin> member_key ` set (members w)"
    using ok by (force simp: db_ok_def members_ok_def member_key_def owner_member_def exists_iff)
  then have "members_ok ?w"
    using ok own unfolding db_ok_def members_ok_def eq
    by (auto simp: member_key_def owner_member_def workspace_exists_def user_exists_def eq)
  moreover have "keyed pf (draws ?w) workspace_id (workspaces ?w)"
    unfolding eq by (rule keyed_append [OF inj]) (use ok id in \<open>simp_all add: db_defs\<close>)
  then have "keys_ok pf ?w"
    using ok free by (auto simp: db_defs eq keyed_mono [OF _ le [unfolded eq]] slug_taken_def)
  moreover have "user_refs_ok ?w" using ok own by (simp add: db_defs eq(1-9,11) exists_iff)
  moreover have "row_refs_ok ?w" using ok by (auto simp: db_defs eq elim: refs_mono)
  moreover have "cached_ok pf ?w"
    by (rule cached_ok_mono [of pf w]) (use ok le in \<open>auto simp: db_ok_def get eq\<close>)
  ultimately show ?thesis using ok by (simp add: db_ok_def eq)
qed

lemma db_ok_enqueue: "db_ok pf w \<Longrightarrow> db_ok pf (enqueue_if b j w)"
  by (erule db_ok_quiet) (rule quietI; simp add: enqueue_if_def)

lemma db_createWorkspace:
  assumes "inj (pf_uuid pf)"
  shows "preserves (db_ok pf) (createWorkspace pf o' name slug)"
proof (rule preservesI)
  fix w
  assume ok: "db_ok pf w"
  let ?s = "or_str slug (generate_slug name)"
  have "db_ok pf (add_workspace (created_workspace pf o' name ?s w) w)"
    if "\<not> slug_taken ?s w" "user_exists o' w"
    by (rule db_ok_add_workspace [OF assms ok]) (use that in \<open>simp_all add: created_workspace_def\<close>)
  with ok show "db_ok pf (snd (createWorkspace pf o' name slug w))"
    by (simp add: createWorkspace_eval Let_def db_ok_enqueue)
qed

subsection \<open>Update\<close>

lemma cached_ok_identities:
  assumes "cached_ok pf w" and "ws_identity ` set (workspaces w) \<subseteq> ws_identity ` set xs"
  shows "cached_ok pf (w\<lparr>workspaces := xs\<rparr>)"
  by (rule cached_ok_mono [OF assms(1)]) (use assms(2) in simp_all)

text \<open>What rows with the same identities have in common.\<close>

lemma same_identities:
  assumes "map ws_identity xs = map ws_identity ys"
  shows "map workspace_id xs = map workspace_id ys" and "map workspace_slug xs = map workspace_slug ys"
proof -
  have id: "map workspace_id zs = map fst (map ws_identity zs)"
    and slug: "map workspace_slug zs = map (fst \<circ> snd) (map ws_identity zs)" for zs
    by (simp_all add: ws_identity_def)
  show "map workspace_id xs = map workspace_id ys" unfolding id assms ..
  show "map workspace_slug xs = map workspace_slug ys" unfolding slug assms ..
qed

text \<open>An update that keeps the identity of each row it changes.\<close>

lemma db_ok_update_workspaces:
  assumes ok: "db_ok pf w" and same: "\<And>r. r \<in> set (workspaces w) \<Longrightarrow> p r \<Longrightarrow> ws_identity (f r) = ws_identity r"
  shows "db_ok pf (w\<lparr>workspaces := update_rows p f (workspaces w)\<rparr>)"
proof -
  let ?xs = "update_rows p f (workspaces w)"
  have ident: "map ws_identity ?xs = map ws_identity (workspaces w)"
    using same by (simp add: update_rows_def)
  note ids = same_identities(1) [OF ident] and slugs = same_identities(2) [OF ident]
  have image: "workspace_id ` set ?xs = workspace_ids w" using ids by (metis set_map)
  have idents: "ws_identity ` set ?xs = ws_identity ` set (workspaces w)" using ident by (metis set_map)
  have owned: "\<exists>y \<in> set (workspaces w). ws_identity x = ws_identity y" if "x \<in> set ?xs" for x
    using that idents by (metis imageE imageI)
  have "members_ok (w\<lparr>workspaces := ?xs\<rparr>)"
    unfolding members_ok_def exists_iff
  proof (simp add: image, intro conjI ballI)
    show "distinct (map member_key (members w))" using ok by (simp add: db_ok_def members_ok_def)
    fix m
    assume "m \<in> set (members w)"
    with ok show "member_workspaceId m \<in> workspace_ids w" "member_userId m \<in> user_ids w"
      by (auto simp: db_ok_def members_ok_def exists_iff)
  next
    fix x
    assume "x \<in> set ?xs"
    with owned obtain y where "y \<in> set (workspaces w)" "ws_identity x = ws_identity y" by blast
    with ok show "\<exists>m \<in> set (members w). member_key m = (workspace_id x, workspace_ownerId x) \<and> member_role m = ''ADMIN''"
      unfolding db_ok_def members_ok_def ws_identity_def by (metis prod.inject)
  qed
  moreover have "cached_ok pf (w\<lparr>workspaces := ?xs\<rparr>)"
    by (rule cached_ok_identities) (use ok idents in \<open>simp_all add: db_ok_def\<close>)
  moreover have "refs (Some \<circ> workspace_ownerId) ?xs (user_ids w)"
    using ok owned by (fastforce simp: db_defs refs_def ws_identity_def)
  moreover have "keyed pf (draws w) workspace_id ?xs"
    using ok by (simp add: db_defs keyed_def ids image)
  ultimately show ?thesis using ok by (simp add: db_defs slugs image)
qed

lemma hoare_save_workspace:
  "hoare (\<lambda>w. db_ok pf w \<and> ws_identity x \<in> ws_identity ` set (workspaces w)) (save_workspace x)
     (\<lambda>_. db_ok pf) (\<lambda>_. db_ok pf)"
  unfolding hoare_def
proof (intro allI impI)
  fix w
  assume pre: "db_ok pf w \<and> ws_identity x \<in> ws_identity ` set (workspaces w)"
  then obtain y where y: "y \<in> set (workspaces w)" "ws_identity x = ws_identity y" by auto
  then obtain row where row: "find (\<lambda>r. workspace_id r = workspace_id x) (workspaces w) = Some row"
    by (cases "find (\<lambda>r. workspace_id r = workspace_id x) (workspaces w)")
      (auto simp: find_None_iff ws_identity_def)
  have "ws_identity (x\<lparr>workspace_updatedAt := clock w\<rparr>) = ws_identity r"
    if "r \<in> set (workspaces w)" "workspace_id r = workspace_id x" for r
    using that y same_field_same_ws [OF ws_rows, of pf w r y False] pre
    by (auto simp: ws_identity_def ws_field_eval)
  then have "db_ok pf (w\<lparr>workspaces := update_rows (\<lambda>r. workspace_id r = workspace_id x)
      (\<lambda>_. x\<lparr>workspace_updatedAt := clock w\<rparr>) (workspaces w)\<rparr>)"
    using pre by (intro db_ok_update_workspaces) simp_all
  with pre row show "case save_workspace x w of (r, w') \<Rightarrow> case r of Inl e \<Rightarrow> db_ok pf w' | Inr x \<Rightarrow> db_ok pf w'"
    by (simp add: save_workspace_def prog_simps Let_def)
qed

lemma db_invalidate_workspace: "preserves (db_ok pf) (invalidate_workspace i slug)"
  unfolding invalidate_workspace_def by (intro hoare_intros quiet_ops)

lemma db_updateWorkspace: "preserves (db_ok pf) (updateWorkspace pf i u n)"
  unfolding updateWorkspace_def find_is_read_ws split_def
proof (rule hoare_await [OF hoare_read_ws])
  fix v :: workspace_view
  have "hoare (\<lambda>w. db_ok pf w \<and> ws_field False (fst v) = i \<and> ws_identity (fst v) \<in> ws_identity ` set (workspaces w))
     (save_workspace ((fst v)\<lparr>workspace_name := n\<rparr>)) (\<lambda>_. db_ok pf) (\<lambda>_. db_ok pf)"
    by (rule hoare_conseq [OF hoare_save_workspace]) (simp_all add: ws_identity_def)
  then show "hoare (\<lambda>w. db_ok pf w \<and> ws_field False (fst v) = i \<and> ws_identity (fst v) \<in> ws_identity ` set (workspaces w))
     (await (save_workspace (fst v\<lparr>workspace_name := n\<rparr>)) (\<lambda>saved.
      await (invalidate_workspace i (workspace_slug (fst v))) (\<lambda>_.
      await (auditLog ''WORKSPACE_UPDATE'' (Some u)
              (JObj [(''workspaceId'', JStr i),
                     (''previous'', JObj [(''name'', JStr (workspace_name (fst v)))]),
                     (''new'', JObj [(''name'', JStr n)])])) (\<lambda>_.
      ret saved)))) (\<lambda>_. db_ok pf) (\<lambda>_. db_ok pf)"
    by (rule hoare_await) (intro hoare_intros db_invalidate_workspace quiet_ops)
qed

lemma db_updateWorkspace_unnamed: "preserves (db_ok pf) (updateWorkspace_unnamed pf i u)"
  unfolding updateWorkspace_unnamed_def find_is_read_ws split_def
proof (rule hoare_await [OF hoare_read_ws])
  fix v :: workspace_view
  have "hoare (\<lambda>w. db_ok pf w \<and> ws_field False (fst v) = i \<and> ws_identity (fst v) \<in> ws_identity ` set (workspaces w))
     (save_workspace (fst v)) (\<lambda>_. db_ok pf) (\<lambda>_. db_ok pf)"
    by (rule hoare_conseq [OF hoare_save_workspace]) simp_all
  then show "hoare (\<lambda>w. db_ok pf w \<and> ws_field False (fst v) = i \<and> ws_identity (fst v) \<in> ws_identity ` set (workspaces w))
     (await (save_workspace (fst v)) (\<lambda>saved.
      await (invalidate_workspace i (workspace_slug (fst v))) (\<lambda>_.
      await (auditLog ''WORKSPACE_UPDATE'' (Some u)
              (JObj [(''workspaceId'', JStr i),
                     (''previous'', JObj [(''name'', JStr (workspace_name (fst v)))]),
                     (''new'', JObj [])])) (\<lambda>_.
      ret saved)))) (\<lambda>_. db_ok pf) (\<lambda>_. db_ok pf)"
    by (rule hoare_await) (intro hoare_intros db_invalidate_workspace quiet_ops)
qed

subsection \<open>Delete\<close>

text \<open>A workspace with no projects and no tasks, and not in the cache, can go with its members.\<close>

definition drop_workspace :: "string \<Rightarrow> world \<Rightarrow> world" where
  "drop_workspace i w = w\<lparr>workspaces := delete_rows (\<lambda>x. workspace_id x = i) (workspaces w),
     members := delete_rows (\<lambda>m. member_workspaceId m = i) (members w),
     activities := delete_rows (\<lambda>a. activity_workspaceId a = i) (activities w)\<rparr>"

lemma delete_rows_ids:
  "workspace_id ` set (delete_rows (\<lambda>x. workspace_id x = i) xs) = workspace_id ` set xs - {i}"
  by (auto simp: row_simps)

lemma db_ok_drop_workspace:
  assumes ok: "db_ok pf w"
    and free: "\<And>t. t \<in> set (tasks w) \<Longrightarrow> task_workspaceId t \<noteq> i"
      "\<And>p. p \<in> set (projects w) \<Longrightarrow> project_workspaceId p \<noteq> i"
    and cold: "\<And>k x ow. cache_get (ws_key k) w = Some (CWorkspace x ow) \<Longrightarrow> workspace_id x \<noteq> i"
  shows "db_ok pf (drop_workspace i w)"
proof -
  let ?w = "drop_workspace i w"
  have eq: "users ?w = users w" "sessions ?w = sessions w" "projects ?w = projects w" "tasks ?w = tasks w"
    "comments ?w = comments w" "notifications ?w = notifications w" "reminders ?w = reminders w"
    "auditLogs ?w = auditLogs w" "draws ?w = draws w"
    by (simp_all add: drop_workspace_def)
  have gone: "workspaces ?w = delete_rows (\<lambda>x. workspace_id x = i) (workspaces w)"
    "members ?w = delete_rows (\<lambda>m. member_workspaceId m = i) (members w)"
    "activities ?w = delete_rows (\<lambda>a. activity_workspaceId a = i) (activities w)"
    by (simp_all add: drop_workspace_def)
  have ids: "workspace_ids ?w = workspace_ids w - {i}" unfolding gone by (rule delete_rows_ids)
  have get: "cache_get k ?w = cache_get k w" for k
    by (rule redis_get_frame) (simp_all add: drop_workspace_def)
  have "accounts_ok pf ?w" by (rule accounts_cong [of pf w]) (use ok in \<open>simp_all add: eq db_ok_def\<close>)
  moreover have "members_ok (cascade_workspace i w)" by (rule delete_members_ok) (use ok in \<open>simp add: db_ok_def\<close>)
  then have "members_ok ?w" by (rule members_ok_cong) (simp_all add: eq gone)
  moreover have "keys_ok pf ?w" using ok by (simp add: db_defs eq gone keyed_delete row_simps)
  moreover have "user_refs_ok ?w"
    using ok by (auto simp: db_defs eq gone row_simps elim!: refs_subset)
  moreover have "row_refs_ok ?w"
    using ok free by (auto simp: db_defs eq gone(3) ids refs_def row_simps)
  moreover have "cached_ok pf ?w"
    unfolding cached_ok_def get
  proof (intro conjI allI impI)
    fix j v
    assume "cache_get (getTaskCacheKey j) w = Some (CTask v)"
    from cached_taskD [OF ok this] show "seen_task pf (draws ?w) (view_task v)" "task_id (view_task v) = j"
      by (simp_all add: eq)
  next
    fix b k x ow
    assume c: "cache_get (ws_key (b, k)) w = Some (CWorkspace x ow)"
    from cached_workspaceD [OF ok c] show "ws_field b x = k" by simp
    from cached_workspaceD [OF ok c] obtain y where "y \<in> set (workspaces w)" and same: "ws_identity x = ws_identity y"
      by blast
    moreover from cold [OF c] same have "workspace_id y \<noteq> i" by (simp add: ws_identity_def)
    ultimately have "y \<in> set (workspaces ?w)" by (simp add: gone row_simps)
    with same show "ws_identity x \<in> ws_identity ` set (workspaces ?w)" by simp
  qed
  ultimately show ?thesis using ok by (simp add: db_ok_def eq)
qed

lemma db_cascade_workspace:
  assumes ok: "db_ok pf w"
    and cold: "\<And>k x ow. cache_get (ws_key k) w = Some (CWorkspace x ow) \<Longrightarrow> workspace_id x \<noteq> i"
  shows "db_ok pf (cascade_workspace i w)"
proof -
  let ?dead = "\<lambda>t. task_workspaceId t = i \<or>
      task_projectId t \<in> set (map project_id (filter (\<lambda>p. project_workspaceId p = i) (projects w)))"
  define w1 where "w1 = orphan_free (cascade_tasks ?dead (tasks w)) w"
  define w2 where "w2 = w1\<lparr>projects := delete_rows (\<lambda>p. project_workspaceId p = i) (projects w1)\<rparr>"
  have "db_ok pf w1" unfolding w1_def by (rule db_ok_cascade_tasks [OF ok])
  then have "db_ok pf w2"
    unfolding w2_def
    by (rule db_ok_delete_projects) (auto simp: w1_def orphan_free_def dest!: cascade_tasks_not_dead)
  moreover have "cache_get k w2 = cache_get k w" for k
    by (rule redis_get_frame) (simp_all add: w2_def w1_def orphan_free_def)
  ultimately have "db_ok pf (drop_workspace i w2)"
    using cold by (intro db_ok_drop_workspace)
      (auto simp: w2_def w1_def orphan_free_def row_simps dest: cascade_tasks_not_dead)
  moreover have "cascade_workspace i w = drop_workspace i w2"
    by (simp add: cascade_workspace_def drop_workspace_def w2_def w1_def orphan_free_def Let_def)
  ultimately show ?thesis by simp
qed

lemma cascade_workspace_cache:
  "cascade_workspace i (w\<lparr>cache := c\<rparr>) = (cascade_workspace i w)\<lparr>cache := c\<rparr>"
  "cache (cascade_workspace i w) = cache w" "redisUp (cascade_workspace i w) = redisUp w"
  by (cases w; simp add: cascade_workspace_def orphan_free_def Let_def)+

lemma del_cascade: "cache_del k (cascade_workspace i w) = cascade_workspace i (cache_del k w)"
  by (simp add: cache_del_def cascade_workspace_cache)

lemma forget_cascade: "forget_ws x (cascade_workspace i w) = cascade_workspace i (forget_ws x w)"
  by (simp add: forget_ws_def del_cascade)

lemma db_ok_forget: "db_ok pf w \<Longrightarrow> db_ok pf (forget_ws x w)"
  by (simp add: forget_ws_def db_ok_quiet [OF db_ok_quiet [OF _ quiet_del] quiet_del])

lemma forget_ws_cold:
  assumes ok: "db_ok pf w" and x: "ws_identity x \<in> ws_identity ` set (workspaces w)"
    and get: "cache_get (ws_key k) (forget_ws x w) = Some (CWorkspace y ow)"
  shows "workspace_id y \<noteq> workspace_id x"
proof
  assume same: "workspace_id y = workspace_id x"
  obtain b j where k: "k = (b, j)" by (cases k)
  from cached_workspaceD [OF db_ok_forget [OF ok] get [unfolded k]]
  have field: "ws_field b y = j" and "ws_identity y \<in> ws_identity ` set (workspaces w)" by simp_all
  with x obtain r s where "r \<in> set (workspaces w)" "s \<in> set (workspaces w)"
    and "ws_identity x = ws_identity r" "ws_identity y = ws_identity s" by blast
  with same same_field_same_ws [OF ws_rows [OF ok], of r s False]
  have "ws_identity y = ws_identity x" by (simp add: ws_field_eval ws_identity_def)
  then have "k = (False, workspace_id x) \<or> k = (True, workspace_slug x)"
    using field k by (cases b) (simp_all add: ws_field_eval ws_identity_def)
  then have "cache_get (ws_key k) (forget_ws x w) = None"
    by (auto simp: forget_ws_def cache_get_del cache_get_del_other)
  with get show False by simp
qed

lemma db_deleteWorkspace: "preserves (db_ok pf) (deleteWorkspace pf i u)"
  unfolding deleteWorkspace_def find_is_read_ws split_def
proof (rule hoare_await [OF hoare_read_ws])
  fix v :: workspace_view
  let ?x = "fst v" and ?k = "\<lambda>_. auditLog ''WORKSPACE_DELETE'' (Some u)
       (JObj [(''workspaceId'', JStr i), (''slug'', JStr (workspace_slug (fst v)))])"
  show "hoare (\<lambda>w. db_ok pf w \<and> ws_field False ?x = i \<and> ws_identity ?x \<in> ws_identity ` set (workspaces w))
     (await (modify (cascade_workspace (workspace_id ?x))) (\<lambda>_.
      await (invalidate_workspace i (workspace_slug ?x)) ?k)) (\<lambda>_. db_ok pf) (\<lambda>_. db_ok pf)"
    unfolding await_assoc [symmetric]
  proof (rule hoare_await)
    show "hoare (\<lambda>w. db_ok pf w \<and> ws_field False ?x = i \<and> ws_identity ?x \<in> ws_identity ` set (workspaces w))
       (await (modify (cascade_workspace (workspace_id ?x))) (\<lambda>_. invalidate_workspace i (workspace_slug ?x)))
       (\<lambda>_. db_ok pf) (\<lambda>_. db_ok pf)"
      unfolding hoare_def
    proof (intro allI impI)
      fix w
      assume pre: "db_ok pf w \<and> ws_field False ?x = i \<and> ws_identity ?x \<in> ws_identity ` set (workspaces w)"
      then have id: "workspace_id ?x = i" by (simp add: ws_field_eval)
      have "db_ok pf (cascade_workspace i (forget_ws ?x w))"
        using pre id forget_ws_cold [of pf w ?x] by (intro db_cascade_workspace db_ok_forget) auto
      then show "case await (modify (cascade_workspace (workspace_id ?x)))
            (\<lambda>_. invalidate_workspace i (workspace_slug ?x)) w of (r, w') \<Rightarrow>
          case r of Inl e \<Rightarrow> db_ok pf w' | Inr _ \<Rightarrow> db_ok pf w'"
        by (simp add: prog_simps id invalidate_is_forget forget_cascade)
    qed
  qed (intro quiet_ops)
qed

subsection \<open>Invite\<close>

lemma db_new_member:
  assumes rest: "\<And>m. preserves (db_ok pf) (k m)"
  shows "preserves (db_ok pf)
    (await (gets (\<lambda>w. find_member pf w i u)) (\<lambda>existing.
     if existing \<noteq> None then throw e else await (insert_member i u r) k))"
proof (rule preservesI)
  fix w
  assume ok: "db_ok pf w"
  let ?m = "\<lparr>member_workspaceId = i, member_userId = u, member_role = r,
      member_createdAt = clock w, member_updatedAt = clock w\<rparr>"
  have "db_ok pf (w\<lparr>members := members w @ [?m]\<rparr>)"
    if "find_member pf w i u = None" "workspace_exists i w" "user_exists u w"
  proof -
    have "members_ok (w\<lparr>members := members w @ [?m]\<rparr>)"
      using ok that unfolding db_ok_def members_ok_def find_member_None
      by (auto simp: member_key_def workspace_exists_def user_exists_def)
    with ok show ?thesis by (simp add: db_defs)
  qed
  then show "db_ok pf (snd (await (gets (\<lambda>w. find_member pf w i u)) (\<lambda>existing.
      if existing \<noteq> None then throw e else await (insert_member i u r) k) w))"
    using ok by (simp add: prog_simps insert_member_def Let_def preservesD [OF rest])
qed

lemma db_announce_invite:
  assumes "inj (pf_uuid pf)"
  shows "preserves (db_ok pf) (announce_invite pf i performer email r user x m)"
  unfolding announce_invite_def findUserById_def
  by (intro hoare_intros preserves_createAndSend [OF assms] quiet_ops)

lemma db_inviteMember:
  assumes "inj (pf_uuid pf)"
  shows "preserves (db_ok pf) (inviteMember pf i performer email r)"
  unfolding inviteMember_def find_is_read_ws split_def findByEmail_def
  by (intro preserves_await db_read_ws preserves_case_option db_new_member hoare_throw hoare_gets
      db_announce_invite [OF assms])

end
