(* ===== verification/Seed.thy ===== *)
theory Seed
  imports Guards
begin

text \<open>
  \<open>src/src/database/seed.ts\<close>: the script that empties the tables and fills them with the
  demonstration data, and its reader of the \<open>.env\<close> file. The n-th random value the script
  draws is \<open>k n\<close>: the salt first, then the identifiers in the order of the source.
\<close>

section \<open>Reading the environment file\<close>

definition is_space :: "char \<Rightarrow> bool" where
  "is_space c \<longleftrightarrow> of_char c \<in> {9, 10, 11, 12, 13, 32, 160 :: nat}"

definition in_range :: "char \<Rightarrow> char \<Rightarrow> char \<Rightarrow> bool" where
  "in_range a b c \<longleftrightarrow> (of_char a :: nat) \<le> of_char c \<and> (of_char c :: nat) \<le> of_char b"

definition is_key_char :: "char \<Rightarrow> bool" where
  "is_key_char c \<longleftrightarrow>
     in_range (CHR ''a'') (CHR ''z'') c \<or> in_range (CHR ''A'') (CHR ''Z'') c \<or>
     in_range (CHR ''0'') (CHR ''9'') c \<or> c \<in> {CHR ''_'', CHR ''.'', CHR ''-''}"

definition trim :: "string \<Rightarrow> string" where
  "trim s = rev (dropWhile is_space (rev (dropWhile is_space s)))"

text \<open>
  A lone quote both starts and ends with a quote; \<open>substring(1, 0)\<close> swaps its arguments and
  gives the quote back.
\<close>

definition unquote :: "string \<Rightarrow> string" where
  "unquote v =
     (if 2 \<le> length v \<and> hd v = CHR 0x22 \<and> last v = CHR 0x22 then butlast (tl v) else v)"

text \<open>One line: \<open>/^\s*([\w.-]+)\s*=\s*(.*)?\s*$/\<close>, where the dot does not match a carriage return.\<close>

definition parse_line :: "string \<Rightarrow> (string \<times> string) option" where
  "parse_line line =
     (let rest = dropWhile is_space line;
          key = takeWhile is_key_char rest;
          after = dropWhile is_space (dropWhile is_key_char rest)
      in if key = [] \<or> after = [] \<or> hd after \<noteq> CHR ''='' then None
         else
           let body = dropWhile is_space (tl after);
               val = takeWhile (\<lambda>c. c \<noteq> CHR 0x0D) body
           in if list_all is_space (drop (length val) body) then Some (key, unquote (trim val)) else None)"

definition parseEnv :: "string option \<Rightarrow> string \<rightharpoonup> string" where
  "parseEnv file =
     (case file of
        None \<Rightarrow> Map.empty
      | Some content \<Rightarrow>
          fold (\<lambda>line env. case parse_line line of None \<Rightarrow> env | Some (k, v) \<Rightarrow> env(k \<mapsto> v))
            (split_on (CHR 0x0A) content) Map.empty)"

section \<open>Rows\<close>

text \<open>\<open>TRUNCATE ... CASCADE\<close>: the listed tables, and the audit log, which refers to users.\<close>

definition truncate_all :: "world \<Rightarrow> world" where
  "truncate_all w =
     w\<lparr>users := [], sessions := [], workspaces := [], members := [], projects := [], tasks := [],
       comments := [], activities := [], notifications := [], reminders := [], auditLogs := []\<rparr>"

definition seed_user :: "int \<Rightarrow> string \<Rightarrow> string \<Rightarrow> string \<Rightarrow> string \<Rightarrow> user" where
  "seed_user now i email hash name =
     \<lparr>user_id = i, user_email = email, user_password = Some hash, user_name = name, user_avatar = None,
      user_isVerified = True, user_createdAt = now, user_updatedAt = now\<rparr>"

definition seed_users :: "platform \<Rightarrow> string \<Rightarrow> (nat \<Rightarrow> string) \<Rightarrow> int \<Rightarrow> user list" where
  "seed_users pf salt k now =
     (let adminPasswordHash = pf_bcryptHash pf ''Admin@123'' salt;
          memberPasswordHash = pf_bcryptHash pf ''Member@123'' salt
      in [seed_user now (k 1) ''admin@gmail.com'' adminPasswordHash ''Admin User'',
          seed_user now (k 2) ''jane.doe@gmail.com'' memberPasswordHash ''Jane Doe'',
          seed_user now (k 3) ''john.smith@gmail.com'' memberPasswordHash ''John Smith''])"

definition seed_workspaces :: "(nat \<Rightarrow> string) \<Rightarrow> int \<Rightarrow> workspace list" where
  "seed_workspaces k now =
     [\<lparr>workspace_id = k 4, workspace_name = ''Acme Development'', workspace_slug = ''acme-dev'',
       workspace_ownerId = k 1, workspace_createdAt = now, workspace_updatedAt = now\<rparr>,
      \<lparr>workspace_id = k 5, workspace_name = ''Stark Industries'', workspace_slug = ''stark-ind'',
       workspace_ownerId = k 2, workspace_createdAt = now, workspace_updatedAt = now\<rparr>]"

definition seed_members :: "(nat \<Rightarrow> string) \<Rightarrow> int \<Rightarrow> workspace_member list" where
  "seed_members k now =
     map (\<lambda>(w, u, r). \<lparr>member_workspaceId = k w, member_userId = k u, member_role = r,
           member_createdAt = now, member_updatedAt = now\<rparr>)
       [(4, 1, ''ADMIN''), (4, 2, ''MEMBER''), (4, 3, ''MEMBER''), (5, 2, ''ADMIN''), (5, 1, ''MEMBER'')]"

definition seed_projects :: "(nat \<Rightarrow> string) \<Rightarrow> int \<Rightarrow> project list" where
  "seed_projects k now =
     map (\<lambda>(i, w, name, d). \<lparr>project_id = k i, project_workspaceId = k w, project_name = name,
           project_description = Some d, project_status = ''ACTIVE'', project_createdAt = now,
           project_updatedAt = now\<rparr>)
       [(6, 4, ''Web Application Refactoring'',
           ''Migrate the legacy codebase to React 19 and NestJS with micro-services architecture.''),
        (7, 4, ''Q4 Marketing Strategy'',
           ''Plan and execute marketing events, newsletters, and social outreach campaigns.''),
        (8, 5, ''Arc Reactor Optimization'',
           ''Iterate on the clean energy generator core to achieve 300% efficiency gain.'')]"

definition seed_task :: "int \<Rightarrow> string \<Rightarrow> string \<Rightarrow> string \<Rightarrow> string option \<Rightarrow> string \<Rightarrow> string \<Rightarrow> string \<Rightarrow>
    string \<Rightarrow> string \<Rightarrow> int option \<Rightarrow> string \<Rightarrow> int option \<Rightarrow> string list \<Rightarrow> task" where
  "seed_task now i w p parent title descr status prio assignee due creator completed labels =
     \<lparr>task_id = i, task_workspaceId = w, task_projectId = p, task_parentTaskId = parent,
      task_title = title, task_description = Some descr, task_status = status, task_priority = prio,
      task_assignedTo = Some assignee, task_dueDate = due, task_createdBy = creator,
      task_completedAt = completed, task_labels = Some labels, task_attachments = Some [],
      task_version = 1, task_deletedAt = None, task_createdAt = now, task_updatedAt = now\<rparr>"

definition seed_tasks :: "platform \<Rightarrow> (nat \<Rightarrow> string) \<Rightarrow> int \<Rightarrow> task list" where
  "seed_tasks pf k now =
     (let dueIn3Days = pf_addDays pf now 3; dueIn7Days = pf_addDays pf now 7; dueIn14Days = pf_addDays pf now 14
      in [seed_task now (k 9) (k 4) (k 6) None ''Database Migration to PostgreSQL''
            ''Migrate database schemas and seed initial values.'' ''DONE'' ''HIGH'' (k 3) (Some now) (k 1)
            (Some now) [''database'', ''infra''],
          seed_task now (k 10) (k 4) (k 6) None ''Implement JWT Authentication Flow''
            ''Integrate access token, refresh token, and cookie rotation mechanism.'' ''IN_PROGRESS''
            ''CRITICAL'' (k 1) (Some dueIn7Days) (k 1) None [''security'', ''backend''],
          seed_task now (k 11) (k 4) (k 6) None ''Set up Prometheus Monitoring''
            ''Expose metric endpoints in NestJS and create dashboard.'' ''TODO'' ''MEDIUM'' (k 3)
            (Some dueIn3Days) (k 1) None [''monitoring''],
          seed_task now (k 12) (k 4) (k 6) None ''Setup CI/CD Pipeline''
            ''Implement GitHub actions to build Docker images and push to registry.'' ''BLOCKED'' ''HIGH'' (k 3)
            (Some dueIn14Days) (k 1) None [''devops''],
          seed_task now (k 13) (k 5) (k 8) None ''Simulate Thermal Overload''
            ''Run computer simulations of the core at 150 gigawatts.'' ''TODO'' ''CRITICAL'' (k 3)
            (Some dueIn7Days) (k 3) None [''physics'', ''simulation'']])"

definition seed_subtasks :: "(nat \<Rightarrow> string) \<Rightarrow> int \<Rightarrow> task list" where
  "seed_subtasks k now =
     [seed_task now (k 14) (k 4) (k 6) (Some (k 10)) ''Define Login/Signup DTOs''
        ''Create request DTOs and configure validation rules.'' ''DONE'' ''MEDIUM'' (k 1) None (k 1)
        (Some now) [''backend''],
      seed_task now (k 15) (k 4) (k 6) (Some (k 10)) ''Write Unit Tests for Auth Guard''
        ''Ensure jwt-auth guard allows public endpoints and blocks unauthenticated requests.'' ''TODO'' ''HIGH''
        (k 2) None (k 1) None [''testing'']]"

definition minutes :: "int \<Rightarrow> int" where
  "minutes n = n * 60000"

definition seed_comments :: "(nat \<Rightarrow> string) \<Rightarrow> int \<Rightarrow> task_comment list" where
  "seed_comments k now =
     map (\<lambda>(i, t, u, m, ago). \<lparr>comment_id = k i, comment_taskId = k t, comment_userId = k u,
           comment_message = m, comment_createdAt = now - minutes ago, comment_updatedAt = now - minutes ago\<rparr>)
       [(16, 10, 2, ''The authentication flow should also include refresh token rotation for enhanced security.'', 120),
        (17, 10, 1, ''Agreed. I am implementing token rotation using Redis to track active sessions.'', 60),
        (18, 12, 3, ''Blocked until we receive credentials for the staging AWS environment.'', 30)]"

definition seed_activities :: "(nat \<Rightarrow> string) \<Rightarrow> int \<Rightarrow> activity list" where
  "seed_activities k now =
     map (\<lambda>(i, ty, e, a, u, ago). \<lparr>activity_id = k i, activity_workspaceId = k 4, activity_entityType = ty,
           activity_entityId = k e, activity_action = a, activity_performedBy = k u,
           activity_createdAt = now - minutes ago\<rparr>)
       [(19, ''TASK'', 9, ''TASK_CREATED'', 1, 1440), (20, ''TASK'', 9, ''TASK_ASSIGNED'', 1, 1380),
        (21, ''TASK'', 9, ''TASK_COMPLETED'', 3, 720), (22, ''COMMENT'', 10, ''COMMENT_ADDED'', 2, 120)]"

definition seed_notifications :: "(nat \<Rightarrow> string) \<Rightarrow> int \<Rightarrow> notification list" where
  "seed_notifications k now =
     map (\<lambda>(i, u, ty, title, m, r, ago). \<lparr>notification_id = k i, notification_userId = k u,
           notification_type = ty, notification_title = title, notification_message = m,
           notification_isRead = r, notification_createdAt = now - minutes ago\<rparr>)
       [(23, 1, ''COMMENT_ADDED'', ''New comment on authentication flow'',
           ''Jane Doe commented on: Implement JWT Authentication Flow'', False, 120),
        (24, 1, ''TASK_ASSIGNED'', ''Task assigned to you'',
           ''You have been assigned to: Implement JWT Authentication Flow'', False, 420),
        (25, 3, ''TASK_ASSIGNED'', ''Task assigned to you'',
           ''Admin User assigned you to: Database Migration to PostgreSQL'', True, 1380)]"

definition seed_reminders :: "platform \<Rightarrow> (nat \<Rightarrow> string) \<Rightarrow> int \<Rightarrow> reminder list" where
  "seed_reminders pf k now =
     [\<lparr>reminder_id = k 26, reminder_taskId = k 10,
       reminder_scheduledAt = pf_addDays pf (pf_addDays pf now 7) (- 1), reminder_status = ''PENDING'',
       reminder_createdAt = now\<rparr>]"

section \<open>The script\<close>

definition seed :: "platform \<Rightarrow> world \<Rightarrow> world" where
  "seed pf w =
     (let k = (\<lambda>n. pf_uuid pf (draws w + n)); now = clock w
      in (truncate_all w)\<lparr>
           users := seed_users pf (pf_genSalt pf (draws w)) k now,
           workspaces := seed_workspaces k now,
           members := seed_members k now,
           projects := seed_projects k now,
           tasks := seed_tasks pf k now @ seed_subtasks k now,
           comments := seed_comments k now,
           activities := seed_activities k now,
           notifications := seed_notifications k now,
           reminders := seed_reminders pf k now,
           draws := draws w + 27\<rparr>)"

section \<open>Plain lines\<close>

lemma dropWhile_neg: "\<forall>x \<in> set xs. \<not> P x \<Longrightarrow> dropWhile P xs = xs"
  by (cases xs) auto

lemma trim_spaceless:
  assumes "\<forall>c \<in> set v. \<not> is_space c"
  shows "trim v = v"
proof -
  from assms have "dropWhile is_space v = v" and "dropWhile is_space (rev v) = rev v"
    by (simp_all add: dropWhile_neg)
  then show ?thesis by (simp add: trim_def)
qed

lemma key_char_not_space: "is_key_char c \<Longrightarrow> \<not> is_space c"
  by (auto simp: is_key_char_def is_space_def in_range_def)

lemma equals_sign: "\<not> is_key_char (CHR ''='')" "\<not> is_space (CHR ''='')"
  by (simp_all add: is_key_char_def is_space_def in_range_def)

lemma carriage_return: "is_space (CHR 0x0D)"
  by (simp add: is_space_def)

lemma parse_line_plain:
  assumes key: "key \<noteq> []" "\<forall>c \<in> set key. is_key_char c"
    and val: "\<forall>c \<in> set v. \<not> is_space c" and plain: "v = [] \<or> hd v \<noteq> CHR 0x22"
  shows "parse_line (key @ CHR ''='' # v) = Some (key, v)"
proof -
  have spaces: "dropWhile is_space (key @ CHR ''='' # v) = key @ CHR ''='' # v"
    using key key_char_not_space by (cases key) auto
  have after: "dropWhile is_space (CHR ''='' # v) = CHR ''='' # v"
    using equals_sign by simp
  have keys: "takeWhile is_key_char (key @ CHR ''='' # v) = key"
      "dropWhile is_key_char (key @ CHR ''='' # v) = CHR ''='' # v"
    using key(2) equals_sign by simp_all
  have cr: "takeWhile (\<lambda>c. c \<noteq> CHR 0x0D) v = v"
    unfolding takeWhile_eq_all_conv using val carriage_return by blast
  have "unquote v = v" using plain by (cases v) (simp_all add: unquote_def)
  then show ?thesis
    using key(1)
    by (simp add: parse_line_def spaces keys after equals_sign cr dropWhile_neg [OF val] trim_spaceless [OF val]
        del: dropWhile.simps takeWhile.simps)
qed

end
