(* ===== verification/SeedTheorems.thy ===== *)
theory SeedTheorems
  imports SubtaskTheorems AuthTheorems WorkspaceTheorems ProjectTheorems MessagingTheorems Seed
begin

text \<open>
  The seed script puts the tables into a state in which the invariants of every component hold.
\<close>

lemma cold_cache: "cache w = (\<lambda>_. None) \<Longrightarrow> cache_get k w = None"
  by (simp add: cache_get_def redis_get_def)

lemmas seed_rows = seed_users_def seed_workspaces_def seed_members_def seed_projects_def seed_tasks_def
  seed_subtasks_def seed_user_def seed_task_def seed_reminders_def

lemma seed_world:
  "users (seed pf w) = seed_users pf (pf_genSalt pf (draws w)) (\<lambda>n. pf_uuid pf (draws w + n)) (clock w)"
  "workspaces (seed pf w) = seed_workspaces (\<lambda>n. pf_uuid pf (draws w + n)) (clock w)"
  "members (seed pf w) = seed_members (\<lambda>n. pf_uuid pf (draws w + n)) (clock w)"
  "projects (seed pf w) = seed_projects (\<lambda>n. pf_uuid pf (draws w + n)) (clock w)"
  "tasks (seed pf w) = seed_tasks pf (\<lambda>n. pf_uuid pf (draws w + n)) (clock w) @
     seed_subtasks (\<lambda>n. pf_uuid pf (draws w + n)) (clock w)"
  "reminders (seed pf w) = seed_reminders pf (\<lambda>n. pf_uuid pf (draws w + n)) (clock w)"
  "sessions (seed pf w) = []" "jobs (seed pf w) = jobs w" "cache (seed pf w) = cache w"
  "draws (seed pf w) = draws w + 27"
  by (simp_all add: seed_def truncate_all_def Let_def)

lemma seed_drawn: "n < 27 \<Longrightarrow> pf_uuid pf (d + n) \<in> pf_uuid pf ` {..<d + 27}"
  by simp

lemma seed_cold:
  assumes "cache w = (\<lambda>_. None)"
  shows "coherent (\<lambda>k. cache_get (f k)) load (seed pf w)"
  using assms by (simp add: coherent_def cold_cache seed_world)

lemma seed_tasks_ok:
  assumes "inj (pf_uuid pf)" and "cache w = (\<lambda>_. None)"
  shows "tasks_ok pf (seed pf w)"
proof -
  note [simp] = inj_eq [OF assms(1)]
  have "distinct (map task_id (tasks (seed pf w)))"
    by (simp add: seed_world seed_rows Let_def)
  moreover have "set (map task_id (tasks (seed pf w))) \<subseteq> pf_uuid pf ` {..<draws (seed pf w)}"
    by (simp add: seed_world seed_rows Let_def seed_drawn del: image_eqI)
  moreover have "\<forall>t \<in> set (tasks (seed pf w)). row_ok t"
    by (simp add: seed_world seed_rows Let_def row_ok_def task_statuses_def task_priorities_def)
  moreover have "\<forall>t \<in> set (tasks (seed pf w)). task_fks t (seed pf w)"
    by (simp add: seed_world seed_rows Let_def task_fks_def exists_defs)
  ultimately show ?thesis
    by (simp add: tasks_ok_def task_inv_def task_ids_ok_def task_coherent_def
        seed_cold [OF assms(2)])
qed

lemma seed_tenants_ok:
  assumes "inj (pf_uuid pf)" and "cache w = (\<lambda>_. None)"
  shows "tenants_ok pf (seed pf w)"
proof -
  note [simp] = inj_eq [OF assms(1)]
  have "ws_rows_ok pf (seed pf w)"
    by (simp add: seed_world seed_rows ws_rows_ok_def seed_drawn)
  moreover have "members_ok (seed pf w)"
    by (simp add: seed_world seed_rows Let_def members_ok_def member_key_def exists_defs)
  ultimately show ?thesis
    by (simp add: tenants_ok_def ws_inv_def seed_cold [OF assms(2)])
qed

lemma seed_accounts_ok:
  assumes "inj (pf_uuid pf)"
  shows "accounts_ok pf (seed pf w)"
  by (simp add: accounts_ok_def users_ok_def seed_world seed_rows Let_def inj_eq [OF assms] seed_drawn)

lemma seed_projects_ok:
  assumes "inj (pf_uuid pf)" and "cache w = (\<lambda>_. None)"
  shows "projects_ok pf (seed pf w)"
  by (simp add: projects_ok_def seed_world seed_rows inj_eq [OF assms(1)] seed_drawn
      seed_cold [OF assms(2)])

text \<open>
  C40: on a database whose cache is empty and whose queues hold no reminder, the seed script
  establishes every invariant the requests preserve: tasks have their references and consistent
  columns, subtasks come after their parents and in the project and workspace of their parents,
  every owner is an administrator of the workspace, accounts, projects and reminders are keyed.
\<close>

theorem seed_establishes_the_invariants:
  assumes ids: "inj (pf_uuid pf)" and cold: "cache w = (\<lambda>_. None)" and jobs: "reminder_job_keys w = []"
  shows "hierarchy_ok pf (seed pf w) \<and> tenants_ok pf (seed pf w) \<and> accounts_ok pf (seed pf w) \<and>
    projects_ok pf (seed pf w) \<and> reminders_ok (seed pf w) \<and> tasks_local (seed pf w)"
proof -
  have "parents_first {} (tasks (seed pf w))"
    by (simp add: seed_world seed_rows Let_def)
  moreover have "reminder_job_keys (seed pf w) = []"
    using jobs unfolding reminder_job_keys_def by (simp only: seed_world)
  then have "reminders_ok (seed pf w)"
    by (simp add: reminders_ok_def seed_world seed_rows)
  moreover have "tasks_local (seed pf w)"
    by (simp add: tasks_local_def seed_world seed_rows Let_def inj_eq [OF ids])
  ultimately show ?thesis
    using seed_tasks_ok [OF ids cold] seed_tenants_ok [OF ids cold] seed_accounts_ok [OF ids]
      seed_projects_ok [OF ids cold] by (simp add: hierarchy_ok_def)
qed

theorem seed_establishes_the_invariants_witness:
  "hierarchy_ok demo_pf (seed demo_pf empty_world) \<and> tenants_ok demo_pf (seed demo_pf empty_world) \<and>
   accounts_ok demo_pf (seed demo_pf empty_world) \<and> length (tasks (seed demo_pf empty_world)) = 7"
proof -
  have ids: "inj (pf_uuid demo_pf)" by (auto simp: inj_def demo_pf_def demo_uuid_def)
  have cold: "cache empty_world = (\<lambda>_. None)" and jobs: "reminder_job_keys empty_world = []"
    by (simp_all add: empty_world_def reminder_job_keys_def)
  from seed_establishes_the_invariants [OF ids cold jobs] show ?thesis
    by (simp add: seed_world seed_tasks_def seed_subtasks_def Let_def)
qed

end
