(* ===== verification/PlatformTheorems.thy ===== *)
theory PlatformTheorems
  imports TenantIntegrity SeedTheorems
begin

text \<open>
  The properties of the server as a whole: whatever requests, jobs, scheduler runs, socket events,
  evictions and queue failures come in any order, the database stays consistent and every request
  is answered.
\<close>

section \<open>Routes\<close>

lemma preserves_guarded:
  assumes "\<And>r. preserves I (k r)"
  shows "preserves I (guarded pf gs k r)"
proof (rule preservesI)
  fix w
  assume "I w"
  then show "I (snd (guarded pf gs k r w))"
    using preservesD [OF assms] by (cases "run_guards gs pf w r") (simp_all add: guarded_def)
qed

lemma preserves_pipe:
  assumes "ok \<Longrightarrow> preserves I (k r)"
  shows "preserves I (pipe pf ps ok k r)"
  using assms by (auto simp: pipe_def intro: hoare_throw)

lemma db_pure_reads:
  "preserves (db_ok pf) (getSessions u)" "preserves (db_ok pf) (findUserById pf u)"
  "preserves (db_ok pf) (getUserWorkspaces pf u)" "preserves (db_ok pf) (getMembers pf i)"
  "preserves (db_ok pf) (getSummary i)" "preserves (db_ok pf) (getComments pf t i)"
  "preserves (db_ok pf) (getNotificationsForUser u b)" "preserves (db_ok pf) (findProjectById pf p i)"
  unfolding getSessions_def findUserById_def getUserWorkspaces_def getMembers_def getSummary_def
    getComments_def getNotificationsForUser_def findProjectById_def
  by (intro hoare_intros; assumption)+

lemma db_ws_reads: "preserves (db_ok pf) (findWorkspaceById pf i)" "preserves (db_ok pf) (findWorkspaceBySlug pf s)"
  unfolding find_is_read_ws by (rule db_read_ws)+

lemmas db_operations = db_pure_reads db_ws_reads db_findById db_getTasks db_createTask db_updateTask db_deleteTask
  db_addComment db_markAsRead db_markAllAsRead db_getProjects db_createProject db_updateProject db_deleteProject
  db_createWorkspace db_updateWorkspace db_updateWorkspace_unnamed db_deleteWorkspace db_inviteMember
  db_account_operations quiet_ops

lemmas route_intros = preserves_guarded preserves_pipe preserves_if hoare_throw hoare_gets db_operations

lemma db_account_routes:
  assumes "inj (pf_uuid pf)"
  shows "preserves (db_ok pf) (AuthController_signup pf sd r)" "preserves (db_ok pf) (AuthController_login pf ip ld r)"
    "preserves (db_ok pf) (AuthController_logout pf tok r)" "preserves (db_ok pf) (AuthController_refresh pf tok r)"
    "preserves (db_ok pf) (AuthController_verifyEmail pf em c r)"
    "preserves (db_ok pf) (AuthController_forgotPassword pf em r)"
    "preserves (db_ok pf) (AuthController_resetPassword pf rd r)"
    "preserves (db_ok pf) (AuthController_getSessions pf r)" "preserves (db_ok pf) (AuthController_revokeSession pf r)"
    "preserves (db_ok pf) (UsersController_getProfile pf r)" "preserves (db_ok pf) (UsersController_updateProfile pf r)"
  unfolding AuthController_signup_def AuthController_login_def AuthController_logout_def AuthController_refresh_def
    AuthController_verifyEmail_def AuthController_forgotPassword_def AuthController_resetPassword_def
    AuthController_getSessions_def AuthController_revokeSession_def UsersController_getProfile_def
    UsersController_updateProfile_def
  by (intro route_intros assms; assumption)+

lemma db_workspace_routes:
  assumes "inj (pf_uuid pf)"
  shows "preserves (db_ok pf) (WorkspaceController_create pf cd r)"
    "preserves (db_ok pf) (WorkspaceController_getUserWorkspaces pf r)"
    "preserves (db_ok pf) (WorkspaceController_getBySlug pf r)" "preserves (db_ok pf) (WorkspaceController_getById pf r)"
    "preserves (db_ok pf) (WorkspaceController_delete pf r)" "preserves (db_ok pf) (WorkspaceController_invite pf im r)"
    "preserves (db_ok pf) (WorkspaceController_getMembers pf r)"
    "preserves (db_ok pf) (DashboardController_getSummary pf r)"
    "preserves (db_ok pf) (guarded pf gs (pipe pf [] True (\<lambda>r. updateWorkspace_unnamed pf (f r) (g r))) r)"
    "preserves (db_ok pf) (guarded pf gs (pipe pf [] True (\<lambda>r. updateWorkspace pf (f r) (g r) n)) r)"
  unfolding WorkspaceController_create_def WorkspaceController_getUserWorkspaces_def
    WorkspaceController_getBySlug_def WorkspaceController_getById_def WorkspaceController_delete_def
    WorkspaceController_invite_def WorkspaceController_getMembers_def DashboardController_getSummary_def
  by (intro route_intros assms; assumption)+

lemma db_project_routes:
  assumes "inj (pf_uuid pf)"
  shows "preserves (db_ok pf) (ProjectController_create pf pd r)" "preserves (db_ok pf) (ProjectController_list pf r)"
    "preserves (db_ok pf) (ProjectController_get pf r)" "preserves (db_ok pf) (ProjectController_update pf r)"
    "preserves (db_ok pf) (ProjectController_delete pf r)"
  unfolding ProjectController_create_def ProjectController_list_def ProjectController_get_def
    ProjectController_update_def ProjectController_delete_def
  by (intro route_intros assms; assumption)+

lemma db_task_routes:
  assumes "inj (pf_uuid pf)"
  shows "preserves (db_ok pf) (TaskController_create pf cd r)" "preserves (db_ok pf) (TaskController_list pf q r)"
    "preserves (db_ok pf) (TaskController_get pf r)" "preserves (db_ok pf) (TaskController_update pf ud r)"
    "preserves (db_ok pf) (TaskController_delete pf r)"
    "preserves (db_ok pf) (TaskController_getAttachmentPresign pf nm ty r)"
  unfolding TaskController_create_def TaskController_list_def TaskController_get_def TaskController_update_def
    TaskController_delete_def TaskController_getAttachmentPresign_def gen_uuid_def Let_def
  by (intro route_intros preserves_await hoare_ret assms; assumption)+

lemma db_other_routes:
  assumes "inj (pf_uuid pf)"
  shows "preserves (db_ok pf) (CommentController_add pf m r)" "preserves (db_ok pf) (CommentController_list pf r)"
    "preserves (db_ok pf) (NotificationController_getNotifications pf r)"
    "preserves (db_ok pf) (NotificationController_markAsRead pf r)"
    "preserves (db_ok pf) (NotificationController_markAllAsRead pf r)"
    "preserves (db_ok pf) (AuditController_getAuditLogs pf page limit r)"
  unfolding CommentController_add_def CommentController_list_def NotificationController_getNotifications_def
    NotificationController_markAsRead_def NotificationController_markAllAsRead_def AuditController_getAuditLogs_def
  by (intro route_intros assms; assumption)+

section \<open>The invariant of the server\<close>

lemma answers_keeps:
  assumes "answers m w = Some (x, w')" and "preserves I m" and "I w"
  shows "I w'"
proof -
  from assms(1) have "snd (m w) = w'" by (cases "m w") (simp add: answers_def)
  with preservesD [OF assms(2,3)] show ?thesis by simp
qed

lemma answers_read_keeps: "answers_read q w = Some (x, w') \<Longrightarrow> w' = w"
  by (auto simp: answers_read_def)

lemma serve_db_ok:
  assumes inj: "inj (pf_uuid pf)" and ok: "db_ok pf w" and run: "serve pf q r w = Some (x, w')"
  shows "db_ok pf w'"
proof -
  note routes = db_account_routes [OF inj] db_workspace_routes [OF inj] db_project_routes [OF inj]
    db_task_routes [OF inj] db_other_routes [OF inj]
  show ?thesis
  proof (cases q)
    case (WorkspaceUpdate n)
    show ?thesis
    proof (cases "WorkspaceController_update pf (Some n) r")
      case None
      with run WorkspaceUpdate have "answers (guarded pf (permission_guards [WORKSPACE_UPDATE])
          (pipe pf [] True (\<lambda>r. updateWorkspace_unnamed pf (param r ''workspaceId'') (userId r))) r) w = Some (x, w')"
        by simp
      then show ?thesis by (rule answers_keeps) (rule routes ok)+
    next
      case (Some m)
      then have "preserves (db_ok pf) m"
        by (auto simp: WorkspaceController_update_def split: if_splits intro: routes)
      with Some run WorkspaceUpdate ok show ?thesis by (auto elim: answers_keeps)
    qed
  qed (use run ok in \<open>auto dest!: answers_read_keeps elim!: answers_keeps [where I = "db_ok pf"] intro: routes\<close>)
qed

lemma correlation_db_ok: "db_ok pf w \<Longrightarrow> db_ok pf (snd (correlation pf l w))"
  by (rule preservesD [where m = "correlation pf l"])
    (auto simp: correlation_def gen_uuid_def intro: hoare_ret quiet_ops)

lemma handle_request_db_ok:
  assumes "inj (pf_uuid pf)" and "db_ok pf w" and "handle_request pf l q r w = Some (x, w')"
  shows "db_ok pf w'"
  using serve_db_ok [OF assms(1) correlation_db_ok [OF assms(2)]] assms(3) by (simp add: handle_request_def)

lemma quiet_sockets: "quiet w (w\<lparr>sockets := s\<rparr>)"
  by (rule quietI) simp_all

lemma within_quiet_update_socket: "within quiet (update_socket sid f)"
  by (rule withinI) (simp add: update_socket_def modify_def quiet_sockets)

lemma within_quiet_gateway:
  "within quiet (handleConnection pf key sid h)" "within quiet (handleJoinWorkspace sid i)"
  "within quiet (handleLeaveWorkspace sid i)"
  unfolding handleConnection_def handleJoinWorkspace_def handleLeaveWorkspace_def disconnect_def join_room_def
    leave_room_def
  by (intro quiet.within_intros within_quiet_update_socket)+

lemma on_socket_quiet: "quiet w (on_socket pf e w)"
  by (cases e) (auto intro: quiet.trans quiet_sockets withinD within_quiet_gateway)

lemma server_step_db_ok:
  assumes inj: "inj (pf_uuid pf)" and ok: "db_ok pf w" and step: "server_step pf w w'"
  shows "db_ok pf w'"
  using step
proof (cases rule: server_step.cases)
  case (request l q r x)
  then show ?thesis by (rule handle_request_db_ok [OF inj ok])
next
  case (scheduler x)
  with preservesD [OF db_checkDueTasks [OF inj] ok] show ?thesis by simp
next
  case (worker j x)
  with preservesD [OF db_run_attempts [OF inj] ok, of "job_attempts j" j] show ?thesis by simp
next
  case (socket e)
  with db_ok_quiet [OF ok on_socket_quiet] show ?thesis by simp
next
  case (time dt)
  then have "quiet w w'" by (auto intro: quietI)
  then show ?thesis by (rule db_ok_quiet [OF ok])
next
  case (outage qs)
  then have "quiet w w'" by (auto intro: quietI)
  then show ?thesis by (rule db_ok_quiet [OF ok])
next
  case (evict k)
  then have "quiet w w'" by (intro quiet_cacheI) (auto simp: cache_get_def redis_get_def split: if_splits option.splits prod.splits)
  then show ?thesis by (rule db_ok_quiet [OF ok])
qed

lemma server_reachable_db_ok:
  assumes "server_reachable pf w w'" and "inj (pf_uuid pf)" and "db_ok pf w"
  shows "db_ok pf w'"
  using assms by (induction rule: server_reachable.induct) (auto intro: server_step_db_ok)

section \<open>Every request is answered\<close>

text \<open>The order of issue ranks the tasks below their parents.\<close>

lemma db_ok_ranked:
  assumes inj: "inj (pf_uuid pf)" and ok: "db_ok pf w"
  obtains rk where "ranked rk (tasks w)" and "distinct (map task_id (tasks w))"
proof -
  define ix where "ix i = inv (pf_uuid pf) i" for i
  define rk where "rk i = card {t \<in> set (tasks w). ix (task_id t) < ix i}" for i
  have ix: "ix (pf_uuid pf n) = n" for n unfolding ix_def by (rule inv_f_f [OF inj])
  have "ranked rk (tasks w)"
    unfolding ranked_def
  proof (intro ballI conjI allI impI)
    fix t
    assume t: "t \<in> set (tasks w)"
    have "rk (task_id t) < card (set (tasks w))"
      unfolding rk_def by (rule psubset_card_mono) (use t in auto)
    then show "rk (task_id t) < length (tasks w)" using card_length order_less_le_trans by blast
    fix p
    assume p: "task_parentTaskId t = Some p"
    with ok t have "older pf p (task_id t)" by (auto simp: db_ok_def elders_def)
    then have less: "ix p < ix (task_id t)" by (auto simp: older_def ix)
    from ok t p have "p \<in> task_ids w" by (auto simp: db_defs refs_def)
    then obtain q where q: "q \<in> set (tasks w)" "task_id q = p" by auto
    show "rk p < rk (task_id t)"
      unfolding rk_def
    proof (rule psubset_card_mono)
      show "{x \<in> set (tasks w). ix (task_id x) < ix p} \<subset> {x \<in> set (tasks w). ix (task_id x) < ix (task_id t)}"
        using less q by auto
    qed simp
  qed
  moreover have "distinct (map task_id (tasks w))" using ok by (simp add: db_defs keyed_def)
  ultimately show thesis by (rule that)
qed

lemma query_returns:
  assumes "distinct (map task_id ts)" and "ranked rk ts" and "set base \<subseteq> set ts" "distinct (map task_id base)"
  shows "\<exists>rows. with_recursive (join_children ts) base = Some rows"
proof -
  let ?b = "\<lambda>(work :: task list, acc :: task list). work \<noteq> []"
  let ?c = "\<lambda>(work, acc). (join_children ts work, acc @ work)"
  obtain s where "while_option ?b ?c (base, []) = Some s"
    using query_terminates [OF assms(2,3)] by blast
  then show ?thesis by (simp add: with_recursive_def)
qed

lemma hierarchy_returns:
  assumes inj: "inj (pf_uuid pf)" and ok: "db_ok pf w"
  shows "getDescendants i ws w \<noteq> None" and "getAncestors i ws w \<noteq> None" and "getTaskTree i ws w \<noteq> None"
proof -
  obtain rk where rk: "ranked rk (tasks w)" and dist: "distinct (map task_id (tasks w))"
    by (rule db_ok_ranked [OF inj ok])
  have rows: "\<exists>rows. with_recursive (join_children (tasks w)) (filter p (tasks w)) = Some rows" for p
    by (rule query_returns [OF dist rk]) (simp_all add: dist distinct_map_filter)
  show "getDescendants i ws w \<noteq> None" "getAncestors i ws w \<noteq> None"
    using rows by (auto simp: getDescendants_def getAncestors_def Let_def)
  show "getTaskTree i ws w \<noteq> None"
  proof (cases "task_in_workspace i ws w")
    case True
    then obtain t where t: "t \<in> set (tasks w)" "task_id t = i" "task_workspaceId t = ws" "is_live t"
      by (rule task_in_workspace_row)
    show ?thesis by (rule tree_of_live_task [OF dist rk t(1,4,3)]) (simp add: t(2))
  qed (simp add: getTaskTree_def)
qed

lemma serve_answers:
  assumes "inj (pf_uuid pf)" and "db_ok pf w"
  shows "serve pf q r w \<noteq> None"
proof -
  have "hierarchy_route pf m r w \<noteq> None" if "\<And>i ws. m i ws w \<noteq> None"
    for m :: "string \<Rightarrow> string \<Rightarrow> world \<Rightarrow> (exn + 'a) option"
    using that by (auto simp: hierarchy_route_def split: sum.split)
  then have "hierarchy_route pf getTaskTree r w \<noteq> None" "hierarchy_route pf getDescendants r w \<noteq> None"
    "hierarchy_route pf getAncestors r w \<noteq> None"
    using hierarchy_returns [OF assms] by blast+
  then show ?thesis
    by (cases q) (auto simp: answers_def answers_read_def SubtaskController_getTree_def
        SubtaskController_getDescendants_def SubtaskController_getAncestors_def split: option.split)
qed

section \<open>The seeded database\<close>

lemma seed_more:
  "comments (seed pf w) = seed_comments (\<lambda>n. pf_uuid pf (draws w + n)) (clock w)"
  "activities (seed pf w) = seed_activities (\<lambda>n. pf_uuid pf (draws w + n)) (clock w)"
  "notifications (seed pf w) = seed_notifications (\<lambda>n. pf_uuid pf (draws w + n)) (clock w)"
  "auditLogs (seed pf w) = []"
  by (simp_all add: seed_def truncate_all_def Let_def)

lemma seed_db_ok:
  assumes inj: "inj (pf_uuid pf)" and cold: "cache w = (\<lambda>_. None)"
  shows "db_ok pf (seed pf w)"
proof -
  note rows = seed_world seed_more seed_rows seed_comments_def seed_activities_def seed_notifications_def
  note [simp] = inj_eq [OF inj]
  have tenants: "tenants_ok pf (seed pf w)" by (rule seed_tenants_ok [OF inj cold])
  have tasks: "tasks_ok pf (seed pf w)" by (rule seed_tasks_ok [OF inj cold])
  have "keys_ok pf (seed pf w)"
    using tenants tasks
    by (simp add: keys_ok_def keyed_def tenants_ok_def ws_inv_def ws_rows_ok_def tasks_ok_def task_inv_def task_ids_ok_def)
      (simp add: rows seed_drawn Let_def del: image_eqI)
  moreover have "user_refs_ok (seed pf w)" by (simp add: user_refs_ok_def refs_def rows Let_def)
  moreover have "row_refs_ok (seed pf w)" by (simp add: row_refs_ok_def refs_def rows Let_def)
  moreover have "elders pf t" if "t \<in> set (tasks (seed pf w))" for t
    using that by (auto simp: rows Let_def elders_def older_def)
  moreover have "cached_ok pf (seed pf w)"
    using seed_world(9) [of pf w] cold by (simp add: cached_ok_def cold_cache)
  ultimately show ?thesis
    using tenants tasks seed_accounts_ok [OF inj] by (simp add: db_ok_def tenants_ok_def tasks_ok_def)
qed

section \<open>Properties\<close>

text \<open>
  C4: start the server on a consistent database and let anything happen in any order: requests of
  any route by anybody, runs of the scheduler, jobs retried by the workers, socket events, time,
  evictions of the cache and failures of the queues. The database is consistent at every moment:
  keys are unique and issued, addresses, slugs and memberships are unique, every foreign key finds
  its row, every workspace has its owner as an administrator, every task row is well formed and
  older than its subtasks, and what is cached can be saved again without breaking any of this.
\<close>

theorem database_stays_consistent:
  assumes "server_reachable pf w0 w" and "inj (pf_uuid pf)" and "db_ok pf w0"
  shows "db_ok pf w"
  using assms by (rule server_reachable_db_ok)

text \<open>
  C5: and every request is answered: in any state the server can reach from a consistent database
  the handler of every route returns, with a result or an exception, and leaves a consistent
  database; in particular the recursive queries for the tree, the descendants and the ancestors of
  a task never run forever.
\<close>

theorem every_request_is_answered:
  assumes run: "server_reachable pf w0 w" and inj: "inj (pf_uuid pf)" and ok: "db_ok pf w0"
  shows "\<exists>x w'. handle_request pf l q r w = Some (x, w') \<and> db_ok pf w'"
proof -
  have now: "db_ok pf w" by (rule server_reachable_db_ok [OF run inj ok])
  from serve_answers [OF inj correlation_db_ok [OF now], of q r l]
  obtain x w' where answer: "handle_request pf l q r w = Some (x, w')"
    by (auto simp: handle_request_def)
  with handle_request_db_ok [OF inj now] show ?thesis by blast
qed

text \<open>A seeded server whose scheduler has run, and a sign-up.\<close>

definition demo_started :: world where
  "demo_started = snd (checkDueTasks demo_pf (seed demo_pf empty_world))"

definition demo_signup :: signup_dto where
  "demo_signup = \<lparr>sd_email = ''new@x'', sd_password = ''secret'', sd_name = ''New''\<rparr>"

definition demo_request :: http_request where
  "demo_request = \<lparr>rq_params = [], rq_query = [], rq_headers = [], rq_body = [], rq_user = None,
     rq_workspaceId = None, rq_workspaceMember = None\<rparr>"

definition demo_line :: request_line where
  "demo_line = \<lparr>rl_method = ''POST'', rl_url = ''/api/v1/auth/signup'', rl_correlationId = Some ''c''\<rparr>"

lemma demo_started_reachable: "server_reachable demo_pf (seed demo_pf empty_world) demo_started"
  by (rule server_reachable.then_step [OF server_reachable.start server_step.scheduler [of _ _ "fst (checkDueTasks demo_pf (seed demo_pf empty_world))"]])
    (simp add: demo_started_def)

lemma demo_seed_ok: "db_ok demo_pf (seed demo_pf empty_world)"
  by (rule seed_db_ok [OF demo_uuid_inj]) (simp add: empty_world_def)

lemma demo_started_users: "users demo_started = users (seed demo_pf empty_world)"
  using withinD [OF within_checkDueTasks, of "seed demo_pf empty_world" demo_pf]
  by (simp add: demo_started_def scheduler_frame_def)

lemma demo_signup_answer:
  "\<exists>x w'. handle_request demo_pf demo_line (api_request.AuthSignup demo_signup) demo_request demo_started = Some (x, w') \<and>
     ''new@x'' \<in> user_email ` set (users w')"
proof -
  have "''new@x'' \<notin> user_email ` set (users demo_started)"
    unfolding demo_started_users seed_world by (simp add: seed_users_def seed_user_def Let_def)
  moreover have "signupDto_valid demo_pf demo_signup"
    by (simp add: signupDto_valid_def demo_signup_def demo_pf_def)
  ultimately show ?thesis
    by (simp add: handle_request_def correlation_def demo_line_def AuthController_signup_def pipe_def demo_request_def
        answers_def signup_def createUser_eval Let_def demo_signup_def prog_simps queue_add_def split: sum.split)
qed

theorem database_stays_consistent_witness:
  "\<exists>w'. server_reachable demo_pf (seed demo_pf empty_world) w' \<and> db_ok demo_pf w' \<and>
     ''new@x'' \<in> user_email ` set (users w')"
proof -
  obtain x w' where answer: "handle_request demo_pf demo_line (api_request.AuthSignup demo_signup) demo_request demo_started = Some (x, w')"
    and new: "''new@x'' \<in> user_email ` set (users w')"
    using demo_signup_answer by blast
  have run: "server_reachable demo_pf (seed demo_pf empty_world) w'"
    by (rule server_reachable.then_step [OF demo_started_reachable server_step.request [OF answer]])
  from database_stays_consistent [OF run demo_uuid_inj demo_seed_ok] run new show ?thesis by blast
qed

theorem every_request_is_answered_witness:
  "\<exists>x w'. handle_request demo_pf demo_line SubtaskGetTree demo_request demo_started = Some (x, w') \<and> db_ok demo_pf w'"
  by (rule every_request_is_answered [OF demo_started_reachable demo_uuid_inj demo_seed_ok])

end
