(* ===== verification/Ui.thy ===== *)
theory Ui
  imports Endpoints Seed
begin

text \<open>
  What the components under \<open>src/frontend/src\<close> render and do: a tree of widgets without its
  styling, the interactions a visitor has with it, the effects of the event handlers, and the
  components of \<open>components/common\<close>. A component is a record of its \<open>useState\<close> cells, a
  datatype of its callbacks, the tree it returns and the handler that runs a callback; what comes
  after the \<open>await\<close> of a request is a function of its outcome.
\<close>

section \<open>Widgets\<close>

datatype variant = Success | Danger

text \<open>
  A widget is named by its label, as the visitor finds it, or by its React key. Buttons carry
  whether they are enabled, dialogs whether they are open.
\<close>

datatype 'e ui =
    Txt string
  | Alert variant json
  | Button string bool 'e
  | Input string string "string \<Rightarrow> 'e"
      \<comment> \<open>label, value, \<open>onChange\<close>\<close>
  | Disabled string string
      \<comment> \<open>a text field that cannot be edited\<close>
  | Choice string string "(string \<times> string) list" "string \<Rightarrow> 'e"
      \<comment> \<open>a \<open>Select\<close> or \<open>Tabs\<close>: name, value, options with their texts, \<open>onChange\<close>\<close>
  | Tap string 'e "'e ui list"
      \<comment> \<open>anything else with an \<open>onClick\<close>, by its key\<close>
  | Box "'e ui list"
  | FormBox string bool 'e "'e ui list"
      \<comment> \<open>a form with its submit button's text and whether that is enabled\<close>
  | Modal string bool 'e "'e ui list"
      \<comment> \<open>a dialog, drawer or menu: name, \<open>open\<close>, \<open>onClose\<close>\<close>
  | DragArea "string \<Rightarrow> string option \<Rightarrow> 'e" "'e ui list"
  | Draggable string 'e "'e ui list"
  | DropZone string "'e ui list"
  | Spinner
  | Throws
      \<comment> \<open>rendering reads a property of \<open>null\<close>\<close>

datatype interaction =
    Click string
  | TypeIn string string
  | Choose string string
  | Submit string
  | Dismiss string
  | Drag string "string option"

fun draggables :: "'e ui \<Rightarrow> string list" where
  "draggables (Tap k e us) = concat (map draggables us)"
| "draggables (Box us) = concat (map draggables us)"
| "draggables (FormBox n en e us) = concat (map draggables us)"
| "draggables (Modal t opn e us) = concat (map draggables us)"
| "draggables (Draggable k e us) = k # concat (map draggables us)"
| "draggables (DropZone k us) = concat (map draggables us)"
| "draggables _ = []"

fun drop_zones :: "'e ui \<Rightarrow> string list" where
  "drop_zones (Tap k e us) = concat (map drop_zones us)"
| "drop_zones (Box us) = concat (map drop_zones us)"
| "drop_zones (FormBox n en e us) = concat (map drop_zones us)"
| "drop_zones (Modal t opn e us) = concat (map drop_zones us)"
| "drop_zones (Draggable k e us) = concat (map drop_zones us)"
| "drop_zones (DropZone k us) = k # concat (map drop_zones us)"
| "drop_zones _ = []"

definition can_drag :: "'e ui list \<Rightarrow> string \<Rightarrow> string option \<Rightarrow> bool" where
  "can_drag us a over \<longleftrightarrow>
     a \<in> set (concat (map draggables us)) \<and>
     (case over of None \<Rightarrow> True | Some c \<Rightarrow> c \<in> set (concat (map drop_zones us)))"

text \<open>The callbacks an interaction may run, one for each widget it fits.\<close>

fun fire :: "'e ui \<Rightarrow> interaction \<Rightarrow> 'e list" where
  "fire (Button l en e) i = (if en \<and> i = Click l then [e] else [])"
| "fire (Input l v f) i = (case i of TypeIn l' x \<Rightarrow> if l' = l then [f x] else [] | _ \<Rightarrow> [])"
| "fire (Choice l v opts f) i =
     (case i of Choose l' x \<Rightarrow> if l' = l \<and> x \<noteq> v \<and> x \<in> fst ` set opts then [f x] else [] | _ \<Rightarrow> [])"
| "fire (Tap k e us) i = (if i = Click k then [e] else []) @ concat (map (\<lambda>u. fire u i) us)"
| "fire (Box us) i = concat (map (\<lambda>u. fire u i) us)"
| "fire (FormBox n en e us) i = (if en \<and> i = Submit n then [e] else []) @ concat (map (\<lambda>u. fire u i) us)"
| "fire (Modal t opn e us) i =
     (if opn then (if i = Dismiss t then [e] else []) @ concat (map (\<lambda>u. fire u i) us) else [])"
| "fire (DragArea f us) i =
     (case i of Drag a over \<Rightarrow> if can_drag us a over then [f a over] else [] | _ \<Rightarrow> []) @
     concat (map (\<lambda>u. fire u i) us)"
| "fire (Draggable k e us) i = (if i = Click k then [e] else []) @ concat (map (\<lambda>u. fire u i) us)"
| "fire (DropZone k us) i = concat (map (\<lambda>u. fire u i) us)"
| "fire _ i = []"

text \<open>
  The children of a closed dialog are evaluated too, so that reading a property of \<open>null\<close> in
  them makes the rendering throw all the same.
\<close>

fun crashes :: "'e ui \<Rightarrow> bool" where
  "crashes (Tap k e us) = list_ex crashes us"
| "crashes (Box us) = list_ex crashes us"
| "crashes (FormBox n en e us) = list_ex crashes us"
| "crashes (Modal t opn e us) = list_ex crashes us"
| "crashes (DragArea f us) = list_ex crashes us"
| "crashes (Draggable k e us) = list_ex crashes us"
| "crashes (DropZone k us) = list_ex crashes us"
| "crashes Throws = True"
| "crashes _ = False"

section \<open>Effects\<close>

datatype effect =
    Dispatch action
  | Send api_call
  | Go string
      \<comment> \<open>\<open>navigate(path)\<close>\<close>
  | GoLater nat string
      \<comment> \<open>the same in a \<open>setTimeout\<close> of so many milliseconds\<close>
  | Snack variant json
  | ToggleTheme
  | Reload

definition snack :: "variant \<Rightarrow> string \<Rightarrow> effect" where
  "snack v s = Snack v (JStr s)"

fun sent :: "effect list \<Rightarrow> api_call list" where
  "sent [] = []"
| "sent (Send c # fx) = c # sent fx"
| "sent (_ # fx) = sent fx"

text \<open>A request \<open>unwrap\<close>ped: its data, or the \<open>data\<close> of the error thrown.\<close>

datatype 'r completion = Fulfilled 'r | Rejected json

definition settle_with :: "(json \<Rightarrow> 'r) \<Rightarrow> query_result \<Rightarrow> 'r completion" where
  "settle_with dec r = (case r of QueryData j \<Rightarrow> Fulfilled (dec j) | QueryError st j \<Rightarrow> Rejected j)"

text \<open>\<open>err.data?.message || fallback\<close>\<close>

definition error_message :: "json \<Rightarrow> string \<Rightarrow> json" where
  "error_message d fallback =
     (case d of
        JObj fs \<Rightarrow> (case map_of fs ''message'' of
            Some m \<Rightarrow> if json_truthy m then m else JStr fallback
          | None \<Rightarrow> JStr fallback)
      | _ \<Rightarrow> JStr fallback)"

text \<open>
  What the pages take from the browser: \<open>Date\<close>, the email pattern of zod, the user agent and
  the preferred colour scheme. \<open>be_parseDate\<close> is \<open>None\<close> for an invalid date.
\<close>

record browser_env =
  be_isEmail :: "string \<Rightarrow> bool"
  be_userAgent :: string
  be_parseDate :: "string \<Rightarrow> int option"
  be_toISOString :: "int \<Rightarrow> string"
  be_toLocaleDateString :: "int \<Rightarrow> string"
  be_toLocaleString :: "int \<Rightarrow> string"
  be_prefersDark :: bool

text \<open>\<open>s.charAt(0).toUpperCase()\<close>\<close>

definition upper_char :: "char \<Rightarrow> char" where
  "upper_char c = (if in_range (CHR ''a'') (CHR ''z'') c then char_of ((of_char c :: nat) - 32) else c)"

definition initial_of :: "string \<Rightarrow> string" where
  "initial_of s = map upper_char (take 1 s)"

definition nonblank :: "string \<Rightarrow> bool" where
  \<comment> \<open>\<open>!!s.trim()\<close>\<close>
  "nonblank s \<longleftrightarrow> trim s \<noteq> []"

definition or_empty :: "string option \<Rightarrow> string" where
  "or_empty s = or_str s ''''"

section \<open>Shared components\<close>

definition EmptyState :: "string \<Rightarrow> string \<Rightarrow> (string \<times> 'e) option \<Rightarrow> 'e ui" where
  "EmptyState title description act =
     Box ([Txt title, Txt description] @
       (case act of
          Some (actionText, onAction) \<Rightarrow> if actionText \<noteq> [] then [Button actionText True onAction] else []
        | None \<Rightarrow> []))"

definition Loader :: "'e ui" where
  "Loader = Box [Spinner]"

definition ConfirmDialog ::
  "bool \<Rightarrow> string \<Rightarrow> string \<Rightarrow> string \<Rightarrow> string \<Rightarrow> 'e \<Rightarrow> 'e \<Rightarrow> bool \<Rightarrow> 'e ui" where
  "ConfirmDialog opn title description confirmText cancelText onConfirm onCancel isLoading =
     Modal title opn onCancel
       [Txt title, Txt description,
        Button cancelText (\<not> isLoading) onCancel,
        Button confirmText (\<not> isLoading) onConfirm]"

text \<open>
  \<open>ErrorBoundary\<close>: when rendering its children throws it shows its own page instead, with the
  handler that reloads the application.
\<close>

definition ErrorBoundary :: "'e \<Rightarrow> 'e ui \<Rightarrow> 'e ui" where
  "ErrorBoundary handleReload children =
     (if crashes children then
        Box [Txt ''Something went wrong.'',
             Txt ''An unexpected error occurred in the application view rendering. Try reloading the application.'',
             Button ''Reload App'' True handleReload]
      else children)"

section \<open>What a tree lets happen\<close>

text \<open>All callbacks the visitor can reach satisfy a predicate.\<close>

fun every_event :: "('e \<Rightarrow> bool) \<Rightarrow> 'e ui \<Rightarrow> bool" where
  "every_event P (Button l en e) = (en \<longrightarrow> P e)"
| "every_event P (Input l v f) = (\<forall>x. P (f x))"
| "every_event P (Choice l v opts f) = (\<forall>x \<in> fst ` set opts. x \<noteq> v \<longrightarrow> P (f x))"
| "every_event P (Tap k e us) = (P e \<and> list_all (every_event P) us)"
| "every_event P (Box us) = list_all (every_event P) us"
| "every_event P (FormBox n en e us) = ((en \<longrightarrow> P e) \<and> list_all (every_event P) us)"
| "every_event P (Modal t opn e us) = (opn \<longrightarrow> P e \<and> list_all (every_event P) us)"
| "every_event P (DragArea f us) =
     ((\<forall>a over. can_drag us a over \<longrightarrow> P (f a over)) \<and> list_all (every_event P) us)"
| "every_event P (Draggable k e us) = (P e \<and> list_all (every_event P) us)"
| "every_event P (DropZone k us) = list_all (every_event P) us"
| "every_event P _ = True"

lemma every_eventD: "every_event P u \<Longrightarrow> e \<in> set (fire u i) \<Longrightarrow> P e"
proof (induction u i rule: fire.induct)
qed (fastforce simp: list_all_iff split: if_splits interaction.splits)+

lemma every_event_EmptyState [simp]:
  "every_event P (EmptyState t d None)"
  "every_event P (EmptyState t d (Some (a, e))) = (a \<noteq> [] \<longrightarrow> P e)"
  by (simp_all add: EmptyState_def)

lemma every_event_Loader [simp]: "every_event P Loader"
  by (simp add: Loader_def)

lemma every_event_ConfirmDialog [simp]:
  "every_event P (ConfirmDialog opn t d c k yes no l) = (opn \<longrightarrow> P no \<and> (\<not> l \<longrightarrow> P yes))"
  by (auto simp: ConfirmDialog_def)

lemma every_event_ErrorBoundary: "P e \<Longrightarrow> every_event P u \<Longrightarrow> every_event P (ErrorBoundary e u)"
  by (simp add: ErrorBoundary_def)

lemma every_event_mono: "every_event P u \<Longrightarrow> (\<And>e. P e \<Longrightarrow> Q e) \<Longrightarrow> every_event Q u"
  by (induction P u rule: every_event.induct) (auto simp: list_all_iff)

lemma draggables_map [simp]: "draggables (map_ui f u) = draggables u"
  by (induction u rule: draggables.induct) (auto intro: arg_cong [where f = concat])

lemma drop_zones_map [simp]: "drop_zones (map_ui f u) = drop_zones u"
  by (induction u rule: drop_zones.induct) (auto intro: arg_cong [where f = concat])

lemma can_drag_map [simp]: "can_drag (map (map_ui f) us) = can_drag us"
proof -
  have "map draggables (map (map_ui f) us) = map draggables us" "map drop_zones (map (map_ui f) us) = map drop_zones us"
    by (induction us) simp_all
  then show ?thesis by (simp only: can_drag_def [abs_def])
qed

lemma every_event_map [simp]: "every_event P (map_ui f u) = every_event (P \<circ> f) u"
  by (induction "P \<circ> f" u rule: every_event.induct) (auto simp: list_all_iff)

lemma nonblank_nonempty: "nonblank s \<Longrightarrow> s \<noteq> []"
  by (auto simp: nonblank_def trim_def)

section \<open>Sessions with a component\<close>

text \<open>
  A mounted component while its data changes: it starts in \<open>s0\<close>; the visitor runs a callback
  its tree offers, or a request it sent settles. The last component is what it has done so far.
\<close>

inductive component_run ::
  "('p \<Rightarrow> 's \<Rightarrow> 'e ui) \<Rightarrow> ('p \<Rightarrow> 's \<Rightarrow> 'e \<Rightarrow> 's \<times> effect list) \<Rightarrow>
   ('p \<Rightarrow> 's \<Rightarrow> api_call \<Rightarrow> 'r completion \<Rightarrow> 's \<times> effect list) \<Rightarrow> ('p \<Rightarrow> bool) \<Rightarrow> 's \<Rightarrow>
   's \<Rightarrow> api_call list \<Rightarrow> effect list \<Rightarrow> bool"
  for view handle settle props s0 where
  mounted: "component_run view handle settle props s0 s0 [] []"
| acts: "component_run view handle settle props s0 s pending fx \<Longrightarrow> props p \<Longrightarrow>
    e \<in> set (fire (view p s) i) \<Longrightarrow> handle p s e = (s', fx') \<Longrightarrow>
    component_run view handle settle props s0 s' (pending @ sent fx') (fx @ fx')"
| settles: "component_run view handle settle props s0 s pending fx \<Longrightarrow> props p \<Longrightarrow>
    c \<in> set pending \<Longrightarrow> settle p s c r = (s', fx') \<Longrightarrow>
    component_run view handle settle props s0 s' (remove1 c pending @ sent fx') (fx @ fx')"

text \<open>What a component promises about its effects, whatever the visitor does.\<close>

locale component =
  fixes view :: "'p \<Rightarrow> 's \<Rightarrow> 'e ui"
    and handle :: "'p \<Rightarrow> 's \<Rightarrow> 'e \<Rightarrow> 's \<times> effect list"
    and settle :: "'p \<Rightarrow> 's \<Rightarrow> api_call \<Rightarrow> 'r completion \<Rightarrow> 's \<times> effect list"
    and props :: "'p \<Rightarrow> bool"
    and inv :: "'s \<Rightarrow> bool"
    and good :: "effect \<Rightarrow> bool"
  assumes acting: "props p \<Longrightarrow> inv s \<Longrightarrow>
      every_event (\<lambda>e. inv (fst (handle p s e)) \<and> list_all good (snd (handle p s e))) (view p s)"
    and settling: "props p \<Longrightarrow> inv s \<Longrightarrow>
      inv (fst (settle p s c r)) \<and> list_all good (snd (settle p s c r))"
begin

lemma run_good:
  assumes "component_run view handle settle props s0 s pending fx" and "inv s0"
  shows "inv s \<and> list_all good fx"
  using assms
proof (induction)
  case mounted
  then show ?case by simp
next
  case (acts s pending fx p e i s' fx')
  with every_eventD [OF acting [of p s], of e i] show ?case by simp
next
  case (settles s pending fx p c r s' fx')
  with settling [of p s c r] show ?case by simp
qed

end

end
