(* ===== verification/Pages.thy ===== *)
theory Pages
  imports Ui
begin

text \<open>
  The pages of \<open>src/frontend/src/pages\<close> that are forms: Login, Signup, Settings, Members and
  Projects. Each is its cells, its callbacks, the tree it renders, the handlers and what follows
  the answer to a request.
\<close>

section \<open>What a component reads\<close>

text \<open>
  The data of the query hooks; \<open>None\<close> while a query has none. The lists hold the rows the
  server answers, with the relations it joins.
\<close>

record fetched =
  fd_workspaces :: "workspace list option"
  fd_members :: "(workspace_member \<times> user option) list option"
  fd_membersLoading :: bool
  fd_projects :: "project list option"
  fd_projectsLoading :: bool
  fd_tasks :: "task_page option"
  fd_tasksLoading :: bool
  fd_task :: "task_view option"
  fd_taskLoading :: bool
  fd_comments :: "(task_comment \<times> user option) list option"
  fd_tree :: "task_node option"
  fd_metrics :: "summary option"
  fd_metricsLoading :: bool
  fd_metricsError :: bool
  fd_notifications :: "notification list option"
  fd_logs :: "(audit_log \<times> user option) list option"
  fd_logsLoading :: bool
  fd_logsError :: bool
  fd_connected :: bool
    \<comment> \<open>\<open>socketService.isConnected()\<close>\<close>

datatype theme_mode = Light | Dark

record ui_context =
  cx_env :: browser_env
  cx_browser :: browser
  cx_data :: fetched
  cx_path :: string
  cx_mode :: theme_mode

fun or_nil :: "'a list option \<Rightarrow> 'a list" where
  "or_nil None = []"
| "or_nil (Some xs) = xs"

definition activeWorkspaceId :: "ui_context \<Rightarrow> string option" where
  "activeWorkspaceId c = ws_activeWorkspaceId (st_workspace (cx_browser c))"

definition current_user :: "ui_context \<Rightarrow> user_info option" where
  "current_user c = au_user (st_auth (cx_browser c))"

text \<open>A property of a JSON value the source declares to be a string.\<close>

definition text_at :: "string \<Rightarrow> json \<Rightarrow> string" where
  "text_at k j =
     (case j of JObj fs \<Rightarrow> (case map_of fs k of Some (JStr s) \<Rightarrow> s | _ \<Rightarrow> '''') | _ \<Rightarrow> '''')"

definition user_at :: "string \<Rightarrow> json \<Rightarrow> user_info option" where
  "user_at k j =
     (case j of
        JObj fs \<Rightarrow>
          (case map_of fs k of
             Some (JObj us) \<Rightarrow>
               Some \<lparr>info_id = text_at ''id'' (JObj us), info_email = text_at ''email'' (JObj us),
                     info_name = text_at ''name'' (JObj us),
                     info_avatar = (case map_of us ''avatar'' of Some (JStr a) \<Rightarrow> Some a | _ \<Rightarrow> None),
                     info_isVerified = (map_of us ''isVerified'' = Some (JBool True))\<rparr>
           | _ \<Rightarrow> None)
      | _ \<Rightarrow> None)"

section \<open>Fields the schemas check\<close>

text \<open>
  The first message of a schema for a field, as the resolver reports it. A form shows them once it
  has been submitted and revalidates a field on every change from then on.
\<close>

definition email_error :: "browser_env \<Rightarrow> string \<Rightarrow> string option" where
  "email_error be email =
     (if email = [] then Some ''Email is required''
      else if \<not> be_isEmail be email then Some ''Invalid email address'' else None)"

definition password_error :: "string \<Rightarrow> string option" where
  "password_error password =
     (if length password < 6 then Some ''Password must be at least 6 characters'' else None)"

definition name_error :: "string \<Rightarrow> string option" where
  "name_error name = (if name = [] then Some ''Name is required'' else None)"

definition helper_text :: "bool \<Rightarrow> string option \<Rightarrow> 'e ui list" where
  "helper_text submitted err = (if submitted then (case err of Some m \<Rightarrow> [Txt m] | None \<Rightarrow> []) else [])"

definition alert_of :: "variant \<Rightarrow> json option \<Rightarrow> 'e ui list" where
  "alert_of v m = (case m of Some j \<Rightarrow> if json_truthy j then [Alert v j] else [] | None \<Rightarrow> [])"

section \<open>Login\<close>

record login_page =
  lg_email :: string
  lg_password :: string
  lg_submitted :: bool
  lg_showPassword :: bool
  lg_errorMsg :: "json option"
  lg_isLoading :: bool

definition Login_init :: login_page where
  "Login_init = \<lparr>lg_email = '''', lg_password = '''', lg_submitted = False, lg_showPassword = False,
     lg_errorMsg = None, lg_isLoading = False\<rparr>"

datatype login_event =
  LoginEmail string | LoginPassword string | LoginTogglePassword | LoginSubmit | LoginToSignup

definition loginSchema :: "browser_env \<Rightarrow> login_page \<Rightarrow> bool" where
  "loginSchema be s \<longleftrightarrow> email_error be (lg_email s) = None \<and> password_error (lg_password s) = None"

definition Login_view :: "ui_context \<Rightarrow> login_page \<Rightarrow> login_event ui" where
  "Login_view c s =
     Box ([Txt ''Sign In'', Txt ''Access task collaboration workspaces''] @
       alert_of Danger (lg_errorMsg s) @
       [FormBox (if lg_isLoading s then ''Signing In...'' else ''Sign In'') (\<not> lg_isLoading s) LoginSubmit
          ([Input ''Email Address'' (lg_email s) LoginEmail] @
           helper_text (lg_submitted s) (email_error (cx_env c) (lg_email s)) @
           [Input ''Password'' (lg_password s) LoginPassword,
            Button (if lg_showPassword s then ''VisibilityOff'' else ''Visibility'') True LoginTogglePassword] @
           helper_text (lg_submitted s) (password_error (lg_password s))),
        Txt ''Don't have an account?'',
        Tap ''/signup'' LoginToSignup [Txt ''Sign up'']])"

definition Login_onSubmit :: "browser_env \<Rightarrow> login_page \<Rightarrow> login_page \<times> effect list" where
  "Login_onSubmit be s =
     (s\<lparr>lg_errorMsg := None, lg_isLoading := True\<rparr>,
      [Send (AuthCall (Login (JObj
         [(''email'', JStr (lg_email s)), (''password'', JStr (lg_password s)),
          (''deviceFingerprint'', JStr (be_userAgent be))])))])"

fun Login_handle :: "ui_context \<Rightarrow> login_page \<Rightarrow> login_event \<Rightarrow> login_page \<times> effect list" where
  "Login_handle c s (LoginEmail x) = (s\<lparr>lg_email := x\<rparr>, [])"
| "Login_handle c s (LoginPassword x) = (s\<lparr>lg_password := x\<rparr>, [])"
| "Login_handle c s LoginTogglePassword = (s\<lparr>lg_showPassword := \<not> lg_showPassword s\<rparr>, [])"
| "Login_handle c s LoginSubmit =
     (if loginSchema (cx_env c) s then Login_onSubmit (cx_env c) (s\<lparr>lg_submitted := True\<rparr>)
      else (s\<lparr>lg_submitted := True\<rparr>, []))"
| "Login_handle c s LoginToSignup = (s, [Go ''/signup''])"

fun Login_settle :: "ui_context \<Rightarrow> login_page \<Rightarrow> api_call \<Rightarrow> json completion \<Rightarrow> login_page \<times> effect list" where
  "Login_settle c s call (Fulfilled response) =
     (s\<lparr>lg_isLoading := False\<rparr>,
      [Dispatch (SetCredentials (text_at ''accessToken'' response)
         (Some (text_at ''refreshToken'' response)) (user_at ''user'' response)),
       Go ''/''])"
| "Login_settle c s call (Rejected d) =
     (s\<lparr>lg_isLoading := False,
        lg_errorMsg := Some (error_message d ''Invalid email or password. Please try again.'')\<rparr>, [])"

section \<open>Signup\<close>

record signup_page =
  sg_name :: string
  sg_email :: string
  sg_password :: string
  sg_submitted :: bool
  sg_showPassword :: bool
  sg_errorMsg :: "json option"
  sg_successMsg :: "json option"
  sg_isLoading :: bool

definition Signup_init :: signup_page where
  "Signup_init = \<lparr>sg_name = '''', sg_email = '''', sg_password = '''', sg_submitted = False,
     sg_showPassword = False, sg_errorMsg = None, sg_successMsg = None, sg_isLoading = False\<rparr>"

datatype signup_event =
    SignupName string | SignupEmail string | SignupPassword string | SignupTogglePassword | SignupSubmit
  | SignupToLogin

definition signupSchema :: "browser_env \<Rightarrow> signup_page \<Rightarrow> bool" where
  "signupSchema be s \<longleftrightarrow>
     name_error (sg_name s) = None \<and> email_error be (sg_email s) = None \<and>
     password_error (sg_password s) = None"

definition Signup_view :: "ui_context \<Rightarrow> signup_page \<Rightarrow> signup_event ui" where
  "Signup_view c s =
     Box ([Txt ''Get Started'', Txt ''Create a collaborative workspace profile''] @
       alert_of Danger (sg_errorMsg s) @ alert_of Success (sg_successMsg s) @
       [FormBox (if sg_isLoading s then ''Creating Account...'' else ''Sign Up'')
          (\<not> (sg_isLoading s \<or> sg_successMsg s \<noteq> None)) SignupSubmit
          ([Input ''Full Name'' (sg_name s) SignupName] @
           helper_text (sg_submitted s) (name_error (sg_name s)) @
           [Input ''Email Address'' (sg_email s) SignupEmail] @
           helper_text (sg_submitted s) (email_error (cx_env c) (sg_email s)) @
           [Input ''Password'' (sg_password s) SignupPassword,
            Button (if sg_showPassword s then ''VisibilityOff'' else ''Visibility'') True SignupTogglePassword] @
           helper_text (sg_submitted s) (password_error (sg_password s))),
        Txt ''Already have an account?'',
        Tap ''/login'' SignupToLogin [Txt ''Sign in'']])"

definition Signup_onSubmit :: "signup_page \<Rightarrow> signup_page \<times> effect list" where
  "Signup_onSubmit s =
     (s\<lparr>sg_errorMsg := None, sg_successMsg := None, sg_isLoading := True\<rparr>,
      [Send (AuthCall (Signup (JObj
         [(''name'', JStr (sg_name s)), (''email'', JStr (sg_email s)),
          (''password'', JStr (sg_password s))])))])"

fun Signup_handle :: "ui_context \<Rightarrow> signup_page \<Rightarrow> signup_event \<Rightarrow> signup_page \<times> effect list" where
  "Signup_handle c s (SignupName x) = (s\<lparr>sg_name := x\<rparr>, [])"
| "Signup_handle c s (SignupEmail x) = (s\<lparr>sg_email := x\<rparr>, [])"
| "Signup_handle c s (SignupPassword x) = (s\<lparr>sg_password := x\<rparr>, [])"
| "Signup_handle c s SignupTogglePassword = (s\<lparr>sg_showPassword := \<not> sg_showPassword s\<rparr>, [])"
| "Signup_handle c s SignupSubmit =
     (if signupSchema (cx_env c) s then Signup_onSubmit (s\<lparr>sg_submitted := True\<rparr>)
      else (s\<lparr>sg_submitted := True\<rparr>, []))"
| "Signup_handle c s SignupToLogin = (s, [Go ''/login''])"

fun Signup_settle :: "ui_context \<Rightarrow> signup_page \<Rightarrow> api_call \<Rightarrow> json completion \<Rightarrow> signup_page \<times> effect list" where
  "Signup_settle c s call (Fulfilled response) =
     (s\<lparr>sg_isLoading := False,
        sg_successMsg := Some (JStr ''Account created successfully! Redirecting to sign in...'')\<rparr>,
      [GoLater 2000 ''/login''])"
| "Signup_settle c s call (Rejected d) =
     (s\<lparr>sg_isLoading := False,
        sg_errorMsg := Some (error_message d ''Failed to register. Email may already be in use.'')\<rparr>, [])"

section \<open>Settings\<close>

record settings_page =
  se_profileName :: string
  se_wsName :: string
  se_newWsName :: string

definition currentWorkspace :: "ui_context \<Rightarrow> workspace option" where
  "currentWorkspace c =
     find (\<lambda>w. Some (workspace_id w) = activeWorkspaceId c) (or_nil (fd_workspaces (cx_data c)))"

definition Settings_init :: "ui_context \<Rightarrow> settings_page" where
  "Settings_init c =
     \<lparr>se_profileName = or_empty (map_option info_name (current_user c)),
      se_wsName = or_empty (map_option workspace_name (currentWorkspace c)),
      se_newWsName = ''''\<rparr>"

datatype settings_event =
    SettingsProfileName string | SettingsWsName string | SettingsNewWsName string
  | UpdateProfile | UpdateWorkspaceName | CreateNewWorkspace

definition Settings_view :: "ui_context \<Rightarrow> settings_page \<Rightarrow> settings_event ui" where
  "Settings_view c s =
     Box ([Txt ''Settings'', Txt ''Configure personal credentials and active tenant workspace options.'',
        Box [Txt ''Profile Details'',
             Disabled ''Email'' (or_empty (map_option info_email (current_user c))),
             Input ''Full Name'' (se_profileName s) SettingsProfileName,
             Button ''Save Details'' (nonblank (se_profileName s)) UpdateProfile]] @
       (case currentWorkspace c of
          Some w \<Rightarrow>
            [Box [Txt ''Edit Workspace Details'',
                  Disabled ''Workspace Slug (ReadOnly)'' (workspace_slug w),
                  Input ''Workspace Name'' (se_wsName s) SettingsWsName,
                  Button ''Save Changes'' (nonblank (se_wsName s)) UpdateWorkspaceName]]
        | None \<Rightarrow> []) @
       [Box [Txt ''Create New Workspace'',
             Input ''Workspace Name'' (se_newWsName s) SettingsNewWsName,
             Button ''Create Workspace'' (nonblank (se_newWsName s)) CreateNewWorkspace]])"

definition no_patch :: user_patch where
  "no_patch = \<lparr>up_id = None, up_email = None, up_name = None, up_avatar = None, up_isVerified = None\<rparr>"

definition handleUpdateProfile :: "settings_page \<Rightarrow> settings_page \<times> effect list" where
  "handleUpdateProfile s =
     (if \<not> nonblank (se_profileName s) then (s, [])
      else (s, [Dispatch (UpdateUser (no_patch\<lparr>up_name := Some (se_profileName s)\<rparr>)),
                snack Success ''Profile updated successfully!'']))"

definition handleUpdateWorkspace :: "ui_context \<Rightarrow> settings_page \<Rightarrow> settings_page \<times> effect list" where
  "handleUpdateWorkspace c s =
     (if \<not> nonblank (se_wsName s) \<or> \<not> truthy (activeWorkspaceId c) then (s, [])
      else (s, [Send (WorkspaceCall (UpdateWorkspace (the (activeWorkspaceId c))
                  (JObj [(''name'', JStr (se_wsName s))])))]))"

definition handleCreateWorkspace :: "settings_page \<Rightarrow> settings_page \<times> effect list" where
  "handleCreateWorkspace s =
     (if \<not> nonblank (se_newWsName s) then (s, [])
      else (s, [Send (WorkspaceCall (CreateWorkspace (JObj [(''name'', JStr (se_newWsName s))])))]))"

fun Settings_handle :: "ui_context \<Rightarrow> settings_page \<Rightarrow> settings_event \<Rightarrow> settings_page \<times> effect list" where
  "Settings_handle c s (SettingsProfileName x) = (s\<lparr>se_profileName := x\<rparr>, [])"
| "Settings_handle c s (SettingsWsName x) = (s\<lparr>se_wsName := x\<rparr>, [])"
| "Settings_handle c s (SettingsNewWsName x) = (s\<lparr>se_newWsName := x\<rparr>, [])"
| "Settings_handle c s UpdateProfile = handleUpdateProfile s"
| "Settings_handle c s UpdateWorkspaceName = handleUpdateWorkspace c s"
| "Settings_handle c s CreateNewWorkspace = handleCreateWorkspace s"

text \<open>The request tells which of the two handlers awaits it.\<close>

fun Settings_settle ::
  "ui_context \<Rightarrow> settings_page \<Rightarrow> api_call \<Rightarrow> json completion \<Rightarrow> settings_page \<times> effect list" where
  "Settings_settle c s (WorkspaceCall (UpdateWorkspace i d)) (Fulfilled response) =
     (s, [snack Success ''Workspace updated successfully!''])"
| "Settings_settle c s (WorkspaceCall (UpdateWorkspace i d)) (Rejected e) =
     (s, [Snack Danger (error_message e ''Failed to update workspace'')])"
| "Settings_settle c s (WorkspaceCall (CreateWorkspace d)) (Fulfilled response) =
     (s\<lparr>se_newWsName := ''''\<rparr>,
      [Dispatch (SetActiveWorkspaceId (Some (text_at ''id'' response))),
       snack Success ''New workspace created!''])"
| "Settings_settle c s (WorkspaceCall (CreateWorkspace d)) (Rejected e) =
     (s, [Snack Danger (error_message e ''Failed to create workspace'')])"
| "Settings_settle c s _ r = (s, [])"

section \<open>Members\<close>

record members_page =
  me_email :: string
  me_role :: string

definition Members_init :: members_page where
  "Members_init = \<lparr>me_email = '''', me_role = ''MEMBER''\<rparr>"

datatype members_event = MembersEmail string | MembersRole string | Invite

definition member_item :: "workspace_member \<times> user option \<Rightarrow> 'e ui" where
  \<comment> \<open>\<open>member.user?.name\<close>: nothing is shown of a missing user\<close>
  "member_item m =
     Box ((case snd m of
             Some u \<Rightarrow> [Txt (initial_of (user_name u)), Txt (user_name u), Txt (user_email u)]
           | None \<Rightarrow> []) @
          [Txt (member_role (fst m))])"

definition Members_view :: "ui_context \<Rightarrow> members_page \<Rightarrow> members_event ui" where
  "Members_view c s =
     (if \<not> truthy (activeWorkspaceId c) then
        EmptyState ''No Workspace Selected''
          ''Select a workspace from the sidebar switcher to access team member details.'' None
      else if fd_membersLoading (cx_data c) then Loader
      else
        Box [Txt ''Workspace Members'',
             Txt ''Invite teammates, adjust roles, and coordinate access permissions.'',
             Txt ''Invite New Member'',
             FormBox ''Invite'' (nonblank (me_email s)) Invite
               [Input ''Email Address'' (me_email s) MembersEmail,
                Choice ''role'' (me_role s) [(''MEMBER'', ''Member''), (''ADMIN'', ''Administrator'')] MembersRole],
             Box (map member_item (or_nil (fd_members (cx_data c))))])"

definition handleInvite :: "ui_context \<Rightarrow> members_page \<Rightarrow> members_page \<times> effect list" where
  "handleInvite c s =
     (if \<not> nonblank (me_email s) then (s, [])
      else (s, [Send (WorkspaceCall (InviteWorkspaceMember (the (activeWorkspaceId c))
                  (JObj [(''email'', JStr (me_email s)), (''role'', JStr (me_role s))])))]))"

fun Members_handle :: "ui_context \<Rightarrow> members_page \<Rightarrow> members_event \<Rightarrow> members_page \<times> effect list" where
  "Members_handle c s (MembersEmail x) = (s\<lparr>me_email := x\<rparr>, [])"
| "Members_handle c s (MembersRole x) = (s\<lparr>me_role := x\<rparr>, [])"
| "Members_handle c s Invite = handleInvite c s"

fun Members_settle ::
  "ui_context \<Rightarrow> members_page \<Rightarrow> api_call \<Rightarrow> json completion \<Rightarrow> members_page \<times> effect list" where
  "Members_settle c s call (Fulfilled response) =
     (s\<lparr>me_email := '''', me_role := ''MEMBER''\<rparr>, [snack Success ''Invitation sent and member added!''])"
| "Members_settle c s call (Rejected e) =
     (s, [Snack Danger
            (error_message e ''Failed to invite user. Make sure the user is registered first.'')])"

section \<open>Projects\<close>

record projects_page =
  pr_openCreate :: bool
  pr_name :: string
  pr_description :: string
  pr_deleteId :: "string option"

definition Projects_init :: projects_page where
  "Projects_init = \<lparr>pr_openCreate = False, pr_name = '''', pr_description = '''', pr_deleteId = None\<rparr>"

datatype projects_event =
    ProjectsOpenCreate bool | ProjectsName string | ProjectsDescription string | CreateProjectNow
  | ProjectsDeleteId "string option" | DeleteProjectNow | SelectProject string

definition project_card :: "project \<Rightarrow> projects_event ui" where
  "project_card proj =
     Box [Txt (project_name proj),
          Txt (or_str (project_description proj) ''No description provided.''),
          Button ''View Board'' True (SelectProject (project_id proj)),
          Button ''Delete'' True (ProjectsDeleteId (Some (project_id proj)))]"

definition Projects_view :: "ui_context \<Rightarrow> projects_page \<Rightarrow> projects_event ui" where
  "Projects_view c s =
     (if \<not> truthy (activeWorkspaceId c) then
        EmptyState ''No Workspace Selected''
          ''Please select a workspace from the sidebar switcher to access projects.'' None
      else if fd_projectsLoading (cx_data c) then Loader
      else
        Box [Txt ''Projects'', Txt ''Manage your workspace roadmap, teams, and timelines.'',
             Button ''New Project'' True (ProjectsOpenCreate True),
             (if or_nil (fd_projects (cx_data c)) = [] then
                EmptyState ''No Projects Found''
                  ''Create your first workspace project to start logging tasks and subtasks!''
                  (Some (''Create Project'', ProjectsOpenCreate True))
              else Box (map project_card (or_nil (fd_projects (cx_data c))))),
             Modal ''Create New Project'' (pr_openCreate s) (ProjectsOpenCreate False)
               [Input ''Project Name'' (pr_name s) ProjectsName,
                Input ''Description'' (pr_description s) ProjectsDescription,
                Button ''Cancel'' True (ProjectsOpenCreate False),
                Button ''Create'' (nonblank (pr_name s)) CreateProjectNow],
             ConfirmDialog (truthy (pr_deleteId s)) ''Delete Project?''
               ''Are you absolutely sure you want to delete this project? This will permanently delete all associated tasks, subtasks, and comments. This action cannot be undone.''
               ''Confirm'' ''Cancel'' DeleteProjectNow (ProjectsDeleteId None) False])"

definition Projects_handleCreate :: "ui_context \<Rightarrow> projects_page \<Rightarrow> projects_page \<times> effect list" where
  "Projects_handleCreate c s =
     (if \<not> nonblank (pr_name s) then (s, [])
      else (s, [Send (ProjectCall (CreateProject (the (activeWorkspaceId c))
                  (JObj [(''name'', JStr (pr_name s)), (''description'', JStr (pr_description s))])))]))"

definition Projects_handleDelete :: "ui_context \<Rightarrow> projects_page \<Rightarrow> projects_page \<times> effect list" where
  "Projects_handleDelete c s =
     (if \<not> truthy (pr_deleteId s) then (s, [])
      else (s, [Send (ProjectCall (DeleteProject (the (activeWorkspaceId c)) (the (pr_deleteId s))))]))"

fun Projects_handle :: "ui_context \<Rightarrow> projects_page \<Rightarrow> projects_event \<Rightarrow> projects_page \<times> effect list" where
  "Projects_handle c s (ProjectsOpenCreate b) = (s\<lparr>pr_openCreate := b\<rparr>, [])"
| "Projects_handle c s (ProjectsName x) = (s\<lparr>pr_name := x\<rparr>, [])"
| "Projects_handle c s (ProjectsDescription x) = (s\<lparr>pr_description := x\<rparr>, [])"
| "Projects_handle c s CreateProjectNow = Projects_handleCreate c s"
| "Projects_handle c s (ProjectsDeleteId i) = (s\<lparr>pr_deleteId := i\<rparr>, [])"
| "Projects_handle c s DeleteProjectNow = Projects_handleDelete c s"
| "Projects_handle c s (SelectProject i) =
     (s, [Dispatch (SetActiveProjectId (Some i)), Go ''/tasks''])"

fun Projects_settle ::
  "ui_context \<Rightarrow> projects_page \<Rightarrow> api_call \<Rightarrow> json completion \<Rightarrow> projects_page \<times> effect list" where
  "Projects_settle c s (ProjectCall (CreateProject w d)) (Fulfilled response) =
     (s\<lparr>pr_openCreate := False, pr_name := '''', pr_description := ''''\<rparr>,
      [snack Success ''Project created successfully!''])"
| "Projects_settle c s (ProjectCall (CreateProject w d)) (Rejected e) =
     (s, [Snack Danger (error_message e ''Failed to create project'')])"
| "Projects_settle c s (ProjectCall (DeleteProject w i)) (Fulfilled response) =
     (s\<lparr>pr_deleteId := None\<rparr>, [snack Success ''Project deleted successfully!''])"
| "Projects_settle c s (ProjectCall (DeleteProject w i)) (Rejected e) =
     (s, [Snack Danger (error_message e ''Failed to delete project'')])"
| "Projects_settle c s _ r = (s, [])"

end
