(* ===== verification/TaskPages.thy ===== *)
theory TaskPages
  imports Pages
begin

text \<open>
  The task board, \<open>src/frontend/src/pages/Tasks.tsx\<close>, and the drawer with the details of a
  task, \<open>components/task/TaskDetailsDrawer.tsx\<close>, which the board contains.
\<close>

section \<open>The details of a task\<close>

record drawer_page =
  dr_commentText :: string
  dr_subtaskTitle :: string

definition Drawer_init :: drawer_page where
  "Drawer_init = \<lparr>dr_commentText = '''', dr_subtaskTitle = ''''\<rparr>"

datatype drawer_event =
    CloseDrawer
  | FieldChange string json
  | SubtaskTitle string
  | AddSubtask
  | CommentText string
  | AddCommentNow
  | OpenSubtask string

definition selectedTaskId :: "ui_context \<Rightarrow> string option" where
  "selectedTaskId c = tk_selectedTaskId (st_task (cx_browser c))"

text \<open>The queries of the drawer; \<open>skip\<close> leaves them out.\<close>

definition TaskDetailsDrawer_queries :: "ui_context \<Rightarrow> api_call list" where
  "TaskDetailsDrawer_queries c =
     (let w = activeWorkspaceId c; t = selectedTaskId c
      in (if truthy w then [WorkspaceCall (GetWorkspaceMembers (the w))] else []) @
         (if truthy w \<and> truthy t then
            [TaskCall (GetTaskById (the w) (the t)), OtherCall (GetComments (the w) (the t)),
             TaskCall (GetSubtaskTree (the w) (the t))]
          else []))"

text \<open>\<open>m.user.id\<close> throws when a member has no user.\<close>

definition member_options :: "(user \<Rightarrow> string) \<Rightarrow> ui_context \<Rightarrow> (string \<times> string) list option" where
  "member_options text c =
     those (map (\<lambda>m. map_option (\<lambda>u. (user_id u, text u)) (snd m)) (or_nil (fd_members (cx_data c))))"

definition status_options :: "(string \<times> string) list" where
  "status_options = [(''TODO'', ''To Do''), (''IN_PROGRESS'', ''In Progress''), (''BLOCKED'', ''Blocked''),
     (''DONE'', ''Completed'')]"

definition priority_options :: "(string \<times> string) list" where
  "priority_options = [(''LOW'', ''Low''), (''MEDIUM'', ''Medium''), (''HIGH'', ''High''),
     (''CRITICAL'', ''Critical'')]"

text \<open>\<open>new Date(s)\<close> in a JSON body: an invalid date becomes \<open>null\<close>.\<close>

definition date_json :: "browser_env \<Rightarrow> string \<Rightarrow> json" where
  "date_json be s = json_opt (\<lambda>d. JStr (be_toISOString be d)) (be_parseDate be s)"

definition assignee_choice :: "ui_context \<Rightarrow> task \<Rightarrow> drawer_event ui" where
  "assignee_choice c t =
     (case member_options (\<lambda>u. user_name u @ '' ('' @ user_email u @ '')'') c of
        None \<Rightarrow> Throws
      | Some opts \<Rightarrow>
          Choice ''ASSIGNEE'' (or_str (task_assignedTo t) ''UNASSIGNED'')
            ((''UNASSIGNED'', ''Unassigned'') # opts)
            (\<lambda>x. FieldChange ''assignedTo'' (if x = ''UNASSIGNED'' then JNull else JStr x)))"

definition parameter_fields :: "ui_context \<Rightarrow> task \<Rightarrow> drawer_event ui list" where
  "parameter_fields c t =
     [Choice ''STATUS'' (task_status t) status_options (\<lambda>x. FieldChange ''status'' (JStr x)),
      Choice ''PRIORITY'' (task_priority t) priority_options (\<lambda>x. FieldChange ''priority'' (JStr x)),
      assignee_choice c t,
      Input ''DUE DATE''
        (case task_dueDate t of None \<Rightarrow> '''' | Some d \<Rightarrow> take 10 (be_toISOString (cx_env c) d))
        (\<lambda>x. FieldChange ''dueDate'' (if x \<noteq> [] then date_json (cx_env c) x else JNull))]"

fun subtask_card :: "task_node \<Rightarrow> drawer_event ui" where
  "subtask_card (TaskNode r subTasks) =
     Tap (row_id r) (OpenSubtask (row_id r)) [Txt (row_title r), Txt (row_status r)]"

definition subtask_list :: "ui_context \<Rightarrow> drawer_event ui" where
  "subtask_list c =
     (case fd_tree (cx_data c) of
        Some (TaskNode r (st # sts)) \<Rightarrow> Box (map subtask_card (st # sts))
      | _ \<Rightarrow> Box [Txt ''No subtasks created yet.''])"

definition comment_card :: "ui_context \<Rightarrow> task_comment \<times> user option \<Rightarrow> drawer_event ui" where
  "comment_card c x =
     Box ((case snd x of Some u \<Rightarrow> [Txt (initial_of (user_name u)), Txt (user_name u)] | None \<Rightarrow> []) @
       [Txt (be_toLocaleDateString (cx_env c) (comment_createdAt (fst x))), Txt (comment_message (fst x))])"

definition TaskDetailsDrawer_view :: "ui_context \<Rightarrow> drawer_page \<Rightarrow> drawer_event ui" where
  "TaskDetailsDrawer_view c s =
     (if \<not> truthy (selectedTaskId c) then Box []
      else
        Modal ''Task Details Drawer'' True CloseDrawer
          (case (fd_taskLoading (cx_data c), fd_task (cx_data c)) of
             (False, Some v) \<Rightarrow>
               [Txt ''Task Details'', Button ''Close'' True CloseDrawer,
                Input ''Task Title'' (task_title (view_task v)) (\<lambda>x. FieldChange ''title'' (JStr x)),
                Input ''Description'' (or_empty (task_description (view_task v)))
                  (\<lambda>x. FieldChange ''description'' (JStr x)),
                Box (parameter_fields c (view_task v)),
                Txt ''Subtasks'',
                FormBox ''Send Subtask'' (nonblank (dr_subtaskTitle s)) AddSubtask
                  [Input ''Add subtask...'' (dr_subtaskTitle s) SubtaskTitle],
                subtask_list c,
                Txt ''Comments'',
                FormBox ''Send Comment'' (nonblank (dr_commentText s)) AddCommentNow
                  [Input ''Write a comment...'' (dr_commentText s) CommentText],
                Box (map (comment_card c) (or_nil (fd_comments (cx_data c))))]
           | _ \<Rightarrow> [Loader]))"

definition handleAddSubtask :: "ui_context \<Rightarrow> drawer_page \<Rightarrow> drawer_page \<times> effect list" where
  "handleAddSubtask c s =
     (case fd_task (cx_data c) of
        None \<Rightarrow> (s, [])
      | Some v \<Rightarrow>
          if \<not> nonblank (dr_subtaskTitle s) then (s, [])
          else (s, [Send (TaskCall (CreateTask (the (activeWorkspaceId c)) (task_projectId (view_task v))
                  (JObj [(''title'', JStr (dr_subtaskTitle s)),
                         (''parentTaskId'', JStr (the (selectedTaskId c)))])))]))"

text \<open>Reading \<open>task.version\<close> of no task throws inside the \<open>try\<close>.\<close>

definition handleFieldChange ::
  "ui_context \<Rightarrow> string \<Rightarrow> json \<Rightarrow> drawer_page \<Rightarrow> drawer_page \<times> effect list" where
  "handleFieldChange c field v s =
     (case fd_task (cx_data c) of
        None \<Rightarrow> (s, [snack Danger ''Failed to update task''])
      | Some x \<Rightarrow>
          (s, [Send (TaskCall (UpdateTask (the (activeWorkspaceId c)) (the (selectedTaskId c))
             (JObj [(field, v), (''version'', JNum (int (task_version (view_task x))))])))]))"

definition handleAddComment :: "ui_context \<Rightarrow> drawer_page \<Rightarrow> drawer_page \<times> effect list" where
  "handleAddComment c s =
     (if \<not> nonblank (dr_commentText s) then (s, [])
      else (s, [Send (OtherCall (AddComment (the (activeWorkspaceId c)) (the (selectedTaskId c))
                  (JObj [(''message'', JStr (dr_commentText s))])))]))"

fun TaskDetailsDrawer_handle ::
  "ui_context \<Rightarrow> drawer_page \<Rightarrow> drawer_event \<Rightarrow> drawer_page \<times> effect list" where
  "TaskDetailsDrawer_handle c s CloseDrawer = (s, [Dispatch (SetSelectedTaskId None)])"
| "TaskDetailsDrawer_handle c s (FieldChange field v) = handleFieldChange c field v s"
| "TaskDetailsDrawer_handle c s (SubtaskTitle x) = (s\<lparr>dr_subtaskTitle := x\<rparr>, [])"
| "TaskDetailsDrawer_handle c s AddSubtask = handleAddSubtask c s"
| "TaskDetailsDrawer_handle c s (CommentText x) = (s\<lparr>dr_commentText := x\<rparr>, [])"
| "TaskDetailsDrawer_handle c s AddCommentNow = handleAddComment c s"
| "TaskDetailsDrawer_handle c s (OpenSubtask i) = (s, [Dispatch (SetSelectedTaskId (Some i))])"

fun TaskDetailsDrawer_settle ::
  "ui_context \<Rightarrow> drawer_page \<Rightarrow> api_call \<Rightarrow> json completion \<Rightarrow> drawer_page \<times> effect list" where
  "TaskDetailsDrawer_settle c s (TaskCall (CreateTask w p d)) (Fulfilled r) =
     (s\<lparr>dr_subtaskTitle := ''''\<rparr>, [snack Success ''Subtask created successfully''])"
| "TaskDetailsDrawer_settle c s (TaskCall (CreateTask w p d)) (Rejected e) =
     (s, [Snack Danger (error_message e ''Failed to create subtask'')])"
| "TaskDetailsDrawer_settle c s (TaskCall (UpdateTask w t d)) (Rejected e) =
     (s, [Snack Danger (error_message e ''Failed to update task'')])"
| "TaskDetailsDrawer_settle c s (OtherCall (AddComment w t d)) (Fulfilled r) =
     (s\<lparr>dr_commentText := ''''\<rparr>, [])"
| "TaskDetailsDrawer_settle c s (OtherCall (AddComment w t d)) (Rejected e) =
     (s, [Snack Danger (error_message e ''Failed to post comment'')])"
| "TaskDetailsDrawer_settle c s _ r = (s, [])"

section \<open>The board\<close>

record tasks_page =
  ts_openCreate :: bool
  ts_title :: string
  ts_description :: string
  ts_priority :: string
  ts_assignedTo :: string
  ts_dueDate :: string

definition Tasks_init :: tasks_page where
  "Tasks_init = \<lparr>ts_openCreate = False, ts_title = '''', ts_description = '''', ts_priority = ''MEDIUM'',
     ts_assignedTo = ''UNASSIGNED'', ts_dueDate = ''''\<rparr>"

datatype tasks_event =
    TasksProject string
  | TasksView string
  | TasksOpenCreate bool
  | TasksTitle string
  | TasksDescription string
  | TasksPriority string
  | TasksAssignedTo string
  | TasksDueDate string
  | CreateTaskNow
  | DragEnd string "string option"
  | OpenTask string
  | LeaveProjects
  | InDrawer drawer_event

definition activeProjectId :: "ui_context \<Rightarrow> string option" where
  "activeProjectId c = pj_activeProjectId (st_project (cx_browser c))"

definition Tasks_projects :: "ui_context \<Rightarrow> project list" where
  "Tasks_projects c = or_nil (fd_projects (cx_data c))"

definition Tasks_tasks :: "ui_context \<Rightarrow> (task \<times> user option) list" where
  "Tasks_tasks c = (case fd_tasks (cx_data c) of None \<Rightarrow> [] | Some p \<Rightarrow> page_items p)"

definition Tasks_queries :: "ui_context \<Rightarrow> api_call list" where
  "Tasks_queries c =
     (let w = activeWorkspaceId c; p = activeProjectId c
      in (if truthy w then [ProjectCall (GetProjects (the w)), WorkspaceCall (GetWorkspaceMembers (the w))] else []) @
         (if truthy w \<and> truthy p then [TaskCall (GetTasks (the w) (the p) [])] else []))"

text \<open>The effect that keeps a project selected.\<close>

definition select_project :: "project list \<Rightarrow> browser \<Rightarrow> action list" where
  "select_project ps b =
     (let active = pj_activeProjectId (st_project b)
      in if ps \<noteq> [] then
           (if \<not> truthy active \<or> \<not> list_ex (\<lambda>p. Some (project_id p) = active) ps
            then [SetActiveProjectId (Some (project_id (hd ps)))] else [])
         else [SetActiveProjectId None])"

fun view_value :: "task_view_mode \<Rightarrow> string" where
  "view_value ListView = ''list''"
| "view_value BoardView = ''board''"
| "view_value CalendarView = ''calendar''"
| "view_value TimelineView = ''timeline''"
| "view_value TableView = ''table''"

definition view_mode_of :: "string \<Rightarrow> task_view_mode" where
  \<comment> \<open>the values of the three tabs\<close>
  "view_mode_of s = (if s = ''list'' then ListView else if s = ''table'' then TableView else BoardView)"

definition DraggableTaskCard :: "task \<times> user option \<Rightarrow> tasks_event ui" where
  "DraggableTaskCard x =
     Draggable (task_id (fst x)) (OpenTask (task_id (fst x)))
       ([Txt (task_title (fst x)), Txt (task_priority (fst x))] @
        (case snd x of Some u \<Rightarrow> [Txt (initial_of (user_name u))] | None \<Rightarrow> []))"

definition DroppableColumn :: "string \<Rightarrow> string \<Rightarrow> (task \<times> user option) list \<Rightarrow> tasks_event ui" where
  "DroppableColumn status title ts =
     DropZone status ([Txt title, Txt (show_nat (length ts))] @ map DraggableTaskCard ts)"

definition tasks_with :: "string \<Rightarrow> ui_context \<Rightarrow> (task \<times> user option) list" where
  "tasks_with status c = filter (\<lambda>x. task_status (fst x) = status) (Tasks_tasks c)"

definition board_view :: "ui_context \<Rightarrow> tasks_event ui" where
  "board_view c =
     DragArea DragEnd
       [DroppableColumn ''TODO'' ''To Do'' (tasks_with ''TODO'' c),
        DroppableColumn ''IN_PROGRESS'' ''In Progress'' (tasks_with ''IN_PROGRESS'' c),
        DroppableColumn ''BLOCKED'' ''Blocked'' (tasks_with ''BLOCKED'' c),
        DroppableColumn ''DONE'' ''Completed'' (tasks_with ''DONE'' c)]"

definition list_item :: "task \<times> user option \<Rightarrow> tasks_event ui" where
  "list_item x =
     Tap (task_id (fst x)) (OpenTask (task_id (fst x)))
       [Txt (task_title (fst x)), Txt (task_status (fst x)), Txt (task_priority (fst x))]"

definition list_view :: "ui_context \<Rightarrow> tasks_event ui" where
  "list_view c =
     (if Tasks_tasks c = [] then Box [Txt ''No tasks logged.''] else Box (map list_item (Tasks_tasks c)))"

definition table_row :: "ui_context \<Rightarrow> task \<times> user option \<Rightarrow> tasks_event ui" where
  "table_row c x =
     Tap (task_id (fst x)) (OpenTask (task_id (fst x)))
       [Txt (task_title (fst x)), Txt (task_status (fst x)), Txt (task_priority (fst x)),
        Txt (or_str (map_option user_name (snd x)) ''Unassigned''),
        Txt (case task_dueDate (fst x) of None \<Rightarrow> ''None''
             | Some d \<Rightarrow> be_toLocaleDateString (cx_env c) d)]"

text \<open>The data grid shows five rows at a time; its pager reaches the others.\<close>

definition table_view :: "ui_context \<Rightarrow> tasks_event ui" where
  "table_view c =
     Box (map Txt [''Title'', ''Status'', ''Priority'', ''Assignee'', ''Due Date''] @
          map (table_row c) (Tasks_tasks c))"

definition create_dialog :: "ui_context \<Rightarrow> tasks_page \<Rightarrow> tasks_event ui" where
  "create_dialog c s =
     Modal ''Create New Task'' (ts_openCreate s) (TasksOpenCreate False)
       [Input ''Task Title'' (ts_title s) TasksTitle,
        Input ''Description'' (ts_description s) TasksDescription,
        Choice ''priority'' (ts_priority s) priority_options TasksPriority,
        (case member_options user_name c of
           None \<Rightarrow> Throws
         | Some opts \<Rightarrow>
             Choice ''assignedTo'' (ts_assignedTo s) ((''UNASSIGNED'', ''Unassigned'') # opts) TasksAssignedTo),
        Input ''Due Date'' (ts_dueDate s) TasksDueDate,
        Button ''Cancel'' True (TasksOpenCreate False),
        Button ''Create'' (nonblank (ts_title s)) CreateTaskNow]"

definition Tasks_header :: "ui_context \<Rightarrow> tasks_event ui" where
  "Tasks_header c =
     Box ([Txt ''Project:'',
           Choice ''project'' (or_empty (activeProjectId c))
             (map (\<lambda>p. (project_id p, project_name p)) (Tasks_projects c)) TasksProject] @
          (if truthy (activeProjectId c) then
             [Choice ''view'' (view_value (tk_view (st_task (cx_browser c))))
                [(''board'', ''Board''), (''list'', ''List''), (''table'', ''Table'')] TasksView,
              Button ''New Task'' True (TasksOpenCreate True)]
           else []))"

definition Tasks_content :: "ui_context \<Rightarrow> tasks_event ui" where
  "Tasks_content c =
     (if \<not> truthy (activeProjectId c) then
        EmptyState ''Select a Project'' ''Select a project from the top dropdown selector to manage tasks.'' None
      else if fd_tasksLoading (cx_data c) then Loader
      else
        (case tk_view (st_task (cx_browser c)) of
           BoardView \<Rightarrow> Box [board_view c]
         | ListView \<Rightarrow> Box [list_view c]
         | TableView \<Rightarrow> Box [table_view c]
         | _ \<Rightarrow> Box []))"

text \<open>The drawer is a child of the page only when there is a project to show.\<close>

definition Tasks_shows_drawer :: "ui_context \<Rightarrow> bool" where
  "Tasks_shows_drawer c \<longleftrightarrow> truthy (activeWorkspaceId c) \<and> Tasks_projects c \<noteq> []"

definition Tasks_view :: "ui_context \<Rightarrow> tasks_page \<times> drawer_page \<Rightarrow> tasks_event ui" where
  "Tasks_view c x =
     (if \<not> truthy (activeWorkspaceId c) then
        EmptyState ''No Workspace Selected''
          ''Please select a workspace from the sidebar switcher to access tasks.'' None
      else if Tasks_projects c = [] then
        EmptyState ''No Projects Available'' ''You need to create a project before adding or managing tasks.''
          (Some (''Go to Projects'', LeaveProjects))
      else
        Box [Tasks_header c, Tasks_content c, map_ui InDrawer (TaskDetailsDrawer_view c (snd x)),
             create_dialog c (fst x)])"

text \<open>
  \<open>handleCreateTask\<close>: JSON leaves out what is \<open>undefined\<close>; \<open>toISOString\<close> of an invalid
  date throws inside the \<open>try\<close>.
\<close>

definition handleCreateTask :: "ui_context \<Rightarrow> tasks_page \<Rightarrow> tasks_page \<times> effect list" where
  "handleCreateTask c s =
     (if \<not> nonblank (ts_title s) then (s, [])
      else if ts_dueDate s \<noteq> [] \<and> be_parseDate (cx_env c) (ts_dueDate s) = None then
        (s, [snack Danger ''Failed to create task''])
      else (s, [Send (TaskCall (CreateTask (the (activeWorkspaceId c)) (the (activeProjectId c))
        (JObj ([(''title'', JStr (ts_title s)), (''description'', JStr (ts_description s)),
                (''priority'', JStr (ts_priority s))] @
               (if ts_assignedTo s = ''UNASSIGNED'' then [] else [(''assignedTo'', JStr (ts_assignedTo s))]) @
               (if ts_dueDate s \<noteq> [] then [(''dueDate'', date_json (cx_env c) (ts_dueDate s))] else [])))))]))"

definition handleDragEnd :: "ui_context \<Rightarrow> string \<Rightarrow> string option \<Rightarrow> effect list" where
  "handleDragEnd c taskId over =
     (case over of
        None \<Rightarrow> []
      | Some newStatus \<Rightarrow>
          (case find (\<lambda>x. task_id (fst x) = taskId) (Tasks_tasks c) of
             None \<Rightarrow> []
           | Some x \<Rightarrow>
               if task_status (fst x) \<noteq> newStatus then
                 [Send (TaskCall (UpdateTask (the (activeWorkspaceId c)) taskId
                    (JObj [(''status'', JStr newStatus), (''version'', JNum (int (task_version (fst x))))])))]
               else []))"

fun Tasks_handle ::
  "ui_context \<Rightarrow> tasks_page \<times> drawer_page \<Rightarrow> tasks_event \<Rightarrow> (tasks_page \<times> drawer_page) \<times> effect list" where
  "Tasks_handle c (s, d) (TasksProject i) = ((s, d), [Dispatch (SetActiveProjectId (Some i))])"
| "Tasks_handle c (s, d) (TasksView v) = ((s, d), [Dispatch (SetView (view_mode_of v))])"
| "Tasks_handle c (s, d) (TasksOpenCreate b) = ((s\<lparr>ts_openCreate := b\<rparr>, d), [])"
| "Tasks_handle c (s, d) (TasksTitle x) = ((s\<lparr>ts_title := x\<rparr>, d), [])"
| "Tasks_handle c (s, d) (TasksDescription x) = ((s\<lparr>ts_description := x\<rparr>, d), [])"
| "Tasks_handle c (s, d) (TasksPriority x) = ((s\<lparr>ts_priority := x\<rparr>, d), [])"
| "Tasks_handle c (s, d) (TasksAssignedTo x) = ((s\<lparr>ts_assignedTo := x\<rparr>, d), [])"
| "Tasks_handle c (s, d) (TasksDueDate x) = ((s\<lparr>ts_dueDate := x\<rparr>, d), [])"
| "Tasks_handle c (s, d) CreateTaskNow = (case handleCreateTask c s of (s', fx) \<Rightarrow> ((s', d), fx))"
| "Tasks_handle c (s, d) (DragEnd i over) = ((s, d), handleDragEnd c i over)"
| "Tasks_handle c (s, d) (OpenTask i) = ((s, d), [Dispatch (SetSelectedTaskId (Some i))])"
| "Tasks_handle c (s, d) LeaveProjects = ((s, d), [Dispatch (SetActiveProjectId None)])"
| "Tasks_handle c (s, d) (InDrawer e) =
     (case TaskDetailsDrawer_handle c d e of (d', fx) \<Rightarrow> ((s, d'), fx))"

fun Tasks_settle_own :: "tasks_page \<Rightarrow> api_call \<Rightarrow> json completion \<Rightarrow> tasks_page \<times> effect list" where
  "Tasks_settle_own s (TaskCall (CreateTask w p b)) (Fulfilled r) =
     (Tasks_init, [snack Success ''Task created successfully!''])"
| "Tasks_settle_own s (TaskCall (CreateTask w p b)) (Rejected e) =
     (s, [Snack Danger (error_message e ''Failed to create task'')])"
| "Tasks_settle_own s (TaskCall (UpdateTask w t b)) (Rejected e) =
     (s, [Snack Danger (error_message e ''Failed to update task status'')])"
| "Tasks_settle_own s _ r = (s, [])"

end
