(* ===== verification/Shell.thy ===== *)
theory Shell
  imports TaskPages Workspaces "HOL-Library.Log_Nat" "HOL-Library.Sublist"
begin

text \<open>
  The frame around the pages: the read-only pages (Dashboard, Admin, ActivityLog), the layout with
  its sidebar, navigation bar and notification drawer, the command palette and the theme
  (\<open>src/frontend/src/components/layout\<close>, \<open>components/common/CommandPalette.tsx\<close>,
  \<open>theme/ThemeContext.tsx\<close>).
\<close>

section \<open>Dashboard\<close>

text \<open>
  \<open>Math.round((completed / total) * 100)\<close> in double arithmetic: a quotient and a product are
  rounded to 53 bits, to the even neighbour when in the middle. A double is \<open>m / 2 ^ k\<close>.
\<close>

definition round_even :: "nat \<Rightarrow> nat \<Rightarrow> nat" where
  "round_even p q =
     (let n = p div q; r = p mod q
      in if 2 * r < q \<or> (2 * r = q \<and> even n) then n else Suc n)"

definition double_quotient :: "nat \<Rightarrow> nat \<Rightarrow> nat \<times> nat" where
  \<comment> \<open>for \<open>0 < a \<le> b\<close>\<close>
  "double_quotient a b =
     (let k = 53 + floorlog 2 b - floorlog 2 a; k = (if a * 2 ^ (k - 1) < 2 ^ 52 * b then k else k - 1)
      in (round_even (a * 2 ^ k) b, k))"

definition double_times :: "nat \<times> nat \<Rightarrow> nat \<Rightarrow> nat \<times> nat" where
  "double_times x n =
     (let p = fst x * n; s = floorlog 2 p - 53 in (round_even p (2 ^ s), snd x - s))"

definition math_round :: "nat \<times> nat \<Rightarrow> nat" where
  "math_round x = (2 * fst x + 2 ^ snd x) div (2 * 2 ^ snd x)"

definition completion_percent :: "nat \<Rightarrow> nat \<Rightarrow> nat" where
  "completion_percent completed all =
     (if completed = 0 then 0 else math_round (double_times (double_quotient completed all) 100))"

definition Dashboard_queries :: "ui_context \<Rightarrow> api_call list" where
  "Dashboard_queries c =
     (if truthy (activeWorkspaceId c) then [OtherCall (GetDashboardMetrics (the (activeWorkspaceId c)))] else [])"

definition stat_cards :: "summary \<Rightarrow> 'e ui" where
  "stat_cards m =
     Box (map (\<lambda>(title, n). Box [Txt title, Txt (show_nat n)])
       [(''Total Tasks'', sm_totalTasks m), (''Completed Tasks'', sm_completedTasks m),
        (''Overdue Tasks'', sm_overdueTasks m), (''Upcoming Tasks'', sm_upcomingTasks m)])"

definition chart :: "string \<Rightarrow> (string \<times> nat) list \<Rightarrow> 'e ui" where
  "chart nothing distribution =
     (if distribution = [] then Box [Txt nothing]
      else Box (map (\<lambda>(name, value). Box [Txt name, Txt (show_nat value)]) distribution))"

definition Dashboard_view :: "ui_context \<Rightarrow> 'e ui" where
  "Dashboard_view c =
     (if \<not> truthy (activeWorkspaceId c) then
        EmptyState ''No Workspace Selected''
          ''Please choose or create a workspace from the sidebar switcher to load analytics metrics.'' None
      else if fd_metricsLoading (cx_data c) then Loader
      else
        (case (fd_metricsError (cx_data c), fd_metrics (cx_data c)) of
           (False, Some m) \<Rightarrow>
             Box [Txt ''Workspace Dashboard'',
                  Txt ''Overview of task distributions, team performance, and status metrics.'',
                  stat_cards m,
                  Txt ''Workspace Task Completion Rate'',
                  Txt (show_nat (if sm_totalTasks m > 0
                                 then completion_percent (sm_completedTasks m) (sm_totalTasks m) else 0) @ ''%''),
                  Txt ''Tasks by Status'', chart ''No status data available'' (sm_statusDistribution m),
                  Txt ''Tasks by Priority'', chart ''No priority data available'' (sm_priorityDistribution m)]
         | _ \<Rightarrow>
             EmptyState ''No Data Available''
               (''We couldn't retrieve any workspace analytics. Try creating a project and adding tasks '' @
                ''to generate statistics!'') None))"

section \<open>Admin and the activity log\<close>

definition is_admin :: "ui_context \<Rightarrow> bool" where
  "is_admin c \<longleftrightarrow> map_option info_email (current_user c) = Some ''admin@gmail.com''"

definition Admin_queries :: "ui_context \<Rightarrow> api_call list" where
  "Admin_queries c =
     (if is_admin c then [OtherCall (GetAdminAuditLogs [(''limit'', ''50''), (''page'', ''1'')])] else [])"

text \<open>\<open>row?.payload?.k || 'N/A'\<close>; what the server stores there is a string or absent.\<close>

definition payload_cell :: "string \<Rightarrow> json \<Rightarrow> string" where
  "payload_cell k payload =
     (case payload of
        JObj fs \<Rightarrow> (case map_of fs k of Some (JStr s) \<Rightarrow> if s \<noteq> [] then s else ''N/A'' | _ \<Rightarrow> ''N/A'')
      | _ \<Rightarrow> ''N/A'')"

definition audit_row :: "ui_context \<Rightarrow> audit_log \<times> user option \<Rightarrow> 'e ui" where
  "audit_row c x =
     Box (map Txt
       [audit_action (fst x), or_str (map_option user_email (snd x)) ''System / Auto'',
        payload_cell ''ipAddress'' (audit_payload (fst x)),
        payload_cell ''deviceFingerprint'' (audit_payload (fst x)),
        be_toLocaleString (cx_env c) (audit_createdAt (fst x))])"

definition Admin_refusal :: "'e ui" where
  "Admin_refusal = EmptyState ''Admin Privileges Required''
     ''Only system administrators can access global security audit logs and logs metadata.'' None"

definition Admin_view :: "ui_context \<Rightarrow> 'e ui" where
  "Admin_view c =
     (if \<not> is_admin c then Admin_refusal
      else if fd_logsLoading (cx_data c) then Loader
      else if fd_logsError (cx_data c) then Admin_refusal
      else
        Box [Txt ''Administration'',
             Txt ''Review security audit logs, active connections, and session telemetry.'',
             Box (map Txt [''Action Event'', ''Performer Email'', ''IP Address'', ''Device Details'', ''Timestamp'']),
             Box (map (audit_row c) (or_nil (fd_logs (cx_data c))))])"

text \<open>The entries are constants of the source.\<close>

definition ActivityLog_view :: "'e ui" where
  "ActivityLog_view =
     Box ([Txt ''Workspace Activity Log'',
           Txt ''Live timeline of updates, notifications, and events across tasks and projects.''] @
       map (\<lambda>(message, time). Box [Txt message, Txt time])
         [(''You created the task \"Setup CI/CD pipeline\"'', ''10 mins ago''),
          (''Sarah Connor commented on task \"Fix login refresh token loop\"'', ''1 hour ago''),
          (''John Doe joined the workspace'', ''2 hours ago''),
          (''Marcus Wright completed task \"Configure redis client endpoints\"'', ''1 day ago'')])"

section \<open>Sidebar\<close>

datatype sidebar_event = SidebarWorkspace string | SidebarToggle | SidebarGo string

definition navItems :: "(string \<times> string) list" where
  "navItems =
     [(''Dashboard'', ''/''), (''My Tasks'', ''/tasks''), (''Projects'', ''/projects''),
      (''Members'', ''/members''), (''Activity log'', ''/activities''), (''Settings'', ''/settings'')]"

definition Sidebar_queries :: "ui_context \<Rightarrow> api_call list" where
  "Sidebar_queries c = (if current_user c \<noteq> None then [WorkspaceCall GetWorkspaces] else [])"

definition nav_item :: "bool \<Rightarrow> string \<times> string \<Rightarrow> sidebar_event ui" where
  "nav_item sidebarOpen item =
     Tap (snd item) (SidebarGo (snd item)) (if sidebarOpen then [Txt (fst item)] else [])"

definition Sidebar_view :: "ui_context \<Rightarrow> sidebar_event ui" where
  "Sidebar_view c =
     (let sidebarOpen = ui_sidebarOpen (st_ui (cx_browser c)); ws = or_nil (fd_workspaces (cx_data c))
      in Box
        ((if sidebarOpen then [Txt ''Task Scheduler''] else []) @
         [Button (if sidebarOpen then ''MenuOpen'' else ''KeyboardArrowRight'') True SidebarToggle] @
         (if sidebarOpen \<and> ws \<noteq> [] then
            [Txt ''WORKSPACE'',
             Choice ''workspace'' (or_empty (activeWorkspaceId c))
               (map (\<lambda>w. (workspace_id w, workspace_name w)) ws) SidebarWorkspace]
          else []) @
         (if sidebarOpen \<and> ws = [] then [Button ''Create Workspace'' True (SidebarGo ''/settings'')] else []) @
         map (nav_item sidebarOpen) navItems @
         (if is_admin c then
            (if sidebarOpen then [Txt ''ADMINISTRATION''] else []) @
            [nav_item sidebarOpen (''Admin Panel'', ''/admin'')]
          else [])))"

fun Sidebar_handle :: "sidebar_event \<Rightarrow> effect list" where
  "Sidebar_handle (SidebarWorkspace i) = [Dispatch (SetActiveWorkspaceId (Some i)), Go ''/'']"
| "Sidebar_handle SidebarToggle = [Dispatch (Toggle Sidebar)]"
| "Sidebar_handle (SidebarGo path) = [Go path]"

section \<open>Navigation bar\<close>

record navbar_state =
  nb_menuOpen :: bool
    \<comment> \<open>\<open>Boolean(anchorElUser)\<close>\<close>
  nb_isConnected :: bool

definition Navbar_init :: navbar_state where
  "Navbar_init = \<lparr>nb_menuOpen = False, nb_isConnected = False\<rparr>"

datatype navbar_event =
  NavSearch | NavTheme | NavNotifications | NavOpenMenu | NavCloseMenu | NavSettings | NavLogout

definition Navbar_queries :: "ui_context \<Rightarrow> api_call list" where
  "Navbar_queries c = (if current_user c \<noteq> None then [OtherCall GetNotifications] else [])"

definition unread :: "ui_context \<Rightarrow> notification list" where
  "unread c = filter (\<lambda>n. \<not> notification_isRead n) (or_nil (fd_notifications (cx_data c)))"

text \<open>A badge with \<open>max={99}\<close>, which does not show zero.\<close>

definition badge :: "nat \<Rightarrow> string" where
  "badge n = (if n = 0 then '''' else if n > 99 then ''99+'' else show_nat n)"

definition Navbar_view :: "ui_context \<Rightarrow> navbar_state \<Rightarrow> navbar_event ui" where
  "Navbar_view c s =
     Box ([Tap ''search'' NavSearch [Txt ''Search or command (Ctrl + K)''],
           Txt (if nb_isConnected s then ''Sync Online'' else ''Sync Offline (Reconnecting)''),
           Button (''Switch to '' @ (if cx_mode c = Light then ''Dark'' else ''Light'') @ '' Mode'') True NavTheme,
           Tap ''Notifications'' NavNotifications [Txt (badge (length (unread c)))]] @
       (case current_user c of
          None \<Rightarrow> []
        | Some u \<Rightarrow>
            [Tap ''Open settings'' NavOpenMenu [Txt (initial_of (info_name u))],
             Modal ''menu-appbar'' (nb_menuOpen s) NavCloseMenu
               [Txt (info_name u), Txt (info_email u),
                Tap ''Profile & Settings'' NavSettings [], Tap ''Logout'' NavLogout []]]))"

fun Navbar_handle :: "navbar_state \<Rightarrow> navbar_event \<Rightarrow> navbar_state \<times> effect list" where
  "Navbar_handle s NavSearch = (s, [Dispatch (SetOpen CommandPalette True)])"
| "Navbar_handle s NavTheme = (s, [ToggleTheme])"
| "Navbar_handle s NavNotifications = (s, [Dispatch (Toggle NotificationDrawer)])"
| "Navbar_handle s NavOpenMenu = (s\<lparr>nb_menuOpen := True\<rparr>, [])"
| "Navbar_handle s NavCloseMenu = (s\<lparr>nb_menuOpen := False\<rparr>, [])"
| "Navbar_handle s NavSettings = (s\<lparr>nb_menuOpen := False\<rparr>, [Go ''/settings''])"
| "Navbar_handle s NavLogout = (s\<lparr>nb_menuOpen := False\<rparr>, [Dispatch Logout, Go ''/login''])"

text \<open>Every three seconds the bar asks the socket service whether it is connected.\<close>

definition checkConnection :: "ui_context \<Rightarrow> navbar_state \<Rightarrow> navbar_state" where
  "checkConnection c s = s\<lparr>nb_isConnected := fd_connected (cx_data c)\<rparr>"

section \<open>Notification drawer\<close>

record notifications_page =
  nd_activeTab :: string

definition Notifications_init :: notifications_page where
  "Notifications_init = \<lparr>nd_activeTab = ''ALL''\<rparr>"

datatype notifications_event =
  NotificationsClose | NotificationsTab string | NotificationClick notification | NotificationsReadAll

definition drawer_open :: "ui_context \<Rightarrow> bool" where
  "drawer_open c \<longleftrightarrow> ui_notificationDrawerOpen (st_ui (cx_browser c))"

definition NotificationDrawer_queries :: "ui_context \<Rightarrow> api_call list" where
  "NotificationDrawer_queries c = (if drawer_open c then [OtherCall GetNotifications] else [])"

definition filteredNotifications :: "ui_context \<Rightarrow> notifications_page \<Rightarrow> notification list" where
  "filteredNotifications c s =
     filter (\<lambda>n. nd_activeTab s = ''UNREAD'' \<longrightarrow> \<not> notification_isRead n) (or_nil (fd_notifications (cx_data c)))"

definition notification_item :: "notification \<Rightarrow> notifications_event ui" where
  "notification_item n =
     Tap (notification_id n) (NotificationClick n)
       ((if notification_isRead n then [] else [Txt ''FiberManualRecord'']) @
        [Txt (notification_title n), Txt (notification_message n)])"

definition NotificationDrawer_view :: "ui_context \<Rightarrow> notifications_page \<Rightarrow> notifications_event ui" where
  "NotificationDrawer_view c s =
     Modal ''Notifications Drawer'' (drawer_open c) NotificationsClose
       ([Txt ''Notifications''] @
        (if unread c \<noteq> [] then [Button ''Mark all read'' True NotificationsReadAll] else []) @
        [Button ''Close'' True NotificationsClose,
         Choice ''tab'' (nd_activeTab s) [(''ALL'', ''All''), (''UNREAD'', ''Unread'')] NotificationsTab,
         (if filteredNotifications c s = [] then
            EmptyState ''No Notifications''
              (if nd_activeTab s = ''UNREAD'' then ''You have read all notifications!''
               else ''No notifications found.'') None
          else Box (map notification_item (filteredNotifications c s)))])"

fun NotificationDrawer_handle ::
  "notifications_page \<Rightarrow> notifications_event \<Rightarrow> notifications_page \<times> effect list" where
  "NotificationDrawer_handle s NotificationsClose = (s, [Dispatch (SetOpen NotificationDrawer False)])"
| "NotificationDrawer_handle s (NotificationsTab v) = (s\<lparr>nd_activeTab := v\<rparr>, [])"
| "NotificationDrawer_handle s (NotificationClick n) =
     (s, if notification_isRead n then [] else [Send (OtherCall (MarkNotificationRead (notification_id n)))])"
| "NotificationDrawer_handle s NotificationsReadAll = (s, [Send (OtherCall MarkAllNotificationsRead)])"

section \<open>Command palette\<close>

definition palette_commands :: "(string \<times> string) list" where
  "palette_commands =
     [(''Go to Dashboard'', ''/''), (''Go to Tasks'', ''/tasks''), (''Go to Projects'', ''/projects''),
      (''Go to Members'', ''/members''), (''Go to Settings'', ''/settings'')]"

definition filteredCommands :: "string \<Rightarrow> (string \<times> string) list" where
  "filteredCommands search =
     filter (\<lambda>cmd. sublist (map to_lower search) (map to_lower (fst cmd))) palette_commands"

datatype palette_event = PaletteSearch string | PaletteClose | PaletteGo string

definition CommandPalette_view :: "ui_context \<Rightarrow> string \<Rightarrow> palette_event ui" where
  "CommandPalette_view c search =
     Modal ''Command Palette'' (ui_commandPaletteOpen (st_ui (cx_browser c))) PaletteClose
       [Input ''Type a command or navigate...'' search PaletteSearch,
        (if filteredCommands search = [] then Box [Txt ''No command results found.'']
         else Box (map (\<lambda>cmd. Tap (fst cmd) (PaletteGo (snd cmd)) [Txt (fst cmd)]) (filteredCommands search)))]"

fun CommandPalette_handle :: "string \<Rightarrow> palette_event \<Rightarrow> string \<times> effect list" where
  "CommandPalette_handle search (PaletteSearch x) = (x, [])"
| "CommandPalette_handle search PaletteClose = ('''', [Dispatch (SetOpen CommandPalette False)])"
| "CommandPalette_handle search (PaletteGo path) = ('''', [Go path, Dispatch (SetOpen CommandPalette False)])"

text \<open>\<open>handleKeyDown\<close> on the window: Ctrl or Meta with k.\<close>

definition handleKeyDown :: "bool \<Rightarrow> bool \<Rightarrow> string \<Rightarrow> effect list" where
  "handleKeyDown ctrlKey metaKey key =
     (if (ctrlKey \<or> metaKey) \<and> key = ''k'' then [Dispatch (Toggle CommandPalette)] else [])"

section \<open>Theme\<close>

fun mode_value :: "theme_mode \<Rightarrow> string" where
  "mode_value Light = ''light''"
| "mode_value Dark = ''dark''"

definition initial_mode :: "browser_env \<Rightarrow> local_storage \<Rightarrow> theme_mode" where
  "initial_mode be ls =
     (case getItem ''theme-mode'' ls of
        Some s \<Rightarrow> if s = ''light'' then Light else if s = ''dark'' then Dark
                  else if be_prefersDark be then Dark else Light
      | None \<Rightarrow> if be_prefersDark be then Dark else Light)"

definition toggled :: "theme_mode \<Rightarrow> theme_mode" where
  "toggled m = (if m = Light then Dark else Light)"

text \<open>The effect that stores the mode.\<close>

definition store_mode :: "theme_mode \<Rightarrow> local_storage \<Rightarrow> local_storage" where
  "store_mode m ls = ls(''theme-mode'' \<mapsto> Text (mode_value m))"

end
