(* ===== verification/App.thy ===== *)
theory App
  imports Shell
begin

text \<open>
  The application (\<open>src/frontend/src/App.tsx\<close>, \<open>components/layout/Layout.tsx\<close>): the
  routes with their guards, the components of all pages composed into one tree, and the browser tab
  as a transition system in which the visitor acts, requests settle, timers fire and data arrives.
\<close>

section \<open>Routes\<close>

datatype page_name =
    LoginPage | SignupPage | DashboardPage | TasksPage | ProjectsPage | MembersPage | ActivityPage
  | SettingsPage | AdminPage

datatype access = Guest | Protected

definition App_routes :: "(string \<times> access \<times> page_name) list" where
  "App_routes =
     [(''/login'', Guest, LoginPage), (''/signup'', Guest, SignupPage),
      (''/'', Protected, DashboardPage), (''/tasks'', Protected, TasksPage),
      (''/projects'', Protected, ProjectsPage), (''/members'', Protected, MembersPage),
      (''/activities'', Protected, ActivityPage), (''/settings'', Protected, SettingsPage),
      (''/admin'', Protected, AdminPage)]"

text \<open>Where the guard of a path's route sends the visitor, if anywhere; a path with no route has none.\<close>

definition App_redirect :: "browser \<Rightarrow> string \<Rightarrow> string option" where
  "App_redirect b path =
     (case map_of App_routes path of
        None \<Rightarrow> None
      | Some (Guest, p) \<Rightarrow> GuestRoute b
      | Some (Protected, p) \<Rightarrow> ProtectedRoute b)"

definition settled_path :: "browser \<Rightarrow> string \<Rightarrow> string" where
  "settled_path b path = (case App_redirect b path of None \<Rightarrow> path | Some p \<Rightarrow> p)"

section \<open>State of the tab\<close>

datatype screen =
    LoginScreen login_page
  | SignupScreen signup_page
  | DashboardScreen
  | TasksScreen tasks_page drawer_page
  | ProjectsScreen projects_page
  | MembersScreen members_page
  | ActivityScreen
  | SettingsScreen settings_page
  | AdminScreen
  | NoScreen

text \<open>
  The component that sent a request, and with it the handler that awaits the answer. The rest of
  the layout and the palette send none.
\<close>

datatype origin = FromPage page_name | FromDrawer | FromNotifications

record layout_state =
  ly_navbar :: navbar_state
  ly_notifications :: notifications_page

record app =
  app_browser :: browser
  app_path :: string
  app_screen :: screen
  app_mounts :: nat
    \<comment> \<open>pages mounted so far: the number of the mounted one\<close>
  app_layout :: "layout_state option"
  app_search :: string
  app_mode :: theme_mode
  app_pending :: "(origin \<times> nat \<times> api_call) list"
  app_timers :: "string list"
  app_snacks :: "(variant \<times> json) list"

fun screen_page :: "screen \<Rightarrow> page_name option" where
  "screen_page (LoginScreen s) = Some LoginPage"
| "screen_page (SignupScreen s) = Some SignupPage"
| "screen_page DashboardScreen = Some DashboardPage"
| "screen_page (TasksScreen s d) = Some TasksPage"
| "screen_page (ProjectsScreen s) = Some ProjectsPage"
| "screen_page (MembersScreen s) = Some MembersPage"
| "screen_page ActivityScreen = Some ActivityPage"
| "screen_page (SettingsScreen s) = Some SettingsPage"
| "screen_page AdminScreen = Some AdminPage"
| "screen_page NoScreen = None"

fun mount_screen :: "ui_context \<Rightarrow> page_name option \<Rightarrow> screen" where
  "mount_screen c (Some LoginPage) = LoginScreen Login_init"
| "mount_screen c (Some SignupPage) = SignupScreen Signup_init"
| "mount_screen c (Some DashboardPage) = DashboardScreen"
| "mount_screen c (Some TasksPage) = TasksScreen Tasks_init Drawer_init"
| "mount_screen c (Some ProjectsPage) = ProjectsScreen Projects_init"
| "mount_screen c (Some MembersPage) = MembersScreen Members_init"
| "mount_screen c (Some ActivityPage) = ActivityScreen"
| "mount_screen c (Some SettingsPage) = SettingsScreen (Settings_init c)"
| "mount_screen c (Some AdminPage) = AdminScreen"
| "mount_screen c None = NoScreen"

definition route_page :: "string \<Rightarrow> page_name option" where
  "route_page path = map_option snd (map_of App_routes path)"

definition route_protected :: "string \<Rightarrow> bool" where
  "route_protected path \<longleftrightarrow> map_option fst (map_of App_routes path) = Some Protected"

definition context_of :: "browser_env \<Rightarrow> fetched \<Rightarrow> app \<Rightarrow> ui_context" where
  "context_of be d a =
     \<lparr>cx_env = be, cx_browser = app_browser a, cx_data = d, cx_path = app_path a, cx_mode = app_mode a\<rparr>"

text \<open>
  Rendering: the guards redirect, a page that is not the mounted one takes its place with fresh
  cells, the layout is there on the protected routes, and a drawer the board no longer shows loses
  its cells.
\<close>

definition hide_drawer :: "ui_context \<Rightarrow> screen \<Rightarrow> screen" where
  "hide_drawer c scr =
     (case scr of TasksScreen s d \<Rightarrow> TasksScreen s (if Tasks_shows_drawer c then d else Drawer_init)
      | _ \<Rightarrow> scr)"

definition render_app :: "browser_env \<Rightarrow> fetched \<Rightarrow> app \<Rightarrow> app" where
  "render_app be d a =
     (let path = settled_path (app_browser a) (app_path a);
          a = a\<lparr>app_path := path,
                app_layout := (if \<not> route_protected path then None
                  else case app_layout a of None \<Rightarrow> Some \<lparr>ly_navbar = Navbar_init, ly_notifications = Notifications_init\<rparr>
                       | Some l \<Rightarrow> Some l)\<rparr>;
          c = context_of be d a
      in if screen_page (app_screen a) = route_page path then a\<lparr>app_screen := hide_drawer c (app_screen a)\<rparr>
         else a\<lparr>app_screen := mount_screen c (route_page path), app_mounts := Suc (app_mounts a)\<rparr>)"

definition open_tab :: "browser_env \<Rightarrow> fetched \<Rightarrow> local_storage \<Rightarrow> string \<Rightarrow> app" where
  "open_tab be d ls path =
     render_app be d
       \<lparr>app_browser = (load_page ls)\<lparr>st_storage := store_mode (initial_mode be ls) ls\<rparr>, app_path = path,
        app_screen = NoScreen, app_mounts = 0, app_layout = None, app_search = '''',
        app_mode = initial_mode be ls, app_pending = [], app_timers = [], app_snacks = []\<rparr>"

section \<open>The tree\<close>

datatype app_event =
    InLogin login_event
  | InSignup signup_event
  | InTasks tasks_event
  | InProjects projects_event
  | InMembers members_event
  | InSettings settings_event
  | InSidebar sidebar_event
  | InNavbar navbar_event
  | InNotifications notifications_event
  | InPalette palette_event
  | ReloadApp

fun screen_view :: "ui_context \<Rightarrow> screen \<Rightarrow> app_event ui" where
  "screen_view c (LoginScreen s) = map_ui InLogin (Login_view c s)"
| "screen_view c (SignupScreen s) = map_ui InSignup (Signup_view c s)"
| "screen_view c DashboardScreen = Dashboard_view c"
| "screen_view c (TasksScreen s d) = map_ui InTasks (Tasks_view c (s, d))"
| "screen_view c (ProjectsScreen s) = map_ui InProjects (Projects_view c s)"
| "screen_view c (MembersScreen s) = map_ui InMembers (Members_view c s)"
| "screen_view c ActivityScreen = ActivityLog_view"
| "screen_view c (SettingsScreen s) = map_ui InSettings (Settings_view c s)"
| "screen_view c AdminScreen = Admin_view c"
| "screen_view c NoScreen = Box []"

text \<open>\<open>Layout\<close> around the page of the route, and the palette beside them.\<close>

definition Layout_view :: "ui_context \<Rightarrow> layout_state \<Rightarrow> app_event ui \<Rightarrow> app_event ui" where
  "Layout_view c l outlet =
     Box [map_ui InSidebar (Sidebar_view c), map_ui InNavbar (Navbar_view c (ly_navbar l)), Box [outlet],
          map_ui InNotifications (NotificationDrawer_view c (ly_notifications l))]"

definition App_tree :: "browser_env \<Rightarrow> fetched \<Rightarrow> app \<Rightarrow> app_event ui" where
  "App_tree be d a =
     (let c = context_of be d a; outlet = screen_view c (app_screen a)
      in Box [(case app_layout a of None \<Rightarrow> outlet | Some l \<Rightarrow> Layout_view c l outlet),
              map_ui InPalette (CommandPalette_view c (app_search a))])"

definition App_view :: "browser_env \<Rightarrow> fetched \<Rightarrow> app \<Rightarrow> app_event ui" where
  "App_view be d a = ErrorBoundary ReloadApp (App_tree be d a)"

section \<open>Effects\<close>

fun run_effect :: "browser_env \<Rightarrow> fetched \<Rightarrow> origin \<Rightarrow> nat \<Rightarrow> effect \<Rightarrow> app \<Rightarrow> app" where
  "run_effect be d o' n (Dispatch x) a = a\<lparr>app_browser := dispatch x (app_browser a)\<rparr>"
| "run_effect be d o' n (Send c) a = a\<lparr>app_pending := app_pending a @ [(o', n, c)]\<rparr>"
| "run_effect be d o' n (Go path) a = a\<lparr>app_path := path\<rparr>"
| "run_effect be d o' n (GoLater ms path) a = a\<lparr>app_timers := app_timers a @ [path]\<rparr>"
| "run_effect be d o' n (Snack v m) a = a\<lparr>app_snacks := app_snacks a @ [(v, m)]\<rparr>"
| "run_effect be d o' n ToggleTheme a =
     a\<lparr>app_mode := toggled (app_mode a),
       app_browser := (app_browser a)\<lparr>st_storage := store_mode (toggled (app_mode a)) (st_storage (app_browser a))\<rparr>\<rparr>"
| "run_effect be d o' n Reload a = open_tab be d (st_storage (app_browser a)) (app_path a)"

definition run_effects :: "browser_env \<Rightarrow> fetched \<Rightarrow> origin \<Rightarrow> nat \<Rightarrow> effect list \<Rightarrow> app \<Rightarrow> app" where
  "run_effects be d o' n fx a = fold (run_effect be d o' n) fx a"

section \<open>Callbacks and answers\<close>

text \<open>A callback of the mounted components: the state with its new cells, and the effects.\<close>

definition map_layout :: "(layout_state \<Rightarrow> layout_state) \<Rightarrow> app \<Rightarrow> app" where
  "map_layout f a = a\<lparr>app_layout := map_option f (app_layout a)\<rparr>"

definition layout_of :: "app \<Rightarrow> layout_state" where
  "layout_of a =
     (case app_layout a of None \<Rightarrow> \<lparr>ly_navbar = Navbar_init, ly_notifications = Notifications_init\<rparr>
      | Some l \<Rightarrow> l)"

fun page_handle :: "ui_context \<Rightarrow> screen \<Rightarrow> app_event \<Rightarrow> screen \<times> effect list" where
  "page_handle c scr (InLogin e) =
     (case scr of LoginScreen s \<Rightarrow> map_prod LoginScreen id (Login_handle c s e) | _ \<Rightarrow> (scr, []))"
| "page_handle c scr (InSignup e) =
     (case scr of SignupScreen s \<Rightarrow> map_prod SignupScreen id (Signup_handle c s e) | _ \<Rightarrow> (scr, []))"
| "page_handle c scr (InTasks e) =
     (case scr of
        TasksScreen s d \<Rightarrow> map_prod (\<lambda>(s, d). TasksScreen s d) id (Tasks_handle c (s, d) e)
      | _ \<Rightarrow> (scr, []))"
| "page_handle c scr (InProjects e) =
     (case scr of ProjectsScreen s \<Rightarrow> map_prod ProjectsScreen id (Projects_handle c s e) | _ \<Rightarrow> (scr, []))"
| "page_handle c scr (InMembers e) =
     (case scr of MembersScreen s \<Rightarrow> map_prod MembersScreen id (Members_handle c s e) | _ \<Rightarrow> (scr, []))"
| "page_handle c scr (InSettings e) =
     (case scr of SettingsScreen s \<Rightarrow> map_prod SettingsScreen id (Settings_handle c s e) | _ \<Rightarrow> (scr, []))"
| "page_handle c scr e = (scr, [])"

definition page_origin :: "screen \<Rightarrow> app_event \<Rightarrow> origin" where
  "page_origin scr e =
     (case e of
        InTasks (InDrawer x) \<Rightarrow> FromDrawer
      | _ \<Rightarrow> (case screen_page scr of Some p \<Rightarrow> FromPage p | None \<Rightarrow> FromNotifications))"

definition on_page :: "browser_env \<Rightarrow> fetched \<Rightarrow> app_event \<Rightarrow> app \<Rightarrow> app" where
  "on_page be d e a =
     (case page_handle (context_of be d a) (app_screen a) e of
        (scr, fx) \<Rightarrow>
          run_effects be d (page_origin (app_screen a) e) (app_mounts a) fx (a\<lparr>app_screen := scr\<rparr>))"

fun App_handle :: "browser_env \<Rightarrow> fetched \<Rightarrow> app_event \<Rightarrow> app \<Rightarrow> app" where
  "App_handle be d (InSidebar e) a = run_effects be d FromNotifications 0 (Sidebar_handle e) a"
| "App_handle be d (InNavbar e) a =
     (case Navbar_handle (ly_navbar (layout_of a)) e of
        (s, fx) \<Rightarrow> run_effects be d FromNotifications 0 fx (map_layout (\<lambda>l. l\<lparr>ly_navbar := s\<rparr>) a))"
| "App_handle be d (InNotifications e) a =
     (case NotificationDrawer_handle (ly_notifications (layout_of a)) e of
        (s, fx) \<Rightarrow> run_effects be d FromNotifications 0 fx (map_layout (\<lambda>l. l\<lparr>ly_notifications := s\<rparr>) a))"
| "App_handle be d (InPalette e) a =
     (case CommandPalette_handle (app_search a) e of
        (s, fx) \<Rightarrow> run_effects be d FromNotifications 0 fx (a\<lparr>app_search := s\<rparr>))"
| "App_handle be d ReloadApp a = run_effects be d FromNotifications 0 [Reload] a"
| "App_handle be d e a = on_page be d e a"

text \<open>
  The answer to a request: its handler goes on with the effects; its cells are written only while
  the page that sent the request is still mounted.
\<close>

fun page_settle :: "ui_context \<Rightarrow> origin \<Rightarrow> api_call \<Rightarrow> json completion \<Rightarrow> screen \<Rightarrow> screen \<times> effect list" where
  "page_settle c (FromPage LoginPage) call r scr =
     (case scr of
        LoginScreen s \<Rightarrow> map_prod LoginScreen id (Login_settle c s call r)
      | _ \<Rightarrow> (scr, snd (Login_settle c Login_init call r)))"
| "page_settle c (FromPage SignupPage) call r scr =
     (case scr of
        SignupScreen s \<Rightarrow> map_prod SignupScreen id (Signup_settle c s call r)
      | _ \<Rightarrow> (scr, snd (Signup_settle c Signup_init call r)))"
| "page_settle c (FromPage TasksPage) call r scr =
     (case scr of
        TasksScreen s d \<Rightarrow> map_prod (\<lambda>s. TasksScreen s d) id (Tasks_settle_own s call r)
      | _ \<Rightarrow> (scr, snd (Tasks_settle_own Tasks_init call r)))"
| "page_settle c (FromPage ProjectsPage) call r scr =
     (case scr of
        ProjectsScreen s \<Rightarrow> map_prod ProjectsScreen id (Projects_settle c s call r)
      | _ \<Rightarrow> (scr, snd (Projects_settle c Projects_init call r)))"
| "page_settle c (FromPage MembersPage) call r scr =
     (case scr of
        MembersScreen s \<Rightarrow> map_prod MembersScreen id (Members_settle c s call r)
      | _ \<Rightarrow> (scr, snd (Members_settle c Members_init call r)))"
| "page_settle c (FromPage SettingsPage) call r scr =
     (case scr of
        SettingsScreen s \<Rightarrow> map_prod SettingsScreen id (Settings_settle c s call r)
      | _ \<Rightarrow> (scr, snd (Settings_settle c (Settings_init c) call r)))"
| "page_settle c FromDrawer call r scr =
     (case scr of
        TasksScreen s d \<Rightarrow> map_prod (TasksScreen s) id (TaskDetailsDrawer_settle c d call r)
      | _ \<Rightarrow> (scr, snd (TaskDetailsDrawer_settle c Drawer_init call r)))"
| "page_settle c _ call r scr = (scr, [])"

definition on_settled ::
  "browser_env \<Rightarrow> fetched \<Rightarrow> origin \<times> nat \<times> api_call \<Rightarrow> json completion \<Rightarrow> app \<Rightarrow> app" where
  "on_settled be d q r a =
     (case q of (o', n, call) \<Rightarrow>
        (case page_settle (context_of be d a) o' call r
                (if n = app_mounts a then app_screen a else NoScreen) of
           (scr, fx) \<Rightarrow>
             run_effects be d o' n fx
               (a\<lparr>app_pending := remove1 q (app_pending a),
                  app_screen := (if n = app_mounts a then scr else app_screen a)\<rparr>)))"

section \<open>Steps\<close>

text \<open>
  What happens in a tab. Every step is followed by a rendering with the data of the moment. The
  API client may store new tokens or log out on its own; the board's effect keeps a project
  selected.
\<close>

inductive app_step :: "browser_env \<Rightarrow> (fetched \<Rightarrow> bool) \<Rightarrow> app \<Rightarrow> app \<Rightarrow> bool" for be data where
  acts: "data d \<Longrightarrow> e \<in> set (fire (App_view be d a) i) \<Longrightarrow> app_step be data a (render_app be d (App_handle be d e a))"
| settles: "data d \<Longrightarrow> q \<in> set (app_pending a) \<Longrightarrow> app_step be data a (render_app be d (on_settled be d q r a))"
| timer: "data d \<Longrightarrow> p \<in> set (app_timers a) \<Longrightarrow>
    app_step be data a (render_app be d (a\<lparr>app_path := p, app_timers := remove1 p (app_timers a)\<rparr>))"
| shortcut: "data d \<Longrightarrow>
    app_step be data a (render_app be d (run_effects be d FromNotifications 0 (handleKeyDown ctrl meta key) a))"
| tick: "data d \<Longrightarrow>
    app_step be data a
      (render_app be d (map_layout (\<lambda>l. l\<lparr>ly_navbar := checkConnection (context_of be d a) (ly_navbar l)\<rparr>) a))"
| selects: "data d \<Longrightarrow> app_screen a = TasksScreen s dr \<Longrightarrow>
    app_step be data a
      (render_app be d (a\<lparr>app_browser :=
         fold dispatch (select_project (Tasks_projects (context_of be d a)) (app_browser a)) (app_browser a)\<rparr>))"
| refreshed: "data d \<Longrightarrow> accessToken t \<noteq> [] \<Longrightarrow>
    app_step be data a (render_app be d (a\<lparr>app_browser := store_tokens t (app_browser a)\<rparr>))"
| logged_out: "data d \<Longrightarrow>
    app_step be data a (render_app be d (a\<lparr>app_browser := force_logout (app_browser a)\<rparr>))"

inductive app_reachable :: "browser_env \<Rightarrow> (fetched \<Rightarrow> bool) \<Rightarrow> app \<Rightarrow> app \<Rightarrow> bool" for be data where
  start: "app_reachable be data a a"
| then_step: "app_reachable be data a b \<Longrightarrow> app_step be data b c \<Longrightarrow> app_reachable be data a c"

end
