(* ===== verification/Wire.thy ===== *)
theory Wire
  imports App
begin

text \<open>
  From the body a page sends to the validation pipe of the route that receives it: the body as an
  instance of its class (\<open>plainToInstance\<close>), and what the decorators say about it.
\<close>

section \<open>Bodies as instances\<close>

fun body_fields :: "json \<Rightarrow> (string \<times> json) list" where
  "body_fields (JObj fs) = fs"
| "body_fields _ = []"

text \<open>
  A property declared a string, optional or not. \<open>None\<close> is a value of another type, which the
  decorators refuse; an optional one may be absent or null.
\<close>

definition required_text :: "string \<Rightarrow> (string \<times> json) list \<Rightarrow> string option" where
  "required_text k fs = (case map_of fs k of Some (JStr s) \<Rightarrow> Some s | _ \<Rightarrow> None)"

definition optional_text :: "string \<Rightarrow> (string \<times> json) list \<Rightarrow> string js option" where
  "optional_text k fs =
     (case map_of fs k of
        None \<Rightarrow> Some Undefined
      | Some JNull \<Rightarrow> Some Null
      | Some (JStr s) \<Rightarrow> Some (Value s)
      | _ \<Rightarrow> None)"

definition optional_nat :: "string \<Rightarrow> (string \<times> json) list \<Rightarrow> nat js option" where
  "optional_nat k fs =
     (case map_of fs k of
        None \<Rightarrow> Some Undefined
      | Some JNull \<Rightarrow> Some Null
      | Some (JNum n) \<Rightarrow> if 0 \<le> n then Some (Value (nat n)) else None
      | _ \<Rightarrow> None)"

definition present :: "'a js option \<Rightarrow> 'a option option" where
  \<comment> \<open>\<open>undefined\<close> and \<open>null\<close> alike\<close>
  "present x = map_option (\<lambda>v. case v of Value y \<Rightarrow> Some y | _ \<Rightarrow> None) x"

definition login_dto_of :: "json \<Rightarrow> login_dto option" where
  "login_dto_of b =
     (case (required_text ''email'' (body_fields b), required_text ''password'' (body_fields b),
            present (optional_text ''deviceFingerprint'' (body_fields b))) of
        (Some email, Some password, Some fingerprint) \<Rightarrow>
          Some \<lparr>ld_email = email, ld_password = password, ld_deviceFingerprint = fingerprint\<rparr>
      | _ \<Rightarrow> None)"

definition signup_dto_of :: "json \<Rightarrow> signup_dto option" where
  "signup_dto_of b =
     (case (required_text ''email'' (body_fields b), required_text ''password'' (body_fields b),
            required_text ''name'' (body_fields b)) of
        (Some email, Some password, Some name) \<Rightarrow>
          Some \<lparr>sd_email = email, sd_password = password, sd_name = name\<rparr>
      | _ \<Rightarrow> None)"

definition create_workspace_dto_of :: "json \<Rightarrow> create_workspace_dto option" where
  "create_workspace_dto_of b =
     (case (required_text ''name'' (body_fields b), present (optional_text ''slug'' (body_fields b))) of
        (Some name, Some slug) \<Rightarrow> Some \<lparr>cw_name = name, cw_slug = slug\<rparr>
      | _ \<Rightarrow> None)"

definition invite_member_dto_of :: "json \<Rightarrow> invite_member_dto option" where
  "invite_member_dto_of b =
     (case (required_text ''email'' (body_fields b), required_text ''role'' (body_fields b)) of
        (Some email, Some role) \<Rightarrow> Some \<lparr>im_email = email, im_role = role\<rparr>
      | _ \<Rightarrow> None)"

definition create_project_dto_of :: "json \<Rightarrow> create_project_dto option" where
  "create_project_dto_of b =
     (case (required_text ''name'' (body_fields b), present (optional_text ''description'' (body_fields b))) of
        (Some name, Some description) \<Rightarrow> Some \<lparr>cp_name = name, cp_description = description\<rparr>
      | _ \<Rightarrow> None)"

text \<open>The pages send neither labels nor attachments.\<close>

definition create_task_dto_of :: "json \<Rightarrow> create_task_dto option" where
  "create_task_dto_of b =
     (let fs = body_fields b
      in case (required_text ''title'' fs, present (optional_text ''description'' fs),
               present (optional_text ''parentTaskId'' fs), present (optional_text ''priority'' fs),
               present (optional_text ''assignedTo'' fs), present (optional_text ''dueDate'' fs)) of
           (Some title, Some description, Some parent, Some priority, Some assignee, Some due) \<Rightarrow>
             Some \<lparr>ct_title = title, ct_description = description, ct_parentTaskId = parent,
                   ct_priority = priority, ct_assignedTo = assignee, ct_dueDate = due,
                   ct_labels = None, ct_attachments = None\<rparr>
         | _ \<Rightarrow> None)"

definition update_task_dto_of :: "json \<Rightarrow> update_task_dto option" where
  "update_task_dto_of b =
     (let fs = body_fields b
      in case (optional_text ''title'' fs, optional_text ''description'' fs, optional_text ''status'' fs,
               optional_text ''priority'' fs, optional_text ''assignedTo'' fs, optional_text ''dueDate'' fs,
               optional_nat ''version'' fs) of
           (Some title, Some description, Some status, Some priority, Some assignee, Some due, Some version) \<Rightarrow>
             Some \<lparr>ut_title = title, ut_description = description, ut_status = status, ut_priority = priority,
                   ut_assignedTo = assignee, ut_dueDate = due, ut_labels = Undefined,
                   ut_attachments = Undefined, ut_version = version\<rparr>
         | _ \<Rightarrow> None)"

section \<open>The pipe\<close>

definition body_accepted :: "string list \<Rightarrow> json \<Rightarrow> ('d \<Rightarrow> bool) \<Rightarrow> 'd option \<Rightarrow> bool" where
  "body_accepted decorated b valid dto \<longleftrightarrow>
     set (map fst (body_fields b)) \<subseteq> set decorated \<and> (case dto of None \<Rightarrow> False | Some d \<Rightarrow> valid d)"

text \<open>
  Whether the pipe of its route lets the body of a request through. The updates of a workspace
  and of a project and the profile have classes without decorators, so every property is refused.
\<close>

fun pipe_accepts :: "platform \<Rightarrow> api_call \<Rightarrow> bool" where
  "pipe_accepts pf (AuthCall (Login b)) =
     body_accepted [''email'', ''password'', ''deviceFingerprint''] b (loginDto_valid pf) (login_dto_of b)"
| "pipe_accepts pf (AuthCall (Signup b)) =
     body_accepted [''email'', ''password'', ''name''] b (signupDto_valid pf) (signup_dto_of b)"
| "pipe_accepts pf (WorkspaceCall (CreateWorkspace b)) =
     body_accepted [''name'', ''slug''] b createWorkspaceDto_valid (create_workspace_dto_of b)"
| "pipe_accepts pf (WorkspaceCall (UpdateWorkspace w b)) = (body_fields b = [])"
| "pipe_accepts pf (WorkspaceCall (InviteWorkspaceMember w b)) =
     body_accepted [''email'', ''role''] b (inviteMemberDto_valid pf) (invite_member_dto_of b)"
| "pipe_accepts pf (ProjectCall (CreateProject w b)) =
     body_accepted [''name'', ''description''] b createProjectDto_valid (create_project_dto_of b)"
| "pipe_accepts pf (ProjectCall (UpdateProject w p b)) = (body_fields b = [])"
| "pipe_accepts pf (TaskCall (CreateTask w p b)) =
     body_accepted create_task_properties b (createTaskDto_valid pf) (create_task_dto_of b)"
| "pipe_accepts pf (TaskCall (UpdateTask w t b)) =
     body_accepted update_task_properties b (updateTaskDto_valid pf) (update_task_dto_of b)"
| "pipe_accepts pf (OtherCall (AddComment w t b)) =
     body_accepted [''message''] b createCommentDto_valid (required_text ''message'' (body_fields b))"
| "pipe_accepts pf (AuthCall (VerifyEmail b)) =
     body_accepted [''email'', ''code''] b (\<lambda>(e, c). verifyEmailDto_valid e c)
       (Option.bind (required_text ''email'' (body_fields b))
          (\<lambda>e. map_option (Pair e) (required_text ''code'' (body_fields b))))"
| "pipe_accepts pf (AuthCall (ForgotPassword b)) =
     body_accepted [''email''] b (forgotPasswordDto_valid pf) (required_text ''email'' (body_fields b))"
| "pipe_accepts pf (AuthCall (ResetPassword b)) =
     (case (required_text ''email'' (body_fields b), required_text ''code'' (body_fields b),
            required_text ''newPassword'' (body_fields b)) of
        (Some e, Some c, Some n) \<Rightarrow>
          body_accepted [''email'', ''code'', ''newPassword''] b (resetPasswordDto_valid pf)
            (Some \<lparr>rp_email = e, rp_code = c, rp_newPassword = n\<rparr>)
      | _ \<Rightarrow> False)"
| "pipe_accepts pf _ = True"
  \<comment> \<open>the routes without a body\<close>

text \<open>The address a request is about, and the request whose class has no decorators.\<close>

fun sent_email :: "api_call \<Rightarrow> string option" where
  "sent_email (AuthCall (Login b)) = required_text ''email'' (body_fields b)"
| "sent_email (AuthCall (Signup b)) = required_text ''email'' (body_fields b)"
| "sent_email (WorkspaceCall (InviteWorkspaceMember w b)) = required_text ''email'' (body_fields b)"
| "sent_email _ = None"

fun renames_workspace :: "api_call \<Rightarrow> bool" where
  "renames_workspace (WorkspaceCall (UpdateWorkspace w b)) = True"
| "renames_workspace _ = False"

lemmas wire_defs =
  body_accepted_def login_dto_of_def signup_dto_of_def create_workspace_dto_of_def invite_member_dto_of_def
  create_project_dto_of_def create_task_dto_of_def update_task_dto_of_def required_text_def
  optional_text_def optional_nat_def present_def create_task_properties_def update_task_properties_def
  Let_def

text \<open>The part of a route behind its guards, for a body the pipe accepts.\<close>

lemma pipe_passes:
  "set (map fst (rq_body r)) \<subseteq> set decorated \<Longrightarrow> ok \<Longrightarrow> pipe pf decorated ok k r = k r"
  by (simp add: pipe_def)

end
