(* ===== verification/PageLaws.thy ===== *)
theory PageLaws
  imports Wire
begin

text \<open>
  What every component promises about its effects: the requests it sends pass the validation of
  their routes, and it navigates to pages that exist. Each component of the application is an
  instance of the interface \<open>component\<close>.
\<close>

section \<open>Effects a page may have\<close>

text \<open>
  A request passes the pipe exactly when the server agrees about the address in it and it is not the
  renaming of a workspace.
\<close>

definition valid_call :: "platform \<Rightarrow> api_call \<Rightarrow> bool" where
  "valid_call pf c \<longleftrightarrow>
     (pipe_accepts pf c \<longleftrightarrow>
        \<not> renames_workspace c \<and> (case sent_email c of None \<Rightarrow> True | Some email \<Rightarrow> pf_isEmail pf email))"

definition known_path :: "string \<Rightarrow> bool" where
  "known_path p \<longleftrightarrow> p \<in> fst ` set App_routes"

fun good_effect :: "platform \<Rightarrow> effect \<Rightarrow> bool" where
  "good_effect pf (Send c) = valid_call pf c"
| "good_effect pf (Go p) = known_path p"
| "good_effect pf (GoLater ms p) = known_path p"
| "good_effect pf (Dispatch (SetSelectedTaskId i)) = opt_valid (pf_isUUID pf) i"
| "good_effect pf _ = True"

text \<open>The data of the server: identifiers of users and tasks are UUIDs.\<close>

fun root_row :: "task_node \<Rightarrow> task_row" where
  "root_row (TaskNode r ns) = r"

fun child_nodes :: "task_node \<Rightarrow> task_node list" where
  "child_nodes (TaskNode r ns) = ns"

definition fetched_ok :: "platform \<Rightarrow> fetched \<Rightarrow> bool" where
  "fetched_ok pf d \<longleftrightarrow>
     (\<forall>m u. (m, Some u) \<in> set (or_nil (fd_members d)) \<longrightarrow> pf_isUUID pf (user_id u)) \<and>
     (\<forall>p. fd_tasks d = Some p \<longrightarrow> (\<forall>x \<in> set (page_items p). pf_isUUID pf (task_id (fst x)))) \<and>
     (\<forall>n. fd_tree d = Some n \<longrightarrow> (\<forall>m \<in> set (child_nodes n). pf_isUUID pf (row_id (root_row m))))"

text \<open>A date the browser parsed prints in a format the server takes for a date.\<close>

definition dates_agree :: "platform \<Rightarrow> browser_env \<Rightarrow> bool" where
  "dates_agree pf be \<longleftrightarrow> (\<forall>s t. be_parseDate be s = Some t \<longrightarrow> pf_isDateString pf (be_toISOString be t))"

definition page_context :: "platform \<Rightarrow> ui_context \<Rightarrow> bool" where
  "page_context pf c \<longleftrightarrow>
     fetched_ok pf (cx_data c) \<and> dates_agree pf (cx_env c) \<and> opt_valid (pf_isUUID pf) (selectedTaskId c)"

lemma known_paths [simp]:
  "known_path ''/''" "known_path ''/login''" "known_path ''/signup''" "known_path ''/tasks''"
  "known_path ''/projects''" "known_path ''/members''" "known_path ''/activities''" "known_path ''/settings''"
  "known_path ''/admin''"
  by (simp_all add: known_path_def App_routes_def)

lemma good_snack [simp]: "good_effect pf (snack v s)"
  by (simp add: snack_def)

lemmas page_inits = Login_init_def Signup_init_def Members_init_def Projects_init_def Tasks_init_def
  Drawer_init_def Navbar_init_def Notifications_init_def

lemma every_event_helper [simp]:
  "list_all (every_event P) (helper_text b err)" "list_all (every_event P) (alert_of v m)"
  by (auto simp: helper_text_def alert_of_def split: option.splits)

section \<open>Login, Signup, Settings\<close>

lemma email_error_None: "email_error be e = None \<longleftrightarrow> e \<noteq> [] \<and> be_isEmail be e"
  by (simp add: email_error_def)

lemma password_error_None: "password_error p = None \<longleftrightarrow> 6 \<le> length p"
  by (simp add: password_error_def not_less)

lemma name_error_None: "name_error n = None \<longleftrightarrow> n \<noteq> []"
  by (simp add: name_error_def)

lemmas field_checks = email_error_None password_error_None name_error_None

interpretation login_form: component Login_view Login_handle Login_settle "page_context pf" "\<lambda>_. True" "good_effect pf" for pf
proof
  fix c s
  show "every_event (\<lambda>e. True \<and> list_all (good_effect pf) (snd (Login_handle c s e))) (Login_view c s)"
    by (auto simp: Login_view_def Login_onSubmit_def loginSchema_def field_checks valid_call_def wire_defs
        loginDto_valid_def)
next
  fix c s call and r :: "json completion"
  show "True \<and> list_all (good_effect pf) (snd (Login_settle c s call r))"
    by (cases r) simp_all
qed

interpretation signup_form: component Signup_view Signup_handle Signup_settle "page_context pf" "\<lambda>_. True" "good_effect pf" for pf
proof
  fix c s
  show "every_event (\<lambda>e. True \<and> list_all (good_effect pf) (snd (Signup_handle c s e))) (Signup_view c s)"
    by (auto simp: Signup_view_def Signup_onSubmit_def signupSchema_def field_checks valid_call_def wire_defs
        signupDto_valid_def)
next
  fix c s call and r :: "json completion"
  show "True \<and> list_all (good_effect pf) (snd (Signup_settle c s call r))"
    by (cases r) simp_all
qed

lemma Settings_settle_good: "list_all (good_effect pf) (snd (Settings_settle c s call r))"
  by (induction c s call r rule: Settings_settle.induct) simp_all

interpretation settings: component Settings_view Settings_handle Settings_settle "page_context pf" "\<lambda>_. True" "good_effect pf" for pf
proof
  fix c s
  show "every_event (\<lambda>e. True \<and> list_all (good_effect pf) (snd (Settings_handle c s e))) (Settings_view c s)"
    by (auto simp: Settings_view_def handleUpdateProfile_def handleUpdateWorkspace_def handleCreateWorkspace_def
        valid_call_def wire_defs createWorkspaceDto_valid_def nonblank_nonempty split: option.split)
qed (simp add: Settings_settle_good)

section \<open>Members and Projects\<close>

definition members_inv :: "members_page \<Rightarrow> bool" where
  "members_inv s \<longleftrightarrow> me_role s \<in> {''ADMIN'', ''MEMBER''}"

lemma every_event_member_item [simp]: "every_event P (member_item m)"
  by (auto simp: member_item_def split: option.split)

interpretation members: component Members_view Members_handle Members_settle "page_context pf" members_inv "good_effect pf" for pf
proof
  fix c s
  assume "members_inv s"
  then show "every_event (\<lambda>e. members_inv (fst (Members_handle c s e)) \<and>
      list_all (good_effect pf) (snd (Members_handle c s e))) (Members_view c s)"
    by (auto simp: Members_view_def handleInvite_def members_inv_def valid_call_def wire_defs list_all_iff
        inviteMemberDto_valid_def nonblank_nonempty)
next
  fix c s call and r :: "json completion"
  assume "members_inv s"
  then show "members_inv (fst (Members_settle c s call r)) \<and> list_all (good_effect pf) (snd (Members_settle c s call r))"
    by (cases r) (simp_all add: members_inv_def)
qed

lemma Projects_settle_good: "list_all (good_effect pf) (snd (Projects_settle c s call r))"
  by (induction c s call r rule: Projects_settle.induct) simp_all

interpretation projects: component Projects_view Projects_handle Projects_settle "page_context pf" "\<lambda>_. True" "good_effect pf" for pf
proof
  fix c s
  show "every_event (\<lambda>e. True \<and> list_all (good_effect pf) (snd (Projects_handle c s e))) (Projects_view c s)"
    by (auto simp: Projects_view_def Projects_handleCreate_def Projects_handleDelete_def project_card_def
        valid_call_def wire_defs createProjectDto_valid_def nonblank_nonempty list_all_iff)
qed (simp add: Projects_settle_good)

section \<open>Drawer and board\<close>

lemma member_options_UUID:
  assumes "fetched_ok pf (cx_data c)" and "member_options text c = Some opts" and "x \<in> fst ` set opts"
  shows "pf_isUUID pf x"
proof -
  have "x \<in> fst ` set opts \<Longrightarrow> \<exists>m u. (m, Some u) \<in> set ms \<and> x = user_id u"
    if "those (map (\<lambda>m. map_option (\<lambda>u. (user_id u, text u)) (snd m)) ms) = Some opts"
    for ms :: "(workspace_member \<times> user option) list"
    using that by (induction ms arbitrary: opts) (force split: option.splits)+
  from this [of "or_nil (fd_members (cx_data c))"] assms show ?thesis
    by (auto simp: member_options_def fetched_ok_def)
qed

lemma option_values [simp]:
  "fst ` set status_options = set task_statuses" "fst ` set priority_options = set task_priorities"
  by (auto simp: status_options_def priority_options_def task_statuses_def task_priorities_def)

text \<open>The fields the drawer changes.\<close>

definition field_ok :: "platform \<Rightarrow> string \<Rightarrow> json \<Rightarrow> bool" where
  "field_ok pf field v \<longleftrightarrow>
     (field \<in> {''title'', ''description''} \<and> (\<exists>s. v = JStr s)) \<or>
     (field = ''status'' \<and> v \<in> JStr ` set task_statuses) \<or>
     (field = ''priority'' \<and> v \<in> JStr ` set task_priorities) \<or>
     (field = ''assignedTo'' \<and> (v = JNull \<or> (\<exists>s. v = JStr s \<and> pf_isUUID pf s))) \<or>
     (field = ''dueDate'' \<and> (v = JNull \<or> (\<exists>s. v = JStr s \<and> pf_isDateString pf s)))"

lemma valid_field_change:
  "field_ok pf field v \<Longrightarrow> valid_call pf (TaskCall (UpdateTask w t (JObj [(field, v), (''version'', JNum (int n))])))"
  unfolding field_ok_def
  by (elim disjE conjE insertE exE imageE emptyE)
    (simp_all add: valid_call_def wire_defs updateTaskDto_valid_def)

definition drawer_event_ok :: "platform \<Rightarrow> ui_context \<Rightarrow> drawer_event \<Rightarrow> bool" where
  "drawer_event_ok pf c e \<longleftrightarrow>
     (case e of
        FieldChange field v \<Rightarrow> field_ok pf field v
      | OpenSubtask i \<Rightarrow> pf_isUUID pf i
      | _ \<Rightarrow> truthy (selectedTaskId c))"

lemma drawer_offers:
  assumes "page_context pf c"
  shows "every_event (drawer_event_ok pf c) (TaskDetailsDrawer_view c s)"
proof -
  have assignee: "every_event (drawer_event_ok pf c) (assignee_choice c t)" for t
    using assms member_options_UUID [of pf c]
    by (auto simp: assignee_choice_def drawer_event_ok_def field_ok_def page_context_def split: option.split)
  have date: "field_ok pf ''dueDate'' (date_json (cx_env c) x)" for x
    using assms by (cases "be_parseDate (cx_env c) x")
      (auto simp: date_json_def field_ok_def page_context_def dates_agree_def)
  have params: "list_all (every_event (drawer_event_ok pf c)) (parameter_fields c t)" for t
    using date by (auto simp: parameter_fields_def assignee)
        (auto simp: drawer_event_ok_def field_ok_def)
  have card: "every_event (drawer_event_ok pf c) (subtask_card n)" if "pf_isUUID pf (row_id (root_row n))" for n
    using that by (cases n) (simp add: drawer_event_ok_def)
  have tree: "every_event (drawer_event_ok pf c) (subtask_list c)"
    using assms by (auto simp: subtask_list_def page_context_def fetched_ok_def list_all_iff
        split: option.split task_node.split list.split intro!: card)
  have comment: "every_event P (comment_card c x)" for P :: "drawer_event \<Rightarrow> bool" and x
    by (auto simp: comment_card_def split: option.split)
  show ?thesis
    by (auto simp: TaskDetailsDrawer_view_def params tree comment list_all_iff [of _ "map _ _"]
        split: option.split bool.split) (auto simp: drawer_event_ok_def field_ok_def)
qed

lemma drawer_handles:
  assumes "page_context pf c" and "drawer_event_ok pf c e"
  shows "list_all (good_effect pf) (snd (TaskDetailsDrawer_handle c s e))"
proof (cases e)
  case (FieldChange field v)
  with assms(2) show ?thesis
    by (auto simp: drawer_event_ok_def handleFieldChange_def intro: valid_field_change split: option.split)
next
  case AddSubtask
  with assms obtain i where "selectedTaskId c = Some i" "pf_isUUID pf i"
    by (cases "selectedTaskId c") (auto simp: drawer_event_ok_def page_context_def)
  with AddSubtask show ?thesis
    by (auto simp: handleAddSubtask_def valid_call_def wire_defs createTaskDto_valid_def nonblank_nonempty
        split: option.split)
next
  case AddCommentNow
  then show ?thesis
    by (auto simp: handleAddComment_def valid_call_def wire_defs createCommentDto_valid_def nonblank_nonempty)
qed (use assms in \<open>simp_all add: drawer_event_ok_def\<close>)

lemma drawer_settles: "list_all (good_effect pf) (snd (TaskDetailsDrawer_settle c s call r))"
  by (induction c s call r rule: TaskDetailsDrawer_settle.induct) simp_all

interpretation drawer: component TaskDetailsDrawer_view TaskDetailsDrawer_handle TaskDetailsDrawer_settle
  "page_context pf" "\<lambda>_. True" "good_effect pf" for pf
proof
  fix c s
  assume "page_context pf c"
  then show "every_event (\<lambda>e. True \<and> list_all (good_effect pf) (snd (TaskDetailsDrawer_handle c s e)))
      (TaskDetailsDrawer_view c s)"
    using drawer_handles by (auto intro: every_event_mono [OF drawer_offers])
qed (simp add: drawer_settles)

definition tasks_inv :: "platform \<Rightarrow> tasks_page \<times> drawer_page \<Rightarrow> bool" where
  "tasks_inv pf x \<longleftrightarrow>
     ts_priority (fst x) \<in> set task_priorities \<and>
     (ts_assignedTo (fst x) = ''UNASSIGNED'' \<or> pf_isUUID pf (ts_assignedTo (fst x)))"

definition tasks_event_ok :: "platform \<Rightarrow> ui_context \<Rightarrow> tasks_event \<Rightarrow> bool" where
  "tasks_event_ok pf c e \<longleftrightarrow>
     (case e of
        TasksPriority x \<Rightarrow> x \<in> set task_priorities
      | TasksAssignedTo x \<Rightarrow> x = ''UNASSIGNED'' \<or> pf_isUUID pf x
      | DragEnd i over \<Rightarrow> opt_valid (\<lambda>x. x \<in> set task_statuses) over
      | OpenTask i \<Rightarrow> pf_isUUID pf i
      | InDrawer x \<Rightarrow> drawer_event_ok pf c x
      | _ \<Rightarrow> True)"

lemma board_zones: "drop_zones (DraggableTaskCard x) = []"
  by (auto simp: DraggableTaskCard_def split: option.split)

lemma column_zones: "drop_zones (DroppableColumn status title ts) = [status]"
  by (simp add: DroppableColumn_def board_zones comp_def)

lemma board_offers:
  assumes "\<forall>x \<in> set (Tasks_tasks c). pf_isUUID pf (task_id (fst x))"
  shows "every_event (tasks_event_ok pf c) (board_view c)"
proof -
  have card: "every_event (tasks_event_ok pf c) (DraggableTaskCard x)" if "x \<in> set (Tasks_tasks c)" for x
    using that assms by (auto simp: DraggableTaskCard_def tasks_event_ok_def split: option.split)
  have column: "every_event (tasks_event_ok pf c) (DroppableColumn st title (tasks_with st c))" for st title
    using card by (auto simp: DroppableColumn_def tasks_with_def list_all_iff)
  have "tasks_event_ok pf c (DragEnd a over)" if "can_drag
      [DroppableColumn ''TODO'' ''To Do'' (tasks_with ''TODO'' c),
       DroppableColumn ''IN_PROGRESS'' ''In Progress'' (tasks_with ''IN_PROGRESS'' c),
       DroppableColumn ''BLOCKED'' ''Blocked'' (tasks_with ''BLOCKED'' c),
       DroppableColumn ''DONE'' ''Completed'' (tasks_with ''DONE'' c)] a over" for a over
    using that by (auto simp: can_drag_def column_zones tasks_event_ok_def task_statuses_def split: option.splits)
  with column show ?thesis by (simp add: board_view_def)
qed

lemma content_offers:
  assumes "\<forall>x \<in> set (Tasks_tasks c). pf_isUUID pf (task_id (fst x))"
  shows "every_event (tasks_event_ok pf c) (Tasks_content c)"
proof -
  have "every_event (tasks_event_ok pf c) (list_view c)" "every_event (tasks_event_ok pf c) (table_view c)"
    using assms by (auto simp: list_view_def table_view_def list_item_def table_row_def list_all_iff tasks_event_ok_def)
  with board_offers [OF assms] show ?thesis
    by (simp add: Tasks_content_def split: task_view_mode.split)
qed

lemma create_offers:
  assumes "page_context pf c"
  shows "every_event (tasks_event_ok pf c) (create_dialog c s)"
  using assms member_options_UUID [of pf c user_name]
  by (auto simp: create_dialog_def tasks_event_ok_def page_context_def split: option.split)

lemma Tasks_offers:
  assumes "page_context pf c"
  shows "every_event (tasks_event_ok pf c) (Tasks_view c x)"
proof -
  have ids: "\<forall>x \<in> set (Tasks_tasks c). pf_isUUID pf (task_id (fst x))"
    using assms by (cases "fd_tasks (cx_data c)") (auto simp: page_context_def fetched_ok_def Tasks_tasks_def)
  have "every_event (tasks_event_ok pf c) (Tasks_header c)"
    by (auto simp: Tasks_header_def tasks_event_ok_def)
  moreover have "every_event (tasks_event_ok pf c \<circ> InDrawer) (TaskDetailsDrawer_view c (snd x))"
    by (rule every_event_mono [OF drawer_offers [OF assms]]) (simp add: tasks_event_ok_def)
  ultimately show ?thesis
    using content_offers [OF ids] create_offers [OF assms, of "fst x"]
    by (simp add: Tasks_view_def tasks_event_ok_def)
qed

lemma create_good:
  assumes "page_context pf c" and "tasks_inv pf (s, d)"
  shows "fst (handleCreateTask c s) = s \<and> list_all (good_effect pf) (snd (handleCreateTask c s))"
  using assms
  by (auto simp: handleCreateTask_def valid_call_def wire_defs createTaskDto_valid_def nonblank_nonempty
      tasks_inv_def page_context_def dates_agree_def date_json_def)

lemma drag_good:
  assumes "opt_valid (\<lambda>x. x \<in> set task_statuses) over"
  shows "list_all (good_effect pf) (handleDragEnd c i over)"
  using assms valid_field_change [of pf "''status''"]
  by (auto simp: handleDragEnd_def field_ok_def split: option.split)

lemma Tasks_handles:
  assumes "page_context pf c" and "tasks_inv pf (s, d)" and "tasks_event_ok pf c e"
  shows "tasks_inv pf (fst (Tasks_handle c (s, d) e)) \<and> list_all (good_effect pf) (snd (Tasks_handle c (s, d) e))"
proof (cases e)
  case CreateTaskNow
  with create_good [OF assms(1,2)] assms(2) show ?thesis
    by (cases "handleCreateTask c s") simp
next
  case (DragEnd i over)
  with assms drag_good [of over pf c i] show ?thesis by (simp add: tasks_event_ok_def)
next
  case (InDrawer x)
  with assms drawer_handles [of pf c x d] show ?thesis
    by (cases "TaskDetailsDrawer_handle c d x") (simp add: tasks_event_ok_def tasks_inv_def)
qed (use assms in \<open>simp_all add: tasks_inv_def tasks_event_ok_def\<close>)

lemma Tasks_settles:
  assumes "tasks_inv pf (s, d)"
  shows "tasks_inv pf (fst (Tasks_settle_own s call r), d) \<and> list_all (good_effect pf) (snd (Tasks_settle_own s call r))"
  using assms
  by (induction s call r rule: Tasks_settle_own.induct)
    (simp_all add: tasks_inv_def Tasks_init_def task_priorities_def)

interpretation board: component Tasks_view Tasks_handle
  "\<lambda>c x call r. map_prod (\<lambda>s. (s, snd x)) id (Tasks_settle_own (fst x) call r)"
  "page_context pf" "tasks_inv pf" "good_effect pf" for pf
proof
  fix c x
  assume "page_context pf c" and "tasks_inv pf x"
  then show "every_event (\<lambda>e. tasks_inv pf (fst (Tasks_handle c x e)) \<and>
      list_all (good_effect pf) (snd (Tasks_handle c x e))) (Tasks_view c x)"
    using Tasks_handles by (cases x) (auto intro: every_event_mono [OF Tasks_offers])
next
  fix x call and r :: "json completion"
  assume "tasks_inv pf x"
  then show "tasks_inv pf (fst (map_prod (\<lambda>s. (s, snd x)) id (Tasks_settle_own (fst x) call r))) \<and>
      list_all (good_effect pf) (snd (map_prod (\<lambda>s. (s, snd x)) id (Tasks_settle_own (fst x) call r)))"
    using Tasks_settles [of pf "fst x" "snd x" call r] by simp
qed

end
