(* ===== verification/AppLaws.thy ===== *)
theory AppLaws
  imports PageLaws
begin

text \<open>
  The invariant of the tab: the guards of the routes hold after every rendering, and everything the
  mounted components have sent, scheduled and selected is well formed.
\<close>

section \<open>Guards\<close>

lemma redirect_settles: "App_redirect b (settled_path b path) = None"
proof (cases "App_redirect b path")
  case (Some p)
  then have "(p = ''/'' \<and> au_isAuthenticated (st_auth b)) \<or> (p = ''/login'' \<and> \<not> au_isAuthenticated (st_auth b))"
    by (auto simp: App_redirect_def GuestRoute_def ProtectedRoute_def split: option.splits access.splits if_splits)
  with Some show ?thesis
    by (auto simp: settled_path_def App_redirect_def App_routes_def GuestRoute_def ProtectedRoute_def)
qed (simp add: settled_path_def)

lemma settled_known: "known_path path \<or> path = p0 \<Longrightarrow> known_path (settled_path b path) \<or> settled_path b path = p0"
  by (auto simp: settled_path_def App_redirect_def GuestRoute_def ProtectedRoute_def
      split: option.splits access.splits if_splits)

text \<open>What holds between the address, the session, the page and the layout once rendered.\<close>

definition shell_ok :: "app \<Rightarrow> bool" where
  "shell_ok a \<longleftrightarrow>
     App_redirect (app_browser a) (app_path a) = None \<and>
     screen_page (app_screen a) = route_page (app_path a) \<and>
     (app_layout a \<noteq> None \<longleftrightarrow> route_protected (app_path a))"

lemma hide_drawer_page [simp]: "screen_page (hide_drawer c scr) = screen_page scr"
  by (cases scr) (simp_all add: hide_drawer_def)

lemma mount_screen_page [simp]: "screen_page (mount_screen c p) = p"
  by (induction c p rule: mount_screen.induct) simp_all

lemma render_shell: "shell_ok (render_app be d a)"
  by (auto simp: render_app_def Let_def shell_ok_def redirect_settles split: option.split)

section \<open>Well-formed contents\<close>

fun screen_ok :: "platform \<Rightarrow> screen \<Rightarrow> bool" where
  "screen_ok pf (TasksScreen s d) = tasks_inv pf (s, d)"
| "screen_ok pf (MembersScreen s) = members_inv s"
| "screen_ok pf _ = True"

definition tab_ok :: "platform \<Rightarrow> string \<Rightarrow> app \<Rightarrow> bool" where
  "tab_ok pf p0 a \<longleftrightarrow>
     (\<forall>q \<in> set (app_pending a). valid_call pf (snd (snd q))) \<and>
     (\<forall>p \<in> set (app_timers a). known_path p) \<and>
     (known_path (app_path a) \<or> app_path a = p0) \<and>
     opt_valid (pf_isUUID pf) (tk_selectedTaskId (st_task (app_browser a))) \<and>
     screen_ok pf (app_screen a)"

lemma mount_ok: "screen_ok pf (mount_screen c p)"
  by (induction c p rule: mount_screen.induct)
    (simp_all add: tasks_inv_def members_inv_def page_inits task_priorities_def)

lemma hide_ok: "screen_ok pf scr \<Longrightarrow> screen_ok pf (hide_drawer c scr)"
  by (cases scr) (simp_all add: hide_drawer_def tasks_inv_def)

lemma render_ok:
  assumes "tab_ok pf p0 a"
  shows "tab_ok pf p0 (render_app be d a)"
  using assms settled_known [of "app_path a" p0 "app_browser a"]
  by (auto simp: render_app_def Let_def tab_ok_def mount_ok hide_ok)

lemma open_ok: "tab_ok pf p0 (open_tab be d ls p0)"
  unfolding open_tab_def
  by (rule render_ok) (simp add: tab_ok_def load_page_def initial_task_def)

lemma dispatch_selected:
  assumes "opt_valid (pf_isUUID pf) (tk_selectedTaskId (st_task b))" and "good_effect pf (Dispatch x)"
  shows "opt_valid (pf_isUUID pf) (tk_selectedTaskId (st_task (dispatch x b)))"
  using assms by (cases x) (simp_all add: auth_reducers other_reducers Let_def split: option.split)

lemma open_at_ok: "known_path p \<or> p = p0 \<Longrightarrow> tab_ok pf p0 (open_tab be d ls p)"
  using open_ok [of pf p be d ls] by (auto simp: tab_ok_def)

lemma run_effect_ok:
  assumes "tab_ok pf p0 a" and "good_effect pf fx"
  shows "tab_ok pf p0 (run_effect be d o' n fx a)"
proof (cases fx)
  case (Dispatch x)
  with assms dispatch_selected [of pf "app_browser a" x] show ?thesis by (simp add: tab_ok_def)
next
  case Reload
  from assms(1) have "known_path (app_path a) \<or> app_path a = p0" by (simp add: tab_ok_def)
  with Reload show ?thesis by (simp add: open_at_ok)
qed (use assms in \<open>auto simp: tab_ok_def\<close>)

lemma run_effects_ok:
  "tab_ok pf p0 a \<Longrightarrow> list_all (good_effect pf) fx \<Longrightarrow> tab_ok pf p0 (run_effects be d o' n fx a)"
  unfolding run_effects_def by (induction fx arbitrary: a) (simp_all add: run_effect_ok)

lemma screen_ok_tab: "tab_ok pf p0 a \<Longrightarrow> screen_ok pf scr \<Longrightarrow> tab_ok pf p0 (a\<lparr>app_screen := scr\<rparr>)"
  by (simp add: tab_ok_def)

lemma map_layout_ok: "tab_ok pf p0 (map_layout f a) = tab_ok pf p0 a"
  by (simp add: map_layout_def tab_ok_def)

lemma tab_context:
  assumes "tab_ok pf p0 a" and "fetched_ok pf d" and "dates_agree pf be"
  shows "page_context pf (context_of be d a)"
  using assms by (simp add: page_context_def context_of_def selectedTaskId_def tab_ok_def)

section \<open>What the tree lets happen\<close>

lemma on_page_ok:
  assumes "tab_ok pf p0 a" and "page_handle (context_of be d a) (app_screen a) e = (scr, fx)"
    and "screen_ok pf scr" and "list_all (good_effect pf) fx"
  shows "tab_ok pf p0 (on_page be d e a)"
  using assms by (simp add: on_page_def run_effects_ok screen_ok_tab)

text \<open>A page's callbacks, given what its component promises.\<close>

lemma page_events:
  assumes tab: "tab_ok pf p0 a"
    and "every_event (\<lambda>e. ok (fst (h e)) \<and> list_all (good_effect pf) (snd (h e))) u"
    and "\<And>e. page_handle (context_of be d a) (app_screen a) (f e) = map_prod g id (h e)"
    and "\<And>s. ok s \<Longrightarrow> screen_ok pf (g s)"
    and "\<And>e. App_handle be d (f e) a = on_page be d (f e) a"
  shows "every_event (\<lambda>e. tab_ok pf p0 (App_handle be d (f e) a)) u"
proof (rule every_event_mono [OF assms(2)])
  fix e
  assume "ok (fst (h e)) \<and> list_all (good_effect pf) (snd (h e))"
  with assms(3-5) show "tab_ok pf p0 (App_handle be d (f e) a)"
    by (auto intro!: on_page_ok [OF tab, where scr = "g (fst (h e))" and fx = "snd (h e)"] simp: prod_eq_iff)
qed

lemma quiet_pages:
  "every_event P (Dashboard_view c)" "every_event P (Admin_view c)" "every_event P ActivityLog_view"
proof -
  have "every_event P (stat_cards m)" "every_event P (chart s xs)" "every_event P (audit_row c x)" for m s xs x
    by (auto simp: stat_cards_def chart_def audit_row_def list_all_iff)
  then show "every_event P (Dashboard_view c)" "every_event P (Admin_view c)" "every_event P ActivityLog_view"
    by (auto simp: Dashboard_view_def Admin_view_def Admin_refusal_def ActivityLog_view_def list_all_iff
        split: option.split bool.split)
qed

lemma screen_events:
  assumes tab: "tab_ok pf p0 a" and "fetched_ok pf d" and "dates_agree pf be"
  shows "every_event (\<lambda>e. tab_ok pf p0 (App_handle be d e a)) (screen_view (context_of be d a) (app_screen a))"
proof -
  let ?c = "context_of be d a"
  note c = tab_context [OF assms]
  show ?thesis
  proof (cases "app_screen a")
    case (LoginScreen s)
    then show ?thesis
      by (simp del: App_handle.simps add: comp_def, intro page_events [OF tab login_form.acting [OF c TrueI], where g = LoginScreen]) simp_all
  next
    case (SignupScreen s)
    then show ?thesis
      by (simp del: App_handle.simps add: comp_def, intro page_events [OF tab signup_form.acting [OF c TrueI], where g = SignupScreen]) simp_all
  next
    case (TasksScreen s dr)
    with tab have inv: "tasks_inv pf (s, dr)" by (simp add: tab_ok_def)
    from TasksScreen show ?thesis
      by (simp del: App_handle.simps add: comp_def, intro page_events [OF tab board.acting [OF c inv], where g = "\<lambda>(s, d). TasksScreen s d"])
        auto
  next
    case (ProjectsScreen s)
    then show ?thesis
      by (simp del: App_handle.simps add: comp_def, intro page_events [OF tab projects.acting [OF c TrueI], where g = ProjectsScreen]) simp_all
  next
    case (MembersScreen s)
    with tab have inv: "members_inv s" by (simp add: tab_ok_def)
    from MembersScreen show ?thesis
      by (simp del: App_handle.simps add: comp_def, intro page_events [OF tab members.acting [OF c inv], where g = MembersScreen]) simp_all
  next
    case (SettingsScreen s)
    then show ?thesis
      by (simp del: App_handle.simps add: comp_def, intro page_events [OF tab settings.acting [OF c TrueI], where g = SettingsScreen]) simp_all
  qed (simp_all add: quiet_pages)
qed

lemma Sidebar_events: "every_event (\<lambda>e. list_all (good_effect pf) (Sidebar_handle e)) (Sidebar_view c)"
  by (simp add: Sidebar_view_def Let_def nav_item_def navItems_def)

lemma Navbar_events: "every_event (\<lambda>e. list_all (good_effect pf) (snd (Navbar_handle s e))) (Navbar_view c s)"
  by (simp add: Navbar_view_def split: option.split)

lemma Notification_events:
  "every_event (\<lambda>e. list_all (good_effect pf) (snd (NotificationDrawer_handle s e))) (NotificationDrawer_view c s)"
  by (simp add: NotificationDrawer_view_def notification_item_def list_all_iff valid_call_def)

lemma palette_known: "cmd \<in> set (filteredCommands s) \<Longrightarrow> known_path (snd cmd)"
proof -
  assume "cmd \<in> set (filteredCommands s)"
  then have "cmd \<in> set palette_commands" unfolding filteredCommands_def by simp
  then show "known_path (snd cmd)" by (auto simp: palette_commands_def)
qed

lemma Palette_events:
  "every_event (\<lambda>e. list_all (good_effect pf) (snd (CommandPalette_handle s e))) (CommandPalette_view c s)"
  using palette_known by (auto simp: CommandPalette_view_def list_all_iff)

lemma frame_ok:
  assumes tab: "tab_ok pf p0 a"
  shows "list_all (good_effect pf) (Sidebar_handle x1) \<Longrightarrow> tab_ok pf p0 (App_handle be d (InSidebar x1) a)"
    and "list_all (good_effect pf) (snd (Navbar_handle s x2)) \<Longrightarrow> s = ly_navbar (layout_of a) \<Longrightarrow>
      tab_ok pf p0 (App_handle be d (InNavbar x2) a)"
    and "list_all (good_effect pf) (snd (NotificationDrawer_handle s' x3)) \<Longrightarrow> s' = ly_notifications (layout_of a) \<Longrightarrow>
      tab_ok pf p0 (App_handle be d (InNotifications x3) a)"
    and "list_all (good_effect pf) (snd (CommandPalette_handle (app_search a) x4)) \<Longrightarrow>
      tab_ok pf p0 (App_handle be d (InPalette x4) a)"
    and "tab_ok pf p0 (App_handle be d ReloadApp a)"
  using tab by (simp_all add: case_prod_beta run_effects_ok map_layout_ok)
    (simp_all add: run_effects_ok tab_ok_def [of _ _ "a\<lparr>app_search := _\<rparr>"] tab_ok_def [of _ _ a])

lemma App_events:
  assumes tab: "tab_ok pf p0 a" and "fetched_ok pf d" and "dates_agree pf be"
  shows "every_event (\<lambda>e. tab_ok pf p0 (App_handle be d e a)) (App_view be d a)"
proof -
  let ?P = "\<lambda>e. tab_ok pf p0 (App_handle be d e a)" and ?c = "context_of be d a"
  note frame = frame_ok [OF tab, where be = be and d = d]
  have "every_event (?P \<circ> InPalette) (CommandPalette_view ?c (app_search a))"
    by (rule every_event_mono [OF Palette_events [of pf]]) (simp del: App_handle.simps add: frame)
  moreover have "every_event (?P \<circ> InSidebar) (Sidebar_view ?c)"
    by (rule every_event_mono [OF Sidebar_events [of pf]]) (simp del: App_handle.simps add: frame)
  moreover have "every_event (?P \<circ> InNavbar) (Navbar_view ?c (ly_navbar l))" if "app_layout a = Some l" for l
    by (rule every_event_mono [OF Navbar_events [of pf]])
      (use that in \<open>simp del: App_handle.simps add: frame(2) layout_of_def\<close>)
  moreover have "every_event (?P \<circ> InNotifications) (NotificationDrawer_view ?c (ly_notifications l))"
    if "app_layout a = Some l" for l
    by (rule every_event_mono [OF Notification_events [of pf]])
      (use that in \<open>simp del: App_handle.simps add: frame(3) layout_of_def\<close>)
  ultimately show ?thesis
    using screen_events [OF assms] frame(5)
    by (auto simp del: App_handle.simps simp: App_view_def App_tree_def Let_def Layout_view_def split: option.split
        intro!: every_event_ErrorBoundary)
qed

section \<open>Answers and steps\<close>

lemma page_settle_ok:
  assumes "page_context pf c" and "screen_ok pf scr"
  shows "screen_ok pf (fst (page_settle c o' call r scr)) \<and>
    list_all (good_effect pf) (snd (page_settle c o' call r scr))"
proof -
  note settling = login_form.settling [OF assms(1) TrueI] signup_form.settling [OF assms(1) TrueI]
    projects.settling [OF assms(1) TrueI] settings.settling [OF assms(1) TrueI]
    drawer.settling [OF assms(1) TrueI] members.settling [OF assms(1)] Tasks_settles
  have init: "members_inv Members_init" "tasks_inv pf (Tasks_init, dr)" for dr
    by (simp_all add: members_inv_def tasks_inv_def page_inits task_priorities_def)
  have board: "tasks_inv pf (s, dr) \<Longrightarrow> tasks_inv pf (s, fst (TaskDetailsDrawer_settle c dr call r))" for s dr
    by (simp add: tasks_inv_def)
  have own: "list_all (good_effect pf) (snd (Tasks_settle_own Tasks_init call r))"
    using Tasks_settles [OF init(2)] by simp
  show ?thesis
  proof (cases o')
    case (FromPage p)
    then show ?thesis
      using assms(2) settling init own by (cases p; cases scr) simp_all
  next
    case FromDrawer
    then show ?thesis using assms(2) settling board by (cases scr) simp_all
  qed (simp add: assms(2))
qed

lemma on_settled_ok:
  assumes tab: "tab_ok pf p0 a" and "fetched_ok pf d" and "dates_agree pf be"
  shows "tab_ok pf p0 (on_settled be d q r a)"
proof -
  obtain o' n call where q: "q = (o', n, call)" by (cases q)
  let ?scr = "if n = app_mounts a then app_screen a else NoScreen"
  let ?x = "page_settle (context_of be d a) o' call r ?scr"
  have "screen_ok pf ?scr" using tab by (simp add: tab_ok_def)
  from page_settle_ok [OF tab_context [OF assms] this]
  have x: "screen_ok pf (fst ?x)" "list_all (good_effect pf) (snd ?x)" by blast+
  have "tab_ok pf p0 (a\<lparr>app_pending := remove1 q (app_pending a),
      app_screen := (if n = app_mounts a then fst ?x else app_screen a)\<rparr>)"
    using tab x(1) by (auto simp: tab_ok_def dest: notin_set_remove1)
  from run_effects_ok [OF this x(2)] show ?thesis
    unfolding on_settled_def q case_prod_beta fst_conv snd_conv .
qed

lemma selecting_keeps: "tk_selectedTaskId (st_task (fold dispatch (select_project ps b) b)) = tk_selectedTaskId (st_task b)"
  by (simp add: select_project_def Let_def other_reducers)

lemma token_steps_keep:
  "st_task (store_tokens t b) = st_task b" "st_task (force_logout b) = st_task b"
  by (simp_all add: store_tokens_def force_logout_def auth_reducers Let_def)

lemma app_step_ok:
  assumes step: "app_step be (fetched_ok pf) a a'" and dates: "dates_agree pf be" and tab: "tab_ok pf p0 a"
  shows "tab_ok pf p0 a' \<and> shell_ok a'"
  using step
proof (cases rule: app_step.cases)
  case (acts d e i)
  from every_eventD [OF App_events [OF tab acts(2) dates] acts(3)] show ?thesis
    by (simp add: acts(1) render_ok render_shell)
next
  case (settles d q r)
  with on_settled_ok [OF tab _ dates] show ?thesis by (simp add: render_ok render_shell)
next
  case (timer d p)
  with tab have "tab_ok pf p0 (a\<lparr>app_path := p, app_timers := remove1 p (app_timers a)\<rparr>)"
    by (auto simp: tab_ok_def dest: notin_set_remove1)
  with timer show ?thesis by (simp add: render_ok render_shell)
next
  case (shortcut d ctrl meta key)
  with tab show ?thesis by (simp add: render_ok render_shell run_effects_ok handleKeyDown_def)
next
  case (tick d)
  with tab show ?thesis by (simp add: render_ok render_shell map_layout_ok)
next
  case (selects d s dr)
  have "tab_ok pf p0 (a\<lparr>app_browser :=
      fold dispatch (select_project (Tasks_projects (context_of be d a)) (app_browser a)) (app_browser a)\<rparr>)"
    using tab by (simp add: tab_ok_def selecting_keeps)
  with selects show ?thesis by (simp add: render_ok render_shell)
next
  case (refreshed d t)
  have "tab_ok pf p0 (a\<lparr>app_browser := store_tokens t (app_browser a)\<rparr>)"
    using tab by (simp add: tab_ok_def token_steps_keep)
  with refreshed show ?thesis by (simp add: render_ok render_shell)
next
  case (logged_out d)
  have "tab_ok pf p0 (a\<lparr>app_browser := force_logout (app_browser a)\<rparr>)"
    using tab by (simp add: tab_ok_def token_steps_keep)
  with logged_out show ?thesis by (simp add: render_ok render_shell)
qed

lemma app_reachable_ok:
  assumes "app_reachable be (fetched_ok pf) a b" and "dates_agree pf be" and "tab_ok pf p0 a" and "shell_ok a"
  shows "tab_ok pf p0 b \<and> shell_ok b"
  using assms by (induction) (use app_step_ok in blast)+

section \<open>Who awaits an answer\<close>

fun page_awaits :: "page_name \<Rightarrow> api_call \<Rightarrow> bool" where
  "page_awaits LoginPage c = (\<exists>b. c = AuthCall (Login b))"
| "page_awaits SignupPage c = (\<exists>b. c = AuthCall (Signup b))"
| "page_awaits SettingsPage c =
     ((\<exists>w b. c = WorkspaceCall (UpdateWorkspace w b)) \<or> (\<exists>b. c = WorkspaceCall (CreateWorkspace b)))"
| "page_awaits MembersPage c = (\<exists>w b. c = WorkspaceCall (InviteWorkspaceMember w b))"
| "page_awaits ProjectsPage c =
     ((\<exists>w b. c = ProjectCall (CreateProject w b)) \<or> (\<exists>w i. c = ProjectCall (DeleteProject w i)))"
| "page_awaits TasksPage c =
     ((\<exists>w p b. c = TaskCall (CreateTask w p b)) \<or> (\<exists>w t b. c = TaskCall (UpdateTask w t b)))"
| "page_awaits _ c = False"

fun awaits :: "origin \<Rightarrow> api_call \<Rightarrow> bool" where
  "awaits (FromPage p) c = page_awaits p c"
| "awaits FromDrawer c =
     (page_awaits TasksPage c \<or> (\<exists>w t b. c = OtherCall (AddComment w t b)))"
| "awaits FromNotifications c =
     ((\<exists>i. c = OtherCall (MarkNotificationRead i)) \<or> c = OtherCall MarkAllNotificationsRead)"

text \<open>A request of the mounted page was sent by that page.\<close>

definition origin_ok :: "app \<Rightarrow> bool" where
  "origin_ok a \<longleftrightarrow>
     (\<forall>o' n c. (o', n, c) \<in> set (app_pending a) \<longrightarrow>
        awaits o' c \<and> n \<le> app_mounts a \<and>
        (\<forall>p. o' = FromPage p \<and> n = app_mounts a \<longrightarrow> screen_page (app_screen a) = Some p))"

definition sends :: "origin \<Rightarrow> effect list \<Rightarrow> bool" where
  "sends o' fx \<longleftrightarrow> Reload \<notin> set fx \<and> (\<forall>c. Send c \<in> set fx \<longrightarrow> awaits o' c)"

lemma sends_simps [simp]:
  "sends o' []" "sends o' (Send c # fx) = (awaits o' c \<and> sends o' fx)"
  "sends o' (Dispatch x # fx) = sends o' fx" "sends o' (Go p # fx) = sends o' fx"
  "sends o' (GoLater ms p # fx) = sends o' fx" "sends o' (Snack v m # fx) = sends o' fx"
  "sends o' (snack v s # fx) = sends o' fx" "sends o' (ToggleTheme # fx) = sends o' fx"
  by (auto simp: sends_def snack_def)

lemma page_sends:
  "sends (FromPage LoginPage) (snd (Login_handle c s1 e1))"
  "sends (FromPage SignupPage) (snd (Signup_handle c s2 e2))"
  "sends (FromPage SettingsPage) (snd (Settings_handle c s3 e3))"
  "sends (FromPage MembersPage) (snd (Members_handle c s4 e4))"
  "sends (FromPage ProjectsPage) (snd (Projects_handle c s5 e5))"
  by ((cases e1; simp add: Login_onSubmit_def), (cases e2; simp add: Signup_onSubmit_def),
      (cases e3; simp add: handleUpdateProfile_def handleUpdateWorkspace_def handleCreateWorkspace_def),
      (cases e4; simp add: handleInvite_def),
      (cases e5; simp add: Projects_handleCreate_def Projects_handleDelete_def))

lemma drawer_sends: "sends FromDrawer (snd (TaskDetailsDrawer_handle c s e))"
  by (cases e) (simp_all add: handleAddSubtask_def handleFieldChange_def handleAddComment_def split: option.split)

lemma board_sends:
  "sends (case e of InDrawer x \<Rightarrow> FromDrawer | _ \<Rightarrow> FromPage TasksPage) (snd (Tasks_handle c (s, d) e))"
proof (cases e)
  case CreateTaskNow
  then show ?thesis by (simp add: handleCreateTask_def)
next
  case (DragEnd i over)
  then show ?thesis by (simp add: handleDragEnd_def split: option.split)
next
  case (InDrawer x)
  with drawer_sends [of c d x] show ?thesis
    by (cases "TaskDetailsDrawer_handle c d x") simp
qed simp_all

lemma page_handle_sends:
  "sends (page_origin scr e) (snd (page_handle c scr e)) \<and> screen_page (fst (page_handle c scr e)) = screen_page scr"
proof (cases e)
  case (InTasks x)
  show ?thesis
  proof (cases scr)
    case (TasksScreen s d)
    with InTasks board_sends [of x c s d] show ?thesis
      by (cases "Tasks_handle c (s, d) x") (auto simp: page_origin_def split: tasks_event.splits)
  qed (simp_all add: InTasks page_origin_def)
qed (auto simp: page_origin_def page_sends split: screen.splits)

lemma settle_sends:
  "sends o' (snd (page_settle c q call r scr)) \<and> screen_page (fst (page_settle c q call r scr)) = screen_page scr"
proof -
  have settles: "sends o' (snd (Login_settle c s1 call r))" "sends o' (snd (Signup_settle c s2 call r))"
      "sends o' (snd (Members_settle c s3 call r))" for s1 s2 s3
    by (cases r; simp)+
  have more: "sends o' (snd (Settings_settle c s1 call r))" for s1
    by (induction c s1 call r rule: Settings_settle.induct) simp_all
  moreover have "sends o' (snd (Projects_settle c s2 call r))" for s2
    by (induction c s2 call r rule: Projects_settle.induct) simp_all
  moreover have "sends o' (snd (TaskDetailsDrawer_settle c s3 call r))" for s3
    by (induction c s3 call r rule: TaskDetailsDrawer_settle.induct) simp_all
  moreover have "sends o' (snd (Tasks_settle_own s4 call r))" for s4
    by (induction s4 call r rule: Tasks_settle_own.induct) simp_all
  ultimately show ?thesis
  proof (cases q)
    case (FromPage p)
    with settles more \<open>\<And>s2. sends o' (snd (Projects_settle c s2 call r))\<close>
      \<open>\<And>s4. sends o' (snd (Tasks_settle_own s4 call r))\<close>
    show ?thesis by (cases p; cases scr) simp_all
  next
    case FromDrawer
    with \<open>\<And>s3. sends o' (snd (TaskDetailsDrawer_settle c s3 call r))\<close>
    show ?thesis by (cases scr) simp_all
  qed simp_all
qed

lemma run_effect_origin:
  assumes "origin_ok a" and "fx \<noteq> Reload" and "\<And>c. fx = Send c \<Longrightarrow> awaits o' c" and "n \<le> app_mounts a"
    and "\<And>p. o' = FromPage p \<Longrightarrow> n = app_mounts a \<Longrightarrow> screen_page (app_screen a) = Some p"
  shows "origin_ok (run_effect be d o' n fx a) \<and> app_mounts (run_effect be d o' n fx a) = app_mounts a \<and>
    app_screen (run_effect be d o' n fx a) = app_screen a"
proof (cases fx)
  case (Send c)
  with assms show ?thesis by (auto simp: origin_ok_def)
qed (use assms in \<open>simp_all add: origin_ok_def\<close>)

lemma run_effects_origin:
  assumes "origin_ok a" and "sends o' fx" and "n \<le> app_mounts a"
    and "\<And>p. o' = FromPage p \<Longrightarrow> n = app_mounts a \<Longrightarrow> screen_page (app_screen a) = Some p"
  shows "origin_ok (run_effects be d o' n fx a)"
  using assms
proof (induction fx arbitrary: a)
  case Nil
  then show ?case by (simp add: run_effects_def)
next
  case (Cons f fx)
  from Cons.prems(2) have f: "f \<noteq> Reload" "\<And>c. f = Send c \<Longrightarrow> awaits o' c" and fx: "sends o' fx"
    by (auto simp: sends_def)
  let ?a = "run_effect be d o' n f a"
  note one = run_effect_origin [OF Cons.prems(1) f Cons.prems(3,4), of be d]
  then have "origin_ok ?a" and kept: "app_mounts ?a = app_mounts a" "app_screen ?a = app_screen a" by blast+
  from this(1) fx have "origin_ok (run_effects be d o' n fx ?a)"
    by (rule Cons.IH) (use kept Cons.prems(3,4) in auto)
  then show ?case by (simp add: run_effects_def)
qed

lemma render_origin:
  assumes "origin_ok a"
  shows "origin_ok (render_app be d a)"
  using assms by (fastforce simp: render_app_def Let_def origin_ok_def)

lemma open_origin: "origin_ok (open_tab be d ls p)"
  unfolding open_tab_def by (rule render_origin) (simp add: origin_ok_def)

lemma origin_frame:
  assumes "origin_ok a" and "app_pending a' = app_pending a" "app_mounts a' = app_mounts a"
    and "screen_page (app_screen a') = screen_page (app_screen a)"
  shows "origin_ok a'"
  using assms by (simp add: origin_ok_def)

lemma on_page_origin:
  assumes "origin_ok a"
  shows "origin_ok (on_page be d e a)"
proof -
  let ?x = "page_handle (context_of be d a) (app_screen a) e"
  note x = page_handle_sends [of "app_screen a" e "context_of be d a"]
  have "origin_ok (a\<lparr>app_screen := fst ?x\<rparr>)" by (rule origin_frame [OF assms]) (use x in simp_all)
  moreover have "screen_page (app_screen a) = Some p" if "page_origin (app_screen a) e = FromPage p" for p
    using that by (auto simp: page_origin_def split: app_event.splits option.splits tasks_event.splits)
  ultimately show ?thesis
    using x unfolding on_page_def case_prod_beta by (intro run_effects_origin) simp_all
qed

lemma frame_sends:
  "sends FromNotifications (Sidebar_handle x1)" "sends FromNotifications (snd (Navbar_handle s2 x2))"
  "sends FromNotifications (snd (NotificationDrawer_handle s3 x3))"
  "sends FromNotifications (snd (CommandPalette_handle s4 x4))"
  by ((cases x1; simp), (cases x2; simp), (cases x3; simp), (cases x4; simp))

lemma App_handle_origin:
  assumes "origin_ok a"
  shows "origin_ok (App_handle be d e a)"
proof -
  have frame: "origin_ok (run_effects be d FromNotifications 0 fx a')" if "sends FromNotifications fx"
      "app_pending a' = app_pending a" "app_mounts a' = app_mounts a" "app_screen a' = app_screen a" for fx a'
    by (rule run_effects_origin) (use that in \<open>auto intro: origin_frame [OF assms]\<close>)
  show ?thesis
    by (cases e)
      (simp_all add: on_page_origin [OF assms] case_prod_beta frame frame_sends map_layout_def,
        simp add: run_effects_def open_origin)
qed

lemma on_settled_origin:
  assumes "origin_ok a" and "q \<in> set (app_pending a)"
  shows "origin_ok (on_settled be d q r a)"
proof -
  obtain o' n call where q: "q = (o', n, call)" by (cases q)
  let ?scr = "if n = app_mounts a then app_screen a else NoScreen"
  let ?x = "page_settle (context_of be d a) o' call r ?scr"
  let ?a = "a\<lparr>app_pending := remove1 q (app_pending a),
      app_screen := (if n = app_mounts a then fst ?x else app_screen a)\<rparr>"
  note x = settle_sends [of o' "context_of be d a" o' call r ?scr]
  have page: "screen_page (app_screen ?a) = screen_page (app_screen a)"
    using x by (cases "n = app_mounts a") simp_all
  have "origin_ok ?a"
    using assms(1) page by (auto simp: origin_ok_def dest!: notin_set_remove1)
  then show ?thesis
    unfolding on_settled_def q case_prod_beta fst_conv snd_conv
    by (rule run_effects_origin) (use x assms page q in \<open>auto simp: origin_ok_def\<close>)
qed

lemma app_step_origin:
  assumes "app_step be data a a'" and "origin_ok a"
  shows "origin_ok a'"
  using assms(1)
proof (cases rule: app_step.cases)
  case (shortcut d ctrl meta key)
  have "origin_ok (run_effects be d FromNotifications 0 (handleKeyDown ctrl meta key) a)"
    by (rule run_effects_origin [OF assms(2)]) (simp_all add: handleKeyDown_def)
  with shortcut show ?thesis by (simp add: render_origin)
next
  case (tick d)
  then show ?thesis by (auto intro!: render_origin origin_frame [OF assms(2)] simp: map_layout_def)
qed (use assms(2) in \<open>auto intro!: render_origin App_handle_origin on_settled_origin intro: origin_frame\<close>)

lemma app_reachable_origin: "app_reachable be data a b \<Longrightarrow> origin_ok a \<Longrightarrow> origin_ok b"
  by (induction rule: app_reachable.induct) (auto intro: app_step_origin)

end
