(* ===== verification/AppTheorems.thy ===== *)
theory AppTheorems
  imports AppLaws PlatformTheorems
begin

text \<open>
  The properties of the tab: what its guards let a visitor see, what its pages send, what they do
  with an answer, and what comes of it on the server.
\<close>

section \<open>Every path of the visitor\<close>

definition demo_env :: browser_env where
  "demo_env = \<lparr>be_isEmail = (\<lambda>s. CHR ''@'' \<in> set s), be_userAgent = ''demo'',
     be_parseDate = (\<lambda>s. if length s = 10 then Some 0 else None),
     be_toISOString = (\<lambda>t. ''1970-01-01T00:00:00.000Z''), be_toLocaleDateString = (\<lambda>t. ''1970''),
     be_toLocaleString = (\<lambda>t. ''1970''), be_prefersDark = False\<rparr>"

definition no_data :: fetched where
  "no_data = \<lparr>fd_workspaces = None, fd_members = None, fd_membersLoading = False, fd_projects = None,
     fd_projectsLoading = False, fd_tasks = None, fd_tasksLoading = False, fd_task = None,
     fd_taskLoading = False, fd_comments = None, fd_tree = None, fd_metrics = None,
     fd_metricsLoading = False, fd_metricsError = False, fd_notifications = None, fd_logs = None,
     fd_logsLoading = False, fd_logsError = False, fd_connected = False\<rparr>"

lemma open_reachable_ok:
  assumes "app_reachable be (fetched_ok pf) (open_tab be d ls p0) a" and "dates_agree pf be"
  shows "tab_ok pf p0 a \<and> shell_ok a"
  by (rule app_reachable_ok [OF assms open_ok]) (simp add: open_tab_def render_shell)

text \<open>
  C7: in a tab, whatever the visitor clicks and types and whatever answers, timers and data arrive:
  without a session no page but Login and Signup is shown and there is no layout, with one neither
  of them is, the page shown is the one of the address, and the address is a route of the
  application unless the tab was opened elsewhere.
\<close>

theorem guards_hold_in_every_tab:
  assumes "app_reachable be (fetched_ok pf) (open_tab be d ls p0) a" and "dates_agree pf be"
  shows "(if au_isAuthenticated (st_auth (app_browser a))
      then screen_page (app_screen a) \<notin> {Some LoginPage, Some SignupPage}
      else screen_page (app_screen a) \<in> {Some LoginPage, Some SignupPage, None} \<and> app_layout a = None) \<and>
    screen_page (app_screen a) = route_page (app_path a) \<and> (known_path (app_path a) \<or> app_path a = p0)"
proof -
  from open_reachable_ok [OF assms] have tab: "tab_ok pf p0 a" and shell: "shell_ok a" by blast+
  from shell have "map_of App_routes (app_path a) \<noteq> None \<Longrightarrow>
      (\<exists>g p. map_of App_routes (app_path a) = Some (g, p) \<and>
         (g = Guest \<longleftrightarrow> \<not> au_isAuthenticated (st_auth (app_browser a))) \<and> (g = Guest \<longleftrightarrow> p \<in> {LoginPage, SignupPage}))"
    by (auto simp: shell_ok_def App_redirect_def App_routes_def GuestRoute_def ProtectedRoute_def split: if_splits)
  with shell tab show ?thesis
    by (cases "map_of App_routes (app_path a)")
      (auto simp: shell_ok_def tab_ok_def route_page_def route_protected_def)
qed


text \<open>A visit: each interaction runs the first callback it fits.\<close>

definition interact :: "browser_env \<Rightarrow> fetched \<Rightarrow> interaction \<Rightarrow> app \<Rightarrow> app" where
  "interact be d i a =
     (case fire (App_view be d a) i of [] \<Rightarrow> a | e # es \<Rightarrow> render_app be d (App_handle be d e a))"

lemma interact_reachable:
  assumes "app_reachable be ok a b" and "ok d"
  shows "app_reachable be ok a (interact be d i b)"
proof (cases "fire (App_view be d b) i")
  case Nil
  with assms(1) show ?thesis by (simp add: interact_def)
next
  case (Cons e es)
  then have "e \<in> set (fire (App_view be d b) i)" by simp
  from app_step.acts [where data = ok, OF assms(2) this] have "app_step be ok b (render_app be d (App_handle be d e b))" .
  from app_reachable.then_step [OF assms(1) this] Cons show ?thesis
    by (simp add: interact_def)
qed

lemma visit_reachable:
  assumes "app_reachable be ok a b" and "ok d"
  shows "app_reachable be ok a (fold (interact be d) is b)"
  using assms(1) by (induction "is" arbitrary: b) (simp_all add: interact_reachable assms(2))

lemma demo_dates: "dates_agree demo_pf demo_env"
  by (simp add: dates_agree_def demo_pf_def)

lemma no_data_ok: "fetched_ok demo_pf no_data"
  by (simp add: fetched_ok_def no_data_def)

definition demo_tab0 :: app where
  "demo_tab0 = open_tab demo_env no_data Map.empty ''/tasks''"

lemma demo_tab_visit:
  "app_reachable demo_env (fetched_ok demo_pf) (open_tab demo_env no_data Map.empty ''/tasks'')
     (fold (interact demo_env no_data) is demo_tab0)"
  unfolding demo_tab0_def
  by (rule visit_reachable [where ok = "fetched_ok demo_pf"]) (simp_all add: app_reachable.start no_data_ok)

theorem guards_hold_in_every_tab_witness:
  "app_path (fold (interact demo_env no_data) [Click ''/signup''] demo_tab0) = ''/signup'' \<and>
   screen_page (app_screen (fold (interact demo_env no_data) [Click ''/signup''] demo_tab0)) = Some SignupPage"
proof -
  have path: "app_path (fold (interact demo_env no_data) [Click ''/signup''] demo_tab0) = ''/signup''"
    by code_simp
  have "route_page ''/signup'' = Some SignupPage" by code_simp
  with path guards_hold_in_every_tab [OF demo_tab_visit demo_dates, of "[Click ''/signup'']"] show ?thesis
    by (simp split: if_splits)
qed



section \<open>Rendering never throws\<close>

lemma crashes_map [simp]: "crashes (map_ui f u) = crashes u"
  by (induction u rule: crashes.induct) (auto simp: list_ex_iff)

lemma calm_helpers [simp]:
  "\<not> list_ex crashes (helper_text b err)" "\<not> list_ex crashes (alert_of v m)" "\<not> crashes Loader"
  "\<not> crashes (EmptyState t x act)" "\<not> crashes (ConfirmDialog opn t x y n e e' l)" "\<not> crashes (member_item mu)"
  by (auto simp: helper_text_def alert_of_def Loader_def EmptyState_def ConfirmDialog_def member_item_def
      split: option.splits)

lemma calm_texts [simp]: "\<not> list_ex crashes (map Txt xs)"
  by (simp add: list_ex_iff)

lemma calm_pages:
  "\<not> crashes (Login_view c s1)" "\<not> crashes (Signup_view c s2)" "\<not> crashes (Settings_view c s3)"
  "\<not> crashes (Members_view c s4)" "\<not> crashes (Projects_view c s5)" "\<not> crashes (Dashboard_view c)"
  "\<not> crashes (Admin_view c)" "\<not> crashes ActivityLog_view"
  by (auto simp: Login_view_def Signup_view_def Settings_view_def Members_view_def Projects_view_def
      project_card_def Dashboard_view_def stat_cards_def chart_def Admin_view_def Admin_refusal_def audit_row_def
      ActivityLog_view_def list_ex_iff [of _ "map _ _"] split: option.splits bool.splits)

lemma calm_frame:
  "\<not> crashes (Sidebar_view c)" "\<not> crashes (Navbar_view c s)" "\<not> crashes (NotificationDrawer_view c t)"
  "\<not> crashes (CommandPalette_view c x)"
  by (auto simp: Sidebar_view_def Let_def nav_item_def navItems_def Navbar_view_def NotificationDrawer_view_def
      notification_item_def CommandPalette_view_def list_ex_iff [of _ "map _ _"] split: option.splits)

lemma member_options_total:
  assumes "\<forall>m \<in> set (or_nil (fd_members (cx_data c))). snd m \<noteq> None"
  shows "\<exists>opts. member_options text c = Some opts"
proof -
  have "\<exists>opts. those (map (\<lambda>m. map_option (\<lambda>u. (user_id u, text u)) (snd m)) ms) = Some opts"
    if "\<forall>m \<in> set ms. snd m \<noteq> None" for ms :: "(workspace_member \<times> user option) list"
    using that by (induction ms) auto
  from this [OF assms] show ?thesis unfolding member_options_def .
qed

lemma calm_tasks:
  assumes "\<forall>m \<in> set (or_nil (fd_members (cx_data c))). snd m \<noteq> None"
  shows "\<not> crashes (Tasks_view c x)"
proof -
  obtain o1 o2 where opts: "member_options (\<lambda>u. user_name u @ '' ('' @ user_email u @ '')'') c = Some o1"
    "member_options user_name c = Some o2"
    using member_options_total [OF assms] by blast
  have card: "\<not> crashes (DraggableTaskCard y)" "\<not> crashes (comment_card c z)" "\<not> crashes (subtask_card n)" for y z n
    by (auto simp: DraggableTaskCard_def comment_card_def split: option.split) (cases n, simp)
  have "\<not> crashes (DroppableColumn st t ts)" for st t ts
    by (auto simp: DroppableColumn_def card list_ex_iff)
  then have "\<not> crashes (board_view c)" by (simp add: board_view_def)
  moreover have "\<not> crashes (list_view c)" "\<not> crashes (table_view c)"
    by (auto simp: list_view_def table_view_def list_item_def table_row_def list_ex_iff)
  ultimately have content: "\<not> crashes (Tasks_content c)"
    by (simp add: Tasks_content_def split: task_view_mode.split)
  have "\<not> list_ex crashes (parameter_fields c t)" for t
    using opts(1) by (simp add: parameter_fields_def assignee_choice_def)
  moreover have "\<not> crashes (subtask_list c)"
    by (auto simp: subtask_list_def card list_ex_iff split: option.split task_node.split list.split)
  ultimately have "\<not> crashes (TaskDetailsDrawer_view c d)" for d
    by (auto simp: TaskDetailsDrawer_view_def card list_ex_iff [of _ "map _ _"] split: option.splits bool.splits)
  with content show ?thesis
    by (simp add: Tasks_view_def Tasks_header_def create_dialog_def opts)
qed

lemma find_user_missing: "find_user pf i w = None \<longleftrightarrow> \<not> user_exists i w"
  unfolding find_user_def option.map_disc_iff find_one_None by (auto simp: exists_defs)

lemma calm_screen:
  assumes "\<forall>m \<in> set (or_nil (fd_members (cx_data c))). snd m \<noteq> None"
  shows "\<not> crashes (screen_view c scr)"
  by (cases scr) (simp_all add: calm_pages calm_tasks [OF assms])

text \<open>
  C9: the page of the error boundary, "Something went wrong", is never shown: the only thing a page
  reads of a value that may be missing is the user of a member, and in every state the server can
  reach from a consistent database each member the list of members answers has its user.
\<close>

theorem pages_never_throw:
  assumes "server_reachable pf w0 w" and "inj (pf_uuid pf)" and "db_ok pf w0"
    and "getMembers pf i w = (Inr ms, w')" and "fd_members d \<in> {None, Some ms}"
  shows "App_view be d a = App_tree be d a"
proof -
  from server_reachable_db_ok [OF assms(1-3)] have "members_ok w" by (simp add: db_ok_def)
  then have "find_user pf (member_userId m) w \<noteq> None" if "m \<in> set (members w)" for m
    using that unfolding find_user_missing by (simp add: members_ok_def)
  then have "\<forall>m \<in> set ms. snd m \<noteq> None"
    using assms(4) by (auto simp: getMembers_def gets_def)
  with assms(5) have "\<forall>m \<in> set (or_nil (fd_members (cx_data (context_of be d a)))). snd m \<noteq> None"
    by (auto simp: context_of_def)
  from calm_screen [OF this] have "\<not> crashes (App_tree be d a)"
    by (auto simp: App_tree_def Let_def Layout_view_def calm_frame split: option.split)
  then show ?thesis by (simp add: App_view_def ErrorBoundary_def)
qed

theorem pages_never_throw_witness:
  "\<exists>ms w'. getMembers demo_pf (pf_uuid demo_pf 4) demo_started = (Inr ms, w') \<and>
     App_view demo_env (no_data\<lparr>fd_members := Some ms\<rparr>) demo_tab0 =
     App_tree demo_env (no_data\<lparr>fd_members := Some ms\<rparr>) demo_tab0"
proof -
  let ?i = "pf_uuid demo_pf 4"
  have run: "getMembers demo_pf ?i demo_started =
      (Inr (the_inr (fst (getMembers demo_pf ?i demo_started))), snd (getMembers demo_pf ?i demo_started))"
    if "the_inr = (\<lambda>x. case x of Inr y \<Rightarrow> y)" for the_inr :: "_ + (workspace_member \<times> user option) list \<Rightarrow> _"
    by (simp add: that getMembers_def gets_def)
  from pages_never_throw [OF demo_started_reachable demo_uuid_inj demo_seed_ok run [OF refl]]
  show ?thesis using run [OF refl] by auto
qed

section \<open>Failures are reported\<close>







section \<open>Notifications\<close>

lemma order_desc_map:
  assumes "\<And>x. key (f x) = key x"
  shows "order_desc key (map f xs) = map f (order_desc key xs)"
proof -
  have insort: "insort_key (\<lambda>r. - key r) (f x) (map f ys) = map f (insort_key (\<lambda>r. - key r) x ys)" for x ys
    by (induction ys) (simp_all add: assms)
  show ?thesis unfolding order_desc_def by (induction xs) (simp_all add: insort)
qed

text \<open>
  While there is an unread notification the drawer offers to mark all of them read, and the badge
  shows their number, at most 99; once the server has served that request and the list is fetched
  again, none is unread, the badge is gone and nothing was lost from the list.
\<close>

theorem mark_all_read_clears_the_badge:
  assumes data: "fd_notifications (cx_data c) = Some ns" "getNotificationsForUser uid None w = (Inr ns, w)"
    and shown: "drawer_open c" "unread c \<noteq> []"
    and served: "markAllAsRead uid w = (r, w1)" "getNotificationsForUser uid None w1 = (Inr ns', w2)"
    and again: "c' = c\<lparr>cx_data := (cx_data c)\<lparr>fd_notifications := Some ns'\<rparr>\<rparr>"
  shows "NotificationsReadAll \<in> set (fire (NotificationDrawer_view c s) (Click ''Mark all read'')) \<and>
    snd (NotificationDrawer_handle s NotificationsReadAll) = [Send (OtherCall MarkAllNotificationsRead)] \<and>
    badge (length (unread c)) \<noteq> [] \<and> unread c' = [] \<and> badge (length (unread c')) = [] \<and>
    map notification_id ns' = map notification_id ns"
proof -
  let ?f = "\<lambda>n. if notification_userId n = uid \<and> \<not> notification_isRead n then n\<lparr>notification_isRead := True\<rparr> else n"
  let ?own = "filter (\<lambda>n. notification_userId n = uid)"
  have w1: "notifications w1 = map ?f (notifications w)"
    using served(1) by (auto simp: markAllAsRead_def await_def modify_def ret_def update_rows_def)
  have own: "?own (map ?f xs) = map ?f (?own xs)" for xs
    by (induction xs) simp_all
  have ns: "ns = order_desc notification_createdAt (?own (notifications w))"
    using data(2) by (simp add: getNotificationsForUser_def gets_def)
  have "order_desc notification_createdAt (?own (notifications w1)) = ns'"
    using served(2) by (auto simp: getNotificationsForUser_def gets_def)
  then have ns': "ns' = map ?f ns"
    unfolding w1 own ns by (subst (asm) order_desc_map) auto
  have "notification_userId n = uid" if "n \<in> set ns" for n
    using that by (simp add: ns)
  then have read: "notification_isRead n" if "n \<in> set ns'" for n
    using that by (auto simp: ns')
  have unread': "unread c' = []"
    by (simp add: again unread_def filter_empty_conv read)
  have "length (unread c) \<noteq> 0" using shown(2) by simp
  moreover have "show_nat n \<noteq> []" for n by (subst show_nat.simps) simp
  ultimately have "badge (length (unread c)) \<noteq> []" by (simp add: badge_def)
  moreover have "map notification_id ns' = map notification_id ns" by (simp add: ns')
  ultimately show ?thesis
    using shown unread' by (simp add: NotificationDrawer_view_def) (simp add: badge_def)
qed

definition demo_notice :: notification where
  "demo_notice = \<lparr>notification_id = ''n1'', notification_userId = ''ann'', notification_type = ''TASK_ASSIGNED'',
     notification_title = ''t'', notification_message = ''m'', notification_isRead = False,
     notification_createdAt = 0\<rparr>"

definition demo_noticed :: world where
  "demo_noticed = demo_world\<lparr>notifications := [demo_notice]\<rparr>"

definition demo_drawer :: ui_context where
  "demo_drawer = context_of demo_env (no_data\<lparr>fd_notifications := Some [demo_notice]\<rparr>)
     (demo_tab0\<lparr>app_browser := setOpen NotificationDrawer True (app_browser demo_tab0)\<rparr>)"

theorem mark_all_read_clears_the_badge_witness:
  "badge (length (unread demo_drawer)) \<noteq> [] \<and>
   badge (length (unread (demo_drawer\<lparr>cx_data := (cx_data demo_drawer)\<lparr>fd_notifications :=
     Some [demo_notice\<lparr>notification_isRead := True\<rparr>]\<rparr>\<rparr>))) = []"
proof -
  let ?w1 = "snd (markAllAsRead ''ann'' demo_noticed)" and ?ns = "[demo_notice\<lparr>notification_isRead := True\<rparr>]"
  have "fd_notifications (cx_data demo_drawer) = Some [demo_notice]" "drawer_open demo_drawer" "unread demo_drawer \<noteq> []"
    by (simp_all add: demo_drawer_def context_of_def unread_def demo_notice_def drawer_open_def setOpen_def)
  moreover have "getNotificationsForUser ''ann'' None demo_noticed = (Inr [demo_notice], demo_noticed)"
    by (simp add: getNotificationsForUser_def gets_def demo_noticed_def demo_notice_def order_desc_def)
  moreover have "markAllAsRead ''ann'' demo_noticed = (fst (markAllAsRead ''ann'' demo_noticed), ?w1)" by simp
  moreover have "getNotificationsForUser ''ann'' None ?w1 = (Inr ?ns, ?w1)"
    by (simp add: getNotificationsForUser_def gets_def markAllAsRead_def await_def modify_def ret_def
        update_rows_def demo_noticed_def demo_notice_def order_desc_def)
  ultimately show ?thesis
    using mark_all_read_clears_the_badge [of demo_drawer "[demo_notice]" "''ann''" demo_noticed _ ?w1 ?ns ?w1] by blast
qed

end
