(* ===== verification/BoardTheorems.thy ===== *)
theory BoardTheorems
  imports AppTheorems TaskTheorems
begin

text \<open>
  The properties of the task board and of the drawer: what the board shows of the server's tasks and
  what comes of dragging a card, of typing into a field and of choosing a project, from the event in
  the browser to the row in the table.
\<close>

section \<open>A project stays selected\<close>

text \<open>
  The effect that selects a project settles: it keeps a selection the list has, selects the
  first project otherwise and none when there is none, and running it again changes nothing, so the
  board neither loops nor shows the tasks of a project of another workspace.
\<close>

theorem project_selection_settles:
  assumes "b' = fold dispatch (select_project ps b) b"
  shows "fold dispatch (select_project ps b') b' = b' \<and>
    (if ps = [] then pj_activeProjectId (st_project b') = None
     else \<exists>p \<in> set ps. pj_activeProjectId (st_project b') = Some (project_id p)) \<and>
    (\<forall>p \<in> set ps. project_id p \<noteq> [] \<and> pj_activeProjectId (st_project b) = Some (project_id p) \<longrightarrow> b' = b)"
proof -
  have keep: "fold dispatch (select_project ps b) b = b"
    if "p \<in> set ps" "project_id p \<noteq> []" "pj_activeProjectId (st_project b) = Some (project_id p)" for p b
    using that by (auto simp: select_project_def Let_def list_ex_iff)
  show ?thesis
  proof (cases ps)
    case Nil
    then show ?thesis
      using assms by (simp add: select_project_def Let_def other_reducers)
  next
    case (Cons q qs)
    let ?a = "pj_activeProjectId (st_project b)"
    show ?thesis
    proof (cases "truthy ?a \<and> list_ex (\<lambda>p. Some (project_id p) = ?a) ps")
      case True
      then obtain p where p: "p \<in> set ps" "?a = Some (project_id p)" by (auto simp: list_ex_iff)
      with True have "project_id p \<noteq> []" by simp
      note p = p this
      from keep [OF p(1,3,2)] assms have "b' = b" by simp
      with keep [OF p(1,3,2)] p Cons show ?thesis by auto
    next
      case False
      then have b': "b' = setActiveProjectId (Some (project_id q)) b"
        using assms Cons by (auto simp: select_project_def Let_def)
      have "pj_activeProjectId (st_project b') = Some (project_id q)"
        by (simp add: b' setActiveProjectId_def)
      moreover have "fold dispatch (select_project ps b') b' = b'"
        by (auto simp: Cons b' select_project_def Let_def setActiveProjectId_def)
      moreover have "\<not> (\<exists>p \<in> set ps. project_id p \<noteq> [] \<and> ?a = Some (project_id p))"
        using False by (auto simp: list_ex_iff)
      ultimately show ?thesis using Cons by auto
    qed
  qed
qed

theorem project_selection_settles_witness:
  "fold dispatch (select_project [demo_project ''p1'' ''w1''] (app_browser demo_tab0)) (app_browser demo_tab0) \<noteq>
     app_browser demo_tab0 \<and>
   pj_activeProjectId (st_project (fold dispatch (select_project [demo_project ''p1'' ''w1''] (app_browser demo_tab0))
     (app_browser demo_tab0))) = Some ''p1''"
proof -
  let ?b = "app_browser demo_tab0"
  have "pj_activeProjectId (st_project ?b) = None" by code_simp
  moreover have "pj_activeProjectId (st_project (fold dispatch (select_project [demo_project ''p1'' ''w1''] ?b) ?b)) = Some ''p1''"
    using project_selection_settles [OF refl, of "[demo_project ''p1'' ''w1'']" ?b]
    by (simp add: demo_project_def)
  ultimately show ?thesis by auto
qed

section \<open>What the board shows\<close>

text \<open>
  The query of the board, \<open>{}\<close>, as an instance of its class, with the defaults of
  \<open>QueryTaskDto\<close>.
\<close>

definition default_query :: query_task_dto where
  "default_query = \<lparr>q_page = Some 1, q_limit = Some 10, q_status = None, q_priority = None,
     q_assignedTo = None, q_search = None, q_sortBy = Some ''createdAt'', q_sortOrder = Some ''DESC''\<rparr>"

definition newest_tasks :: "string \<Rightarrow> string \<Rightarrow> world \<Rightarrow> task list" where
  "newest_tasks ws p w =
     order_desc task_createdAt
       (filter (\<lambda>t. task_workspaceId t = ws \<and> task_projectId t = p \<and> task_deletedAt t = None) (tasks w))"

lemma mset_columns:
  assumes "\<forall>x \<in> set xs. f x \<in> set ks" and "distinct ks"
  shows "mset (concat (map (\<lambda>k. filter (\<lambda>x. f x = k) xs) ks)) = mset xs"
  using assms
proof (induction ks arbitrary: xs)
  case (Cons k ks)
  let ?rest = "filter (\<lambda>x. f x \<noteq> k) xs"
  have rest: "map (\<lambda>k. filter (\<lambda>x. f x = k) xs) ks = map (\<lambda>k. filter (\<lambda>x. f x = k) ?rest) ks"
    using Cons.prems(2) by (auto intro!: map_cong filter_cong)
  have "mset (concat (map (\<lambda>k. filter (\<lambda>x. f x = k) ?rest) ks)) = mset ?rest"
    by (rule Cons.IH) (use Cons.prems in auto)
  then show ?case
    unfolding list.map concat.simps mset_append rest
    by (metis mset_filter multiset_partition)
qed simp

lemma selected_default: "selected_tasks pf ws p default_query w = newest_tasks ws p w"
proof -
  have "sort_field pf default_query = (\<lambda>t. Some (task_createdAt t))"
    by (simp add: sort_field_def default_query_def fun_eq_iff)
  then show ?thesis
    by (simp add: selected_tasks_def newest_tasks_def sort_tasks_def matches_query_def default_query_def)
qed

lemma column_cards: "draggables (DroppableColumn st title xs) = map (task_id \<circ> fst) xs"
proof -
  have "draggables (DraggableTaskCard x) = [task_id (fst x)]" for x
    by (auto simp: DraggableTaskCard_def split: option.split)
  then have "concat (map (draggables \<circ> DraggableTaskCard) xs) = map (task_id \<circ> fst) xs"
    by (induction xs) simp_all
  then show ?thesis by (simp add: DroppableColumn_def)
qed

text \<open>
  C11: the board shows the ten tasks of the project that were created last and no other, each as one
  card, in the column of its status: the query names no page and the board has no pager, so an
  eleventh task is on no view of it.
\<close>

theorem board_shows_the_newest_ten:
  assumes ok: "tasks_ok pf w" and data: "fd_tasks (cx_data c) = Some (db_page pf ws p default_query w)"
  shows "board_view c = DragArea DragEnd (map (\<lambda>(st, title). DroppableColumn st title (tasks_with st c)) status_options) \<and>
    mset (concat (map (\<lambda>(st, title). draggables (DroppableColumn st title (tasks_with st c))) status_options)) =
      mset (map task_id (take 10 (newest_tasks ws p w))) \<and>
    (\<forall>st. \<forall>x \<in> set (tasks_with st c). task_status (fst x) = st)"
proof -
  have rows: "map fst (Tasks_tasks c) = take 10 (newest_tasks ws p w)"
    by (simp add: Tasks_tasks_def data db_page_def Let_def selected_default) (simp add: default_query_def comp_def)
  have "\<forall>x \<in> set (Tasks_tasks c). task_status (fst x) \<in> set (map fst status_options)"
  proof
    fix x
    assume "x \<in> set (Tasks_tasks c)"
    then have "fst x \<in> set (take 10 (newest_tasks ws p w))" unfolding rows [symmetric] by simp
    then have "fst x \<in> set (tasks w)" by (auto simp: newest_tasks_def dest: in_set_takeD)
    with ok have "row_ok (fst x)" by (simp add: tasks_ok_def)
    then show "task_status (fst x) \<in> set (map fst status_options)"
      by (simp add: row_ok_def flip: option_values(1))
  qed
  from mset_columns [OF this] have "mset (concat (map (\<lambda>k. tasks_with k c) (map fst status_options))) = mset (Tasks_tasks c)"
    unfolding tasks_with_def by (simp add: status_options_def)
  then have "image_mset (task_id \<circ> fst) (mset (concat (map (\<lambda>k. tasks_with k c) (map fst status_options)))) =
      image_mset (task_id \<circ> fst) (mset (Tasks_tasks c))"
    by simp
  also have "\<dots> = mset (map task_id (take 10 (newest_tasks ws p w)))"
    unfolding rows [symmetric] by simp
  finally have "mset (concat (map (\<lambda>(st, title). draggables (DroppableColumn st title (tasks_with st c))) status_options)) =
      mset (map task_id (take 10 (newest_tasks ws p w)))"
    unfolding mset_map [symmetric] map_concat by (simp add: comp_def case_prod_unfold column_cards)
  then show ?thesis
    by (auto simp: board_view_def status_options_def tasks_with_def)
qed

theorem board_shows_the_newest_ten_witness:
  "\<exists>c. fd_tasks (cx_data c) = Some (db_page demo_pf ''w1'' ''p1'' default_query demo_world) \<and>
     mset (concat (map (\<lambda>(st, title). draggables (DroppableColumn st title (tasks_with st c))) status_options)) =
       {#demo_uuid 0, demo_uuid 1#}"
proof -
  let ?c = "demo_drawer\<lparr>cx_data := no_data\<lparr>fd_tasks := Some (db_page demo_pf ''w1'' ''p1'' default_query demo_world)\<rparr>\<rparr>"
  have data: "fd_tasks (cx_data ?c) = Some (db_page demo_pf ''w1'' ''p1'' default_query demo_world)" by simp
  have "mset (map task_id (take 10 (newest_tasks ''w1'' ''p1'' demo_world))) = {#demo_uuid 0, demo_uuid 1#}"
    by (simp add: newest_tasks_def demo_world_def demo_task_def order_desc_def add_mset_commute)
  with board_shows_the_newest_ten [OF demo_tasks_ok data]
  have "mset (concat (map (\<lambda>(st, title). draggables (DroppableColumn st title (tasks_with st ?c))) status_options)) =
      {#demo_uuid 0, demo_uuid 1#}"
    by simp
  with data show ?thesis by blast
qed

section \<open>Dragging a card\<close>

definition status_dto :: "string \<Rightarrow> nat \<Rightarrow> update_task_dto" where
  "status_dto st v = \<lparr>ut_title = Undefined, ut_description = Undefined, ut_status = Value st,
     ut_priority = Undefined, ut_assignedTo = Undefined, ut_dueDate = Undefined, ut_labels = Undefined,
     ut_attachments = Undefined, ut_version = Value v\<rparr>"

lemma status_body:
  "update_task_dto_of (JObj [(''status'', JStr st), (''version'', JNum (int v))]) = Some (status_dto st v)"
  by (simp add: wire_defs status_dto_def)

definition moved :: "string \<Rightarrow> task \<Rightarrow> world \<Rightarrow> task" where
  \<comment> \<open>the row after its status was set\<close>
  "moved st t w = t\<lparr>task_status := st, task_completedAt := (if st = ''DONE'' then Some (clock w) else None),
     task_version := Suc (task_version t), task_updatedAt := clock w\<rparr>"

lemma status_outcome:
  assumes ok: "tasks_ok pf w" and row: "read_outcome ws i w = Inr t"
    and st: "st \<in> set task_statuses" "st \<noteq> task_status t"
  shows "update_outcome pf ws i (status_dto st (task_version t)) w = Inr (moved st t w)"
proof -
  from row have t: "t \<in> set (tasks w)" by (auto dest: read_outcomeD)
  with ok have fks: "task_fks t w" by (simp add: tasks_ok_def)
  from st(1) have "st \<noteq> []" by (auto simp: task_statuses_def)
  let ?t = "t\<lparr>task_completedAt := (if st = ''DONE'' then Some (clock w) else None), task_status := st\<rparr>"
  have "apply_update pf (clock w) (status_dto st (task_version t)) t = Some ?t"
    using st(2) \<open>st \<noteq> []\<close>
    by (auto simp: apply_update_def status_dto_def completes_def reassigns_def)
  moreover have "?t \<noteq> t"
  proof
    assume "?t = t"
    then have "task_status ?t = task_status t" by simp
    with st(2) show False by simp
  qed
  moreover have "task_fks ?t w" using fks by (simp add: task_fks_def)
  ultimately show ?thesis
    using row by (simp add: update_outcome_def write_outcome_def version_conflict_def status_dto_def
        saved_task_def moved_def)
qed

lemma update_route:
  assumes "run_guards (permission_guards [TASK_UPDATE]) pf w r = Inr r'"
    and "set (map fst (rq_body r')) \<subseteq> set update_task_properties" and "updateTaskDto_valid pf dto"
  shows "TaskController_update pf dto r w =
    updateTask pf (param r' ''taskId'') (param r' ''workspaceId'') (userId r') dto w"
  using assms by (simp add: TaskController_update_def guarded_def pipe_def)

text \<open>
  C6: dropping a card on another column sends one request, which the pipe of the route accepts. If the
  server still holds the task in the version the board shows, the task moves: the row gets the
  status of the column, the completion time that belongs to it and the next version, and nothing
  else of it changes. If the task has changed since, the request is refused as a conflict, no row
  changes, and the visitor reads the server's message. Dropping a card on its own column or beside
  the columns sends nothing.
\<close>

theorem dragging_a_card_moves_the_task:
  assumes ok: "tasks_ok pf w" "notifiable w"
    and card: "find (\<lambda>x. task_id (fst x) = i) (Tasks_tasks c) = Some (t, u)"
    and st: "st \<in> set task_statuses" "st \<noteq> task_status t"
    and body: "b = JObj [(''status'', JStr st), (''version'', JNum (int (task_version t)))]"
    and dto: "update_task_dto_of b = Some dto"
    and route: "run_guards (permission_guards [TASK_UPDATE]) pf w r = Inr r'"
      "param r' ''taskId'' = i" "param r' ''workspaceId'' = ws" "map fst (rq_body r') = map fst (body_fields b)"
    and stored: "read_outcome ws i w = Inr row"
  shows "handleDragEnd c i (Some st) = [Send (TaskCall (UpdateTask (the (activeWorkspaceId c)) i b))] \<and>
    pipe_accepts pf (TaskCall (UpdateTask (the (activeWorkspaceId c)) i b)) \<and>
    (if task_version row \<noteq> task_version t then
       fst (TaskController_update pf dto r w) = Inl (ConflictException lock_violation) \<and>
       tasks (snd (TaskController_update pf dto r w)) = tasks w \<and>
       snd (Tasks_settle_own s (TaskCall (UpdateTask ws i b))
         (Rejected (error_json (exception_filter pf l cid (ConflictException lock_violation) w')))) =
         [snack Danger lock_violation]
     else row = t \<longrightarrow>
       map_sum id view_task (fst (TaskController_update pf dto r w)) = Inr (moved st t w) \<and>
       tasks (snd (TaskController_update pf dto r w)) = put_outcome (Inr (moved st t w)) (tasks w)) \<and>
    handleDragEnd c i (Some (task_status t)) = [] \<and> handleDragEnd c i None = []"
proof -
  from ok(1) have inv: "task_inv pf w" by (simp add: tasks_ok_def)
  from dto have dto: "dto = status_dto st (task_version t)" by (simp add: body status_body)
  have valid: "updateTaskDto_valid pf dto" by (simp add: dto status_dto_def updateTaskDto_valid_def st(1))
  have serve: "TaskController_update pf dto r w = updateTask pf i ws (userId r') dto w"
    using update_route [OF route(1) _ valid] route(2-4) by (auto simp: body update_task_properties_def)
  have sent: "handleDragEnd c i (Some st) = [Send (TaskCall (UpdateTask (the (activeWorkspaceId c)) i b))]"
    "handleDragEnd c i (Some (task_status t)) = []" "handleDragEnd c i None = []"
    using card st(2) by (auto simp: handleDragEnd_def body)
  have accepted: "pipe_accepts pf (TaskCall (UpdateTask (the (activeWorkspaceId c)) i b))"
    using valid by (simp add: body_accepted_def body status_body dto update_task_properties_def)
  have message: "lock_violation \<noteq> []" by (simp add: lock_violation_def)
  show ?thesis
  proof (cases "task_version row = task_version t")
    case False
    then have "version_conflict dto row" by (simp add: dto status_dto_def version_conflict_def)
    from conflict_result [OF inv stored this, of "userId r'"]
    have "fst (updateTask pf i ws (userId r') dto w) = Inl (ConflictException lock_violation) \<and>
        tasks (snd (updateTask pf i ws (userId r') dto w)) = tasks w"
      by (metis findById_tables(1) fst_conv snd_conv)
    with False sent accepted message show ?thesis
      by (simp add: serve snack_def error_message_def error_json_def exception_filter_def)
  next
    case True
    have "map_sum id view_task (fst (updateTask pf i ws (userId r') dto w)) = Inr (moved st t w) \<and>
        tasks (snd (updateTask pf i ws (userId r') dto w)) = put_outcome (Inr (moved st t w)) (tasks w)"
      if "row = t"
    proof -
      from stored that have row: "read_outcome ws i w = Inr t" by simp
      note out = status_outcome [OF ok(1) row st, folded dto]
      have "map_sum id view_task (fst (updateTask pf i ws (userId r') dto w)) = Inr (moved st t w)"
        using updateTask_result [OF inv _ ok(2), of i ws "userId r'" dto] ok(1) out by (simp add: tasks_ok_def)
      moreover have "tasks (run_op pf (TaskUpdate ws i (userId r') dto) w) = op_tasks pf (TaskUpdate ws i (userId r') dto) w"
        by (rule run_op_tasks [OF inv])
      ultimately show ?thesis by (simp add: out)
    qed
    with True sent accepted show ?thesis by (simp add: serve)
  qed
qed

section \<open>Typing into the drawer\<close>

definition title_dto :: "string \<Rightarrow> nat \<Rightarrow> update_task_dto" where
  "title_dto x v = \<lparr>ut_title = Value x, ut_description = Undefined, ut_status = Undefined,
     ut_priority = Undefined, ut_assignedTo = Undefined, ut_dueDate = Undefined, ut_labels = Undefined,
     ut_attachments = Undefined, ut_version = Value v\<rparr>"

lemma title_body:
  "update_task_dto_of (JObj [(''title'', JStr x), (''version'', JNum (int v))]) = Some (title_dto x v)"
  by (simp add: wire_defs title_dto_def)

lemma title_outcome:
  assumes ok: "tasks_ok pf w" and row: "read_outcome ws i w = Inr t" and x: "x \<noteq> task_title t"
  shows "update_outcome pf ws i (title_dto x (task_version t)) w =
    Inr (t\<lparr>task_title := x, task_version := Suc (task_version t), task_updatedAt := clock w\<rparr>)"
proof -
  from row have "t \<in> set (tasks w)" by (auto dest: read_outcomeD)
  with ok have "task_fks t w" by (simp add: tasks_ok_def)
  moreover have "apply_update pf (clock w) (title_dto x (task_version t)) t = Some (t\<lparr>task_title := x\<rparr>)"
    by (simp add: apply_update_def title_dto_def completes_def reassigns_def)
  moreover have "t\<lparr>task_title := x\<rparr> \<noteq> t"
  proof
    assume "t\<lparr>task_title := x\<rparr> = t"
    then have "task_title (t\<lparr>task_title := x\<rparr>) = task_title t" by (rule arg_cong)
    with x show False by simp
  qed
  ultimately show ?thesis
    using row by (simp add: update_outcome_def write_outcome_def version_conflict_def title_dto_def
        saved_task_def task_fks_def)
qed

text \<open>
  C12: every change of the title field of the drawer is sent as an update of its own, with the version
  of the task the drawer holds. Two keystrokes before the task is fetched again name the same version:
  the first is stored, the second is refused with a conflict, so what was typed last is lost
  and the visitor reads the server's message while the title stays at the first keystroke.
\<close>

theorem typing_ahead_is_refused:
  assumes inj: "inj (pf_uuid pf)" and ok: "tasks_ok pf w"
    and shown: "fd_task (cx_data c) = Some x" "activeWorkspaceId c = Some ws" "selectedTaskId c = Some i"
    and stored: "read_outcome ws i w = Inr (view_task x)" and typed: "a \<noteq> task_title (view_task x)"
    and bodies: "TaskDetailsDrawer_handle c s (FieldChange ''title'' (JStr a)) = (s, [Send (TaskCall (UpdateTask ws i ba))])"
      "TaskDetailsDrawer_handle c s (FieldChange ''title'' (JStr b)) = (s, [Send (TaskCall (UpdateTask ws i bb))])"
    and decoded: "update_task_dto_of ba = Some da" "update_task_dto_of bb = Some db"
    and first: "w1 = snd (updateTask pf i ws uid da w)" and second: "(r, w2) = updateTask pf i ws uid db w1"
  shows "r = Inl (ConflictException lock_violation) \<and>
    map_sum id task_title (read_outcome ws i w2) = Inr a \<and>
    TaskDetailsDrawer_settle c s (TaskCall (UpdateTask ws i bb))
      (Rejected (error_json (exception_filter pf l cid (ConflictException lock_violation) w'))) =
      (s, [snack Danger lock_violation])"
proof -
  let ?t = "view_task x"
  have d: "da = title_dto a (task_version ?t)" "db = title_dto b (task_version ?t)"
    using bodies decoded shown by (auto simp: handleFieldChange_def title_body)
  have "updateTaskDto_valid pf da" by (simp add: d title_dto_def updateTaskDto_valid_def)
  note after = row_after_update [OF inj ok this title_outcome [OF ok stored typed, folded d(1)] first]
  let ?u = "?t\<lparr>task_title := a, task_version := Suc (task_version ?t), task_updatedAt := clock w\<rparr>"
  have "version_conflict db ?u" by (simp add: d title_dto_def version_conflict_def)
  moreover have "task_inv pf w1" using after(1) by (simp add: tasks_ok_def)
  ultimately obtain w3 where "updateTask pf i ws uid db w1 = (Inl (ConflictException lock_violation), w3)"
      and "findById pf i ws w1 = (Inr (view_of pf w1 ?u), w3)"
    using conflict_result [OF _ after(2)] by metis
  with second have r: "r = Inl (ConflictException lock_violation)" and "tasks w2 = tasks w1"
    by (auto dest: findById_tables(1))
  then have "read_outcome ws i w2 = Inr ?u"
    using after(2) by (simp add: read_outcome_def live_task_def)
  with r show ?thesis
    by (simp add: snack_def error_message_def error_json_def exception_filter_def lock_violation_def)
qed

definition demo_typing :: ui_context where
  "demo_typing = demo_drawer\<lparr>
     cx_browser := dispatch (SetSelectedTaskId (Some (demo_uuid 0)))
       (dispatch (SetActiveWorkspaceId (Some ''w1'')) (cx_browser demo_drawer)),
     cx_data := no_data\<lparr>fd_task := Some (view_of demo_pf demo_world (demo_task 0 ''first''))\<rparr>\<rparr>"

theorem typing_ahead_is_refused_witness:
  "\<exists>w2. map_sum id task_title (read_outcome ''w1'' (demo_uuid 0) w2) = Inr ''firsts'' \<and>
     updateTask demo_pf (demo_uuid 0) ''w1'' ''bob'' (title_dto ''firsts!'' 1)
       (snd (updateTask demo_pf (demo_uuid 0) ''w1'' ''bob'' (title_dto ''firsts'' 1) demo_world)) =
       (Inl (ConflictException lock_violation), w2)"
proof -
  let ?w1 = "snd (updateTask demo_pf (demo_uuid 0) ''w1'' ''bob'' (title_dto ''firsts'' 1) demo_world)"
  let ?x = "view_of demo_pf demo_world (demo_task 0 ''first'')"
  have shown: "fd_task (cx_data demo_typing) = Some ?x" "activeWorkspaceId demo_typing = Some ''w1''"
    "selectedTaskId demo_typing = Some (demo_uuid 0)"
    by (simp_all add: demo_typing_def activeWorkspaceId_def selectedTaskId_def other_reducers)
  have "read_outcome ''w1'' (demo_uuid 0) demo_world = Inr (demo_task 0 ''first'')" by code_simp
  then have stored: "read_outcome ''w1'' (demo_uuid 0) demo_world = Inr (view_task ?x)"
    by (simp add: view_of_def)
  have x: "task_title (view_task ?x) = ''first''" "task_version (view_task ?x) = 1"
    by (simp_all add: view_of_def demo_task_def)
  have sent: "TaskDetailsDrawer_handle demo_typing s (FieldChange ''title'' (JStr a)) =
      (s, [Send (TaskCall (UpdateTask ''w1'' (demo_uuid 0) (JObj [(''title'', JStr a), (''version'', JNum (int 1))])))])" for s a
    using shown x(2) by (simp add: handleFieldChange_def)
  have "a \<noteq> task_title (view_task ?x)" if "a = ''firsts''" for a using that x(1) by simp
  note lost = typing_ahead_is_refused [OF demo_uuid_inj demo_tasks_ok shown stored this [OF refl] sent sent title_body title_body refl
      prod.collapse]
  from lost [where b = "''firsts!''" and uid = "''bob''"] show ?thesis
    by (metis prod.collapse)
qed

end
