(* ===== verification/Monitoring.thy ===== *)
theory Monitoring
  imports Http
begin

text \<open>
  The probes of \<open>modules/health\<close> and the recording of \<open>modules/metrics\<close>. Both clients of the probes are third-party: the outcome of \<open>SELECT 1\<close> is an
  argument (\<open>None\<close>, or the message of the error), and so is the Redis client, which all probes
  share. A probe is a machine that a step takes past its next call, so that probes may overlap.
\<close>

section \<open>Probes\<close>

record 's redis_client =
  rc_connect :: "'s \<Rightarrow> (string + unit) \<times> 's"
  rc_ping :: "'s \<Rightarrow> (string + string) \<times> 's"
  rc_disconnect :: "'s \<Rightarrow> 's"

datatype probe = Idle | Connected | Closing bool | Probed bool

fun probe_step :: "(string \<Rightarrow> bool) \<Rightarrow> 's redis_client \<Rightarrow> probe \<times> 's \<Rightarrow> probe \<times> 's" where
  "probe_step accepted c (Idle, s) =
     (case rc_connect c s of (Inl e, s') \<Rightarrow> (Probed False, s') | (Inr u, s') \<Rightarrow> (Connected, s'))"
| "probe_step accepted c (Connected, s) =
     (case rc_ping c s of (Inl e, s') \<Rightarrow> (Probed False, s') | (Inr p, s') \<Rightarrow> (Closing (accepted p), s'))"
| "probe_step accepted c (Closing b, s) = (Probed b, rc_disconnect c s)"
| "probe_step accepted c (Probed b, s) = (Probed b, s)"

definition probe_redis :: "(string \<Rightarrow> bool) \<Rightarrow> 's redis_client \<Rightarrow> 's \<Rightarrow> bool \<times> 's" where
  "probe_redis accepted c s =
     (case (probe_step accepted c ^^ 3) (Idle, s) of (p, s') \<Rightarrow> (p = Probed True, s'))"

section \<open>Routes\<close>

record health =
  health_status :: string
  health_database :: string
  health_redis :: string
  health_timestamp :: string

text \<open>\<open>Inl\<close> is the body of a \<open>ServiceUnavailableException\<close>.\<close>

definition check ::
  "platform \<Rightarrow> string option \<Rightarrow> 's redis_client \<Rightarrow> int \<Rightarrow> 's \<Rightarrow> (health + health) \<times> 's" where
  "check pf db c now s =
     (case probe_redis (\<lambda>p. p = ''PONG'') c s of (redis, s') \<Rightarrow>
       (let dbStatus = (if db = None then ''up'' else ''down'');
            redisStatus = (if redis then ''up'' else ''down'');
            health = \<lparr>health_status = (if dbStatus = ''up'' \<and> redisStatus = ''up'' then ''ok'' else ''error''),
              health_database = dbStatus, health_redis = redisStatus,
              health_timestamp = pf_toISOString pf now\<rparr>
        in (if health_status health \<noteq> ''ok'' then Inl health else Inr health, s')))"

definition checkDb :: "string option \<Rightarrow> string + unit" where
  "checkDb db = (case db of None \<Rightarrow> Inr () | Some e \<Rightarrow> Inl e)"

definition checkRedis :: "'s redis_client \<Rightarrow> 's \<Rightarrow> bool \<times> 's" where
  \<comment> \<open>whatever the ping answers\<close>
  "checkRedis c s = probe_redis (\<lambda>_. True) c s"

text \<open>
  What the exception filter makes of it: it reads the properties \<open>message\<close> and \<open>error\<close> of the body and
  no other, and falls back to the message and the name of the exception.
\<close>

definition unavailable_body :: "platform \<Rightarrow> request_line \<Rightarrow> string \<Rightarrow> string option \<Rightarrow> world \<Rightarrow> error_body" where
  "unavailable_body pf l correlationId m w =
     \<lparr>eb_statusCode = 503,
      eb_message = (if truthy m then the m else ''Service Unavailable Exception''),
      eb_error = ''ServiceUnavailableException'', eb_timestamp = pf_toISOString pf (clock w),
      eb_path = rl_url l, eb_correlationId = correlationId\<rparr>"

definition health_route ::
  "platform \<Rightarrow> request_line \<Rightarrow> string \<Rightarrow> string option \<Rightarrow> 's redis_client \<Rightarrow> world \<Rightarrow> 's \<Rightarrow> (error_body + health) \<times> 's" where
  "health_route pf l correlationId db c w s =
     (case check pf db c (clock w) s of
        (Inl h, s') \<Rightarrow> (Inl (unavailable_body pf l correlationId None w), s')
      | (Inr h, s') \<Rightarrow> (Inr h, s'))"

section \<open>What a probe tells\<close>

text \<open>
  What ioredis documents: \<open>connect\<close> is rejected on a client that is connected or connecting already,
  succeeds on another while the server is up and fails while it is down; \<open>ping\<close> answers
  \<open>PONG\<close> on a connection.
\<close>

definition documented :: "('s \<Rightarrow> bool) \<Rightarrow> ('s \<Rightarrow> bool) \<Rightarrow> 's redis_client \<Rightarrow> bool" where
  "documented connected up c \<longleftrightarrow>
     (\<forall>s. connected s \<longrightarrow> (\<exists>e. rc_connect c s = (Inl e, s))) \<and>
     (\<forall>s. \<not> connected s \<and> up s \<longrightarrow> (\<exists>s'. rc_connect c s = (Inr (), s') \<and> connected s' \<and> up s')) \<and>
     (\<forall>s. \<not> connected s \<and> \<not> up s \<longrightarrow> isl (fst (rc_connect c s))) \<and>
     (\<forall>s. connected s \<and> up s \<longrightarrow> rc_ping c s = (Inr ''PONG'', s)) \<and>
     (\<forall>s. \<not> connected (rc_disconnect c s) \<and> up (rc_disconnect c s) = up s)"

lemma documentedD:
  assumes "documented connected up c"
  shows "connected s \<Longrightarrow> \<exists>e. rc_connect c s = (Inl e, s)"
    and "\<not> connected s \<Longrightarrow> up s \<Longrightarrow> \<exists>s'. rc_connect c s = (Inr (), s') \<and> connected s' \<and> up s'"
    and "\<not> connected s \<Longrightarrow> \<not> up s \<Longrightarrow> isl (fst (rc_connect c s))"
    and "connected s \<Longrightarrow> up s \<Longrightarrow> rc_ping c s = (Inr ''PONG'', s)"
    and "\<not> connected (rc_disconnect c s)" and "up (rc_disconnect c s) = up s"
  using assms unfolding documented_def by blast+

lemma probe_ends: "(probe_step ok c ^^ 3) x = probe_step ok c (probe_step ok c (probe_step ok c x))"
  by (simp add: eval_nat_numeral)

lemma probe_refused:
  assumes "isl (fst (rc_connect c s))"
  shows "probe_redis ok c s = (False, snd (rc_connect c s))"
  using assms by (cases "rc_connect c s") (auto simp: probe_redis_def probe_ends split: sum.splits)

lemma probe_answered:
  assumes "documented connected up c" and "\<not> connected s" and "up s" and "ok ''PONG''"
  obtains s' where "probe_redis ok c s = (True, s')" and "\<not> connected s'" and "up s'"
proof -
  obtain s' where s': "rc_connect c s = (Inr (), s')" "connected s'" "up s'"
    using documentedD(2) [OF assms(1-3)] by blast
  with documentedD(4) [OF assms(1) s'(2,3)] assms(4)
  have "probe_redis ok c s = (True, rc_disconnect c s')" by (simp add: probe_redis_def probe_ends)
  with documentedD(5,6) [OF assms(1), of s'] s'(3) that show thesis by blast
qed

text \<open>
  The check answers that all is well exactly when the database and Redis are up and the client, which
  every probe shares, is not connected at that moment; a check that succeeds leaves it so.
\<close>

theorem check_ok_iff:
  assumes doc: "documented connected up c"
  shows "(\<not> isl (fst (check pf db c now s)) \<longleftrightarrow> db = None \<and> up s \<and> \<not> connected s) \<and>
    (up s \<and> \<not> connected s \<longrightarrow> \<not> connected (snd (check pf db c now s)) \<and> up (snd (check pf db c now s)))"
proof (cases "up s \<and> \<not> connected s")
  case True
  then obtain s' where "probe_redis (\<lambda>p. p = ''PONG'') c s = (True, s')" "\<not> connected s'" "up s'"
    using probe_answered [OF doc, of s "\<lambda>p. p = ''PONG''"] by blast
  with True show ?thesis by (simp add: check_def Let_def)
next
  case False
  then have "isl (fst (rc_connect c s))" using documentedD(1,3) [OF doc, of s] by fastforce
  with False probe_refused [OF this] show ?thesis by (auto simp: check_def Let_def)
qed

text \<open>
  Two overlapping probes: the one that connects while the other is connected reports Redis as down,
  though it is up all the time.
\<close>

theorem overlapping_probe_reports_down:
  assumes doc: "documented connected up c" and s: "\<not> connected s" "up s"
    and a: "(a1, s1) = probe_step ok c (Idle, s)" and b: "(b1, s2) = probe_step ok c (Idle, s1)"
    and rest: "(a3, s4) = (probe_step ok c ^^ 2) (a1, s2)" and pong: "ok ''PONG''"
  shows "b1 = Probed False \<and> a3 = Probed True \<and> up s1 \<and> up s2 \<and> up s4"
proof -
  obtain s' where s': "rc_connect c s = (Inr (), s')" "connected s'" "up s'"
    using documentedD(2) [OF doc s] by blast
  with a have a: "a1 = Connected" "s1 = s'" by simp_all
  obtain e where "rc_connect c s' = (Inl e, s')" using documentedD(1) [OF doc s'(2)] by blast
  with b a have b: "b1 = Probed False" "s2 = s'" by simp_all
  with rest a documentedD(4) [OF doc s'(2,3)] pong have "a3 = Probed True" "s4 = rc_disconnect c s'"
    by (simp_all add: eval_nat_numeral)
  with a b s' documentedD(6) [OF doc] show ?thesis by simp
qed

text \<open>Whichever part is down, the body of the answer is the same.\<close>

theorem failed_check_names_no_part:
  assumes "fst (health_route pf l cid db c w s) = Inl body"
  shows "body = unavailable_body pf l cid None w"
  using assms by (auto simp: health_route_def split: prod.splits sum.splits)

section \<open>Metrics\<close>

text \<open>
  The registry is that of prom-client, an argument: a counter takes one more event under its labels,
  a histogram one more observation. A duration of \<open>(s, n)\<close> is \<open>s + n / 1e9\<close> seconds.
\<close>

type_synonym labels = "(string \<times> string) list"

record 'r prom_client =
  pm_inc :: "string \<Rightarrow> labels \<Rightarrow> 'r \<Rightarrow> 'r"
  pm_observe :: "string \<Rightarrow> labels \<Rightarrow> nat \<times> nat \<Rightarrow> 'r \<Rightarrow> 'r"
  pm_metrics :: "'r \<Rightarrow> string"

definition http_labels :: "string \<Rightarrow> string \<Rightarrow> string \<Rightarrow> labels" where
  "http_labels meth route status = [(''method'', meth), (''route'', route), (''status'', status)]"

definition recordHttpRequest ::
  "'r prom_client \<Rightarrow> string \<Rightarrow> string \<Rightarrow> string \<Rightarrow> nat \<times> nat \<Rightarrow> 'r \<Rightarrow> 'r" where
  "recordHttpRequest p meth route status duration r =
     pm_observe p ''nest_http_request_duration_seconds'' (http_labels meth route status) duration
       (pm_inc p ''nest_http_requests_total'' (http_labels meth route status) r)"

definition recordDbQuery :: "'r prom_client \<Rightarrow> string \<Rightarrow> string \<Rightarrow> nat \<times> nat \<Rightarrow> 'r \<Rightarrow> 'r" where
  "recordDbQuery p operation entity =
     pm_observe p ''nest_db_query_duration_seconds'' [(''operation'', operation), (''entity'', entity)]"

definition recordRedisOp :: "'r prom_client \<Rightarrow> string \<Rightarrow> string \<Rightarrow> nat \<times> nat \<Rightarrow> 'r \<Rightarrow> 'r" where
  "recordRedisOp p operation status =
     pm_observe p ''nest_redis_op_duration_seconds'' [(''operation'', operation), (''status'', status)]"

definition recordQueueJob :: "'r prom_client \<Rightarrow> string \<Rightarrow> string \<Rightarrow> bool \<Rightarrow> 'r \<Rightarrow> 'r" where
  "recordQueueJob p queue jobName completed =
     pm_inc p ''nest_queue_jobs_total''
       [(''queue'', queue), (''jobName'', jobName), (''status'', if completed then ''completed'' else ''failed'')]"

definition getMetrics :: "'r prom_client \<Rightarrow> 'r \<Rightarrow> string" where
  "getMetrics p r = pm_metrics p r"

text \<open>
  The interceptor around a handler: the status is the one of the response, when it has one, or of the
  exception; a context that has no request passes unrecorded.
\<close>

record metered =
  mt_method :: string
  mt_route :: "string option"
  mt_url :: string

definition routePath :: "metered \<Rightarrow> string" where
  "routePath q = (case mt_route q of Some p \<Rightarrow> p | None \<Rightarrow> mt_url q)"

definition outcome_status :: "exn + nat option \<Rightarrow> string" where
  "outcome_status x =
     (case x of
        Inr (Some n) \<Rightarrow> if n \<noteq> 0 then show_nat n else ''200''
      | Inr None \<Rightarrow> ''200''
      | Inl e \<Rightarrow> show_nat (exn_status e))"

definition metrics_intercept ::
  "'r prom_client \<Rightarrow> metered option \<Rightarrow> exn + nat option \<Rightarrow> nat \<times> nat \<Rightarrow> 'r \<Rightarrow> 'r" where
  "metrics_intercept p request result duration r =
     (case request of
        None \<Rightarrow> r
      | Some q \<Rightarrow> recordHttpRequest p (mt_method q) (routePath q) (outcome_status result) duration r)"

text \<open>
  Over a registry that counts, the interceptor counts every request once, whatever its outcome:
  the number of events of the counter, over all labels, is the number of requests it was around.
\<close>

definition counting :: "(string \<Rightarrow> 'r \<Rightarrow> nat) \<Rightarrow> 'r prom_client \<Rightarrow> bool" where
  "counting events p \<longleftrightarrow>
     (\<forall>k m ls r. events k (pm_inc p m ls r) = events k r + (if m = k then 1 else 0)) \<and>
     (\<forall>k m ls d r. events k (pm_observe p m ls d r) = events k r + (if m = k then 1 else 0))"

theorem requests_are_counted_once:
  assumes "counting events p"
  shows "events ''nest_http_requests_total'' (fold (\<lambda>(q, x, d). metrics_intercept p q x d) rs r) =
      events ''nest_http_requests_total'' r + length (filter (\<lambda>(q, x, d). q \<noteq> None) rs) \<and>
    events ''nest_http_request_duration_seconds'' (fold (\<lambda>(q, x, d). metrics_intercept p q x d) rs r) =
      events ''nest_http_request_duration_seconds'' r + length (filter (\<lambda>(q, x, d). q \<noteq> None) rs)"
  using assms
  by (induction rs arbitrary: r)
    (auto simp: metrics_intercept_def recordHttpRequest_def counting_def split: option.splits)

end
