(* ===== verification/Spec2Isabelle.thy ===== *)
theory Spec2Isabelle
  imports TaskTheorems AuthTheorems WorkspaceTheorems ProjectTheorems SubtaskTheorems MessagingTheorems Routes
    FrontendTheorems SocketTheorems PlatformTheorems BoardTheorems Monitoring
begin

text \<open>
  A task scheduling platform: a NestJS server (\<open>src/src\<close>) over PostgreSQL, Redis, BullMQ queues and
  socket.io, and a React client (\<open>src/frontend/src\<close>). This development models both programs and
  proves what makes them correct; this theory holds the properties that span components.

  \<^bold>\<open>How the parts interact.\<close> A request passes the correlation middleware, the guards of its route
  (token, then membership, then permissions) and the validation pipe, runs one service method and
  comes back in an envelope, or as an error body when anything threw. A service reads and writes
  tables, keeps cached copies of some reads, appends jobs to queues and broadcasts to socket rooms.
  Workers consume the queues; a scheduler looks for due tasks every minute. The client keeps its
  session in the browser's storage, refreshes an expired token once for all calls that wait for it,
  and listens to the broadcasts.

  \<^bold>\<open>State and operations.\<close> Theory \<^theory_text>\<open>Entities\<close> has one record per table (\<open>database/entities\<close>)
  and the record \<open>world\<close> of all tables with the cache, the queues, the sockets, the clock and a
  counter of random draws. A service method is a function from a world to a result (\<open>Inl\<close> an
  exception, \<open>Inr\<close> a value) and a world (theory \<^theory_text>\<open>Prelude\<close>): a throw keeps the effects made
  before it, except inside \<open>in_transaction\<close>. What lies outside the repository is the argument
  \<open>pf\<close>: hashing, tokens, identifiers, pattern and text search, formats, the environment. Its laws
  appear as named hypotheses where a property needs them (ids never repeat, a signed token carries
  its claims, a trailing star of a Redis pattern matches any rest); theory \<^theory_text>\<open>Demo\<close> gives one
  platform that satisfies them, at which the witnesses run.

  \<^item> \<^theory_text>\<open>CacheService\<close> (\<open>modules/cache\<close>): the cache and its contract, the locales
    \<open>lossy_cache\<close> and \<open>cached_store\<close>; the task, project and workspace services interpret them.
  \<^item> \<^theory_text>\<open>Guards\<close> (\<open>common/guards\<close>, \<open>common/constants\<close>), \<^theory_text>\<open>Http\<close> (\<open>main.ts\<close>, \<open>config\<close>,
    \<open>common/filters\<close>, \<open>interceptors\<close>, \<open>middleware\<close> and the DTOs), \<^theory_text>\<open>Routes\<close> (the
    controllers: each handler behind its guards and its pipe).
  \<^item> \<^theory_text>\<open>Monitoring\<close> (\<open>modules/health\<close>, \<open>modules/metrics\<close>): the probes and the Redis client they
    share; what is recorded of a request.
  \<^item> \<^theory_text>\<open>Messaging\<close>: queue producers, the gateway (\<open>modules/realtime\<close>), notifications.
  \<^item> \<^theory_text>\<open>Tasks\<close> with \<^theory_text>\<open>TaskLaws\<close>, \<^theory_text>\<open>TaskSpec\<close>, \<^theory_text>\<open>TaskTheorems\<close>
    (\<open>modules/task\<close>); \<^theory_text>\<open>Subtasks\<close> with \<^theory_text>\<open>SubtaskTheorems\<close>; \<^theory_text>\<open>Projects\<close> with
    \<^theory_text>\<open>ProjectTheorems\<close>; \<^theory_text>\<open>Workspaces\<close> with \<^theory_text>\<open>WorkspaceLaws\<close> and
    \<^theory_text>\<open>WorkspaceTheorems\<close> (also the dashboard); \<^theory_text>\<open>Users\<close>, \<^theory_text>\<open>Auth\<close> with \<^theory_text>\<open>AuthLaws\<close>
    and \<^theory_text>\<open>AuthTheorems\<close>; \<^theory_text>\<open>Comments\<close>; \<^theory_text>\<open>Reminders\<close> (\<open>modules/scheduler\<close> and
    \<open>workers\<close>) with \<^theory_text>\<open>MessagingTheorems\<close>.
  \<^item> \<^theory_text>\<open>Seed\<close> with \<^theory_text>\<open>SeedTheorems\<close>: the rows \<open>database/seed.ts\<close> writes.
  \<^item> \<^theory_text>\<open>Platform\<close> (\<open>app.module.ts\<close>): the server as one transition system, with a step per request
    of any route, run of the scheduler, job, socket event, tick, queue failure and eviction;
    \<^theory_text>\<open>Integrity\<close>, \<^theory_text>\<open>TaskIntegrity\<close>, \<^theory_text>\<open>TenantIntegrity\<close> and \<^theory_text>\<open>PlatformTheorems\<close>: the
    consistency of the whole database, \<open>db_ok\<close>, kept by every step.
  \<^item> \<^theory_text>\<open>Store\<close> (\<open>app/store\<close>), \<^theory_text>\<open>ApiClient\<close> and \<^theory_text>\<open>Endpoints\<close> (\<open>app/api\<close>) with
    \<^theory_text>\<open>FrontendTheorems\<close>; \<^theory_text>\<open>SocketClient\<close> (\<open>services/socket\<close>, \<open>hooks\<close>) with
    \<^theory_text>\<open>SocketTheorems\<close>: what the client keeps and sends.
  \<^item> \<^theory_text>\<open>Ui\<close> (\<open>components/common\<close>), \<^theory_text>\<open>Pages\<close> (Login, Signup, Settings, Members and Projects
    of \<open>pages\<close>), \<^theory_text>\<open>TaskPages\<close> (\<open>pages/Tasks.tsx\<close> and \<open>TaskDetailsDrawer.tsx\<close>),
    \<^theory_text>\<open>Shell\<close> (Dashboard, Admin and ActivityLog, \<open>components/layout\<close>, \<open>CommandPalette.tsx\<close>,
    \<open>theme\<close>): a component is a record of its local state, a view (a tree of the widgets a visitor can
    read and act on), a handler of its events and one of the answers to its requests, each with
    the effects it has. \<^theory_text>\<open>App\<close> (\<open>App.tsx\<close>, \<open>Layout.tsx\<close>): one browser tab as a transition
    system over what the visitor does, the answers, the timers and the data that arrive.
    \<^theory_text>\<open>Wire\<close>: a request body as an instance of the class its route declares.
    \<^theory_text>\<open>PageLaws\<close> and \<^theory_text>\<open>AppLaws\<close> interpret the locale \<open>component\<close> for every page;
    \<^theory_text>\<open>AppTheorems\<close> and \<^theory_text>\<open>BoardTheorems\<close> follow an event from the browser to the table.

  \<^bold>\<open>What the lemmas show.\<close> Every component has an invariant its operations keep (\<open>tasks_ok\<close>,
  \<open>hierarchy_ok\<close>, \<open>projects_ok\<close>, \<open>tenants_ok\<close>, \<open>accounts_ok\<close>, \<open>reminders_ok\<close>), and the
  seed establishes all of them. One invariant, \<open>db_ok\<close>, covers the whole database and is kept by
  every step of the server, and in the states it describes every request is answered. The cached reads equal the tables after any sequence of requests,
  with time passing, queues failing and entries evicted between them; the services refine
  specifications without cache and queues. The guards admit exactly the permitted members. Tokens
  rotate, reuse is detected, and a single tab never causes it. The recursive queries return, and
  return the subtree. Every call of the client reaches its route, except two, and what a handler
  returns is what the client gets. In a tab the guards of the routes hold after every event, every
  request a page sends has a body its route accepts, no page throws on data of the server and no
  failure stays silent; what the board shows and what a dropped card does is stated down to the rows
  of the task table. Where the code is wrong, a theorem states what it does.

  \<^bold>\<open>Bounds and fuel.\<close> No definition has fuel. The recursive queries are \<open>while_option\<close> loops, whose
  value is \<open>None\<close> when they do not return; that they return is proved from the order in which
  tasks are created (parents first). The deletion cascade terminates by the number of rows left.
  Numbers are unbounded: no counter of the code comes near \<open>2 ^ 53\<close>, versions and page numbers
  included. Times are integers in milliseconds. The completion rate of the dashboard page, a quotient
  of doubles, is computed with their rounding to 53 bits (theory \<^theory_text>\<open>Shell\<close>).

  \<^bold>\<open>Assumptions on the libraries.\<close> A query without an order may return any of its matches
  (\<open>pf_pick\<close>). TypeORM's \<open>save\<close> writes the changed columns of the entity; where the code loads the
  relation \<open>assignee\<close> as well, the model lets the column \<open>assignedTo\<close> win. A job is refused
  while its queue is down. Redis is up or down for the whole of a request sequence. Requests are
  sequential, except where a property interleaves the halves of two updates, or lets a tab and the
  server act in any order. Statements of one script or transaction share one time.

  \<^bold>\<open>Simplifications of the client.\<close> The data of a query hook is any data its route could answer, at
  any time, so every schedule of the query cache is covered; the values of a form are checked when
  it is submitted; a select offers its options and nothing else; the browser's own check of an email
  field lets any text pass. A panel that is closed and opened again is taken to keep its local state.

  \<^bold>\<open>Not modelled.\<close> Styling, icons, animation and static labels of the client, the pager and the sorting
  of its data grids, and the inside of React, MUI, dnd-kit, react-hook-form and the query cache of RTK
  Query; the set-up of the metrics registry; dependency injection, logging, Swagger and the start of
  the server; and the inside of the other third-party libraries.
\<close>

section \<open>Who may do what\<close>

lemma permission_guards_route: "run_guards (permission_guards perms) = workspace_route perms"
  by (simp add: permission_guards_def member_guards_def workspace_route_def)

lemma find_member_unique:
  assumes "distinct (map member_key (members w))" and "m \<in> set (members w)"
  shows "find_member pf w (member_workspaceId m) (member_userId m) = Some m"
  unfolding find_member_def
  by (rule fo.look_by_key [OF assms]) (auto simp: member_key_def)

text \<open>
  C13: a workspace-scoped route with required permissions admits a request exactly when it carries
  a bearer token that verifies under the access secret, the identity in it is a member of the
  workspace in the path, and the role of that membership has every required permission; the
  handler then sees that identity and that membership.
\<close>

theorem permission_guards_admit_exactly_permitted_members:
  assumes path: "map_of (rq_params r) ''workspaceId'' = Some wid" "wid \<noteq> []"
    and uniq: "distinct (map member_key (members w))"
  shows "run_guards (permission_guards perms) pf w r = Inr r' \<longleftrightarrow>
    (\<exists>tok u m. extractTokenFromHeader r = Some tok \<and> tok \<noteq> [] \<and>
       pf_jwtVerify pf (accessSecret (jwt_configuration pf)) tok (now_seconds w) = Some u \<and>
       m \<in> set (members w) \<and> member_workspaceId m = wid \<and> member_userId m = jwt_userId u \<and>
       set perms \<subseteq> set (role_permissions (member_role m)) \<and>
       r' = r\<lparr>rq_user := Some u, rq_workspaceId := Some wid, rq_workspaceMember := Some m\<rparr>)"
  (is "?l \<longleftrightarrow> ?r")
proof
  assume l: ?l
  then have "workspace_route perms pf w r = Inr r'" by (simp only: permission_guards_route)
  from workspace_route_Inr [OF path this] obtain tok u m where
    m: "extractTokenFromHeader r = Some tok"
      "pf_jwtVerify pf (accessSecret (jwt_configuration pf)) tok (now_seconds w) = Some u"
      "m \<in> set (members w)" "member_workspaceId m = wid" "member_userId m = jwt_userId u"
      "set perms \<subseteq> set (role_permissions (member_role m))"
      "r' = r\<lparr>rq_user := Some u, rq_workspaceId := Some wid, rq_workspaceMember := Some m\<rparr>"
    by metis
  have "tok \<noteq> []"
  proof
    assume "tok = []"
    with m(1) have "jwtAuthGuard pf w r = Inl (UnauthorizedException ''Access token is missing'')"
      by (simp add: jwtAuthGuard_def)
    with l show False by (simp add: permission_guards_def member_guards_def)
  qed
  with m show ?r by blast
next
  assume ?r
  then obtain tok u m where m: "extractTokenFromHeader r = Some tok" "tok \<noteq> []"
      "pf_jwtVerify pf (accessSecret (jwt_configuration pf)) tok (now_seconds w) = Some u"
      "m \<in> set (members w)" "member_workspaceId m = wid" "member_userId m = jwt_userId u"
      "set perms \<subseteq> set (role_permissions (member_role m))"
      and r': "r' = r\<lparr>rq_user := Some u, rq_workspaceId := Some wid, rq_workspaceMember := Some m\<rparr>"
    by blast
  have "find_member pf w wid (jwt_userId u) = Some m"
    using find_member_unique [OF uniq m(4)] m(5,6) by simp
  from workspace_route_allows [OF path m(1-3) this m(7)] r' show ?l
    by (simp only: permission_guards_route)
qed

subsection \<open>Requests of the witnesses\<close>

definition demo_access :: "string \<Rightarrow> string" where
  "demo_access u =
     demo_sign ''super_secret_access_key_123!'' ''15m'' \<lparr>jwt_userId = u, jwt_email = u @ ''@x''\<rparr> 0"

definition demo_request :: "string \<Rightarrow> (string \<times> string) list \<Rightarrow> (string \<times> string) list \<Rightarrow> http_request" where
  "demo_request u params headers =
     \<lparr>rq_params = params, rq_query = [], rq_headers = (''authorization'', ''Bearer '' @ demo_access u) # headers,
      rq_body = [], rq_user = None, rq_workspaceId = None, rq_workspaceMember = None\<rparr>"

lemma demo_access_verifies:
  "clock w = 0 \<Longrightarrow> pf_jwtVerify demo_pf (accessSecret (jwt_configuration demo_pf)) (demo_access u) (now_seconds w) =
     Some \<lparr>jwt_userId = u, jwt_email = u @ ''@x''\<rparr>"
  using demo_verify_sign [of 0]
  by (simp add: demo_access_def demo_pf_def jwt_configuration_def env_or_def now_seconds_def)

lemma demo_request_token:
  "CHR '' '' \<notin> set u \<Longrightarrow> extractTokenFromHeader (demo_request u ps hs) = Some (demo_access u)"
  by (rule extract_bearer)
    (auto simp: demo_request_def demo_access_def demo_sign_def demo_int_def)

lemma demo_access_ne: "demo_access u \<noteq> []"
  by (simp add: demo_access_def demo_sign_def)

lemma demo_world_keys: "distinct (map member_key (members demo_world))"
  by (simp add: member_key_def demo_defs)

lemma demo_world_clock: "clock demo_world = 0"
  by (simp add: demo_defs)

theorem permission_guards_admit_exactly_permitted_members_witness:
  "\<exists>r'. run_guards (permission_guards [TASK_DELETE]) demo_pf demo_world
     (demo_request ''ann'' [(''workspaceId'', ''w1'')] []) = Inr r'"
proof -
  let ?r = "demo_request ''ann'' [(''workspaceId'', ''w1'')] []"
  have path: "map_of (rq_params ?r) ''workspaceId'' = Some ''w1''" "''w1'' \<noteq> []"
    by (simp_all add: demo_request_def)
  have mem: "demo_member ''w1'' ''ann'' ''ADMIN'' \<in> set (members demo_world)" by (simp add: demo_defs)
  have tok: "extractTokenFromHeader ?r = Some (demo_access ''ann'')" by (rule demo_request_token) simp
  show ?thesis
    unfolding permission_guards_admit_exactly_permitted_members [OF path demo_world_keys]
    using tok demo_access_ne demo_access_verifies [OF demo_world_clock] mem permission_values_all
    by (auto simp: demo_member_def intro!: bexI [of _ "demo_member ''w1'' ''ann'' ''ADMIN''"])
qed

section \<open>From the board to the table\<close>

definition demo_drop :: http_request where
  "demo_drop = (demo_request ''bob'' [(''workspaceId'', ''w1''), (''taskId'', demo_uuid 0)] [])
     \<lparr>rq_body := [(''status'', ''DONE''), (''version'', ''1'')]\<rparr>"

definition demo_board :: ui_context where
  "demo_board = demo_drawer\<lparr>cx_data := no_data\<lparr>fd_tasks :=
     Some \<lparr>page_items = [(demo_task 0 ''first'', None)], page_total = 1, page_page = 1, page_limit = 10,
           page_totalPages = 1\<rparr>\<rparr>\<rparr>"

theorem dragging_a_card_moves_the_task_witness:
  "map_sum id view_task (fst (TaskController_update demo_pf (status_dto ''DONE'' 1) demo_drop demo_world)) =
     Inr (moved ''DONE'' (demo_task 0 ''first'') demo_world)"
proof -
  let ?t = "demo_task 0 ''first''" and ?m = "demo_member ''w1'' ''bob'' ''MEMBER''"
    and ?u = "\<lparr>jwt_userId = ''bob'', jwt_email = ''bob@x''\<rparr>"
  let ?r' = "demo_drop\<lparr>rq_user := Some ?u, rq_workspaceId := Some ''w1'', rq_workspaceMember := Some ?m\<rparr>"
  have card: "find (\<lambda>x. task_id (fst x) = demo_uuid 0) (Tasks_tasks demo_board) = Some (?t, None)"
    by (simp add: Tasks_tasks_def demo_board_def demo_task_def)
  have path: "map_of (rq_params demo_drop) ''workspaceId'' = Some ''w1''" "''w1'' \<noteq> []"
    by (simp_all add: demo_drop_def demo_request_def)
  have tok: "extractTokenFromHeader demo_drop = Some (demo_access ''bob'')"
    using demo_request_token [of "''bob''" "[(''workspaceId'', ''w1''), (''taskId'', demo_uuid 0)]" "[]"]
    by (simp add: demo_drop_def extractTokenFromHeader_def)
  have who: "pf_jwtVerify demo_pf (accessSecret (jwt_configuration demo_pf)) (demo_access ''bob'') (now_seconds demo_world) = Some ?u"
    using demo_access_verifies [OF demo_world_clock, of "''bob''"] by simp
  have "?m \<in> set (members demo_world)" by (simp add: demo_defs)
  from find_member_unique [OF demo_world_keys this]
  have mem: "find_member demo_pf demo_world ''w1'' (jwt_userId ?u) = Some ?m" by (simp add: demo_member_def)
  have may: "set [TASK_UPDATE] \<subseteq> set (role_permissions (member_role ?m))" by code_simp
  have route: "run_guards (permission_guards [TASK_UPDATE]) demo_pf demo_world demo_drop = Inr ?r'"
    unfolding permission_guards_route by (rule workspace_route_allows [OF path tok demo_access_ne who mem may])
  have there: "read_outcome ''w1'' (demo_uuid 0) demo_world = Inr ?t" by code_simp
  have "task_version ?t = 1" "''DONE'' \<in> set task_statuses" "''DONE'' \<noteq> task_status ?t"
    by (simp_all add: demo_task_def task_statuses_def)
  note moves = dragging_a_card_moves_the_task [OF demo_tasks_ok demo_notifiable card this(2,3) refl _ route _ _ _ there]
  show ?thesis
    using moves [of "status_dto ''DONE'' 1"] \<open>task_version ?t = 1\<close> status_body [of "''DONE''" 1]
    by (simp add: param_def demo_drop_def demo_request_def)
qed

section \<open>Destructive routes\<close>

text \<open>
  C22: an authenticated caller who does not administer the workspace in the path cannot delete a
  task, a project or the workspace, nor invite anybody: each of the four routes answers 403 and
  changes nothing, whatever the body.
\<close>

theorem only_admins_delete_or_invite:
  assumes path: "map_of (rq_params r) ''workspaceId'' = Some wid" "wid \<noteq> []"
    and tok: "extractTokenFromHeader r = Some tok" "tok \<noteq> []"
      "pf_jwtVerify pf (accessSecret (jwt_configuration pf)) tok (now_seconds w) = Some u"
    and none: "\<And>m. m \<in> set (members w) \<Longrightarrow> member_workspaceId m = wid \<Longrightarrow> member_userId m = jwt_userId u \<Longrightarrow>
      member_role m \<noteq> ''ADMIN''"
  shows "(\<exists>e. TaskController_delete pf r w = (Inl (ForbiddenException e), w)) \<and>
    (\<exists>e. ProjectController_delete pf r w = (Inl (ForbiddenException e), w)) \<and>
    (\<exists>e. WorkspaceController_delete pf r w = (Inl (ForbiddenException e), w)) \<and>
    (\<exists>e. WorkspaceController_invite pf dto r w = (Inl (ForbiddenException e), w))"
proof -
  have refused: "\<exists>e. run_guards (permission_guards [p]) pf w r = Inl (ForbiddenException e)"
    if p: "p \<in> {TASK_DELETE, PROJECT_DELETE, WORKSPACE_DELETE, WORKSPACE_INVITE}" for p
  proof -
    let ?r1 = "r\<lparr>rq_user := Some u\<rparr>"
    have g1: "jwtAuthGuard pf w r = Inr ?r1" using tok by (simp add: jwtAuthGuard_def)
    have res: "resolve_workspaceId pf w ?r1 = Some wid" by (rule route_workspace) (use path in simp_all)
    show ?thesis
    proof (cases "find_member pf w wid (jwt_userId u)")
      case None
      with g1 res show ?thesis by (simp add: permission_guards_def member_guards_def roleGuard_def)
    next
      case (Some m)
      from find_member_SomeD [OF Some] none have "member_role m \<noteq> ''ADMIN''" by blast
      then have no: "p \<notin> set (role_permissions (member_role m))"
        using p by (auto simp: role_permissions_def)
      let ?r2 = "?r1\<lparr>rq_workspaceId := Some wid, rq_workspaceMember := Some m\<rparr>"
      have g2: "roleGuard None pf w ?r1 = Inr ?r2" using res Some by (simp add: roleGuard_def)
      have "permissionGuard [p] pf w ?r2 =
          Inl (ForbiddenException (''Access denied. Required permission(s): '' @ permission_value p))"
        using no by (simp add: permissionGuard_def check_permissions_def)
      with g1 g2 show ?thesis by (simp add: permission_guards_def member_guards_def)
    qed
  qed
  show ?thesis
    unfolding TaskController_delete_def ProjectController_delete_def WorkspaceController_delete_def
      WorkspaceController_invite_def
    using refused [of TASK_DELETE] refused [of PROJECT_DELETE] refused [of WORKSPACE_DELETE]
      refused [of WORKSPACE_INVITE]
    by (auto simp: guarded_Inl)
qed

theorem only_admins_delete_or_invite_witness:
  "snd (TaskController_delete demo_pf
     (demo_request ''bob'' [(''workspaceId'', ''w1''), (''taskId'', demo_uuid 0)] []) demo_world) = demo_world"
proof -
  let ?r = "demo_request ''bob'' [(''workspaceId'', ''w1''), (''taskId'', demo_uuid 0)] []"
  have path: "map_of (rq_params ?r) ''workspaceId'' = Some ''w1''" "''w1'' \<noteq> []"
    by (simp_all add: demo_request_def)
  have tok: "extractTokenFromHeader ?r = Some (demo_access ''bob'')" by (rule demo_request_token) simp
  have none: "member_role m \<noteq> ''ADMIN''" if "m \<in> set (members demo_world)" "member_workspaceId m = ''w1''"
    "member_userId m = jwt_userId \<lparr>jwt_userId = ''bob'', jwt_email = ''bob'' @ ''@x''\<rparr>" for m
    using that by (auto simp: demo_defs)
  from only_admins_delete_or_invite [OF path tok demo_access_ne demo_access_verifies [OF demo_world_clock] none]
  obtain e where "TaskController_delete demo_pf ?r demo_world = (Inl (ForbiddenException e), demo_world)"
    by blast
  then show ?thesis by simp
qed

section \<open>An invitation gives access\<close>

lemma insert_member_InrD:
  assumes "insert_member i u r w = (Inr m, w')"
  shows "m \<in> set (members w') \<and> member_workspaceId m = i \<and> member_userId m = u \<and> member_role m = r \<and>
    clock w' = clock w"
  using assms by (auto simp: insert_member_def prog_simps Let_def split: if_splits)

lemma inviteMember_InrD:
  assumes run: "inviteMember pf i performer email r w = (Inr m, w')"
  obtains x where "user_by_email pf email w = Some x" and "m \<in> set (members w')"
    and "member_workspaceId m = i" and "member_userId m = user_id x" and "member_role m = r"
proof -
  from run obtain v w1 where read: "findWorkspaceById pf i w = (Inr v, w1)"
    and rest: "(case v of (x, ow) \<Rightarrow> await (findByEmail pf email) (\<lambda>found.
      case found of
        None \<Rightarrow> throw (NotFoundException ''User with this email not found. They must register first.'')
      | Some user \<Rightarrow>
          await (gets (\<lambda>w. find_member pf w i (user_id user))) (\<lambda>existing.
          if existing \<noteq> None then throw (ConflictException ''User is already a member of this workspace'')
          else await (insert_member i (user_id user) r) (announce_invite pf i performer email r user x)))) w1 =
      (Inr m, w')"
    unfolding inviteMember_def by (rule await_eq_InrE)
  have same: "users w1 = users w"
    using read by (auto simp: findWorkspaceById_def read_workspace_def view_workspace_def prog_simps Let_def
        split: option.splits cache_value.splits)
  obtain x ow where v: "v = (x, ow)" by (cases v)
  show thesis
  proof (cases "user_by_email pf email w")
    case None
    with rest same v show thesis by (simp add: findByEmail_def user_by_email_def prog_simps)
  next
    case (Some user)
    have none: "find_member pf w1 i (user_id user) = None"
      using rest v Some same
      by (auto simp: findByEmail_def user_by_email_def hide_password_def await_def gets_def throw_def
          split: if_splits)
    from rest v Some none same have "await (insert_member i (user_id user) r)
        (announce_invite pf i performer email r (hide_password user) x) w1 = (Inr m, w')"
      by (simp add: findByEmail_def user_by_email_def hide_password_def await_def gets_def)
    then obtain saved w2 where ins: "insert_member i (user_id user) r w1 = (Inr saved, w2)"
      and tail: "announce_invite pf i performer email r (hide_password user) x saved w2 = (Inr m, w')"
      by (rule await_eq_InrE)
    have "members w' = members w2"
      using withinD_eq [OF within_announce_invite tail] by (simp add: messaging_frameD)
    moreover have "m = saved"
      using tail by (auto simp: announce_invite_def await_eq_Inr ret_def)
    ultimately show thesis
      using that [OF Some] insert_member_InrD [OF ins] by simp
  qed
qed

text \<open>
  C23: once an invitation has succeeded, the invited account may do in that workspace exactly what
  the invited role permits: from the next request on the guards of a route with required
  permissions admit a verified request of that account to that workspace, and attach its
  membership, if and only if the role has all of them.
\<close>

theorem invited_member_gets_access:
  assumes ok: "tenants_ok pf w" and run: "inviteMember pf i performer email rl w = (Inr m, w')"
    and i: "i \<noteq> []" and path: "map_of (rq_params r) ''workspaceId'' = Some i"
    and tok: "extractTokenFromHeader r = Some tok" "tok \<noteq> []"
      "pf_jwtVerify pf (accessSecret (jwt_configuration pf)) tok (now_seconds w') = Some u"
    and who: "user_by_email pf email w = Some x" "jwt_userId u = user_id x"
  shows "run_guards (permission_guards perms) pf w' r =
      Inr (r\<lparr>rq_user := Some u, rq_workspaceId := Some i, rq_workspaceMember := Some m\<rparr>)
    \<longleftrightarrow> set perms \<subseteq> set (role_permissions rl)"
proof -
  from run who have m: "m \<in> set (members w')" "member_workspaceId m = i"
      "member_userId m = jwt_userId u" "member_role m = rl"
    by (auto elim: inviteMember_InrD)
  have "tenants_ok pf w'"
    using preservesD [OF preserves_inviteMember ok] run by (metis snd_conv)
  then have uniq: "distinct (map member_key (members w'))"
    by (simp add: tenants_ok_def members_ok_def)
  from find_member_unique [OF uniq m(1)] m have mem: "find_member pf w' i (jwt_userId u) = Some m" by simp
  have adm: "set perms \<subseteq> set (role_permissions rl)"
    if "run_guards (permission_guards perms) pf w' r =
      Inr (r\<lparr>rq_user := Some u, rq_workspaceId := Some i, rq_workspaceMember := Some m\<rparr>)"
    using workspace_route_Inr [OF path i that [unfolded permission_guards_route]] m(4)
    by (metis http_request.select_convs(7) http_request.surjective http_request.update_convs(5,6,7)
        option.inject)
  with workspace_route_allows [OF path i tok mem] m(4) show ?thesis
    by (auto simp: permission_guards_route)
qed

lemma demo_tenants_clock: "clock demo_tenants = 0"
  by (simp add: demo_tenants_def demo_defs)

lemma demo_invite:
  "\<exists>m w'. inviteMember demo_pf (demo_uuid 1) ''ann'' ''bob@x'' ''MEMBER'' demo_tenants = (Inr m, w') \<and> clock w' = 0"
  by (simp add: inviteMember_def announce_invite_def findWorkspaceById_def read_workspace_def findByEmail_def
      cache_get_def redis_get_def cache_set_def emit_to_def gen_uuid_def queue_add_def enqueue_if_def
      user_by_email_def hide_password_def view_workspace_def find_one_def find_member_def insert_member_def
      workspace_exists_def user_exists_def findUserById_def find_user_def send_defs try_catch_def
      createAndSendNotification_def insert_notification_def auditLog_def demo_tenants_def demo_defs demo_uuid_def
      prog_simps Let_def)

theorem invited_member_gets_access_witness:
  "\<exists>w'. w' = snd (inviteMember demo_pf (demo_uuid 1) ''ann'' ''bob@x'' ''MEMBER'' demo_tenants) \<and>
     (\<exists>r'. run_guards (permission_guards [TASK_CREATE]) demo_pf w'
        (demo_request ''bob'' [(''workspaceId'', demo_uuid 1)] []) = Inr r')"
proof -
  let ?r = "demo_request ''bob'' [(''workspaceId'', demo_uuid 1)] []"
  from demo_invite obtain m w'
    where run: "inviteMember demo_pf (demo_uuid 1) ''ann'' ''bob@x'' ''MEMBER'' demo_tenants = (Inr m, w')"
      and clock: "clock w' = 0" by blast
  have tok: "extractTokenFromHeader ?r = Some (demo_access ''bob'')" by (rule demo_request_token) simp
  have i: "demo_uuid 1 \<noteq> []" and path: "map_of (rq_params ?r) ''workspaceId'' = Some (demo_uuid 1)"
    by (simp_all add: demo_request_def demo_uuid_def)
  have who: "user_by_email demo_pf ''bob@x'' demo_tenants = Some (demo_user ''bob'' ''bob@x'')"
    by (simp add: user_by_email_def find_one_def demo_tenants_def demo_defs Let_def)
  have id: "jwt_userId \<lparr>jwt_userId = ''bob'', jwt_email = ''bob'' @ ''@x''\<rparr> = user_id (demo_user ''bob'' ''bob@x'')"
    by (simp add: demo_user_def)
  show ?thesis
    using invited_member_gets_access [OF demo_tenants_ok run i path tok demo_access_ne
        demo_access_verifies [OF clock] who id, of "[TASK_CREATE]"] run
    by auto
qed

section \<open>A member of one workspace reads every workspace\<close>

text \<open>
  C35: the route that reads a workspace by its slug checks the membership of the workspace the
  caller names in the \<open>x-workspace-id\<close> header, not of the one that is read: a member of
  any workspace who sends that header gets any existing workspace with its owner, member of it
  or not.
\<close>

theorem slug_route_reads_other_tenants:
  assumes ok: "tenants_ok pf w" and x: "x \<in> set (workspaces w)"
    and req: "map_of (rq_params r) ''slug'' = Some (workspace_slug x)"
      "map_of (rq_params r) ''workspaceId'' = None" "map_of (rq_query r) ''workspaceId'' = None"
      "map_of (rq_headers r) ''x-workspace-id'' = Some own" "own \<noteq> []"
    and tok: "extractTokenFromHeader r = Some tok" "tok \<noteq> []"
      "pf_jwtVerify pf (accessSecret (jwt_configuration pf)) tok (now_seconds w) = Some u"
    and m: "m \<in> set (members w)" "member_workspaceId m = own" "member_userId m = jwt_userId u"
  shows "fst (WorkspaceController_getBySlug pf r w) = Inr (x, find_user pf (workspace_ownerId x) w)"
proof -
  from ok have inv: "ws_inv pf w" and rows: "ws_rows_ok pf w"
    and uniq: "distinct (map member_key (members w))"
    by (simp_all add: tenants_ok_def ws_inv_def members_ok_def)
  let ?r1 = "r\<lparr>rq_user := Some u\<rparr>"
  let ?r2 = "?r1\<lparr>rq_workspaceId := Some own, rq_workspaceMember := Some m\<rparr>"
  have "resolve_workspaceId pf w ?r1 = Some own"
    using req by (simp add: resolve_workspaceId_def requested_workspaceId_def)
  moreover have "find_member pf w own (jwt_userId u) = Some m"
    using find_member_unique [OF uniq m(1)] m by simp
  ultimately have "roleGuard None pf w ?r1 = Inr ?r2" by (simp add: roleGuard_def)
  moreover have "jwtAuthGuard pf w r = Inr ?r1" using tok by (simp add: jwtAuthGuard_def)
  ultimately have "run_guards member_guards pf w r = Inr ?r2" by (simp add: member_guards_def)
  then have route: "WorkspaceController_getBySlug pf r w = read_ws pf True (workspace_slug x) w"
    using req(1) by (simp add: WorkspaceController_getBySlug_def guarded_Inr param_def find_is_read_ws)
  from x find_ws_iff [OF rows, of True "workspace_slug x" x] have "find_ws (True, workspace_slug x) w = Some x"
    by (simp add: ws_field_eval)
  with inv show ?thesis
    unfolding route
    by (cases rule: read_ws_cases [where b = True and k = "workspace_slug x"]) (simp_all add: view_workspace_def)
qed

theorem slug_route_reads_other_tenants_witness:
  "fst (WorkspaceController_getBySlug demo_pf
     (demo_request ''bob'' [(''slug'', ''two'')] [(''x-workspace-id'', demo_uuid 0)]) demo_tenants) =
   Inr (demo_workspace (demo_uuid 1) ''two'', find_user demo_pf ''ann'' demo_tenants)"
proof -
  let ?r = "demo_request ''bob'' [(''slug'', ''two'')] [(''x-workspace-id'', demo_uuid 0)]"
  have x: "demo_workspace (demo_uuid 1) ''two'' \<in> set (workspaces demo_tenants)"
    and m: "demo_member (demo_uuid 0) ''bob'' ''MEMBER'' \<in> set (members demo_tenants)"
    by (simp_all add: demo_tenants_def)
  have tok: "extractTokenFromHeader ?r = Some (demo_access ''bob'')" by (rule demo_request_token) simp
  have eq: "workspace_ownerId (demo_workspace (demo_uuid 1) ''two'') = ''ann''"
    by (simp add: demo_workspace_def)
  show ?thesis
    unfolding eq [symmetric]
    by (rule slug_route_reads_other_tenants [OF demo_tenants_ok x _ _ _ _ _ tok demo_access_ne
          demo_access_verifies [OF demo_tenants_clock] m])
      (simp_all add: demo_request_def demo_workspace_def demo_member_def demo_uuid_def)
qed

end
